(* ===== verification/Prelude.thy ===== *)
theory Prelude
  imports Main "HOL-Library.Word"
begin

text \<open>
  Shared vocabulary of the development: the basic types of the Go program
  (identifiers, instants, durations, bytes), Go's error values with
  \<open>errors.Is\<close>, and the list functions that stand for SQL statements over
  one table (SELECT by predicate, UPDATE, DELETE, the uniqueness of a
  column), with the lemmas the repository and service proofs share.
\<close>

section \<open>Lemma collections\<close>

named_theorems table_simps \<open>facts about SQL-like list operations\<close>
named_theorems effect_simps \<open>evaluation rules of the effect combinators\<close>
named_theorems peel \<open>inversion of a finished computation into its steps\<close>
named_theorems repo_spec \<open>what a repository call did to the database\<close>
named_theorems run_simps \<open>rules that run a computation in a concrete world\<close>

section \<open>Basic types\<close>

text \<open>
  A \<open>uuid.UUID\<close> is sixteen bytes, a \<open>time.Time\<close> is an instant counted in
  nanoseconds since the Unix epoch and a \<open>time.Duration\<close> a number of
  nanoseconds. Go strings are byte strings: Isabelle's \<open>string\<close> has one
  \<open>char\<close> per byte.
\<close>

type_synonym uuid = "128 word"
type_synonym time = int
type_synonym duration = int
type_synonym byte = "8 word"

definition uuid_Nil :: uuid where
  "uuid_Nil = 0"

definition time_Second :: duration where
  "time_Second = 1000000000"

definition time_Minute :: duration where
  "time_Minute = 60 * time_Second"

definition time_Unix :: "time \<Rightarrow> int" where
  "time_Unix t = t div time_Second"

text \<open>Go's integer division truncates towards zero.\<close>

definition go_div :: "int \<Rightarrow> int \<Rightarrow> int" where
  "go_div a b = sgn a * sgn b * (\<bar>a\<bar> div \<bar>b\<bar>)"

lemma go_div_nonneg [simp]: "0 \<le> a \<Longrightarrow> 0 < b \<Longrightarrow> go_div a b = a div b"
  by (cases "a = 0") (auto simp: go_div_def)

section \<open>Errors\<close>

text \<open>
  The sentinel errors the packages declare with \<open>errors.New\<close>, and the error
  values built from them: \<open>Wrap\<close> is \<open>fmt.Errorf("...: %w", err)\<close>, which
  \<open>errors.Is\<close> sees through, \<open>PgError\<close> an error of the database server with its
  SQLSTATE, \<open>Opaque\<close> any other error.
\<close>

datatype sentinel =
    User_ErrNotFound | User_ErrEmailTaken
  | Token_ErrNotFound | Totp_ErrNotFound
  | LoginChallenge_ErrNotFound | PasswordReset_ErrNotFound
  | ErrInvalidCredentials | ErrInvalidRefreshToken | ErrAvatarNotFound
  | ErrOTPInvalid | ErrOTPLocked | ErrSetupTokenInvalid | ErrChallengeInvalid
  | ErrCurrentPasswordInvalid | ErrPasswordResetFlowInvalid
  | ErrPasswordResetTokenInvalid
  | Pgx_ErrNoRows

datatype goerror =
    Sentinel sentinel
  | Wrap string goerror
  | PgError string
  | Opaque string

fun errors_Is :: "goerror \<Rightarrow> sentinel \<Rightarrow> bool" where
  "errors_Is (Sentinel s) t = (s = t)"
| "errors_Is (Wrap m e) t = errors_Is e t"
| "errors_Is (PgError c) t = False"
| "errors_Is (Opaque m) t = False"

fun errors_As_PgError :: "goerror \<Rightarrow> string option" where
  "errors_As_PgError (PgError c) = Some c"
| "errors_As_PgError (Wrap m e) = errors_As_PgError e"
| "errors_As_PgError (Sentinel s) = None"
| "errors_As_PgError (Opaque m) = None"

section \<open>Tables as lists of rows\<close>

text \<open>
  A table is the list of its rows in insertion order. \<open>sql_find\<close> is a
  SELECT of one row, \<open>sql_update\<close> an UPDATE of the rows that satisfy the
  WHERE clause, \<open>sql_delete\<close> a DELETE, \<open>sql_count\<close> the number of rows a
  statement touches. A column is a function to an optional key: SQL's UNIQUE
  ignores NULL, and \<open>unique_col\<close> likewise ignores \<open>None\<close>.
\<close>

definition sql_find :: "('r \<Rightarrow> bool) \<Rightarrow> 'r list \<Rightarrow> 'r option" where
  "sql_find P t = List.find P t"

definition sql_update :: "('r \<Rightarrow> bool) \<Rightarrow> ('r \<Rightarrow> 'r) \<Rightarrow> 'r list \<Rightarrow> 'r list" where
  "sql_update P f t = map (\<lambda>r. if P r then f r else r) t"

definition sql_delete :: "('r \<Rightarrow> bool) \<Rightarrow> 'r list \<Rightarrow> 'r list" where
  "sql_delete P t = filter (\<lambda>r. \<not> P r) t"

definition sql_count :: "('r \<Rightarrow> bool) \<Rightarrow> 'r list \<Rightarrow> nat" where
  "sql_count P t = length (filter P t)"

fun unique_col :: "('r \<Rightarrow> 'k option) \<Rightarrow> 'r list \<Rightarrow> bool" where
  "unique_col k [] = True"
| "unique_col k (r # t) \<longleftrightarrow> (k r = None \<or> (\<forall>x \<in> set t. k x \<noteq> k r)) \<and> unique_col k t"

definition conflicts :: "('r \<Rightarrow> 'k option) \<Rightarrow> 'k option \<Rightarrow> 'r list \<Rightarrow> bool" where
  "conflicts k v t \<longleftrightarrow> v \<noteq> None \<and> list_ex (\<lambda>x. k x = v) t"

lemma conflicts_None [simp]: "\<not> conflicts k None t"
  by (simp add: conflicts_def)

lemma conflicts_Some: "conflicts k (Some v) t \<longleftrightarrow> (\<exists>x \<in> set t. k x = Some v)"
  by (auto simp: conflicts_def list_ex_iff)

lemma unique_col_append:
  "unique_col k (s @ t) \<longleftrightarrow>
     unique_col k s \<and> unique_col k t \<and>
     (\<forall>x \<in> set s. k x = None \<or> (\<forall>y \<in> set t. k y \<noteq> k x))"
  by (induction s) auto

lemma unique_col_snoc [table_simps]:
  "unique_col k (t @ [r]) \<longleftrightarrow> unique_col k t \<and> \<not> conflicts k (k r) t"
  by (auto simp: unique_col_append conflicts_def list_ex_iff)

lemma unique_colD:
  "unique_col k t \<Longrightarrow> x \<in> set t \<Longrightarrow> y \<in> set t \<Longrightarrow> k x = Some v \<Longrightarrow> k y = Some v \<Longrightarrow> x = y"
proof (induction t)
  case (Cons r t)
  then show ?case by (cases "x = r"; cases "y = r") auto
qed simp

lemma unique_col_filter [intro]: "unique_col k t \<Longrightarrow> unique_col k (filter P t)"
  by (induction t) auto

lemma unique_col_sql_delete [intro]: "unique_col k t \<Longrightarrow> unique_col k (sql_delete P t)"
  by (simp add: sql_delete_def unique_col_filter)

lemma unique_col_map_same:
  "(\<And>r. r \<in> set t \<Longrightarrow> k (f r) = k r) \<Longrightarrow> unique_col k (map f t) = unique_col k t"
  by (induction t) auto

lemma unique_col_update_same [table_simps]:
  "(\<And>r. k (f r) = k r) \<Longrightarrow> unique_col k (sql_update P f t) = unique_col k t"
  unfolding sql_update_def by (rule unique_col_map_same) auto

lemma sql_find_Some:
  "sql_find P t = Some r \<Longrightarrow> r \<in> set t \<and> P r"
  by (auto simp: sql_find_def find_Some_iff)

lemma sql_find_None: "sql_find P t = None \<longleftrightarrow> (\<forall>r \<in> set t. \<not> P r)"
  by (auto simp: sql_find_def find_None_iff)

lemma sql_find_unique:
  assumes "unique_col k t" and "r \<in> set t" and "k r = Some v"
  shows "sql_find (\<lambda>x. k x = Some v) t = Some r"
proof (cases "sql_find (\<lambda>x. k x = Some v) t")
  case None
  with assms show ?thesis by (auto simp: sql_find_None)
next
  case (Some y)
  then have "y \<in> set t" "k y = Some v" by (auto dest: sql_find_Some)
  with assms have "y = r" by (blast intro: unique_colD)
  with Some show ?thesis by simp
qed

lemma set_sql_update [table_simps]:
  "set (sql_update P f t) = (\<lambda>r. if P r then f r else r) ` set t"
  by (auto simp: sql_update_def)

lemma set_sql_delete [table_simps]: "set (sql_delete P t) = {r \<in> set t. \<not> P r}"
  by (auto simp: sql_delete_def)

lemma sql_count_0 [table_simps]: "sql_count P t = 0 \<longleftrightarrow> (\<forall>r \<in> set t. \<not> P r)"
  by (auto simp: sql_count_def filter_empty_conv)

lemma sql_update_none: "sql_count P t = 0 \<Longrightarrow> sql_update P f t = t"
  unfolding sql_count_0 sql_update_def by (rule map_idI) auto

text \<open>
  An UPDATE of a row addressed by a unique column, which gives another unique
  column a value no other row holds, keeps that column unique.
\<close>

lemma unique_col_update_key:
  assumes key: "unique_col p t" and uniq: "unique_col k t"
    and fresh: "\<not> conflicts k v (filter (\<lambda>x. p x \<noteq> Some i) t)"
    and new: "\<And>r. p r = Some i \<Longrightarrow> k (f r) = v"
  shows "unique_col k (sql_update (\<lambda>r. p r = Some i) f t)"
  using key uniq fresh
proof (induction t)
  case Nil
  then show ?case by (simp add: sql_update_def)
next
  case (Cons r t)
  let ?u = "\<lambda>r. if p r = Some i then f r else r"
  have IH: "unique_col k (map ?u t)"
    using Cons by (auto simp: sql_update_def conflicts_def list_ex_iff split: if_splits)
  show ?case
  proof (cases "p r = Some i")
    case True
    then have others: "\<forall>x \<in> set t. p x \<noteq> Some i" using Cons.prems(1) by auto
    then have "map ?u t = t" by (intro map_idI) auto
    moreover have "v = None \<or> (\<forall>x \<in> set t. k x \<noteq> v)"
      using Cons.prems(3) others True by (auto simp: conflicts_def list_ex_iff)
    ultimately show ?thesis using True Cons.prems(2) new by (auto simp: sql_update_def)
  next
    case False
    have "k r = None \<or> (\<forall>x \<in> set t. k (?u x) \<noteq> k r)"
    proof (cases "k r")
      case (Some y)
      have "k (?u x) \<noteq> k r" if "x \<in> set t" for x
        using that Cons.prems(2,3) False Some new
        by (auto simp: conflicts_def list_ex_iff)
      then show ?thesis by blast
    qed simp
    then show ?thesis using False IH by (auto simp: sql_update_def)
  qed
qed

corollary unique_col_update_pk:
  assumes "unique_col (\<lambda>x. Some (p x)) t" and "unique_col k t"
    and "\<not> conflicts k v (filter (\<lambda>x. p x \<noteq> i) t)"
    and "\<And>r. k (f r) = v"
  shows "unique_col k (sql_update (\<lambda>r. p r = i) f t)"
  using unique_col_update_key [of "\<lambda>x. Some (p x)" t k v i f] assms by simp

end
