(* ===== verification/Go_Effects.thy ===== *)
theory Go_Effects
  imports Prelude
begin

text \<open>
  The effects a Go function of the program has, made explicit. A computation
  takes the world and returns a result, \<open>Inl\<close> an error value or \<open>Inr\<close> a
  value, with the new world. The part of the world this theory knows is the
  environment record \<open>env\<close>: the clock, the random source, the identifiers
  \<open>uuid.New\<close> hands out and the infrastructure faults. The clock readings, the
  random bytes and the faults are arbitrary: a theorem that holds for every
  world holds for every clock (also one that jumps), every random source and
  every pattern of failing database and random-source calls.
\<close>

section \<open>The environment\<close>

record env =
  e_now :: time
  e_clock :: "time list"
  e_faults :: "string option list"
  e_entropy :: "nat \<Rightarrow> byte"
  e_entropy_pos :: nat
  e_uuids :: "nat \<Rightarrow> uuid"
  e_uuid_pos :: nat

section \<open>Computations\<close>

type_synonym ('w, 'a) comp = "'w \<Rightarrow> (goerror + 'a) \<times> 'w"

definition ret :: "'a \<Rightarrow> ('w, 'a) comp" where
  "ret x = (\<lambda>w. (Inr x, w))"

definition fail :: "goerror \<Rightarrow> ('w, 'a) comp" where
  "fail e = (\<lambda>w. (Inl e, w))"

text \<open>
  \<open>attempt m k\<close> is \<open>x, err := m(); k\<close>: the continuation sees the result,
  error or value. \<open>tryM\<close> gives the two cases separately, \<open>bindM\<close> is
  \<open>if err != nil { return err }\<close> and \<open>wrapM\<close> the same with the error
  wrapped by \<open>fmt.Errorf\<close>.
\<close>

definition attempt :: "('w, 'a) comp \<Rightarrow> (goerror + 'a \<Rightarrow> ('w, 'b) comp) \<Rightarrow> ('w, 'b) comp" where
  "attempt m k = (\<lambda>w. case m w of (r, w') \<Rightarrow> k r w')"

definition tryM :: "('w, 'a) comp \<Rightarrow> (goerror \<Rightarrow> ('w, 'b) comp) \<Rightarrow> ('a \<Rightarrow> ('w, 'b) comp) \<Rightarrow> ('w, 'b) comp" where
  "tryM m h k = attempt m (\<lambda>r. case r of Inl e \<Rightarrow> h e | Inr x \<Rightarrow> k x)"

definition bindM :: "('w, 'a) comp \<Rightarrow> ('a \<Rightarrow> ('w, 'b) comp) \<Rightarrow> ('w, 'b) comp" where
  "bindM m k = tryM m fail k"

definition wrapM :: "string \<Rightarrow> ('w, 'a) comp \<Rightarrow> ('a \<Rightarrow> ('w, 'b) comp) \<Rightarrow> ('w, 'b) comp" where
  "wrapM msg m k = tryM m (\<lambda>e. fail (Wrap msg e)) k"

lemma ret_apply [simp]: "ret x w = (Inr x, w)"
  by (simp add: ret_def)

lemma fail_apply [simp]: "fail e w = (Inl e, w)"
  by (simp add: fail_def)

lemma attempt_apply [effect_simps]: "attempt m k w = (case m w of (r, w') \<Rightarrow> k r w')"
  by (simp add: attempt_def)

lemma tryM_apply [effect_simps]:
  "tryM m h k w = (case m w of (Inl e, w') \<Rightarrow> h e w' | (Inr x, w') \<Rightarrow> k x w')"
  by (simp add: tryM_def attempt_def split: prod.split sum.split)

lemma bindM_apply [effect_simps]:
  "bindM m k w = (case m w of (Inl e, w') \<Rightarrow> (Inl e, w') | (Inr x, w') \<Rightarrow> k x w')"
  by (simp add: bindM_def tryM_apply split: prod.split sum.split)

lemma wrapM_apply [effect_simps]:
  "wrapM msg m k w = (case m w of (Inl e, w') \<Rightarrow> (Inl (Wrap msg e), w') | (Inr x, w') \<Rightarrow> k x w')"
  by (simp add: wrapM_def tryM_apply split: prod.split sum.split)

text \<open>Inversion: which steps a finished computation went through.\<close>

lemma attempt_peel [peel]:
  "attempt m k w = (r, w') \<longleftrightarrow> (\<exists>q w1. m w = (q, w1) \<and> k q w1 = (r, w'))"
  by (auto simp: attempt_def split: prod.splits)

lemma tryM_peel [peel]:
  "tryM m h k w = (r, w') \<longleftrightarrow>
     (\<exists>e w1. m w = (Inl e, w1) \<and> h e w1 = (r, w')) \<or>
     (\<exists>x w1. m w = (Inr x, w1) \<and> k x w1 = (r, w'))"
  by (auto simp: tryM_apply split: prod.splits sum.splits)

lemma bindM_peel_Inr [peel]:
  "bindM m k w = (Inr y, w') \<longleftrightarrow> (\<exists>x w1. m w = (Inr x, w1) \<and> k x w1 = (Inr y, w'))"
  by (auto simp: bindM_apply split: prod.splits sum.splits)

lemma wrapM_peel_Inr [peel]:
  "wrapM msg m k w = (Inr y, w') \<longleftrightarrow> (\<exists>x w1. m w = (Inr x, w1) \<and> k x w1 = (Inr y, w'))"
  by (auto simp: wrapM_apply split: prod.splits sum.splits)

lemma bindM_peel_Inl:
  "bindM m k w = (Inl e, w') \<longleftrightarrow>
     m w = (Inl e, w') \<or> (\<exists>x w1. m w = (Inr x, w1) \<and> k x w1 = (Inl e, w'))"
  by (auto simp: bindM_apply split: prod.splits sum.splits)

lemma wrapM_peel_Inl:
  "wrapM msg m k w = (Inl e, w') \<longleftrightarrow>
     (\<exists>e'. e = Wrap msg e' \<and> m w = (Inl e', w')) \<or>
     (\<exists>x w1. m w = (Inr x, w1) \<and> k x w1 = (Inl e, w'))"
  by (auto simp: wrapM_apply split: prod.splits sum.splits)

lemma case_sum_peel [peel]:
  "(case v of Inl e \<Rightarrow> f e | Inr x \<Rightarrow> g x) w = (r, w') \<longleftrightarrow>
     (\<exists>e. v = Inl e \<and> f e w = (r, w')) \<or> (\<exists>x. v = Inr x \<and> g x w = (r, w'))"
  by (cases v) auto

lemma case_option_peel [peel]:
  "(case v of None \<Rightarrow> f | Some x \<Rightarrow> g x) w = (r, w') \<longleftrightarrow>
     (v = None \<and> f w = (r, w')) \<or> (\<exists>x. v = Some x \<and> g x w = (r, w'))"
  by (cases v) auto

section \<open>Primitive effects\<close>

text \<open>\<open>time.Now()\<close>: the next reading of the clock; the last one stays when none is left.\<close>

definition time_Now :: "('z env_scheme, time) comp" where
  "time_Now w = (case e_clock w of
       [] \<Rightarrow> (Inr (e_now w), w)
     | t # ts \<Rightarrow> (Inr t, w\<lparr>e_now := t, e_clock := ts\<rparr>))"

text \<open>\<open>uuid.New()\<close>: the next identifier of the generator.\<close>

definition uuid_New :: "('z env_scheme, uuid) comp" where
  "uuid_New w = (Inr (e_uuids w (e_uuid_pos w)), w\<lparr>e_uuid_pos := Suc (e_uuid_pos w)\<rparr>)"

text \<open>Whether the next fallible infrastructure call fails, and with which message.\<close>

definition next_fault :: "'z env_scheme \<Rightarrow> string option \<times> 'z env_scheme" where
  "next_fault w = (case e_faults w of
       [] \<Rightarrow> (None, w)
     | f # fs \<Rightarrow> (f, w\<lparr>e_faults := fs\<rparr>))"

definition fallible :: "('z env_scheme, 'a) comp \<Rightarrow> ('z env_scheme, 'a) comp" where
  "fallible m w = (case next_fault w of
       (Some msg, w') \<Rightarrow> (Inl (Opaque msg), w')
     | (None, w') \<Rightarrow> m w')"

text \<open>\<open>rand.Read\<close> into a buffer of \<open>n\<close> bytes.\<close>

definition rand_Read :: "nat \<Rightarrow> ('z env_scheme, byte list) comp" where
  "rand_Read n = fallible (\<lambda>w.
     (Inr (map (e_entropy w) [e_entropy_pos w ..< e_entropy_pos w + n]),
      w\<lparr>e_entropy_pos := e_entropy_pos w + n\<rparr>))"

lemma time_Now_total: "\<exists>t. fst (time_Now w) = Inr t"
  by (simp add: time_Now_def split: list.split)

lemma time_Now_not_Inl [simp]: "time_Now w \<noteq> (Inl e, w')"
  by (simp add: time_Now_def split: list.split)

lemma uuid_New_not_Inl [simp]: "uuid_New w \<noteq> (Inl e, w')"
  by (simp add: uuid_New_def)

lemma rand_Read_length: "rand_Read n w = (Inr bs, w') \<Longrightarrow> length bs = n"
  by (auto simp: rand_Read_def fallible_def split: prod.splits option.splits)

section \<open>Frames: relations every step of a computation respects\<close>

text \<open>
  \<open>keeps R m\<close>: whatever \<open>m\<close> returns, its final world is related to its
  initial one. When \<open>R\<close> is reflexive and transitive, the combinators pass
  \<open>keeps\<close> on from the parts to the whole, so a frame condition or a
  monotonicity fact of a whole use case follows from that of the statements it
  executes.
\<close>

definition keeps :: "('w \<Rightarrow> 'w \<Rightarrow> bool) \<Rightarrow> ('w, 'a) comp \<Rightarrow> bool" where
  "keeps R m \<longleftrightarrow> (\<forall>w. R w (snd (m w)))"

lemma keepsI [intro?]: "(\<And>w r w'. m w = (r, w') \<Longrightarrow> R w w') \<Longrightarrow> keeps R m"
  by (auto simp: keeps_def) (metis prod.collapse)

lemma keepsD: "keeps R m \<Longrightarrow> m w = (r, w') \<Longrightarrow> R w w'"
  by (auto simp: keeps_def dest: spec [of _ w])

locale frame =
  fixes R :: "'w \<Rightarrow> 'w \<Rightarrow> bool"
  assumes refl: "R w w"
    and trans: "R a b \<Longrightarrow> R b c \<Longrightarrow> R a c"
begin

lemma ret: "keeps R (ret x)"
  by (simp add: keeps_def refl)

lemma fail: "keeps R (fail e)"
  by (simp add: keeps_def refl)

lemma attempt:
  assumes "keeps R m" and "\<And>r. keeps R (k r)"
  shows "keeps R (attempt m k)"
proof
  fix w r w'
  assume "attempt m k w = (r, w')"
  then obtain q w1 where "m w = (q, w1)" "k q w1 = (r, w')"
    by (auto simp: attempt_peel)
  with assms show "R w w'" by (blast intro: trans dest: keepsD)
qed

lemma tryM:
  assumes "keeps R m" and "\<And>e. keeps R (h e)" and "\<And>x. keeps R (k x)"
  shows "keeps R (tryM m h k)"
  unfolding tryM_def using assms by (intro attempt) (auto split: sum.split)

lemma bindM:
  assumes "keeps R m" and "\<And>x. keeps R (k x)"
  shows "keeps R (bindM m k)"
  unfolding bindM_def using assms by (intro tryM fail)

lemma wrapM:
  assumes "keeps R m" and "\<And>x. keeps R (k x)"
  shows "keeps R (wrapM msg m k)"
  unfolding wrapM_def using assms by (intro tryM fail)

lemma if_comp: "keeps R m \<Longrightarrow> keeps R n \<Longrightarrow> keeps R (if b then m else n)"
  by simp

lemma option_comp:
  "keeps R m \<Longrightarrow> (\<And>x. keeps R (k x)) \<Longrightarrow> keeps R (case v of None \<Rightarrow> m | Some x \<Rightarrow> k x)"
  by (simp split: option.split)

lemma sum_comp:
  "(\<And>e. keeps R (h e)) \<Longrightarrow> (\<And>x. keeps R (k x)) \<Longrightarrow> keeps R (case v of Inl e \<Rightarrow> h e | Inr x \<Rightarrow> k x)"
  by (simp split: sum.split)

lemma prod_comp:
  "(\<And>x y. keeps R (k x y)) \<Longrightarrow> keeps R (case v of (x, y) \<Rightarrow> k x y)"
  by (simp split: prod.split)

lemmas comp_intros =
  ret fail attempt tryM bindM wrapM if_comp option_comp sum_comp prod_comp

end

end
