(* ===== verification/Domain_User.thy ===== *)
theory Domain_User
  imports Go_Effects
begin

text \<open>
  The entity of \<open>internal/domain/user\<close>: the account row and the methods that
  build and change it. A method with a pointer receiver returns the changed
  value.
\<close>

record user =
  u_ID :: uuid
  u_Email :: string
  u_PasswordHash :: string
  u_FirstName :: string
  u_LastName :: string
  u_AvatarMediaID :: "uuid option"
  u_CreatedAt :: time
  u_UpdatedAt :: time
  u_DeletionStatus :: string

definition DeletionStatusActive :: string where
  "DeletionStatusActive = ''active''"

definition DeletionStatusPending :: string where
  "DeletionStatusPending = ''deletion_pending''"

lemma deletion_status_distinct [simp]:
  "DeletionStatusActive \<noteq> DeletionStatusPending"
  "DeletionStatusPending \<noteq> DeletionStatusActive"
  by (simp_all add: DeletionStatusActive_def DeletionStatusPending_def)

definition User_New :: "string \<Rightarrow> string \<Rightarrow> ('z env_scheme, user) comp" where
  "User_New email passwordHash =
     bindM time_Now (\<lambda>now.
     bindM uuid_New (\<lambda>uid.
       ret \<lparr>u_ID = uid, u_Email = email, u_PasswordHash = passwordHash,
            u_FirstName = '''', u_LastName = '''', u_AvatarMediaID = None,
            u_CreatedAt = now, u_UpdatedAt = now,
            u_DeletionStatus = DeletionStatusActive\<rparr>))"

definition User_UpdateProfile ::
  "string \<Rightarrow> string \<Rightarrow> uuid option \<Rightarrow> user \<Rightarrow> ('z env_scheme, user) comp" where
  "User_UpdateProfile firstName lastName avatarMediaID u =
     bindM time_Now (\<lambda>now.
       ret (u\<lparr>u_FirstName := firstName, u_LastName := lastName,
              u_AvatarMediaID := avatarMediaID, u_UpdatedAt := now\<rparr>))"

definition User_ChangePassword :: "string \<Rightarrow> user \<Rightarrow> ('z env_scheme, user) comp" where
  "User_ChangePassword newHash u =
     bindM time_Now (\<lambda>now. ret (u\<lparr>u_PasswordHash := newHash, u_UpdatedAt := now\<rparr>))"

lemma User_New_Inr:
  "User_New email h w = (Inr u, w') \<Longrightarrow>
     u_Email u = email \<and> u_PasswordHash u = h \<and> u_DeletionStatus u = DeletionStatusActive \<and>
     u_AvatarMediaID u = None \<and> u_CreatedAt u = u_UpdatedAt u"
  by (auto simp: User_New_def peel)

lemma User_UpdateProfile_Inr:
  "User_UpdateProfile f l a u w = (Inr u', w') \<Longrightarrow>
     \<exists>now. u' = u\<lparr>u_FirstName := f, u_LastName := l, u_AvatarMediaID := a, u_UpdatedAt := now\<rparr>"
  by (auto simp: User_UpdateProfile_def peel)

lemma User_ChangePassword_Inr:
  "User_ChangePassword h u w = (Inr u', w') \<Longrightarrow> \<exists>now. u' = u\<lparr>u_PasswordHash := h, u_UpdatedAt := now\<rparr>"
  by (auto simp: User_ChangePassword_def peel)

end
