(* ===== verification/Domain_Token.thy ===== *)
theory Domain_Token
  imports Go_Effects
begin

text \<open>
  The entity of \<open>internal/domain/token\<close>: one refresh token of a session's
  rotation chain, known only by the hash of the opaque token.
\<close>

record refresh_token =
  rt_ID :: uuid
  rt_UserID :: uuid
  rt_TokenHash :: string
  rt_ExpiresAt :: time
  rt_CreatedAt :: time
  rt_RevokedAt :: "time option"

definition RefreshToken_New ::
  "uuid \<Rightarrow> string \<Rightarrow> duration \<Rightarrow> ('z env_scheme, refresh_token) comp" where
  "RefreshToken_New userID tokenHash ttl =
     bindM time_Now (\<lambda>now.
     bindM uuid_New (\<lambda>tid.
       ret \<lparr>rt_ID = tid, rt_UserID = userID, rt_TokenHash = tokenHash,
            rt_ExpiresAt = now + ttl, rt_CreatedAt = now, rt_RevokedAt = None\<rparr>))"

definition RefreshToken_IsExpired :: "refresh_token \<Rightarrow> ('z env_scheme, bool) comp" where
  "RefreshToken_IsExpired t = bindM time_Now (\<lambda>now. ret (now > rt_ExpiresAt t))"

definition RefreshToken_IsRevoked :: "refresh_token \<Rightarrow> bool" where
  "RefreshToken_IsRevoked t \<longleftrightarrow> rt_RevokedAt t \<noteq> None"

lemma RefreshToken_New_Inr:
  "RefreshToken_New u h ttl w = (Inr t, w') \<Longrightarrow>
     rt_UserID t = u \<and> rt_TokenHash t = h \<and> rt_RevokedAt t = None \<and>
     rt_ExpiresAt t = rt_CreatedAt t + ttl"
  by (auto simp: RefreshToken_New_def peel)

lemma RefreshToken_New_unrevoked:
  "RefreshToken_New u h ttl w = (Inr t, w') \<Longrightarrow> \<not> RefreshToken_IsRevoked t"
  by (auto simp: RefreshToken_IsRevoked_def dest: RefreshToken_New_Inr)

end
