(* ===== verification/Domain_LoginChallenge.thy ===== *)
theory Domain_LoginChallenge
  imports Go_Effects
begin

text \<open>
  The entity of \<open>internal/domain/loginchallenge\<close>: the gate between a
  successful password check and a session.
\<close>

record login_challenge =
  lc_ID :: uuid
  lc_UserID :: uuid
  lc_TokenHash :: string
  lc_ExpiresAt :: time
  lc_CreatedAt :: time
  lc_ConsumedAt :: "time option"

definition LoginChallenge_New ::
  "uuid \<Rightarrow> string \<Rightarrow> duration \<Rightarrow> ('z env_scheme, login_challenge) comp" where
  "LoginChallenge_New userID tokenHash ttl =
     bindM time_Now (\<lambda>now.
     bindM uuid_New (\<lambda>cid.
       ret \<lparr>lc_ID = cid, lc_UserID = userID, lc_TokenHash = tokenHash,
            lc_ExpiresAt = now + ttl, lc_CreatedAt = now, lc_ConsumedAt = None\<rparr>))"

definition LoginChallenge_IsExpired :: "login_challenge \<Rightarrow> ('z env_scheme, bool) comp" where
  "LoginChallenge_IsExpired c = bindM time_Now (\<lambda>now. ret (now > lc_ExpiresAt c))"

definition LoginChallenge_IsConsumed :: "login_challenge \<Rightarrow> bool" where
  "LoginChallenge_IsConsumed c \<longleftrightarrow> lc_ConsumedAt c \<noteq> None"

lemma LoginChallenge_New_Inr:
  "LoginChallenge_New u h ttl w = (Inr c, w') \<Longrightarrow>
     lc_UserID c = u \<and> lc_TokenHash c = h \<and> lc_ConsumedAt c = None \<and>
     lc_ExpiresAt c = lc_CreatedAt c + ttl"
  by (auto simp: LoginChallenge_New_def peel)

end
