(* ===== verification/Domain_Totp.thy ===== *)
theory Domain_Totp
  imports Go_Effects
begin

text \<open>
  The entity of \<open>internal/domain/totp\<close>: a user's TOTP enrolment with its setup
  challenge, the account-level lockout and the anti-replay counter. The
  lemmas say how each method moves the entity between its states (pending
  setup, enabled, locked) and that the well-formedness \<open>cred_wf\<close> is kept.
\<close>

record credential =
  c_UserID :: uuid
  c_SecretEncrypted :: "byte list"
  c_EnabledAt :: "time option"
  c_SetupTokenHash :: "string option"
  c_SetupTokenExpiresAt :: "time option"
  c_FailedAttempts :: int
  c_LockedUntil :: "time option"
  c_LastUsedCounter :: "int option"
  c_CreatedAt :: time
  c_UpdatedAt :: time

definition Credential_New ::
  "uuid \<Rightarrow> byte list \<Rightarrow> string \<Rightarrow> duration \<Rightarrow> ('z env_scheme, credential) comp" where
  "Credential_New userID secretEncrypted setupTokenHash setupTTL =
     bindM time_Now (\<lambda>now.
       ret \<lparr>c_UserID = userID, c_SecretEncrypted = secretEncrypted, c_EnabledAt = None,
            c_SetupTokenHash = Some setupTokenHash,
            c_SetupTokenExpiresAt = Some (now + setupTTL),
            c_FailedAttempts = 0, c_LockedUntil = None, c_LastUsedCounter = None,
            c_CreatedAt = now, c_UpdatedAt = now\<rparr>)"

definition Credential_BeginSetup ::
  "byte list \<Rightarrow> string \<Rightarrow> duration \<Rightarrow> credential \<Rightarrow> ('z env_scheme, credential) comp" where
  "Credential_BeginSetup secretEncrypted setupTokenHash setupTTL c =
     bindM time_Now (\<lambda>now.
       ret (c\<lparr>c_SecretEncrypted := secretEncrypted,
              c_SetupTokenHash := Some setupTokenHash,
              c_SetupTokenExpiresAt := Some (now + setupTTL),
              c_EnabledAt := None, c_FailedAttempts := 0, c_LockedUntil := None,
              c_UpdatedAt := now\<rparr>))"

definition Credential_Enable :: "credential \<Rightarrow> ('z env_scheme, credential) comp" where
  "Credential_Enable c =
     bindM time_Now (\<lambda>now.
       ret (c\<lparr>c_EnabledAt := Some now, c_SetupTokenHash := None,
              c_SetupTokenExpiresAt := None, c_UpdatedAt := now\<rparr>))"

definition Credential_IsEnabled :: "credential \<Rightarrow> bool" where
  "Credential_IsEnabled c \<longleftrightarrow> c_EnabledAt c \<noteq> None"

definition Credential_IsSetupTokenExpired :: "credential \<Rightarrow> ('z env_scheme, bool) comp" where
  "Credential_IsSetupTokenExpired c = (case c_SetupTokenExpiresAt c of
       None \<Rightarrow> ret True
     | Some t \<Rightarrow> bindM time_Now (\<lambda>now. ret (now > t)))"

definition Credential_IsLocked :: "credential \<Rightarrow> ('z env_scheme, bool) comp" where
  "Credential_IsLocked c = (case c_LockedUntil c of
       None \<Rightarrow> ret False
     | Some t \<Rightarrow> bindM time_Now (\<lambda>now. ret (now < t)))"

definition Credential_RecordFailure ::
  "int \<Rightarrow> duration \<Rightarrow> credential \<Rightarrow> ('z env_scheme, credential) comp" where
  "Credential_RecordFailure maxAttempts lockoutFor c =
     (let c = c\<lparr>c_FailedAttempts := c_FailedAttempts c + 1\<rparr> in
      bindM (if c_FailedAttempts c \<ge> maxAttempts
             then bindM time_Now (\<lambda>now.
                    ret (c\<lparr>c_LockedUntil := Some (now + lockoutFor), c_FailedAttempts := 0\<rparr>))
             else ret c) (\<lambda>c.
      bindM time_Now (\<lambda>now. ret (c\<lparr>c_UpdatedAt := now\<rparr>))))"

definition Credential_MarkCodeUsed :: "int \<Rightarrow> credential \<Rightarrow> ('z env_scheme, credential) comp" where
  "Credential_MarkCodeUsed counter c =
     bindM time_Now (\<lambda>now.
       ret (c\<lparr>c_LastUsedCounter := Some counter, c_UpdatedAt := now\<rparr>))"

definition Credential_RecordSuccess :: "int \<Rightarrow> credential \<Rightarrow> ('z env_scheme, credential) comp" where
  "Credential_RecordSuccess counter c =
     Credential_MarkCodeUsed counter (c\<lparr>c_FailedAttempts := 0, c_LockedUntil := None\<rparr>)"

definition Credential_IsCodeConsumed :: "int \<Rightarrow> credential \<Rightarrow> bool" where
  "Credential_IsCodeConsumed counter c = (case c_LastUsedCounter c of
       None \<Rightarrow> False
     | Some prev \<Rightarrow> counter \<le> prev)"

section \<open>Well-formed credentials\<close>

text \<open>
  A credential is either enabled, with no setup challenge left, or pending with
  a complete one; the failure counter stays below the cap, because reaching
  the cap starts a lockout and resets it.
\<close>

definition cred_wf :: "int \<Rightarrow> credential \<Rightarrow> bool" where
  "cred_wf maxAttempts c \<longleftrightarrow>
     (c_EnabledAt c = None \<longleftrightarrow> c_SetupTokenHash c \<noteq> None) \<and>
     (c_SetupTokenHash c = None \<longleftrightarrow> c_SetupTokenExpiresAt c = None) \<and>
     0 \<le> c_FailedAttempts c \<and> c_FailedAttempts c < max 1 maxAttempts"

lemma Credential_New_Inr:
  "Credential_New u s h ttl w = (Inr c, w') \<Longrightarrow>
     \<exists>now. c = \<lparr>c_UserID = u, c_SecretEncrypted = s, c_EnabledAt = None,
                 c_SetupTokenHash = Some h, c_SetupTokenExpiresAt = Some (now + ttl),
                 c_FailedAttempts = 0, c_LockedUntil = None, c_LastUsedCounter = None,
                 c_CreatedAt = now, c_UpdatedAt = now\<rparr>"
  by (auto simp: Credential_New_def peel)

lemma Credential_BeginSetup_Inr:
  "Credential_BeginSetup s h ttl c w = (Inr c', w') \<Longrightarrow>
     \<exists>now. c' = c\<lparr>c_SecretEncrypted := s, c_SetupTokenHash := Some h,
                   c_SetupTokenExpiresAt := Some (now + ttl), c_EnabledAt := None,
                   c_FailedAttempts := 0, c_LockedUntil := None, c_UpdatedAt := now\<rparr>"
  by (auto simp: Credential_BeginSetup_def peel)

lemma Credential_Enable_Inr:
  "Credential_Enable c w = (Inr c', w') \<Longrightarrow>
     \<exists>now. c' = c\<lparr>c_EnabledAt := Some now, c_SetupTokenHash := None,
                   c_SetupTokenExpiresAt := None, c_UpdatedAt := now\<rparr>"
  by (auto simp: Credential_Enable_def peel)

lemma Credential_RecordFailure_Inr:
  "Credential_RecordFailure m d c w = (Inr c', w') \<Longrightarrow>
     \<exists>now upd. c' = (if c_FailedAttempts c + 1 \<ge> m
       then c\<lparr>c_LockedUntil := Some (now + d), c_FailedAttempts := 0, c_UpdatedAt := upd\<rparr>
       else c\<lparr>c_FailedAttempts := c_FailedAttempts c + 1, c_UpdatedAt := upd\<rparr>)"
  by (auto simp: Credential_RecordFailure_def Let_def peel split: if_splits)

lemma Credential_MarkCodeUsed_Inr:
  "Credential_MarkCodeUsed k c w = (Inr c', w') \<Longrightarrow>
     \<exists>now. c' = c\<lparr>c_LastUsedCounter := Some k, c_UpdatedAt := now\<rparr>"
  by (auto simp: Credential_MarkCodeUsed_def peel)

lemma Credential_RecordSuccess_Inr:
  "Credential_RecordSuccess k c w = (Inr c', w') \<Longrightarrow>
     \<exists>now. c' = c\<lparr>c_FailedAttempts := 0, c_LockedUntil := None,
                   c_LastUsedCounter := Some k, c_UpdatedAt := now\<rparr>"
  by (auto simp: Credential_RecordSuccess_def dest: Credential_MarkCodeUsed_Inr)

lemmas credential_Inr =
  Credential_New_Inr Credential_BeginSetup_Inr Credential_Enable_Inr
  Credential_RecordFailure_Inr Credential_MarkCodeUsed_Inr Credential_RecordSuccess_Inr

lemma credential_not_Inl [simp]:
  "Credential_New u s h ttl w \<noteq> (Inl e, w')"
  "Credential_BeginSetup s h ttl c w \<noteq> (Inl e, w')"
  "Credential_Enable c w \<noteq> (Inl e, w')"
  "Credential_MarkCodeUsed k c w \<noteq> (Inl e, w')"
  "Credential_RecordSuccess k c w \<noteq> (Inl e, w')"
  "Credential_RecordFailure m d c w \<noteq> (Inl e, w')"
  "Credential_IsLocked c w \<noteq> (Inl e, w')"
  "Credential_IsSetupTokenExpired c w \<noteq> (Inl e, w')"
  by (auto simp: Credential_New_def Credential_BeginSetup_def Credential_Enable_def
      Credential_MarkCodeUsed_def Credential_RecordSuccess_def Credential_RecordFailure_def
      Credential_IsLocked_def Credential_IsSetupTokenExpired_def Let_def bindM_peel_Inl
      split: option.splits)

lemma cred_wf_New: "Credential_New u s h ttl w = (Inr c, w') \<Longrightarrow> cred_wf m c"
  by (auto simp: cred_wf_def dest!: credential_Inr)

lemma cred_wf_BeginSetup: "Credential_BeginSetup s h ttl c w = (Inr c', w') \<Longrightarrow> cred_wf m c'"
  by (auto simp: cred_wf_def dest!: credential_Inr)

lemma cred_wf_Enable: "Credential_Enable c w = (Inr c', w') \<Longrightarrow> cred_wf m c \<Longrightarrow> cred_wf m c'"
  by (auto simp: cred_wf_def dest!: credential_Inr)

lemma cred_wf_RecordFailure:
  "Credential_RecordFailure m d c w = (Inr c', w') \<Longrightarrow> cred_wf m c \<Longrightarrow> cred_wf m c'"
  by (auto simp: cred_wf_def dest!: credential_Inr split: if_splits)

lemma cred_wf_MarkCodeUsed:
  "Credential_MarkCodeUsed k c w = (Inr c', w') \<Longrightarrow> cred_wf m c \<Longrightarrow> cred_wf m c'"
  by (auto simp: cred_wf_def dest!: credential_Inr)

lemma cred_wf_RecordSuccess:
  "Credential_RecordSuccess k c w = (Inr c', w') \<Longrightarrow> cred_wf m c \<Longrightarrow> cred_wf m c'"
  by (auto simp: cred_wf_def dest!: credential_Inr)

lemmas cred_wf_intros =
  cred_wf_New cred_wf_BeginSetup cred_wf_Enable cred_wf_RecordFailure
  cred_wf_MarkCodeUsed cred_wf_RecordSuccess

end
