(* ===== verification/Domain_PasswordReset.thy ===== *)
theory Domain_PasswordReset
  imports Go_Effects
begin

text \<open>
  The entity of \<open>internal/domain/passwordreset\<close>: one forgot-password attempt
  on its way from the submitted email over the verified OTP to the new
  password. \<open>flow_wf\<close> is what the methods, used in that order, keep.
\<close>

record reset_flow =
  f_ID :: uuid
  f_UserID :: "uuid option"
  f_FlowTokenHash :: string
  f_OTPVerifiedAt :: "time option"
  f_OTPAttempts :: int
  f_ResetTokenHash :: "string option"
  f_ResetTokenExpiresAt :: "time option"
  f_ExpiresAt :: time
  f_ConsumedAt :: "time option"
  f_CreatedAt :: time

definition PasswordResetFlow_New ::
  "uuid option \<Rightarrow> string \<Rightarrow> duration \<Rightarrow> ('z env_scheme, reset_flow) comp" where
  "PasswordResetFlow_New userID flowTokenHash ttl =
     bindM time_Now (\<lambda>now.
     bindM uuid_New (\<lambda>fid.
       ret \<lparr>f_ID = fid, f_UserID = userID, f_FlowTokenHash = flowTokenHash,
            f_OTPVerifiedAt = None, f_OTPAttempts = 0,
            f_ResetTokenHash = None, f_ResetTokenExpiresAt = None,
            f_ExpiresAt = now + ttl, f_ConsumedAt = None, f_CreatedAt = now\<rparr>))"

definition PasswordResetFlow_IsExpired :: "reset_flow \<Rightarrow> ('z env_scheme, bool) comp" where
  "PasswordResetFlow_IsExpired f = bindM time_Now (\<lambda>now. ret (now > f_ExpiresAt f))"

definition PasswordResetFlow_IsConsumed :: "reset_flow \<Rightarrow> bool" where
  "PasswordResetFlow_IsConsumed f \<longleftrightarrow> f_ConsumedAt f \<noteq> None"

definition PasswordResetFlow_IsOTPVerified :: "reset_flow \<Rightarrow> bool" where
  "PasswordResetFlow_IsOTPVerified f \<longleftrightarrow> f_OTPVerifiedAt f \<noteq> None"

definition PasswordResetFlow_IsOTPLocked :: "int \<Rightarrow> reset_flow \<Rightarrow> bool" where
  "PasswordResetFlow_IsOTPLocked maxAttempts f \<longleftrightarrow> f_OTPAttempts f \<ge> maxAttempts"

definition PasswordResetFlow_RecordOTPFailure :: "int \<Rightarrow> reset_flow \<Rightarrow> bool \<times> reset_flow" where
  "PasswordResetFlow_RecordOTPFailure maxAttempts f =
     (let f = f\<lparr>f_OTPAttempts := f_OTPAttempts f + 1\<rparr>
      in (f_OTPAttempts f \<ge> maxAttempts, f))"

definition PasswordResetFlow_MarkOTPVerified :: "reset_flow \<Rightarrow> ('z env_scheme, reset_flow) comp" where
  "PasswordResetFlow_MarkOTPVerified f =
     bindM time_Now (\<lambda>now. ret (f\<lparr>f_OTPVerifiedAt := Some now\<rparr>))"

definition PasswordResetFlow_IssueResetToken ::
  "string \<Rightarrow> duration \<Rightarrow> reset_flow \<Rightarrow> ('z env_scheme, reset_flow) comp" where
  "PasswordResetFlow_IssueResetToken hash ttl f =
     bindM time_Now (\<lambda>now.
       ret (f\<lparr>f_ResetTokenHash := Some hash, f_ResetTokenExpiresAt := Some (now + ttl)\<rparr>))"

definition PasswordResetFlow_IsResetTokenValid :: "reset_flow \<Rightarrow> ('z env_scheme, bool) comp" where
  "PasswordResetFlow_IsResetTokenValid f =
     (case (f_ResetTokenHash f, f_ResetTokenExpiresAt f) of
        (Some _, Some t) \<Rightarrow> bindM time_Now (\<lambda>now. ret (now < t))
      | _ \<Rightarrow> ret False)"

definition PasswordResetFlow_Consume :: "reset_flow \<Rightarrow> ('z env_scheme, reset_flow) comp" where
  "PasswordResetFlow_Consume f =
     bindM time_Now (\<lambda>now. ret (f\<lparr>f_ConsumedAt := Some now\<rparr>))"

section \<open>Well-formed flows\<close>

text \<open>
  The OTP gate and the reset token are set together; only a flow of a real
  account passes the OTP gate, only one that passed it is consumed, and the
  attempt counter never exceeds the cap.
\<close>

definition flow_wf :: "int \<Rightarrow> reset_flow \<Rightarrow> bool" where
  "flow_wf maxAttempts f \<longleftrightarrow>
     (f_OTPVerifiedAt f = None \<longleftrightarrow> f_ResetTokenHash f = None) \<and>
     (f_ResetTokenHash f = None \<longleftrightarrow> f_ResetTokenExpiresAt f = None) \<and>
     (f_OTPVerifiedAt f \<noteq> None \<longrightarrow> f_UserID f \<noteq> None) \<and>
     (f_ConsumedAt f \<noteq> None \<longrightarrow> f_OTPVerifiedAt f \<noteq> None) \<and>
     0 \<le> f_OTPAttempts f \<and> f_OTPAttempts f \<le> max 0 maxAttempts"

lemma PasswordResetFlow_New_Inr:
  "PasswordResetFlow_New u h ttl w = (Inr f, w') \<Longrightarrow>
     \<exists>fid now. f = \<lparr>f_ID = fid, f_UserID = u, f_FlowTokenHash = h, f_OTPVerifiedAt = None,
                 f_OTPAttempts = 0, f_ResetTokenHash = None, f_ResetTokenExpiresAt = None,
                 f_ExpiresAt = now + ttl, f_ConsumedAt = None, f_CreatedAt = now\<rparr>"
  by (auto simp: PasswordResetFlow_New_def peel)

lemma PasswordResetFlow_MarkOTPVerified_Inr:
  "PasswordResetFlow_MarkOTPVerified f w = (Inr f', w') \<Longrightarrow>
     \<exists>now. f' = f\<lparr>f_OTPVerifiedAt := Some now\<rparr>"
  by (auto simp: PasswordResetFlow_MarkOTPVerified_def peel)

lemma PasswordResetFlow_IssueResetToken_Inr:
  "PasswordResetFlow_IssueResetToken h ttl f w = (Inr f', w') \<Longrightarrow>
     \<exists>t. f' = f\<lparr>f_ResetTokenHash := Some h, f_ResetTokenExpiresAt := Some t\<rparr>"
  by (auto simp: PasswordResetFlow_IssueResetToken_def peel)

lemma PasswordResetFlow_Consume_Inr:
  "PasswordResetFlow_Consume f w = (Inr f', w') \<Longrightarrow> \<exists>now. f' = f\<lparr>f_ConsumedAt := Some now\<rparr>"
  by (auto simp: PasswordResetFlow_Consume_def peel)

lemmas flow_Inr =
  PasswordResetFlow_New_Inr PasswordResetFlow_MarkOTPVerified_Inr
  PasswordResetFlow_IssueResetToken_Inr PasswordResetFlow_Consume_Inr

lemma flow_not_Inl [simp]:
  "PasswordResetFlow_New u h ttl w \<noteq> (Inl e, w')"
  "PasswordResetFlow_MarkOTPVerified f w \<noteq> (Inl e, w')"
  "PasswordResetFlow_IssueResetToken h ttl f w \<noteq> (Inl e, w')"
  "PasswordResetFlow_Consume f w \<noteq> (Inl e, w')"
  "PasswordResetFlow_IsExpired f w \<noteq> (Inl e, w')"
  "PasswordResetFlow_IsResetTokenValid f w \<noteq> (Inl e, w')"
  by (auto simp: PasswordResetFlow_New_def PasswordResetFlow_MarkOTPVerified_def
      PasswordResetFlow_IssueResetToken_def PasswordResetFlow_Consume_def
      PasswordResetFlow_IsExpired_def PasswordResetFlow_IsResetTokenValid_def bindM_peel_Inl
      split: option.splits)

lemma flow_wf_New: "PasswordResetFlow_New u h ttl w = (Inr f, w') \<Longrightarrow> flow_wf m f"
  by (auto simp: flow_wf_def dest!: flow_Inr)

lemma flow_wf_RecordOTPFailure:
  "flow_wf m f \<Longrightarrow> \<not> PasswordResetFlow_IsOTPLocked m f \<Longrightarrow>
     flow_wf m (snd (PasswordResetFlow_RecordOTPFailure m f))"
  by (auto simp: flow_wf_def PasswordResetFlow_RecordOTPFailure_def
      PasswordResetFlow_IsOTPLocked_def)

text \<open>Verifying and issuing the token belong together: only their sequence keeps the invariant.\<close>

lemma flow_wf_verify:
  "flow_wf m f \<Longrightarrow> f_UserID f \<noteq> None \<Longrightarrow>
     flow_wf m (f\<lparr>f_OTPVerifiedAt := Some now, f_ResetTokenHash := Some h, f_ResetTokenExpiresAt := Some t\<rparr>)"
  by (auto simp: flow_wf_def)

lemma flow_wf_Consume:
  "PasswordResetFlow_Consume f w = (Inr f', w') \<Longrightarrow> flow_wf m f \<Longrightarrow>
     PasswordResetFlow_IsOTPVerified f \<Longrightarrow> flow_wf m f'"
  by (auto simp: flow_wf_def PasswordResetFlow_IsOTPVerified_def dest!: flow_Inr)

end
