(* ===== verification/World.thy ===== *)
theory World
  imports Domain_User Domain_Token Domain_LoginChallenge Domain_Totp Domain_PasswordReset
begin

text \<open>
  The state the service works on: the PostgreSQL database with the tables and
  constraints of \<open>migrations/\<close>, the state of everything outside the process
  (session store, peer services, third-party generators) as one value of an
  arbitrary type, and the detached cleanup goroutines that were started. One
  SQL statement is a function of the database that either changes it or
  answers with a server error, executed atomically by \<open>exec_sql\<close>, which may
  also fail for an infrastructure reason before it has any effect.
\<close>

section \<open>The database\<close>

record deletion_job_row =
  dj_id :: uuid
  dj_user_id :: uuid
  dj_status :: string
  dj_attempt_count :: int
  dj_next_attempt_at :: time
  dj_lease_until :: "time option"
  dj_last_error :: "string option"
  dj_created_at :: time
  dj_updated_at :: time

record deletion_step_row =
  ds_job_id :: uuid
  ds_service :: string
  ds_status :: string
  ds_attempt_count :: int
  ds_next_attempt_at :: time
  ds_last_error :: "string option"
  ds_updated_at :: time

record db =
  users :: "user list"
  refresh_tokens :: "refresh_token list"
  two_factor_credentials :: "credential list"
  login_challenges :: "login_challenge list"
  password_reset_flows :: "reset_flow list"
  account_deletion_jobs :: "deletion_job_row list"
  account_deletion_steps :: "deletion_step_row list"

definition empty_db :: db where
  "empty_db = \<lparr>users = [], refresh_tokens = [], two_factor_credentials = [],
     login_challenges = [], password_reset_flows = [],
     account_deletion_jobs = [], account_deletion_steps = []\<rparr>"

record 'x world = env +
  w_db :: db
  w_ext :: 'x
  w_cleanups :: "(uuid \<times> uuid) list"

section \<open>Constraints\<close>

text \<open>
  SQLSTATE 23505 is a unique violation, 23503 a foreign-key violation. The
  columns below are the primary keys and UNIQUE columns of the migrations.
\<close>

definition uniqueViolationCode :: string where
  "uniqueViolationCode = ''23505''"

definition foreignKeyViolationCode :: string where
  "foreignKeyViolationCode = ''23503''"

definition user_exists :: "uuid \<Rightarrow> db \<Rightarrow> bool" where
  "user_exists i d \<longleftrightarrow> list_ex (\<lambda>u. u_ID u = i) (users d)"

lemma user_exists_iff: "user_exists i d \<longleftrightarrow> (\<exists>u \<in> set (users d). u_ID u = i)"
  by (auto simp: user_exists_def list_ex_iff)

abbreviation col_u_id where "col_u_id \<equiv> (\<lambda>u. Some (u_ID u))"
abbreviation col_u_email where "col_u_email \<equiv> (\<lambda>u. Some (u_Email u))"
abbreviation col_rt_id where "col_rt_id \<equiv> (\<lambda>t. Some (rt_ID t))"
abbreviation col_rt_hash where "col_rt_hash \<equiv> (\<lambda>t. Some (rt_TokenHash t))"
abbreviation col_c_user where "col_c_user \<equiv> (\<lambda>c. Some (c_UserID c))"
abbreviation col_lc_id where "col_lc_id \<equiv> (\<lambda>c. Some (lc_ID c))"
abbreviation col_lc_hash where "col_lc_hash \<equiv> (\<lambda>c. Some (lc_TokenHash c))"
abbreviation col_f_id where "col_f_id \<equiv> (\<lambda>f. Some (f_ID f))"
abbreviation col_f_flow where "col_f_flow \<equiv> (\<lambda>f. Some (f_FlowTokenHash f))"
abbreviation col_dj_id where "col_dj_id \<equiv> (\<lambda>j. Some (dj_id j))"
abbreviation col_dj_user where "col_dj_user \<equiv> (\<lambda>j. Some (dj_user_id j))"
abbreviation col_ds_key where "col_ds_key \<equiv> (\<lambda>s. Some (ds_job_id s, ds_service s))"

definition db_wf :: "db \<Rightarrow> bool" where
  "db_wf d \<longleftrightarrow>
     unique_col col_u_id (users d) \<and> unique_col col_u_email (users d) \<and>
     unique_col col_rt_id (refresh_tokens d) \<and> unique_col col_rt_hash (refresh_tokens d) \<and>
     (\<forall>t \<in> set (refresh_tokens d). user_exists (rt_UserID t) d) \<and>
     unique_col col_c_user (two_factor_credentials d) \<and>
     unique_col c_SetupTokenHash (two_factor_credentials d) \<and>
     (\<forall>c \<in> set (two_factor_credentials d). user_exists (c_UserID c) d) \<and>
     unique_col col_lc_id (login_challenges d) \<and> unique_col col_lc_hash (login_challenges d) \<and>
     (\<forall>c \<in> set (login_challenges d). user_exists (lc_UserID c) d) \<and>
     unique_col col_f_id (password_reset_flows d) \<and>
     unique_col col_f_flow (password_reset_flows d) \<and>
     unique_col f_ResetTokenHash (password_reset_flows d) \<and>
     (\<forall>f \<in> set (password_reset_flows d). \<forall>i. f_UserID f = Some i \<longrightarrow> user_exists i d) \<and>
     unique_col col_dj_id (account_deletion_jobs d) \<and>
     unique_col col_dj_user (account_deletion_jobs d) \<and>
     unique_col col_ds_key (account_deletion_steps d) \<and>
     (\<forall>s \<in> set (account_deletion_steps d). \<exists>j \<in> set (account_deletion_jobs d). dj_id j = ds_job_id s)"

lemma db_wf_empty [simp]: "db_wf empty_db"
  by (simp add: db_wf_def empty_db_def)

section \<open>Statements\<close>

type_synonym 'a stmt = "db \<Rightarrow> goerror + ('a \<times> db)"

text \<open>
  A failure of the infrastructure happens before the statement takes effect. A
  connection that breaks after the server committed, so that the caller sees an
  error for a statement that was carried out, is not modelled.
\<close>

definition exec_sql :: "'a stmt \<Rightarrow> ('x world, 'a) comp" where
  "exec_sql st = fallible (\<lambda>w. case st (w_db w) of
       Inl e \<Rightarrow> (Inl e, w)
     | Inr (a, d) \<Rightarrow> (Inr a, w\<lparr>w_db := d\<rparr>))"

definition select_one :: "('r \<Rightarrow> bool) \<Rightarrow> (db \<Rightarrow> 'r list) \<Rightarrow> 'r stmt" where
  "select_one P table d = (case sql_find P (table d) of
       None \<Rightarrow> Inl (Sentinel Pgx_ErrNoRows)
     | Some r \<Rightarrow> Inr (r, d))"

text \<open>
  A transaction: \<open>Begin\<close>, the statements, \<open>Commit\<close>, with \<open>defer tx.Rollback\<close>.
  The body gets the transaction's start time, which is what SQL's \<open>now()\<close>
  returns inside it, and answers with what it returns and, when it reaches
  the commit, how it wraps a commit error.
\<close>

definition in_tx ::
  "('x world, (goerror \<Rightarrow> goerror) option \<times> 'a) comp \<Rightarrow> ('x world, 'a) comp" where
  "in_tx body w = (case body w of
       (Inl e, w1) \<Rightarrow> (Inl e, w1\<lparr>w_db := w_db w\<rparr>)
     | (Inr (None, a), w1) \<Rightarrow> (Inr a, w1\<lparr>w_db := w_db w\<rparr>)
     | (Inr (Some wrapCommit, a), w1) \<Rightarrow>
         (case fallible (ret ()) w1 of
            (Inl e, w2) \<Rightarrow> (Inl (wrapCommit e), w2\<lparr>w_db := w_db w\<rparr>)
          | (Inr _, w2) \<Rightarrow> (Inr a, w2)))"

definition transaction ::
  "(goerror \<Rightarrow> goerror) \<Rightarrow> (time \<Rightarrow> ('x world, (goerror \<Rightarrow> goerror) option \<times> 'a) comp)
     \<Rightarrow> ('x world, 'a) comp" where
  "transaction wrapBegin body =
     tryM (fallible (ret ())) (\<lambda>e. fail (wrapBegin e)) (\<lambda>_.
     bindM time_Now (\<lambda>now. in_tx (body now)))"

text \<open>A call of something outside the process, which only sees the external state.\<close>

definition external :: "('x \<Rightarrow> (goerror + 'a) \<times> 'x) \<Rightarrow> ('x world, 'a) comp" where
  "external f w = (case f (w_ext w) of (r, x) \<Rightarrow> (r, w\<lparr>w_ext := x\<rparr>))"

section \<open>What the primitive effects leave alone\<close>

lemma time_Now_frame [simp]:
  assumes "time_Now w = (r, w')"
  shows "w_db w' = w_db w" and "w_ext w' = w_ext w" and "w_cleanups w' = w_cleanups w"
  using assms by (auto simp: time_Now_def split: list.splits)

lemma uuid_New_frame [simp]:
  assumes "uuid_New w = (r, w')"
  shows "w_db w' = w_db w" and "w_ext w' = w_ext w" and "w_cleanups w' = w_cleanups w"
  using assms by (auto simp: uuid_New_def)

lemma next_fault_frame [simp]:
  assumes "next_fault w = (r, w')"
  shows "w_db w' = w_db w" and "w_ext w' = w_ext w" and "w_cleanups w' = w_cleanups w"
  using assms by (auto simp: next_fault_def split: list.splits)

lemma fallible_ret_frame [simp]:
  assumes "fallible (ret x) w = (r, w')"
  shows "w_db w' = w_db w" and "w_ext w' = w_ext w" and "w_cleanups w' = w_cleanups w"
  using assms by (auto simp: fallible_def split: prod.splits option.splits)

lemma rand_Read_frame [simp]:
  assumes "rand_Read n w = (r, w')"
  shows "w_db w' = w_db w" and "w_ext w' = w_ext w" and "w_cleanups w' = w_cleanups w"
  using assms by (auto simp: rand_Read_def fallible_def split: prod.splits option.splits)

lemma exec_sql_Inr:
  "exec_sql st w = (Inr a, w') \<Longrightarrow>
     st (w_db w) = Inr (a, w_db w') \<and> w_ext w' = w_ext w \<and> w_cleanups w' = w_cleanups w"
  by (auto simp: exec_sql_def fallible_def split: prod.splits option.splits sum.splits)

lemma exec_sql_Inl:
  "exec_sql st w = (Inl e, w') \<Longrightarrow>
     w_db w' = w_db w \<and> w_ext w' = w_ext w \<and> w_cleanups w' = w_cleanups w \<and>
     (st (w_db w) = Inl e \<or> (\<exists>msg. e = Opaque msg))"
  by (auto simp: exec_sql_def fallible_def split: prod.splits option.splits sum.splits)

lemma external_Pair:
  "external f w = (r, w') \<longleftrightarrow> (\<exists>x. f (w_ext w) = (r, x) \<and> w' = w\<lparr>w_ext := x\<rparr>)"
  by (auto simp: external_def split: prod.splits)

lemma external_frame [simp]:
  assumes "external f w = (r, w')"
  shows "w_db w' = w_db w" and "w_cleanups w' = w_cleanups w"
  using assms by (auto simp: external_Pair)

text \<open>
  The frame of the whole development: what does not depend on the clock, the
  random source, the generators and the faults. Inside it every domain method
  is a step, and SQL statements and external calls reduce to their effect on
  the database or the external state.
\<close>

locale world_frame = frame R for R :: "'x world \<Rightarrow> 'x world \<Rightarrow> bool" +
  assumes env_only:
    "w_db w' = w_db w \<Longrightarrow> w_ext w' = w_ext w \<Longrightarrow> w_cleanups w' = w_cleanups w \<Longrightarrow> R w w'"
begin

lemma keeps_time_Now: "keeps R time_Now"
  by (rule keepsI) (simp add: env_only)

lemma keeps_uuid_New: "keeps R uuid_New"
  by (rule keepsI) (simp add: env_only)

lemma keeps_rand_Read: "keeps R (rand_Read n)"
  by (rule keepsI) (simp add: env_only)

lemma keeps_fallible_ret: "keeps R (fallible (ret x))"
  by (rule keepsI) (simp add: env_only)

lemmas base_intros = comp_intros keeps_time_Now keeps_uuid_New keeps_rand_Read keeps_fallible_ret

lemma keeps_User_New: "keeps R (User_New e h)"
  unfolding User_New_def by (intro base_intros)

lemma keeps_User_UpdateProfile: "keeps R (User_UpdateProfile f l a u)"
  unfolding User_UpdateProfile_def by (intro base_intros)

lemma keeps_RefreshToken_New: "keeps R (RefreshToken_New u h ttl)"
  unfolding RefreshToken_New_def by (intro base_intros)

lemma keeps_RefreshToken_IsExpired: "keeps R (RefreshToken_IsExpired t)"
  unfolding RefreshToken_IsExpired_def by (intro base_intros)

lemma keeps_LoginChallenge_New: "keeps R (LoginChallenge_New u h ttl)"
  unfolding LoginChallenge_New_def by (intro base_intros)

lemma keeps_LoginChallenge_IsExpired: "keeps R (LoginChallenge_IsExpired c)"
  unfolding LoginChallenge_IsExpired_def by (intro base_intros)

lemma keeps_Credential:
  "keeps R (Credential_New u s h ttl)" "keeps R (Credential_BeginSetup s h ttl c)"
  "keeps R (Credential_Enable c)" "keeps R (Credential_IsSetupTokenExpired c)"
  "keeps R (Credential_IsLocked c)" "keeps R (Credential_MarkCodeUsed k c)"
  "keeps R (Credential_RecordSuccess k c)" "keeps R (Credential_RecordFailure m l c)"
  unfolding Credential_New_def Credential_BeginSetup_def Credential_Enable_def
    Credential_IsSetupTokenExpired_def Credential_IsLocked_def Credential_RecordSuccess_def
    Credential_MarkCodeUsed_def Credential_RecordFailure_def Let_def
  by (intro base_intros)+

lemma keeps_PasswordResetFlow:
  "keeps R (PasswordResetFlow_New i h ttl)" "keeps R (PasswordResetFlow_IsExpired f)"
  "keeps R (PasswordResetFlow_MarkOTPVerified f)" "keeps R (PasswordResetFlow_IssueResetToken h ttl f)"
  "keeps R (PasswordResetFlow_IsResetTokenValid f)" "keeps R (PasswordResetFlow_Consume f)"
  unfolding PasswordResetFlow_New_def PasswordResetFlow_IsExpired_def
    PasswordResetFlow_MarkOTPVerified_def PasswordResetFlow_IssueResetToken_def
    PasswordResetFlow_IsResetTokenValid_def PasswordResetFlow_Consume_def
  by (intro base_intros)+

lemmas domain_intros =
  base_intros keeps_User_New keeps_User_UpdateProfile keeps_RefreshToken_New
  keeps_RefreshToken_IsExpired keeps_LoginChallenge_New keeps_LoginChallenge_IsExpired
  keeps_Credential keeps_PasswordResetFlow

end

end
