(* ===== verification/Repositories.thy ===== *)
theory Repositories
  imports World "HOL-Library.Char_ord" "HOL-Library.List_Lexorder"
begin

text \<open>
  The repositories of \<open>internal/repository/postgres\<close> over the tables of
  theory \<open>World\<close>: the SQL statements as functions of the database, and each
  repository method with its error mapping. Theory \<open>Repository_Facts\<close> shows
  that the statements keep the constraints of the schema (\<open>db_wf\<close>). An instant
  is stored as it is: that \<open>TIMESTAMPTZ\<close> rounds it to microseconds is not modelled.
\<close>

section \<open>Statements on users\<close>

text \<open>The INSERT names five columns; the others take their DEFAULT.\<close>

definition insert_user :: "user \<Rightarrow> unit stmt" where
  "insert_user u d =
     (if conflicts col_u_id (Some (u_ID u)) (users d) \<or> conflicts col_u_email (Some (u_Email u)) (users d)
      then Inl (PgError uniqueViolationCode)
      else Inr ((), d\<lparr>users := users d @
        [u\<lparr>u_FirstName := '''', u_LastName := '''', u_AvatarMediaID := None,
           u_DeletionStatus := DeletionStatusActive\<rparr>]\<rparr>))"

definition update_user :: "user \<Rightarrow> nat stmt" where
  "update_user u d =
     Inr (sql_count (\<lambda>r. u_ID r = u_ID u) (users d),
          d\<lparr>users := sql_update (\<lambda>r. u_ID r = u_ID u)
             (\<lambda>r. r\<lparr>u_FirstName := u_FirstName u, u_LastName := u_LastName u,
                    u_AvatarMediaID := u_AvatarMediaID u, u_UpdatedAt := u_UpdatedAt u\<rparr>) (users d)\<rparr>)"

definition update_user_password :: "time \<Rightarrow> uuid \<Rightarrow> string \<Rightarrow> nat stmt" where
  "update_user_password now i h d =
     Inr (sql_count (\<lambda>r. u_ID r = i) (users d),
          d\<lparr>users := sql_update (\<lambda>r. u_ID r = i)
             (\<lambda>r. r\<lparr>u_PasswordHash := h, u_UpdatedAt := now\<rparr>) (users d)\<rparr>)"

text \<open>DELETE with the four ON DELETE CASCADE foreign keys: the deleted row takes its dependants along.\<close>

definition delete_user :: "uuid \<Rightarrow> nat stmt" where
  "delete_user i d =
     (let n = sql_count (\<lambda>r. u_ID r = i) (users d) in
      if n = 0 then Inr (0, d)
      else Inr (n,
          d\<lparr>users := sql_delete (\<lambda>r. u_ID r = i) (users d),
            refresh_tokens := sql_delete (\<lambda>t. rt_UserID t = i) (refresh_tokens d),
            two_factor_credentials := sql_delete (\<lambda>c. c_UserID c = i) (two_factor_credentials d),
            login_challenges := sql_delete (\<lambda>c. lc_UserID c = i) (login_challenges d),
            password_reset_flows := sql_delete (\<lambda>f. f_UserID f = Some i) (password_reset_flows d)\<rparr>))"

definition mark_deletion_pending :: "time \<Rightarrow> uuid \<Rightarrow> nat stmt" where
  "mark_deletion_pending now i d =
     (let P = (\<lambda>r. u_ID r = i \<and> u_DeletionStatus r = DeletionStatusActive) in
      Inr (sql_count P (users d),
           d\<lparr>users := sql_update P
              (\<lambda>r. r\<lparr>u_DeletionStatus := DeletionStatusPending, u_UpdatedAt := now\<rparr>) (users d)\<rparr>))"

section \<open>Statements on the dependent tables\<close>

definition insert_refresh_token :: "refresh_token \<Rightarrow> unit stmt" where
  "insert_refresh_token t d =
     (if conflicts col_rt_id (Some (rt_ID t)) (refresh_tokens d)
         \<or> conflicts col_rt_hash (Some (rt_TokenHash t)) (refresh_tokens d)
      then Inl (PgError uniqueViolationCode)
      else if \<not> user_exists (rt_UserID t) d then Inl (PgError foreignKeyViolationCode)
      else Inr ((), d\<lparr>refresh_tokens := refresh_tokens d @ [t]\<rparr>))"

definition revoke_token :: "time \<Rightarrow> uuid \<Rightarrow> unit stmt" where
  "revoke_token now i d =
     Inr ((), d\<lparr>refresh_tokens := sql_update (\<lambda>t. rt_ID t = i \<and> rt_RevokedAt t = None)
        (\<lambda>t. t\<lparr>rt_RevokedAt := Some now\<rparr>) (refresh_tokens d)\<rparr>)"

definition revoke_all_tokens :: "time \<Rightarrow> uuid \<Rightarrow> unit stmt" where
  "revoke_all_tokens now i d =
     Inr ((), d\<lparr>refresh_tokens := sql_update (\<lambda>t. rt_UserID t = i \<and> rt_RevokedAt t = None)
        (\<lambda>t. t\<lparr>rt_RevokedAt := Some now\<rparr>) (refresh_tokens d)\<rparr>)"

definition insert_credential :: "credential \<Rightarrow> unit stmt" where
  "insert_credential c d =
     (if conflicts col_c_user (Some (c_UserID c)) (two_factor_credentials d)
         \<or> conflicts c_SetupTokenHash (c_SetupTokenHash c) (two_factor_credentials d)
      then Inl (PgError uniqueViolationCode)
      else if \<not> user_exists (c_UserID c) d then Inl (PgError foreignKeyViolationCode)
      else Inr ((), d\<lparr>two_factor_credentials := two_factor_credentials d @ [c]\<rparr>))"

text \<open>The UPDATE sets every column but \<open>user_id\<close> and \<open>created_at\<close>.\<close>

definition update_credential :: "credential \<Rightarrow> nat stmt" where
  "update_credential c d =
     (if conflicts c_SetupTokenHash (c_SetupTokenHash c)
           (filter (\<lambda>r. c_UserID r \<noteq> c_UserID c) (two_factor_credentials d))
         \<and> sql_count (\<lambda>r. c_UserID r = c_UserID c) (two_factor_credentials d) \<noteq> 0
      then Inl (PgError uniqueViolationCode)
      else Inr (sql_count (\<lambda>r. c_UserID r = c_UserID c) (two_factor_credentials d),
           d\<lparr>two_factor_credentials := sql_update (\<lambda>r. c_UserID r = c_UserID c)
              (\<lambda>r. c\<lparr>c_UserID := c_UserID r, c_CreatedAt := c_CreatedAt r\<rparr>)
              (two_factor_credentials d)\<rparr>))"

definition insert_login_challenge :: "login_challenge \<Rightarrow> unit stmt" where
  "insert_login_challenge c d =
     (if conflicts col_lc_id (Some (lc_ID c)) (login_challenges d)
         \<or> conflicts col_lc_hash (Some (lc_TokenHash c)) (login_challenges d)
      then Inl (PgError uniqueViolationCode)
      else if \<not> user_exists (lc_UserID c) d then Inl (PgError foreignKeyViolationCode)
      else Inr ((), d\<lparr>login_challenges := login_challenges d @ [c]\<rparr>))"

definition consume_login_challenge :: "time \<Rightarrow> uuid \<Rightarrow> unit stmt" where
  "consume_login_challenge now i d =
     Inr ((), d\<lparr>login_challenges := sql_update (\<lambda>c. lc_ID c = i \<and> lc_ConsumedAt c = None)
        (\<lambda>c. c\<lparr>lc_ConsumedAt := Some now\<rparr>) (login_challenges d)\<rparr>)"

definition insert_reset_flow :: "reset_flow \<Rightarrow> unit stmt" where
  "insert_reset_flow f d =
     (if conflicts col_f_id (Some (f_ID f)) (password_reset_flows d)
         \<or> conflicts col_f_flow (Some (f_FlowTokenHash f)) (password_reset_flows d)
         \<or> conflicts f_ResetTokenHash (f_ResetTokenHash f) (password_reset_flows d)
      then Inl (PgError uniqueViolationCode)
      else if (case f_UserID f of None \<Rightarrow> False | Some i \<Rightarrow> \<not> user_exists i d)
      then Inl (PgError foreignKeyViolationCode)
      else Inr ((), d\<lparr>password_reset_flows := password_reset_flows d @ [f]\<rparr>))"

definition update_reset_flow :: "reset_flow \<Rightarrow> nat stmt" where
  "update_reset_flow f d =
     (if conflicts f_ResetTokenHash (f_ResetTokenHash f)
           (filter (\<lambda>r. f_ID r \<noteq> f_ID f) (password_reset_flows d))
         \<and> sql_count (\<lambda>r. f_ID r = f_ID f) (password_reset_flows d) \<noteq> 0
      then Inl (PgError uniqueViolationCode)
      else Inr (sql_count (\<lambda>r. f_ID r = f_ID f) (password_reset_flows d),
           d\<lparr>password_reset_flows := sql_update (\<lambda>r. f_ID r = f_ID f)
              (\<lambda>r. r\<lparr>f_OTPVerifiedAt := f_OTPVerifiedAt f, f_OTPAttempts := f_OTPAttempts f,
                     f_ResetTokenHash := f_ResetTokenHash f,
                     f_ResetTokenExpiresAt := f_ResetTokenExpiresAt f,
                     f_ConsumedAt := f_ConsumedAt f\<rparr>) (password_reset_flows d)\<rparr>))"

section \<open>UserRepository\<close>

definition users_Create :: "user \<Rightarrow> ('x world, unit) comp" where
  "users_Create u = tryM (exec_sql (insert_user u))
     (\<lambda>e. if errors_As_PgError e = Some uniqueViolationCode
          then fail (Sentinel User_ErrEmailTaken)
          else fail (Wrap ''postgres: create user'' e))
     ret"

definition users_scanOne :: "(user \<Rightarrow> bool) \<Rightarrow> ('x world, user) comp" where
  "users_scanOne P = tryM (exec_sql (select_one P users))
     (\<lambda>e. if errors_Is e Pgx_ErrNoRows then fail (Sentinel User_ErrNotFound)
          else fail (Wrap ''postgres: get user'' e))
     ret"

definition users_GetByEmail :: "string \<Rightarrow> ('x world, user) comp" where
  "users_GetByEmail email = users_scanOne (\<lambda>u. u_Email u = email)"

definition users_GetByID :: "uuid \<Rightarrow> ('x world, user) comp" where
  "users_GetByID i = users_scanOne (\<lambda>u. u_ID u = i)"

definition users_Update :: "user \<Rightarrow> ('x world, unit) comp" where
  "users_Update u = wrapM ''postgres: update user'' (exec_sql (update_user u)) (\<lambda>n.
     if n = 0 then fail (Sentinel User_ErrNotFound) else ret ())"

definition users_UpdatePassword :: "uuid \<Rightarrow> string \<Rightarrow> ('x world, unit) comp" where
  "users_UpdatePassword i h = bindM time_Now (\<lambda>now.
     wrapM ''postgres: update user password'' (exec_sql (update_user_password now i h)) (\<lambda>n.
     if n = 0 then fail (Sentinel User_ErrNotFound) else ret ()))"

definition users_Delete :: "uuid \<Rightarrow> ('x world, unit) comp" where
  "users_Delete i = wrapM ''postgres: delete user'' (exec_sql (delete_user i)) (\<lambda>n.
     if n = 0 then fail (Sentinel User_ErrNotFound) else ret ())"

definition users_MarkDeletionPending :: "uuid \<Rightarrow> ('x world, unit) comp" where
  "users_MarkDeletionPending i = bindM time_Now (\<lambda>now.
     wrapM ''postgres: mark deletion pending'' (exec_sql (mark_deletion_pending now i)) (\<lambda>n.
     if n = 0 then bindM (users_GetByID i) (\<lambda>_. ret ()) else ret ()))"

section \<open>RefreshTokenRepository\<close>

definition refreshTokens_Create :: "refresh_token \<Rightarrow> ('x world, unit) comp" where
  "refreshTokens_Create t =
     wrapM ''postgres: create refresh token'' (exec_sql (insert_refresh_token t)) ret"

definition refreshTokens_GetByHash :: "string \<Rightarrow> ('x world, refresh_token) comp" where
  "refreshTokens_GetByHash h = tryM (exec_sql (select_one (\<lambda>t. rt_TokenHash t = h) refresh_tokens))
     (\<lambda>e. if errors_Is e Pgx_ErrNoRows then fail (Sentinel Token_ErrNotFound)
          else fail (Wrap ''postgres: get refresh token'' e))
     ret"

definition refreshTokens_Revoke :: "uuid \<Rightarrow> ('x world, unit) comp" where
  "refreshTokens_Revoke i = bindM time_Now (\<lambda>now.
     wrapM ''postgres: revoke refresh token'' (exec_sql (revoke_token now i)) ret)"

definition refreshTokens_RevokeAllForUser :: "uuid \<Rightarrow> ('x world, unit) comp" where
  "refreshTokens_RevokeAllForUser i = bindM time_Now (\<lambda>now.
     wrapM ''postgres: revoke all refresh tokens'' (exec_sql (revoke_all_tokens now i)) ret)"

section \<open>TwoFactorCredentialRepository\<close>

definition credentials_Create :: "credential \<Rightarrow> ('x world, unit) comp" where
  "credentials_Create c =
     wrapM ''postgres: create totp credential'' (exec_sql (insert_credential c)) ret"

definition credentials_scanOne :: "(credential \<Rightarrow> bool) \<Rightarrow> ('x world, credential) comp" where
  "credentials_scanOne P = tryM (exec_sql (select_one P two_factor_credentials))
     (\<lambda>e. if errors_Is e Pgx_ErrNoRows then fail (Sentinel Totp_ErrNotFound)
          else fail (Wrap ''postgres: get totp credential'' e))
     ret"

definition credentials_GetByUserID :: "uuid \<Rightarrow> ('x world, credential) comp" where
  "credentials_GetByUserID i = credentials_scanOne (\<lambda>c. c_UserID c = i)"

definition credentials_GetBySetupTokenHash :: "string \<Rightarrow> ('x world, credential) comp" where
  "credentials_GetBySetupTokenHash h = credentials_scanOne (\<lambda>c. c_SetupTokenHash c = Some h)"

definition credentials_Update :: "credential \<Rightarrow> ('x world, unit) comp" where
  "credentials_Update c = wrapM ''postgres: update totp credential'' (exec_sql (update_credential c)) (\<lambda>n.
     if n = 0 then fail (Sentinel Totp_ErrNotFound) else ret ())"

section \<open>LoginChallengeRepository\<close>

definition loginChallenges_Create :: "login_challenge \<Rightarrow> ('x world, unit) comp" where
  "loginChallenges_Create c =
     wrapM ''postgres: create login challenge'' (exec_sql (insert_login_challenge c)) ret"

definition loginChallenges_GetByHash :: "string \<Rightarrow> ('x world, login_challenge) comp" where
  "loginChallenges_GetByHash h = tryM (exec_sql (select_one (\<lambda>c. lc_TokenHash c = h) login_challenges))
     (\<lambda>e. if errors_Is e Pgx_ErrNoRows then fail (Sentinel LoginChallenge_ErrNotFound)
          else fail (Wrap ''postgres: get login challenge'' e))
     ret"

definition loginChallenges_Consume :: "uuid \<Rightarrow> ('x world, unit) comp" where
  "loginChallenges_Consume i = bindM time_Now (\<lambda>now.
     wrapM ''postgres: consume login challenge'' (exec_sql (consume_login_challenge now i)) ret)"

section \<open>PasswordResetFlowRepository\<close>

definition passwordResetFlows_Create :: "reset_flow \<Rightarrow> ('x world, unit) comp" where
  "passwordResetFlows_Create f =
     wrapM ''postgres: create password reset flow'' (exec_sql (insert_reset_flow f)) ret"

definition passwordResetFlows_scanOne :: "(reset_flow \<Rightarrow> bool) \<Rightarrow> ('x world, reset_flow) comp" where
  "passwordResetFlows_scanOne P = tryM (exec_sql (select_one P password_reset_flows))
     (\<lambda>e. if errors_Is e Pgx_ErrNoRows then fail (Sentinel PasswordReset_ErrNotFound)
          else fail (Wrap ''postgres: get password reset flow'' e))
     ret"

definition passwordResetFlows_GetByFlowTokenHash :: "string \<Rightarrow> ('x world, reset_flow) comp" where
  "passwordResetFlows_GetByFlowTokenHash h = passwordResetFlows_scanOne (\<lambda>f. f_FlowTokenHash f = h)"

definition passwordResetFlows_GetByResetTokenHash :: "string \<Rightarrow> ('x world, reset_flow) comp" where
  "passwordResetFlows_GetByResetTokenHash h = passwordResetFlows_scanOne (\<lambda>f. f_ResetTokenHash f = Some h)"

definition passwordResetFlows_Update :: "reset_flow \<Rightarrow> ('x world, unit) comp" where
  "passwordResetFlows_Update f =
     wrapM ''postgres: update password reset flow'' (exec_sql (update_reset_flow f)) (\<lambda>n.
     if n = 0 then fail (Sentinel PasswordReset_ErrNotFound) else ret ())"

end
