(* ===== verification/Repository_Facts.thy ===== *)
theory Repository_Facts
  imports Repositories
begin

text \<open>
  What the repository methods do: the constraints every statement keeps, the
  exact effect of each method on success, that a failed method leaves the
  database as it was, and the frame rules the service proofs apply.
\<close>

section \<open>Statements keep the constraints\<close>

lemma user_exists_update [simp]:
  "user_exists i (d\<lparr>refresh_tokens := x1\<rparr>) = user_exists i d"
  "user_exists i (d\<lparr>two_factor_credentials := x2\<rparr>) = user_exists i d"
  "user_exists i (d\<lparr>login_challenges := x3\<rparr>) = user_exists i d"
  "user_exists i (d\<lparr>password_reset_flows := x4\<rparr>) = user_exists i d"
  "user_exists i (d\<lparr>account_deletion_jobs := x5\<rparr>) = user_exists i d"
  "user_exists i (d\<lparr>account_deletion_steps := x6\<rparr>) = user_exists i d"
  by (simp_all add: user_exists_def)

lemma user_exists_users_append [simp]:
  "user_exists i (d\<lparr>users := users d @ [u]\<rparr>) \<longleftrightarrow> user_exists i d \<or> u_ID u = i"
  by (auto simp: user_exists_def)

lemma list_ex_sql_update:
  "(\<And>r. P (f r) = P r) \<Longrightarrow> list_ex P (sql_update Q f t) = list_ex P t"
  by (induction t) (auto simp: sql_update_def)

lemma user_exists_sql_update:
  "(\<And>r. u_ID (f r) = u_ID r) \<Longrightarrow>
     user_exists i (d\<lparr>users := sql_update P f (users d)\<rparr>) = user_exists i d"
  by (simp add: user_exists_def list_ex_sql_update)

lemma user_exists_sql_delete:
  "user_exists i (d\<lparr>users := sql_delete (\<lambda>r. u_ID r = j) (users d)\<rparr>)
     \<longleftrightarrow> user_exists i d \<and> i \<noteq> j"
  by (auto simp: user_exists_iff table_simps)

lemma insert_user_wf: "insert_user u d = Inr (a, d') \<Longrightarrow> db_wf d \<Longrightarrow> db_wf d'"
  by (auto simp: insert_user_def db_wf_def table_simps split: if_splits)

lemma update_user_wf: "update_user u d = Inr (a, d') \<Longrightarrow> db_wf d \<Longrightarrow> db_wf d'"
  by (auto simp: update_user_def db_wf_def unique_col_update_same user_exists_sql_update)

lemma update_user_password_wf:
  "update_user_password now i h d = Inr (a, d') \<Longrightarrow> db_wf d \<Longrightarrow> db_wf d'"
  by (auto simp: update_user_password_def db_wf_def unique_col_update_same user_exists_sql_update)

lemma mark_deletion_pending_wf:
  "mark_deletion_pending now i d = Inr (a, d') \<Longrightarrow> db_wf d \<Longrightarrow> db_wf d'"
  by (auto simp: mark_deletion_pending_def Let_def db_wf_def unique_col_update_same
      user_exists_sql_update)

lemma delete_user_wf: "delete_user i d = Inr (a, d') \<Longrightarrow> db_wf d \<Longrightarrow> db_wf d'"
  by (auto simp: delete_user_def Let_def db_wf_def set_sql_delete user_exists_sql_delete
      split: if_splits)

lemma insert_refresh_token_wf: "insert_refresh_token t d = Inr (a, d') \<Longrightarrow> db_wf d \<Longrightarrow> db_wf d'"
  by (auto simp: insert_refresh_token_def db_wf_def unique_col_snoc split: if_splits)

lemma revoke_token_wf: "revoke_token now i d = Inr (a, d') \<Longrightarrow> db_wf d \<Longrightarrow> db_wf d'"
  by (auto simp: revoke_token_def db_wf_def unique_col_update_same set_sql_update)

lemma revoke_all_tokens_wf: "revoke_all_tokens now i d = Inr (a, d') \<Longrightarrow> db_wf d \<Longrightarrow> db_wf d'"
  by (auto simp: revoke_all_tokens_def db_wf_def unique_col_update_same set_sql_update)

lemma insert_credential_wf: "insert_credential c d = Inr (a, d') \<Longrightarrow> db_wf d \<Longrightarrow> db_wf d'"
  by (auto simp: insert_credential_def db_wf_def unique_col_snoc split: if_splits)

lemma update_credential_wf:
  assumes upd: "update_credential c d = Inr (a, d')" and wf: "db_wf d"
  shows "db_wf d'"
proof (cases "sql_count (\<lambda>r. c_UserID r = c_UserID c) (two_factor_credentials d) = 0")
  case True
  with upd wf show ?thesis by (auto simp: update_credential_def sql_update_none split: if_splits)
next
  case False
  let ?t = "two_factor_credentials d"
    and ?f = "\<lambda>r. c\<lparr>c_UserID := c_UserID r, c_CreatedAt := c_CreatedAt r\<rparr>"
  have d': "d' = d\<lparr>two_factor_credentials := sql_update (\<lambda>r. c_UserID r = c_UserID c) ?f ?t\<rparr>"
    and free: "\<not> conflicts c_SetupTokenHash (c_SetupTokenHash c) (filter (\<lambda>r. c_UserID r \<noteq> c_UserID c) ?t)"
    using upd False by (auto simp: update_credential_def split: if_splits)
  have "unique_col c_SetupTokenHash (sql_update (\<lambda>r. c_UserID r = c_UserID c) ?f ?t)"
    using wf free by (intro unique_col_update_pk [where v = "c_SetupTokenHash c"]) (auto simp: db_wf_def)
  moreover have "\<forall>r \<in> set ?t. user_exists (c_UserID r) d"
    using wf by (simp add: db_wf_def)
  then have "\<forall>r \<in> set (sql_update (\<lambda>r. c_UserID r = c_UserID c) ?f ?t). user_exists (c_UserID r) d"
    by (fastforce simp: set_sql_update)
  ultimately show ?thesis
    using wf by (auto simp: d' db_wf_def unique_col_update_same)
qed

lemma insert_login_challenge_wf:
  "insert_login_challenge c d = Inr (a, d') \<Longrightarrow> db_wf d \<Longrightarrow> db_wf d'"
  by (auto simp: insert_login_challenge_def db_wf_def unique_col_snoc split: if_splits)

lemma consume_login_challenge_wf:
  "consume_login_challenge now i d = Inr (a, d') \<Longrightarrow> db_wf d \<Longrightarrow> db_wf d'"
  by (auto simp: consume_login_challenge_def db_wf_def unique_col_update_same set_sql_update)

lemma insert_reset_flow_wf: "insert_reset_flow f d = Inr (a, d') \<Longrightarrow> db_wf d \<Longrightarrow> db_wf d'"
  by (auto simp: insert_reset_flow_def db_wf_def unique_col_snoc split: if_splits option.splits)

lemma update_reset_flow_wf:
  assumes upd: "update_reset_flow f d = Inr (a, d')" and wf: "db_wf d"
  shows "db_wf d'"
proof (cases "sql_count (\<lambda>r. f_ID r = f_ID f) (password_reset_flows d) = 0")
  case True
  with upd wf show ?thesis by (auto simp: update_reset_flow_def sql_update_none split: if_splits)
next
  case False
  let ?t = "password_reset_flows d"
    and ?g = "\<lambda>r. r\<lparr>f_OTPVerifiedAt := f_OTPVerifiedAt f, f_OTPAttempts := f_OTPAttempts f,
      f_ResetTokenHash := f_ResetTokenHash f, f_ResetTokenExpiresAt := f_ResetTokenExpiresAt f,
      f_ConsumedAt := f_ConsumedAt f\<rparr>"
  have d': "d' = d\<lparr>password_reset_flows := sql_update (\<lambda>r. f_ID r = f_ID f) ?g ?t\<rparr>"
    and free: "\<not> conflicts f_ResetTokenHash (f_ResetTokenHash f) (filter (\<lambda>r. f_ID r \<noteq> f_ID f) ?t)"
    using upd False by (auto simp: update_reset_flow_def split: if_splits)
  have "unique_col f_ResetTokenHash (sql_update (\<lambda>r. f_ID r = f_ID f) ?g ?t)"
    using wf free by (intro unique_col_update_pk [where v = "f_ResetTokenHash f"]) (auto simp: db_wf_def)
  then show ?thesis
    using wf by (auto simp: d' db_wf_def unique_col_update_same set_sql_update)
qed

lemma select_one_same: "select_one P tb d = Inr (r, d') \<Longrightarrow> d' = d \<and> sql_find P (tb d) = Some r"
  by (auto simp: select_one_def split: option.splits)

lemmas stmt_wf =
  insert_user_wf update_user_wf update_user_password_wf mark_deletion_pending_wf delete_user_wf
  insert_refresh_token_wf revoke_token_wf revoke_all_tokens_wf insert_credential_wf
  update_credential_wf insert_login_challenge_wf consume_login_challenge_wf
  insert_reset_flow_wf update_reset_flow_wf


section \<open>What each method does\<close>

text \<open>
  \<open>unchanged w w'\<close>: only clock, random source, generators and faults may have
  moved. \<open>db_only w w'\<close>: the external state and the goroutines are the same.
\<close>

abbreviation unchanged :: "'x world \<Rightarrow> 'x world \<Rightarrow> bool" where
  "unchanged w w' \<equiv> w_db w' = w_db w \<and> w_ext w' = w_ext w \<and> w_cleanups w' = w_cleanups w"

abbreviation db_only :: "'x world \<Rightarrow> 'x world \<Rightarrow> bool" where
  "db_only w w' \<equiv> w_ext w' = w_ext w \<and> w_cleanups w' = w_cleanups w"

lemma scan_Inr:
  assumes "tryM (exec_sql (select_one P tb))
      (\<lambda>e. if errors_Is e Pgx_ErrNoRows then fail (Sentinel s) else fail (Wrap msg e)) ret w = (Inr r, w')"
  shows "sql_find P (tb (w_db w)) = Some r \<and> unchanged w w'"
  using assms by (auto simp: peel split: if_splits dest!: exec_sql_Inr select_one_same)

lemma scan_Inl:
  assumes "tryM (exec_sql (select_one P tb))
      (\<lambda>e. if errors_Is e Pgx_ErrNoRows then fail (Sentinel s) else fail (Wrap msg e)) ret w = (Inl e, w')"
  shows "unchanged w w' \<and> (e = Sentinel s \<and> sql_find P (tb (w_db w)) = None \<or> (\<exists>m. e = Wrap msg (Opaque m)))"
  using assms
  by (auto simp: peel select_one_def split: if_splits option.splits dest!: exec_sql_Inl)

lemma users_GetByEmail_Inr [repo_spec]:
  "users_GetByEmail e w = (Inr u, w') \<Longrightarrow>
     sql_find (\<lambda>u. u_Email u = e) (users (w_db w)) = Some u \<and> unchanged w w'"
  unfolding users_GetByEmail_def users_scanOne_def by (rule scan_Inr)

lemma users_GetByID_Inr [repo_spec]:
  "users_GetByID i w = (Inr u, w') \<Longrightarrow>
     sql_find (\<lambda>u. u_ID u = i) (users (w_db w)) = Some u \<and> unchanged w w'"
  unfolding users_GetByID_def users_scanOne_def by (rule scan_Inr)

lemma refreshTokens_GetByHash_Inr [repo_spec]:
  "refreshTokens_GetByHash h w = (Inr t, w') \<Longrightarrow>
     sql_find (\<lambda>t. rt_TokenHash t = h) (refresh_tokens (w_db w)) = Some t \<and> unchanged w w'"
  unfolding refreshTokens_GetByHash_def by (rule scan_Inr)

lemma credentials_GetByUserID_Inr [repo_spec]:
  "credentials_GetByUserID i w = (Inr c, w') \<Longrightarrow>
     sql_find (\<lambda>c. c_UserID c = i) (two_factor_credentials (w_db w)) = Some c \<and> unchanged w w'"
  unfolding credentials_GetByUserID_def credentials_scanOne_def by (rule scan_Inr)

lemma credentials_GetBySetupTokenHash_Inr [repo_spec]:
  "credentials_GetBySetupTokenHash h w = (Inr c, w') \<Longrightarrow>
     sql_find (\<lambda>c. c_SetupTokenHash c = Some h) (two_factor_credentials (w_db w)) = Some c \<and> unchanged w w'"
  unfolding credentials_GetBySetupTokenHash_def credentials_scanOne_def by (rule scan_Inr)

lemma loginChallenges_GetByHash_Inr [repo_spec]:
  "loginChallenges_GetByHash h w = (Inr c, w') \<Longrightarrow>
     sql_find (\<lambda>c. lc_TokenHash c = h) (login_challenges (w_db w)) = Some c \<and> unchanged w w'"
  unfolding loginChallenges_GetByHash_def by (rule scan_Inr)

lemma passwordResetFlows_GetByFlowTokenHash_Inr [repo_spec]:
  "passwordResetFlows_GetByFlowTokenHash h w = (Inr f, w') \<Longrightarrow>
     sql_find (\<lambda>f. f_FlowTokenHash f = h) (password_reset_flows (w_db w)) = Some f \<and> unchanged w w'"
  unfolding passwordResetFlows_GetByFlowTokenHash_def passwordResetFlows_scanOne_def by (rule scan_Inr)

lemma passwordResetFlows_GetByResetTokenHash_Inr [repo_spec]:
  "passwordResetFlows_GetByResetTokenHash h w = (Inr f, w') \<Longrightarrow>
     sql_find (\<lambda>f. f_ResetTokenHash f = Some h) (password_reset_flows (w_db w)) = Some f \<and> unchanged w w'"
  unfolding passwordResetFlows_GetByResetTokenHash_def passwordResetFlows_scanOne_def by (rule scan_Inr)

lemma users_GetByEmail_Inl:
  "users_GetByEmail m w = (Inl e, w') \<Longrightarrow>
     unchanged w w' \<and> (errors_Is e User_ErrNotFound \<longrightarrow> sql_find (\<lambda>u. u_Email u = m) (users (w_db w)) = None)"
  unfolding users_GetByEmail_def users_scanOne_def by (drule scan_Inl) auto

lemma users_GetByID_Inl:
  "users_GetByID i w = (Inl e, w') \<Longrightarrow>
     unchanged w w' \<and> (errors_Is e User_ErrNotFound \<longrightarrow> sql_find (\<lambda>u. u_ID u = i) (users (w_db w)) = None)"
  unfolding users_GetByID_def users_scanOne_def by (drule scan_Inl) auto

lemma refreshTokens_GetByHash_Inl:
  "refreshTokens_GetByHash h w = (Inl e, w') \<Longrightarrow>
     unchanged w w' \<and>
     (errors_Is e Token_ErrNotFound \<longrightarrow> sql_find (\<lambda>t. rt_TokenHash t = h) (refresh_tokens (w_db w)) = None)"
  unfolding refreshTokens_GetByHash_def by (drule scan_Inl) auto

lemma credentials_GetByUserID_Inl:
  "credentials_GetByUserID i w = (Inl e, w') \<Longrightarrow>
     unchanged w w' \<and>
     (errors_Is e Totp_ErrNotFound \<longrightarrow> sql_find (\<lambda>c. c_UserID c = i) (two_factor_credentials (w_db w)) = None)"
  unfolding credentials_GetByUserID_def credentials_scanOne_def by (drule scan_Inl) auto

lemma credentials_GetBySetupTokenHash_Inl:
  "credentials_GetBySetupTokenHash h w = (Inl e, w') \<Longrightarrow> unchanged w w'"
  unfolding credentials_GetBySetupTokenHash_def credentials_scanOne_def by (drule scan_Inl) auto

lemma loginChallenges_GetByHash_Inl:
  "loginChallenges_GetByHash h w = (Inl e, w') \<Longrightarrow> unchanged w w'"
  unfolding loginChallenges_GetByHash_def by (drule scan_Inl) auto

lemma passwordResetFlows_GetByFlowTokenHash_Inl:
  "passwordResetFlows_GetByFlowTokenHash h w = (Inl e, w') \<Longrightarrow> unchanged w w'"
  unfolding passwordResetFlows_GetByFlowTokenHash_def passwordResetFlows_scanOne_def by (drule scan_Inl) auto

lemma passwordResetFlows_GetByResetTokenHash_Inl:
  "passwordResetFlows_GetByResetTokenHash h w = (Inl e, w') \<Longrightarrow> unchanged w w'"
  unfolding passwordResetFlows_GetByResetTokenHash_def passwordResetFlows_scanOne_def by (drule scan_Inl) auto

text \<open>Writes on success: the statement ran, with the time the database read.\<close>

lemma users_Create_Inr [repo_spec]:
  "users_Create u w = (Inr (), w') \<Longrightarrow> insert_user u (w_db w) = Inr ((), w_db w') \<and> db_only w w'"
  by (auto simp: users_Create_def peel split: if_splits dest!: exec_sql_Inr)

lemma users_Update_Inr [repo_spec]:
  "users_Update u w = (Inr (), w') \<Longrightarrow>
     (\<exists>n. n \<noteq> 0 \<and> update_user u (w_db w) = Inr (n, w_db w')) \<and> db_only w w'"
  by (fastforce simp: users_Update_def peel split: if_splits dest!: exec_sql_Inr)

lemma users_UpdatePassword_Inr [repo_spec]:
  "users_UpdatePassword i h w = (Inr (), w') \<Longrightarrow>
     (\<exists>now n. n \<noteq> 0 \<and> update_user_password now i h (w_db w) = Inr (n, w_db w')) \<and> db_only w w'"
  by (fastforce simp: users_UpdatePassword_def peel split: if_splits dest!: exec_sql_Inr)

lemma users_Delete_Inr [repo_spec]:
  "users_Delete i w = (Inr (), w') \<Longrightarrow>
     (\<exists>n. n \<noteq> 0 \<and> delete_user i (w_db w) = Inr (n, w_db w')) \<and> db_only w w'"
  by (fastforce simp: users_Delete_def peel split: if_splits dest!: exec_sql_Inr)

lemma refreshTokens_Create_Inr [repo_spec]:
  "refreshTokens_Create t w = (Inr (), w') \<Longrightarrow>
     insert_refresh_token t (w_db w) = Inr ((), w_db w') \<and> db_only w w'"
  by (auto simp: refreshTokens_Create_def peel dest!: exec_sql_Inr)

lemma refreshTokens_Revoke_Inr [repo_spec]:
  "refreshTokens_Revoke i w = (Inr (), w') \<Longrightarrow>
     (\<exists>now. revoke_token now i (w_db w) = Inr ((), w_db w')) \<and> db_only w w'"
  by (fastforce simp: refreshTokens_Revoke_def peel dest!: exec_sql_Inr)

lemma refreshTokens_RevokeAllForUser_Inr [repo_spec]:
  "refreshTokens_RevokeAllForUser i w = (Inr (), w') \<Longrightarrow>
     (\<exists>now. revoke_all_tokens now i (w_db w) = Inr ((), w_db w')) \<and> db_only w w'"
  by (fastforce simp: refreshTokens_RevokeAllForUser_def peel dest!: exec_sql_Inr)

lemma credentials_Create_Inr [repo_spec]:
  "credentials_Create c w = (Inr (), w') \<Longrightarrow>
     insert_credential c (w_db w) = Inr ((), w_db w') \<and> db_only w w'"
  by (auto simp: credentials_Create_def peel dest!: exec_sql_Inr)

lemma credentials_Update_Inr [repo_spec]:
  "credentials_Update c w = (Inr (), w') \<Longrightarrow>
     (\<exists>n. n \<noteq> 0 \<and> update_credential c (w_db w) = Inr (n, w_db w')) \<and> db_only w w'"
  by (fastforce simp: credentials_Update_def peel split: if_splits dest!: exec_sql_Inr)

lemma loginChallenges_Create_Inr [repo_spec]:
  "loginChallenges_Create c w = (Inr (), w') \<Longrightarrow>
     insert_login_challenge c (w_db w) = Inr ((), w_db w') \<and> db_only w w'"
  by (auto simp: loginChallenges_Create_def peel dest!: exec_sql_Inr)

lemma loginChallenges_Consume_Inr [repo_spec]:
  "loginChallenges_Consume i w = (Inr (), w') \<Longrightarrow>
     (\<exists>now. consume_login_challenge now i (w_db w) = Inr ((), w_db w')) \<and> db_only w w'"
  by (fastforce simp: loginChallenges_Consume_def peel dest!: exec_sql_Inr)

lemma passwordResetFlows_Create_Inr [repo_spec]:
  "passwordResetFlows_Create f w = (Inr (), w') \<Longrightarrow>
     insert_reset_flow f (w_db w) = Inr ((), w_db w') \<and> db_only w w'"
  by (auto simp: passwordResetFlows_Create_def peel dest!: exec_sql_Inr)

lemma passwordResetFlows_Update_Inr [repo_spec]:
  "passwordResetFlows_Update f w = (Inr (), w') \<Longrightarrow>
     (\<exists>n. n \<noteq> 0 \<and> update_reset_flow f (w_db w) = Inr (n, w_db w')) \<and> db_only w w'"
  by (fastforce simp: passwordResetFlows_Update_def peel split: if_splits dest!: exec_sql_Inr)

text \<open>Writes that fail change nothing.\<close>

lemma users_Create_Inl: "users_Create u w = (Inl e, w') \<Longrightarrow> unchanged w w'"
  by (auto simp: users_Create_def peel split: if_splits dest!: exec_sql_Inl)

lemma users_Update_Inl: "users_Update u w = (Inl e, w') \<Longrightarrow> unchanged w w'"
  by (auto simp: users_Update_def wrapM_peel_Inl update_user_def sql_update_none split: if_splits
      dest!: exec_sql_Inl exec_sql_Inr)

lemma users_UpdatePassword_Inl: "users_UpdatePassword i h w = (Inl e, w') \<Longrightarrow> unchanged w w'"
  by (auto simp: users_UpdatePassword_def bindM_peel_Inl wrapM_peel_Inl update_user_password_def
      sql_update_none split: if_splits dest!: exec_sql_Inl exec_sql_Inr)

lemma users_Delete_Inl: "users_Delete i w = (Inl e, w') \<Longrightarrow> unchanged w w'"
  by (auto simp: users_Delete_def wrapM_peel_Inl delete_user_def Let_def split: if_splits
      dest!: exec_sql_Inl exec_sql_Inr)

lemma refreshTokens_Create_Inl: "refreshTokens_Create t w = (Inl e, w') \<Longrightarrow> unchanged w w'"
  by (auto simp: refreshTokens_Create_def wrapM_peel_Inl dest!: exec_sql_Inl)

lemma refreshTokens_Revoke_Inl: "refreshTokens_Revoke i w = (Inl e, w') \<Longrightarrow> unchanged w w'"
  by (auto simp: refreshTokens_Revoke_def bindM_peel_Inl wrapM_peel_Inl dest!: exec_sql_Inl)

lemma refreshTokens_RevokeAllForUser_Inl:
  "refreshTokens_RevokeAllForUser i w = (Inl e, w') \<Longrightarrow> unchanged w w'"
  by (auto simp: refreshTokens_RevokeAllForUser_def bindM_peel_Inl wrapM_peel_Inl dest!: exec_sql_Inl)

lemma credentials_Create_Inl: "credentials_Create c w = (Inl e, w') \<Longrightarrow> unchanged w w'"
  by (auto simp: credentials_Create_def wrapM_peel_Inl dest!: exec_sql_Inl)

lemma credentials_Update_Inl: "credentials_Update c w = (Inl e, w') \<Longrightarrow> unchanged w w'"
  by (auto simp: credentials_Update_def wrapM_peel_Inl update_credential_def sql_update_none
      split: if_splits dest!: exec_sql_Inl exec_sql_Inr)

lemma loginChallenges_Create_Inl: "loginChallenges_Create c w = (Inl e, w') \<Longrightarrow> unchanged w w'"
  by (auto simp: loginChallenges_Create_def wrapM_peel_Inl dest!: exec_sql_Inl)

lemma loginChallenges_Consume_Inl: "loginChallenges_Consume i w = (Inl e, w') \<Longrightarrow> unchanged w w'"
  by (auto simp: loginChallenges_Consume_def bindM_peel_Inl wrapM_peel_Inl dest!: exec_sql_Inl)

lemma passwordResetFlows_Create_Inl: "passwordResetFlows_Create f w = (Inl e, w') \<Longrightarrow> unchanged w w'"
  by (auto simp: passwordResetFlows_Create_def wrapM_peel_Inl dest!: exec_sql_Inl)

lemma passwordResetFlows_Update_Inl: "passwordResetFlows_Update f w = (Inl e, w') \<Longrightarrow> unchanged w w'"
  by (auto simp: passwordResetFlows_Update_def wrapM_peel_Inl update_reset_flow_def sql_update_none
      split: if_splits dest!: exec_sql_Inl exec_sql_Inr)

lemmas repo_failed =
  users_GetByEmail_Inl users_GetByID_Inl refreshTokens_GetByHash_Inl credentials_GetByUserID_Inl
  credentials_GetBySetupTokenHash_Inl loginChallenges_GetByHash_Inl
  passwordResetFlows_GetByFlowTokenHash_Inl passwordResetFlows_GetByResetTokenHash_Inl
  users_Create_Inl users_Update_Inl users_UpdatePassword_Inl users_Delete_Inl
  refreshTokens_Create_Inl refreshTokens_Revoke_Inl refreshTokens_RevokeAllForUser_Inl
  credentials_Create_Inl credentials_Update_Inl loginChallenges_Create_Inl
  loginChallenges_Consume_Inl passwordResetFlows_Create_Inl passwordResetFlows_Update_Inl

section \<open>Frames over the database\<close>

definition stmt_keeps :: "(db \<Rightarrow> db \<Rightarrow> bool) \<Rightarrow> 'a stmt \<Rightarrow> bool" where
  "stmt_keeps D st \<longleftrightarrow> (\<forall>d a d'. st d = Inr (a, d') \<longrightarrow> D d d')"

lemma stmt_keepsI [intro?]: "(\<And>d a d'. st d = Inr (a, d') \<Longrightarrow> D d d') \<Longrightarrow> stmt_keeps D st"
  by (simp add: stmt_keeps_def)

text \<open>
  A reflexive and transitive relation on databases. A computation keeps it when
  the statements it executes do; reading, calling out and starting a
  goroutine always do.
\<close>

locale db_frame =
  fixes D :: "db \<Rightarrow> db \<Rightarrow> bool"
  assumes db_refl: "D d d"
    and db_trans: "D a b \<Longrightarrow> D b c \<Longrightarrow> D a c"

sublocale db_frame \<subseteq> world_frame "\<lambda>w w'. D (w_db w) (w_db w')"
  by unfold_locales (auto intro: db_refl db_trans)

context db_frame
begin

abbreviation keepsD :: "('x world, 'a) comp \<Rightarrow> bool" where
  "keepsD \<equiv> keeps (\<lambda>w w'. D (w_db w) (w_db w'))"

lemma keeps_exec_sql: "stmt_keeps D st \<Longrightarrow> keepsD (exec_sql st)"
  by (rule keepsI) (auto simp: exec_sql_def fallible_def stmt_keeps_def db_refl
      split: prod.splits option.splits sum.splits)

lemma keeps_external: "keepsD (external f)"
  by (rule keepsI) (auto simp: db_refl)

lemma keeps_select_one: "stmt_keeps D (select_one P tb)"
  by (auto simp: stmt_keeps_def db_refl dest: select_one_same)

lemma keeps_transaction:
  assumes "\<And>now. keepsD (body now)"
  shows "keepsD (transaction wb body)"
proof -
  have "keepsD (in_tx (body now))" for now
    by (rule keepsI)
       (auto simp: in_tx_def db_refl split: prod.splits sum.splits option.splits dest: keepsD [OF assms])
  then show ?thesis unfolding transaction_def by (intro base_intros)
qed

lemma keeps_reads:
  "keepsD (users_GetByEmail e)" "keepsD (users_GetByID i)" "keepsD (refreshTokens_GetByHash h)"
  "keepsD (credentials_GetByUserID i)" "keepsD (credentials_GetBySetupTokenHash h)"
  "keepsD (loginChallenges_GetByHash h)" "keepsD (passwordResetFlows_GetByFlowTokenHash h)"
  "keepsD (passwordResetFlows_GetByResetTokenHash h)"
  unfolding users_GetByEmail_def users_GetByID_def users_scanOne_def refreshTokens_GetByHash_def
    credentials_GetByUserID_def credentials_GetBySetupTokenHash_def credentials_scanOne_def
    loginChallenges_GetByHash_def passwordResetFlows_GetByFlowTokenHash_def
    passwordResetFlows_GetByResetTokenHash_def passwordResetFlows_scanOne_def
  by (intro domain_intros keeps_exec_sql keeps_select_one)+

lemma keeps_users_Create: "stmt_keeps D (insert_user u) \<Longrightarrow> keepsD (users_Create u)"
  unfolding users_Create_def by (intro domain_intros keeps_exec_sql)

lemma keeps_users_Update: "stmt_keeps D (update_user u) \<Longrightarrow> keepsD (users_Update u)"
  unfolding users_Update_def by (intro domain_intros keeps_exec_sql)

lemma keeps_users_UpdatePassword:
  "(\<And>now. stmt_keeps D (update_user_password now i h)) \<Longrightarrow> keepsD (users_UpdatePassword i h)"
  unfolding users_UpdatePassword_def by (intro domain_intros keeps_exec_sql)

lemma keeps_users_Delete: "stmt_keeps D (delete_user i) \<Longrightarrow> keepsD (users_Delete i)"
  unfolding users_Delete_def by (intro domain_intros keeps_exec_sql)

lemma keeps_refreshTokens_Create:
  "stmt_keeps D (insert_refresh_token t) \<Longrightarrow> keepsD (refreshTokens_Create t)"
  unfolding refreshTokens_Create_def by (intro domain_intros keeps_exec_sql)

lemma keeps_refreshTokens_Revoke:
  "(\<And>now. stmt_keeps D (revoke_token now i)) \<Longrightarrow> keepsD (refreshTokens_Revoke i)"
  unfolding refreshTokens_Revoke_def by (intro domain_intros keeps_exec_sql)

lemma keeps_refreshTokens_RevokeAllForUser:
  "(\<And>now. stmt_keeps D (revoke_all_tokens now i)) \<Longrightarrow> keepsD (refreshTokens_RevokeAllForUser i)"
  unfolding refreshTokens_RevokeAllForUser_def by (intro domain_intros keeps_exec_sql)

lemma keeps_credentials_Create:
  "stmt_keeps D (insert_credential c) \<Longrightarrow> keepsD (credentials_Create c)"
  unfolding credentials_Create_def by (intro domain_intros keeps_exec_sql)

lemma keeps_credentials_Update:
  "stmt_keeps D (update_credential c) \<Longrightarrow> keepsD (credentials_Update c)"
  unfolding credentials_Update_def by (intro domain_intros keeps_exec_sql)

lemma keeps_loginChallenges_Create:
  "stmt_keeps D (insert_login_challenge c) \<Longrightarrow> keepsD (loginChallenges_Create c)"
  unfolding loginChallenges_Create_def by (intro domain_intros keeps_exec_sql)

lemma keeps_loginChallenges_Consume:
  "(\<And>now. stmt_keeps D (consume_login_challenge now i)) \<Longrightarrow> keepsD (loginChallenges_Consume i)"
  unfolding loginChallenges_Consume_def by (intro domain_intros keeps_exec_sql)

lemma keeps_passwordResetFlows_Create:
  "stmt_keeps D (insert_reset_flow f) \<Longrightarrow> keepsD (passwordResetFlows_Create f)"
  unfolding passwordResetFlows_Create_def by (intro domain_intros keeps_exec_sql)

lemma keeps_passwordResetFlows_Update:
  "stmt_keeps D (update_reset_flow f) \<Longrightarrow> keepsD (passwordResetFlows_Update f)"
  unfolding passwordResetFlows_Update_def by (intro domain_intros keeps_exec_sql)

lemmas repo_intros =
  domain_intros keeps_external keeps_reads keeps_users_Create keeps_users_Update
  keeps_users_UpdatePassword keeps_users_Delete keeps_refreshTokens_Create
  keeps_refreshTokens_Revoke keeps_refreshTokens_RevokeAllForUser keeps_credentials_Create
  keeps_credentials_Update keeps_loginChallenges_Create keeps_loginChallenges_Consume
  keeps_passwordResetFlows_Create keeps_passwordResetFlows_Update

end

end
