(* ===== verification/Go_Strings.thy ===== *)
theory Go_Strings
  imports Prelude
begin

text \<open>
  The parts of Go's string library the program uses, on byte strings:
  \<open>strings.TrimSpace\<close>, \<open>strings.ToLower\<close>, \<open>strings.TrimPrefix\<close>,
  \<open>strings.TrimRight\<close>, \<open>strings.ContainsAny\<close>, and the encodings \<open>hex\<close> and
  \<open>base64.RawURLEncoding\<close>. ASCII text follows the library's fast path; where
  the library consults the Unicode tables, the tables are the parameter
  \<open>unicode\<close>.
\<close>

section \<open>Bytes and strings\<close>

definition bytes_of_string :: "string \<Rightarrow> byte list" where
  "bytes_of_string s = map (\<lambda>c. of_nat (of_char c)) s"

definition string_of_bytes :: "byte list \<Rightarrow> string" where
  "string_of_bytes bs = map (\<lambda>b. char_of (unat b)) bs"

definition byte_of :: "char \<Rightarrow> nat" where
  "byte_of c = of_char c"

lemma byte_of_less [simp]: "byte_of c < 256"
  by (simp add: byte_of_def)

lemma string_of_bytes_of_string [simp]: "string_of_bytes (bytes_of_string s) = s"
proof -
  have "char_of (unat (of_nat (of_char c) :: byte)) = c" for c
    by (simp add: unat_of_nat)
  then show ?thesis by (simp add: string_of_bytes_def bytes_of_string_def comp_def)
qed

section \<open>Trimming and case\<close>

record unicode =
  un_ToLower :: "string \<Rightarrow> string"
  un_TrimFunc :: "string \<Rightarrow> string"
  un_TrimRightFunc :: "string \<Rightarrow> string"

definition is_ascii :: "char \<Rightarrow> bool" where
  "is_ascii c \<longleftrightarrow> byte_of c < 128"

definition ascii_space :: "char \<Rightarrow> bool" where
  "ascii_space c \<longleftrightarrow> byte_of c \<in> {9, 10, 11, 12, 13, 32}"

definition ascii_lower :: "char \<Rightarrow> char" where
  "ascii_lower c = (if 65 \<le> byte_of c \<and> byte_of c \<le> 90 then char_of (byte_of c + 32) else c)"

definition strings_ToLower :: "unicode \<Rightarrow> string \<Rightarrow> string" where
  "strings_ToLower un s = (if list_all is_ascii s then map ascii_lower s else un_ToLower un s)"

text \<open>The loop from the end of the string, on the reversed string.\<close>

fun trim_right :: "unicode \<Rightarrow> string \<Rightarrow> string" where
  "trim_right un [] = []"
| "trim_right un (c # r) =
     (if \<not> is_ascii c then un_TrimRightFunc un (rev (c # r))
      else if \<not> ascii_space c then rev (c # r)
      else trim_right un r)"

fun strings_TrimSpace :: "unicode \<Rightarrow> string \<Rightarrow> string" where
  "strings_TrimSpace un [] = []"
| "strings_TrimSpace un (c # s) =
     (if \<not> is_ascii c then un_TrimFunc un (c # s)
      else if ascii_space c then strings_TrimSpace un s
      else trim_right un (rev (c # s)))"

definition strings_TrimPrefix :: "string \<Rightarrow> string \<Rightarrow> string" where
  "strings_TrimPrefix s p = (if take (length p) s = p then drop (length p) s else s)"

definition strings_TrimRight :: "string \<Rightarrow> char \<Rightarrow> string" where
  "strings_TrimRight s c = rev (dropWhile (\<lambda>x. x = c) (rev s))"

definition strings_ContainsAny :: "string \<Rightarrow> string \<Rightarrow> bool" where
  "strings_ContainsAny s chars \<longleftrightarrow> list_ex (\<lambda>c. c \<in> set chars) s"

lemma ascii_lower_ascii: "is_ascii c \<Longrightarrow> is_ascii (ascii_lower c)"
  by (auto simp: is_ascii_def ascii_lower_def byte_of_def)

lemma ascii_lower_idem: "ascii_lower (ascii_lower c) = ascii_lower c"
  by (auto simp: ascii_lower_def byte_of_def)

lemma ascii_lower_space: "ascii_space (ascii_lower c) = ascii_space c"
  by (auto simp: ascii_space_def ascii_lower_def byte_of_def)

lemma trim_right_ascii:
  "list_all is_ascii s \<Longrightarrow> trim_right un s = rev (dropWhile ascii_space s)"
  by (induction s) auto

lemma strings_TrimSpace_ascii:
  "list_all is_ascii s \<Longrightarrow>
     strings_TrimSpace un s = rev (dropWhile ascii_space (rev (dropWhile ascii_space s)))"
  by (induction s) (auto simp: trim_right_ascii list_all_iff)

lemma list_all_dropWhile: "list_all P s \<Longrightarrow> list_all P (dropWhile Q s)"
  by (induction s) auto

lemma strings_TrimSpace_is_ascii:
  "list_all is_ascii s \<Longrightarrow> list_all is_ascii (strings_TrimSpace un s)"
  by (auto simp: strings_TrimSpace_ascii list_all_iff dest!: set_dropWhileD)

text \<open>On ASCII text, trimming leaves no white space at either end and is idempotent.\<close>

lemma dropWhile_hd: "dropWhile P s = c # r \<Longrightarrow> \<not> P c"
  by (induction s) (auto split: if_splits)

lemma dropWhile_id: "(s = [] \<or> \<not> P (hd s)) \<Longrightarrow> dropWhile P s = s"
  by (cases s) auto

lemma trim_ends:
  assumes t: "t = rev (dropWhile ascii_space (rev (dropWhile ascii_space s)))"
  shows "t = [] \<or> \<not> ascii_space (hd t) \<and> \<not> ascii_space (last t)"
proof (cases t)
  case (Cons c r)
  let ?u = "dropWhile ascii_space s" and ?v = "dropWhile ascii_space (rev (dropWhile ascii_space s))"
  have v: "rev ?v = c # r" using t Cons by simp
  have "rev ?u = takeWhile ascii_space (rev ?u) @ ?v" by simp
  then have "?u = rev ?v @ rev (takeWhile ascii_space (rev ?u))"
    by (metis rev_append rev_rev_ident)
  then have "?u = c # (r @ rev (takeWhile ascii_space (rev ?u)))"
    unfolding v by simp
  then have "\<not> ascii_space c" by (rule dropWhile_hd)
  moreover have ne: "?v \<noteq> []" using v by auto
  then have "last t = hd ?v" unfolding t by (simp only: last_rev)
  moreover have "\<not> ascii_space (hd ?v)" using ne by (rule hd_dropWhile)
  ultimately show ?thesis using Cons by simp
qed simp

section \<open>Encodings\<close>

definition hex_digits :: string where
  "hex_digits = ''0123456789abcdef''"

definition hex_EncodeToString :: "byte list \<Rightarrow> string" where
  "hex_EncodeToString bs =
     concat (map (\<lambda>b. [hex_digits ! (unat b div 16), hex_digits ! (unat b mod 16)]) bs)"

definition b64_url_alphabet :: string where
  "b64_url_alphabet = ''ABCDEFGHIJKLMNOPQRSTUVWXYZabcdefghijklmnopqrstuvwxyz0123456789-_''"

definition b64_char :: "nat \<Rightarrow> char" where
  "b64_char n = b64_url_alphabet ! n"

fun base64_RawURL_Encode :: "byte list \<Rightarrow> string" where
  "base64_RawURL_Encode [] = []"
| "base64_RawURL_Encode [a] =
     [b64_char (unat a div 4), b64_char (unat a mod 4 * 16)]"
| "base64_RawURL_Encode [a, b] =
     [b64_char (unat a div 4), b64_char (unat a mod 4 * 16 + unat b div 16),
      b64_char (unat b mod 16 * 4)]"
| "base64_RawURL_Encode (a # b # c # r) =
     [b64_char (unat a div 4), b64_char (unat a mod 4 * 16 + unat b div 16),
      b64_char (unat b mod 16 * 4 + unat c div 64), b64_char (unat c mod 64)]
     @ base64_RawURL_Encode r"

lemma length_hex_EncodeToString: "length (hex_EncodeToString bs) = 2 * length bs"
  by (induction bs) (auto simp: hex_EncodeToString_def)

lemma unat_byte_less: "unat (b :: byte) < 256"
  using unsigned_less [of b] by simp

lemma hex_digits_length [simp]: "length hex_digits = 16"
  by (simp add: hex_digits_def)

lemma hex_EncodeToString_alphabet: "set (hex_EncodeToString bs) \<subseteq> set hex_digits"
proof -
  have "hex_digits ! (unat b div 16) \<in> set hex_digits" "hex_digits ! (unat b mod 16) \<in> set hex_digits"
    for b :: byte
    using unat_byte_less [of b] by (auto intro!: nth_mem)
  then show ?thesis by (auto simp: hex_EncodeToString_def)
qed

lemma distinct_alphabets: "distinct hex_digits" "distinct b64_url_alphabet"
  by (simp_all add: hex_digits_def b64_url_alphabet_def)

lemma b64_alphabet_length [simp]: "length b64_url_alphabet = 64"
  by (simp add: b64_url_alphabet_def)

lemma b64_char_inj: "m < 64 \<Longrightarrow> n < 64 \<Longrightarrow> b64_char m = b64_char n \<longleftrightarrow> m = n"
  by (simp add: b64_char_def nth_eq_iff_index_eq distinct_alphabets)

lemma byte_sextets:
  fixes a b :: byte
  shows "unat a div 4 < 64" "unat a mod 4 * 16 + unat b div 16 < 64"
    "unat a mod 4 * 16 < 64" "unat b mod 16 * 4 + unat a div 64 < 64" "unat b mod 16 * 4 < 64"
    "unat a mod 64 < 64"
  using unat_byte_less [of a] unat_byte_less [of b] by arith+

lemma hex_EncodeToString_inj: "hex_EncodeToString xs = hex_EncodeToString ys \<Longrightarrow> xs = ys"
proof (induction xs arbitrary: ys)
  case Nil
  then show ?case by (cases ys) (auto simp: hex_EncodeToString_def)
next
  case (Cons x xs)
  then obtain y ys' where ys: "ys = y # ys'" by (cases ys) (auto simp: hex_EncodeToString_def)
  have len: "unat x div 16 < 16" "unat y div 16 < 16" "unat x mod 16 < 16" "unat y mod 16 < 16"
    using unat_byte_less [of x] unat_byte_less [of y] by arith+
  from Cons.prems ys have
    "hex_digits ! (unat x div 16) = hex_digits ! (unat y div 16)"
    "hex_digits ! (unat x mod 16) = hex_digits ! (unat y mod 16)"
    and rest: "hex_EncodeToString xs = hex_EncodeToString ys'"
    by (auto simp: hex_EncodeToString_def)
  with len have "unat x div 16 = unat y div 16" "unat x mod 16 = unat y mod 16"
    by (auto simp: nth_eq_iff_index_eq distinct_alphabets)
  then have "unat x = unat y" by (metis div_mult_mod_eq)
  then show ?case using Cons.IH [OF rest] ys by (simp add: word_unat_eq_iff)
qed

lemma base64_RawURL_Encode_alphabet: "set (base64_RawURL_Encode bs) \<subseteq> set b64_url_alphabet"
  by (induction bs rule: base64_RawURL_Encode.induct)
     (auto simp: b64_char_def byte_sextets)

lemma base64_RawURL_Encode_length:
  "length (base64_RawURL_Encode bs) = (4 * length bs + 2) div 3"
  by (induction bs rule: base64_RawURL_Encode.induct) auto

lemma digits_inj:
  assumes "p * m + q = p' * m + q'" and "q < m" and "q' < (m :: nat)"
  shows "p = p' \<and> q = q'"
proof
  have "(p * m + q) div m = (p' * m + q') div m" using assms(1) by simp
  then show "p = p'" using assms(2,3) by simp
  with assms(1) show "q = q'" by simp
qed

lemma div_mod_inj: "a div m = a' div m \<Longrightarrow> a mod m = a' mod m \<Longrightarrow> a = (a' :: nat)"
  by (metis div_mult_mod_eq)

lemma byte_quotients: "unat (b :: byte) div 16 < 16" "unat b div 64 < 4"
  using unat_byte_less [of b] by arith+

lemma base64_RawURL_Encode_inj:
  "length xs = length ys \<Longrightarrow> base64_RawURL_Encode xs = base64_RawURL_Encode ys \<Longrightarrow> xs = ys"
proof (induction xs arbitrary: ys rule: base64_RawURL_Encode.induct)
  case 1
  then show ?case by simp
next
  case (2 a)
  then obtain a' where ys: "ys = [a']" by (cases ys) auto
  with 2 have "unat a div 4 = unat a' div 4" "unat a mod 4 * 16 = unat a' mod 4 * 16"
    by (simp_all add: b64_char_inj byte_sextets)
  then have "unat a div 4 = unat a' div 4" "unat a mod 4 = unat a' mod 4" by simp_all
  then have "unat a = unat a'" by (rule div_mod_inj)
  with ys show ?case by (simp add: word_unat_eq_iff)
next
  case (3 a b)
  then obtain a' b' where ys: "ys = [a', b']"
    by (cases ys; cases "tl ys") auto
  with 3 have "unat a div 4 = unat a' div 4"
    "unat a mod 4 * 16 + unat b div 16 = unat a' mod 4 * 16 + unat b' div 16"
    "unat b mod 16 * 4 = unat b' mod 16 * 4"
    by (simp_all add: b64_char_inj byte_sextets)
  then have "unat a mod 4 = unat a' mod 4 \<and> unat b div 16 = unat b' div 16" "unat b mod 16 = unat b' mod 16"
    using digits_inj [of "unat a mod 4" 16 "unat b div 16"] byte_quotients by auto
  then have "unat a = unat a'" "unat b = unat b'"
    using \<open>unat a div 4 = unat a' div 4\<close> by (auto intro: div_mod_inj)
  with ys show ?case by (simp add: word_unat_eq_iff)
next
  case (4 a b c r)
  then obtain a' b' c' r' where ys: "ys = a' # b' # c' # r'"
    by (cases ys; cases "tl ys"; cases "tl (tl ys)") auto
  with "4.prems" have e: "unat a div 4 = unat a' div 4"
    "unat a mod 4 * 16 + unat b div 16 = unat a' mod 4 * 16 + unat b' div 16"
    "unat b mod 16 * 4 + unat c div 64 = unat b' mod 16 * 4 + unat c' div 64"
    "unat c mod 64 = unat c' mod 64"
    and rest: "base64_RawURL_Encode r = base64_RawURL_Encode r'"
    by (simp_all add: b64_char_inj byte_sextets)
  from e(2) have ab: "unat a mod 4 = unat a' mod 4" "unat b div 16 = unat b' div 16"
    using digits_inj [of "unat a mod 4" 16 "unat b div 16"] byte_quotients by auto
  from e(3) have bc: "unat b mod 16 = unat b' mod 16" "unat c div 64 = unat c' div 64"
    using digits_inj [of "unat b mod 16" 4 "unat c div 64"] byte_quotients by auto
  have "unat a = unat a'" "unat b = unat b'" "unat c = unat c'"
    by (rule div_mod_inj [OF e(1) ab(1)], rule div_mod_inj [OF ab(2) bc(1)], rule div_mod_inj [OF bc(2) e(4)])
  moreover have "r = r'" using "4.IH" [of r'] "4.prems"(1) rest ys by simp
  ultimately show ?case using ys by (simp add: word_unat_eq_iff)
qed

end
