(* ===== verification/Tokenhash.thy ===== *)
theory Tokenhash
  imports Go_Effects Go_Strings
begin

text \<open>
  \<open>internal/platform/tokenhash\<close>: the opaque tokens handed to clients and the
  hash under which they are stored, with SHA-256 of the standard library
  written out.
\<close>

unbundle bit_operations_syntax

section \<open>SHA-256\<close>

definition sha256_K :: "32 word list" where
  "sha256_K = [
  1116352408, 1899447441, 3049323471, 3921009573, 961987163, 1508970993, 2453635748, 2870763221,
  3624381080, 310598401, 607225278, 1426881987, 1925078388, 2162078206, 2614888103, 3248222580,
  3835390401, 4022224774, 264347078, 604807628, 770255983, 1249150122, 1555081692, 1996064986,
  2554220882, 2821834349, 2952996808, 3210313671, 3336571891, 3584528711, 113926993, 338241895,
  666307205, 773529912, 1294757372, 1396182291, 1695183700, 1986661051, 2177026350, 2456956037,
  2730485921, 2820302411, 3259730800, 3345764771, 3516065817, 3600352804, 4094571909, 275423344,
  430227734, 506948616, 659060556, 883997877, 958139571, 1322822218, 1537002063, 1747873779,
  1955562222, 2024104815, 2227730452, 2361852424, 2428436474, 2756734187, 3204031479, 3329325298]"

definition rotr32 :: "nat \<Rightarrow> 32 word \<Rightarrow> 32 word" where
  "rotr32 n x = drop_bit n x OR push_bit (32 - n) x"

definition sha256_sched_step :: "32 word list \<Rightarrow> 32 word list" where
  "sha256_sched_step ws =
     (let n = length ws;
          a = ws ! (n - 15); b = ws ! (n - 2);
          s0 = rotr32 7 a XOR rotr32 18 a XOR drop_bit 3 a;
          s1 = rotr32 17 b XOR rotr32 19 b XOR drop_bit 10 b
      in ws @ [s1 + ws ! (n - 7) + s0 + ws ! (n - 16)])"

fun sha256_round :: "32 word list \<Rightarrow> 32 word \<times> 32 word \<Rightarrow> 32 word list" where
  "sha256_round [a, b, c, d, e, f, g, h] (k, w) =
     (let t1 = h + (rotr32 6 e XOR rotr32 11 e XOR rotr32 25 e) + ((e AND f) XOR (NOT e AND g)) + k + w;
          t2 = (rotr32 2 a XOR rotr32 13 a XOR rotr32 22 a) + ((a AND b) XOR (a AND c) XOR (b AND c))
      in [t1 + t2, a, b, c, d + t1, e, f, g])"
| "sha256_round s kw = s"

fun be32 :: "byte list \<Rightarrow> 32 word list" where
  "be32 (a # b # c # d # r) =
     (push_bit 24 (ucast a) OR push_bit 16 (ucast b) OR push_bit 8 (ucast c) OR ucast d) # be32 r"
| "be32 _ = []"

definition sha256_block :: "32 word list \<Rightarrow> byte list \<Rightarrow> 32 word list" where
  "sha256_block hs blk =
     (let ws = (sha256_sched_step ^^ 48) (be32 blk)
      in map2 (+) hs (foldl sha256_round hs (zip sha256_K ws)))"

definition be_bytes64 :: "64 word \<Rightarrow> byte list" where
  "be_bytes64 x = map (\<lambda>i. ucast (drop_bit i x)) [56, 48, 40, 32, 24, 16, 8, 0]"

definition be_bytes32 :: "32 word \<Rightarrow> byte list" where
  "be_bytes32 x = map (\<lambda>i. ucast (drop_bit i x)) [24, 16, 8, 0]"

definition sha256_pad :: "byte list \<Rightarrow> byte list" where
  "sha256_pad bs = bs @ [0x80] @ replicate ((119 - length bs mod 64) mod 64) 0 @ be_bytes64 (of_nat (8 * length bs))"

fun sha256_blocks :: "nat \<Rightarrow> 32 word list \<Rightarrow> byte list \<Rightarrow> 32 word list" where
  "sha256_blocks 0 hs bs = hs"
| "sha256_blocks (Suc n) hs bs = sha256_blocks n (sha256_block hs (take 64 bs)) (drop 64 bs)"

definition sha256_Sum256 :: "byte list \<Rightarrow> byte list" where
  "sha256_Sum256 bs =
     (let p = sha256_pad bs;
          hs = sha256_blocks (length p div 64)
            [0x6a09e667, 0xbb67ae85, 0x3c6ef372, 0xa54ff53a, 0x510e527f, 0x9b05688c, 0x1f83d9ab, 0x5be0cd19] p
      in concat (map be_bytes32 hs))"

lemma length_sha256_round: "length s = 8 \<Longrightarrow> length (sha256_round s kw) = 8"
  by (cases "(s, kw)" rule: sha256_round.cases) (auto simp: Let_def)

lemma length_foldl_sha256_round: "length s = 8 \<Longrightarrow> length (foldl sha256_round s kws) = 8"
  by (induction kws arbitrary: s) (auto simp: length_sha256_round)

lemma length_sha256_block: "length hs = 8 \<Longrightarrow> length (sha256_block hs blk) = 8"
  by (simp add: sha256_block_def Let_def length_foldl_sha256_round)

lemma length_sha256_blocks: "length hs = 8 \<Longrightarrow> length (sha256_blocks n hs bs) = 8"
  by (induction n arbitrary: hs bs) (auto simp: length_sha256_block)

lemma length_concat_be_bytes32: "length (concat (map be_bytes32 hs)) = 4 * length hs"
  by (induction hs) (auto simp: be_bytes32_def)

lemma length_sha256_Sum256: "length (sha256_Sum256 bs) = 32"
  by (simp add: sha256_Sum256_def Let_def length_concat_be_bytes32 length_sha256_blocks)

text \<open>The padded message fills whole blocks, as the standard requires.\<close>

lemma sha256_pad_rest: "(m :: nat) < 64 \<Longrightarrow> 64 dvd (119 - m) mod 64 + m + 9"
proof (cases "m \<le> 55")
  case True
  then have "(119 - m) mod 64 = 55 - m" by (simp add: le_mod_geq)
  with True show ?thesis by simp
next
  case False
  assume "m < 64"
  from False have "(119 - m) mod 64 = 119 - m" by simp
  with False \<open>m < 64\<close> have "(119 - m) mod 64 + m + 9 = 64 * 2" by simp
  then show ?thesis by (metis dvd_triv_left)
qed

lemma sha256_pad_blocks: "64 dvd length (sha256_pad bs)"
proof -
  let ?m = "length bs mod 64"
  have "length (sha256_pad bs) = ((119 - ?m) mod 64 + ?m + 9) + 64 * (length bs div 64)"
    by (simp add: sha256_pad_def be_bytes64_def)
  then show ?thesis
    by (simp only:) (intro dvd_add sha256_pad_rest dvd_triv_left, simp)
qed

section \<open>Tokens\<close>

definition rawTokenBytes :: nat where
  "rawTokenBytes = 32"

definition tokenhash_Generate :: "('z env_scheme, string) comp" where
  "tokenhash_Generate = wrapM ''tokenhash: generate'' (rand_Read rawTokenBytes) (\<lambda>b.
     ret (base64_RawURL_Encode b))"

definition tokenhash_Hash :: "string \<Rightarrow> string" where
  "tokenhash_Hash raw = hex_EncodeToString (sha256_Sum256 (bytes_of_string raw))"

lemma tokenhash_Generate_Inr:
  "tokenhash_Generate w = (Inr t, w') \<Longrightarrow>
     \<exists>b. rand_Read rawTokenBytes w = (Inr b, w') \<and> t = base64_RawURL_Encode b \<and> length b = 32"
  by (auto simp: tokenhash_Generate_def peel rawTokenBytes_def dest: rand_Read_length)

lemma tokenhash_Generate_shape:
  "tokenhash_Generate w = (Inr t, w') \<Longrightarrow> length t = 43 \<and> set t \<subseteq> set b64_url_alphabet"
  by (auto simp: base64_RawURL_Encode_length dest!: tokenhash_Generate_Inr
      dest: subsetD [OF base64_RawURL_Encode_alphabet])

lemma tokenhash_Hash_shape:
  "length (tokenhash_Hash raw) = 64" "set (tokenhash_Hash raw) \<subseteq> set hex_digits"
  by (simp_all add: tokenhash_Hash_def length_hex_EncodeToString length_sha256_Sum256
      hex_EncodeToString_alphabet)

end
