(* ===== verification/Totp.thy ===== *)
theory Totp
  imports Go_Effects
begin

text \<open>
  \<open>internal/platform/totp\<close>: the validation window around the HOTP check of
  \<open>github.com/pquerna/otp\<close>, which is the parameter \<open>hv\<close>: it gets the code, the
  counter as a 64-bit word and the base32 secret.
\<close>

type_synonym hotp_validator = "string \<Rightarrow> 64 word \<Rightarrow> string \<Rightarrow> goerror + bool"

definition totp_period :: int where
  "totp_period = 30"

definition totp_forwardSkew :: int where
  "totp_forwardSkew = 1"

text \<open>The loop over the tolerated steps: an error of the validator counts as no match.\<close>

fun totp_validate_steps :: "hotp_validator \<Rightarrow> string \<Rightarrow> string \<Rightarrow> int \<Rightarrow> int list \<Rightarrow> bool \<times> int" where
  "totp_validate_steps hv code secret current [] = (False, 0)"
| "totp_validate_steps hv code secret current (i # is) =
     (let counter = current + i in
      case hv code (word_of_int counter) secret of
        Inl _ \<Rightarrow> totp_validate_steps hv code secret current is
      | Inr match \<Rightarrow>
          if match then (True, counter)
          else totp_validate_steps hv code secret current is)"

definition totp_ValidateAt :: "hotp_validator \<Rightarrow> string \<Rightarrow> string \<Rightarrow> time \<Rightarrow> bool \<times> int" where
  "totp_ValidateAt hv code secret t =
     (let current = go_div (time_Unix t) totp_period
      in totp_validate_steps hv code secret current [0..totp_forwardSkew])"

definition totp_Validate :: "hotp_validator \<Rightarrow> string \<Rightarrow> string \<Rightarrow> ('z env_scheme, bool) comp" where
  "totp_Validate hv code secret =
     bindM time_Now (\<lambda>now. ret (fst (totp_ValidateAt hv code secret now)))"

text \<open>\<open>GenerateSecret\<close>: the library's generator is the parameter \<open>gen\<close>.\<close>

definition totp_GenerateSecret ::
  "(string \<Rightarrow> string \<Rightarrow> ('w, string \<times> string) comp) \<Rightarrow> string \<Rightarrow> string \<Rightarrow> ('w, string \<times> string) comp" where
  "totp_GenerateSecret gen issuer accountName =
     wrapM ''totp: generate secret'' (gen issuer accountName) ret"

lemma totp_window: "[0..totp_forwardSkew] = [0, 1]"
  by (simp add: totp_forwardSkew_def upto_rec1)

lemma totp_ValidateAt_cases:
  "totp_ValidateAt hv code secret t =
     (let c = go_div (time_Unix t) totp_period in
      if hv code (word_of_int c) secret = Inr True then (True, c)
      else if hv code (word_of_int (c + 1)) secret = Inr True then (True, c + 1)
      else (False, 0))"
  by (auto simp: totp_ValidateAt_def totp_window Let_def split: sum.splits)

lemma totp_ValidateAt_True:
  assumes "totp_ValidateAt hv code secret t = (True, k)"
  shows "hv code (word_of_int k) secret = Inr True"
    and "k = go_div (time_Unix t) totp_period \<or> k = go_div (time_Unix t) totp_period + 1"
  using assms by (auto simp: totp_ValidateAt_cases Let_def split: if_splits)

end
