(* ===== verification/Totpsecret.thy ===== *)
theory Totpsecret
  imports Go_Effects
begin

text \<open>
  \<open>internal/platform/totpsecret\<close>: encryption of the TOTP secrets at rest. The
  cipher holds a value of the standard library's interface \<open>cipher.AEAD\<close>, here
  the record \<open>aead\<close>; \<open>aead_laws\<close> is what that interface promises. \<open>NewCipher\<close> and the
  AEAD it builds are in theory \<open>Aes_Gcm\<close>.
\<close>

record aead =
  ae_NonceSize :: nat
  ae_Seal :: "byte list \<Rightarrow> byte list \<Rightarrow> byte list"
  ae_Open :: "byte list \<Rightarrow> byte list \<Rightarrow> goerror + byte list"

definition Cipher_Encrypt :: "aead \<Rightarrow> byte list \<Rightarrow> ('z env_scheme, byte list) comp" where
  "Cipher_Encrypt a plaintext =
     wrapM ''totpsecret: generate nonce'' (rand_Read (ae_NonceSize a)) (\<lambda>nonce.
       ret (nonce @ ae_Seal a nonce plaintext))"

definition Cipher_Decrypt :: "aead \<Rightarrow> byte list \<Rightarrow> goerror + byte list" where
  "Cipher_Decrypt a ciphertext =
     (if length ciphertext < ae_NonceSize a then Inl (Opaque ''totpsecret: ciphertext too short'')
      else case ae_Open a (take (ae_NonceSize a) ciphertext) (drop (ae_NonceSize a) ciphertext) of
             Inl e \<Rightarrow> Inl (Wrap ''totpsecret: decrypt'' e)
           | Inr p \<Rightarrow> Inr p)"

locale aead_laws =
  fixes a :: aead
  assumes open_seal: "length nonce = ae_NonceSize a \<Longrightarrow> ae_Open a nonce (ae_Seal a nonce p) = Inr p"
begin

lemma decrypt_encrypt: "Cipher_Encrypt a p w = (Inr c, w') \<Longrightarrow> Cipher_Decrypt a c = Inr p"
  by (auto simp: Cipher_Encrypt_def Cipher_Decrypt_def peel open_seal dest: rand_Read_length)

end

end
