(* ===== verification/Aes_Gcm.thy ===== *)
theory Aes_Gcm
  imports Totpsecret
begin

text \<open>
  The standard library's AES-256 in Galois/Counter mode (\<open>crypto/aes\<close>,
  \<open>crypto/cipher\<close>), which \<open>totpsecret.NewCipher\<close> builds its AEAD from: the block
  cipher, the counter mode, GHASH, and the proof that the AEAD keeps the law of
  \<open>aead_laws\<close> whatever the key.
\<close>

unbundle bit_operations_syntax

section \<open>AES-256\<close>

definition aes_sbox :: "byte list" where
  "aes_sbox = [
   0x63, 0x7c, 0x77, 0x7b, 0xf2, 0x6b, 0x6f, 0xc5, 0x30, 0x01, 0x67, 0x2b, 0xfe, 0xd7, 0xab, 0x76,
   0xca, 0x82, 0xc9, 0x7d, 0xfa, 0x59, 0x47, 0xf0, 0xad, 0xd4, 0xa2, 0xaf, 0x9c, 0xa4, 0x72, 0xc0,
   0xb7, 0xfd, 0x93, 0x26, 0x36, 0x3f, 0xf7, 0xcc, 0x34, 0xa5, 0xe5, 0xf1, 0x71, 0xd8, 0x31, 0x15,
   0x04, 0xc7, 0x23, 0xc3, 0x18, 0x96, 0x05, 0x9a, 0x07, 0x12, 0x80, 0xe2, 0xeb, 0x27, 0xb2, 0x75,
   0x09, 0x83, 0x2c, 0x1a, 0x1b, 0x6e, 0x5a, 0xa0, 0x52, 0x3b, 0xd6, 0xb3, 0x29, 0xe3, 0x2f, 0x84,
   0x53, 0xd1, 0x00, 0xed, 0x20, 0xfc, 0xb1, 0x5b, 0x6a, 0xcb, 0xbe, 0x39, 0x4a, 0x4c, 0x58, 0xcf,
   0xd0, 0xef, 0xaa, 0xfb, 0x43, 0x4d, 0x33, 0x85, 0x45, 0xf9, 0x02, 0x7f, 0x50, 0x3c, 0x9f, 0xa8,
   0x51, 0xa3, 0x40, 0x8f, 0x92, 0x9d, 0x38, 0xf5, 0xbc, 0xb6, 0xda, 0x21, 0x10, 0xff, 0xf3, 0xd2,
   0xcd, 0x0c, 0x13, 0xec, 0x5f, 0x97, 0x44, 0x17, 0xc4, 0xa7, 0x7e, 0x3d, 0x64, 0x5d, 0x19, 0x73,
   0x60, 0x81, 0x4f, 0xdc, 0x22, 0x2a, 0x90, 0x88, 0x46, 0xee, 0xb8, 0x14, 0xde, 0x5e, 0x0b, 0xdb,
   0xe0, 0x32, 0x3a, 0x0a, 0x49, 0x06, 0x24, 0x5c, 0xc2, 0xd3, 0xac, 0x62, 0x91, 0x95, 0xe4, 0x79,
   0xe7, 0xc8, 0x37, 0x6d, 0x8d, 0xd5, 0x4e, 0xa9, 0x6c, 0x56, 0xf4, 0xea, 0x65, 0x7a, 0xae, 0x08,
   0xba, 0x78, 0x25, 0x2e, 0x1c, 0xa6, 0xb4, 0xc6, 0xe8, 0xdd, 0x74, 0x1f, 0x4b, 0xbd, 0x8b, 0x8a,
   0x70, 0x3e, 0xb5, 0x66, 0x48, 0x03, 0xf6, 0x0e, 0x61, 0x35, 0x57, 0xb9, 0x86, 0xc1, 0x1d, 0x9e,
   0xe1, 0xf8, 0x98, 0x11, 0x69, 0xd9, 0x8e, 0x94, 0x9b, 0x1e, 0x87, 0xe9, 0xce, 0x55, 0x28, 0xdf,
   0x8c, 0xa1, 0x89, 0x0d, 0xbf, 0xe6, 0x42, 0x68, 0x41, 0x99, 0x2d, 0x0f, 0xb0, 0x54, 0xbb, 0x16]"

definition sub_byte :: "byte \<Rightarrow> byte" where
  "sub_byte b = aes_sbox ! unat b"

definition xor_bytes :: "byte list \<Rightarrow> byte list \<Rightarrow> byte list" where
  "xor_bytes xs ys = map2 (\<lambda>x y. x XOR y) xs ys"

definition xtime :: "byte \<Rightarrow> byte" where
  "xtime b = (if bit b 7 then push_bit 1 b XOR 0x1b else push_bit 1 b)"

text \<open>The key schedule: words of four bytes, eight of them the key itself.\<close>

fun aes_schedule :: "nat \<Rightarrow> byte \<Rightarrow> byte list list \<Rightarrow> byte list list" where
  "aes_schedule 0 rc ws = ws"
| "aes_schedule (Suc n) rc ws =
     (let i = length ws; prev = ws ! (i - 1); old = ws ! (i - 8) in
      if i mod 8 = 0
      then aes_schedule n (xtime rc)
             (ws @ [xor_bytes old (xor_bytes (map sub_byte (rotate1 prev)) [rc, 0, 0, 0])])
      else if i mod 8 = 4 then aes_schedule n rc (ws @ [xor_bytes old (map sub_byte prev)])
      else aes_schedule n rc (ws @ [xor_bytes old prev]))"

fun chunks4 :: "byte list \<Rightarrow> byte list list" where
  "chunks4 (a # b # c # d # r) = [a, b, c, d] # chunks4 r"
| "chunks4 _ = []"

definition aes_round_key :: "byte list list \<Rightarrow> nat \<Rightarrow> byte list" where
  "aes_round_key ws r = concat (take 4 (drop (4 * r) ws))"

definition shift_rows :: "byte list \<Rightarrow> byte list" where
  "shift_rows st = map (\<lambda>i. st ! i) [0, 5, 10, 15, 4, 9, 14, 3, 8, 13, 2, 7, 12, 1, 6, 11]"

fun mix_columns :: "byte list \<Rightarrow> byte list" where
  "mix_columns (a # b # c # d # r) =
     (let x2 = xtime; x3 = (\<lambda>v. xtime v XOR v) in
      (x2 a XOR x3 b XOR c XOR d) # (a XOR x2 b XOR x3 c XOR d) #
      (a XOR b XOR x2 c XOR x3 d) # (x3 a XOR b XOR c XOR x2 d) # mix_columns r)"
| "mix_columns _ = []"

fun aes_rounds :: "byte list list \<Rightarrow> nat list \<Rightarrow> byte list \<Rightarrow> byte list" where
  "aes_rounds ws [] st = xor_bytes (shift_rows (map sub_byte st)) (aes_round_key ws 14)"
| "aes_rounds ws (r # rs) st =
     aes_rounds ws rs (xor_bytes (mix_columns (shift_rows (map sub_byte st))) (aes_round_key ws r))"

definition aes_encrypt :: "byte list \<Rightarrow> byte list \<Rightarrow> byte list" where
  "aes_encrypt key blk =
     (let ws = aes_schedule 52 1 (chunks4 key)
      in aes_rounds ws [1..<14] (xor_bytes blk (aes_round_key ws 0)))"

section \<open>GCM\<close>

definition bytes_to_block :: "byte list \<Rightarrow> 128 word" where
  "bytes_to_block bs = foldl (\<lambda>acc b. push_bit 8 acc OR ucast b) 0 bs"

definition block_to_bytes :: "128 word \<Rightarrow> byte list" where
  "block_to_bytes x = map (\<lambda>i. ucast (drop_bit (8 * (15 - i)) x)) [0..<16]"

fun gf_mult_steps :: "nat \<Rightarrow> 128 word \<Rightarrow> 128 word \<Rightarrow> 128 word \<Rightarrow> 128 word" where
  "gf_mult_steps 0 x v z = z"
| "gf_mult_steps (Suc n) x v z =
     gf_mult_steps n x (if bit v 0 then drop_bit 1 v XOR push_bit 120 0xe1 else drop_bit 1 v)
       (if bit x n then z XOR v else z)"

definition gf_mult :: "128 word \<Rightarrow> 128 word \<Rightarrow> 128 word" where
  "gf_mult x y = gf_mult_steps 128 x y 0"

fun blocks16 :: "nat \<Rightarrow> byte list \<Rightarrow> byte list list" where
  "blocks16 0 bs = []"
| "blocks16 (Suc n) bs =
     (if bs = [] then [] else take 16 (bs @ replicate 16 0) # blocks16 n (drop 16 bs))"

definition ghash :: "128 word \<Rightarrow> byte list \<Rightarrow> 128 word" where
  "ghash h c =
     (let y = foldl (\<lambda>y b. gf_mult (y XOR bytes_to_block b) h) 0 (blocks16 (length c) c)
      in gf_mult (y XOR of_nat (8 * length c)) h)"

text \<open>Counter blocks: the last four bytes count up from \<open>n\<close>, wrapping at 32 bits.\<close>

definition ctr_block :: "byte list \<Rightarrow> nat \<Rightarrow> byte list" where
  "ctr_block nonce n = nonce @ map (\<lambda>i. ucast (drop_bit i (of_nat n :: 32 word))) [24, 16, 8, 0]"

definition gcm_keystream :: "(byte list \<Rightarrow> byte list) \<Rightarrow> byte list \<Rightarrow> nat \<Rightarrow> byte list" where
  "gcm_keystream E nonce len = concat (map (\<lambda>i. E (ctr_block nonce (i + 2))) [0..<(len + 15) div 16])"

definition gcm_crypt :: "(byte list \<Rightarrow> byte list) \<Rightarrow> byte list \<Rightarrow> byte list \<Rightarrow> byte list" where
  "gcm_crypt E nonce p =
     (let ks = gcm_keystream E nonce (length p) in map (\<lambda>i. p ! i XOR ks ! i) [0..<length p])"

definition gcm_tag :: "(byte list \<Rightarrow> byte list) \<Rightarrow> byte list \<Rightarrow> byte list \<Rightarrow> byte list" where
  "gcm_tag E nonce c =
     block_to_bytes (ghash (bytes_to_block (E (replicate 16 0))) c XOR bytes_to_block (E (ctr_block nonce 1)))"

definition gcm_Seal :: "(byte list \<Rightarrow> byte list) \<Rightarrow> byte list \<Rightarrow> byte list \<Rightarrow> byte list" where
  "gcm_Seal E nonce p = (let c = gcm_crypt E nonce p in c @ gcm_tag E nonce c)"

definition gcm_Open :: "(byte list \<Rightarrow> byte list) \<Rightarrow> byte list \<Rightarrow> byte list \<Rightarrow> goerror + byte list" where
  "gcm_Open E nonce ct =
     (if length ct < 16 then Inl (Opaque ''cipher: message authentication failed'')
      else let c = take (length ct - 16) ct in
        if drop (length ct - 16) ct = gcm_tag E nonce c then Inr (gcm_crypt E nonce c)
        else Inl (Opaque ''cipher: message authentication failed''))"

definition aes_gcm :: "byte list \<Rightarrow> aead" where
  "aes_gcm key = \<lparr>ae_NonceSize = 12, ae_Seal = gcm_Seal (aes_encrypt key), ae_Open = gcm_Open (aes_encrypt key)\<rparr>"

section \<open>Opening what was sealed\<close>

lemma length_gcm_tag [simp]: "length (gcm_tag E nonce c) = 16"
  by (simp add: gcm_tag_def block_to_bytes_def)

lemma length_gcm_crypt [simp]: "length (gcm_crypt E nonce p) = length p"
  by (simp add: gcm_crypt_def Let_def)

lemma gcm_crypt_involution: "gcm_crypt E nonce (gcm_crypt E nonce p) = p"
  by (rule nth_equalityI) (simp_all add: gcm_crypt_def Let_def xor.assoc)

lemma gcm_Open_Seal: "gcm_Open E nonce (gcm_Seal E nonce p) = Inr p"
  by (simp add: gcm_Open_def gcm_Seal_def Let_def gcm_crypt_involution)

interpretation gcm: aead_laws "aes_gcm key" for key
  by unfold_locales (simp add: aes_gcm_def gcm_Open_Seal)

section \<open>NewCipher\<close>

text \<open>
  With a key of 32 bytes \<open>aes.NewCipher\<close> and \<open>cipher.NewGCM\<close> do not fail (they
  refuse other key and block sizes), so only the length check remains.
\<close>

definition totpsecret_KeySize :: nat where
  "totpsecret_KeySize = 32"

definition totpsecret_NewCipher :: "byte list \<Rightarrow> goerror + aead" where
  "totpsecret_NewCipher key =
     (if length key \<noteq> totpsecret_KeySize then Inl (Opaque ''totpsecret: key must be 32 bytes'')
      else Inr (aes_gcm key))"

end
