(* ===== verification/Ports.thy ===== *)
theory Ports
  imports Repository_Facts Tokenhash Totp Aes_Gcm
begin

text \<open>
  What \<open>internal/application/auth\<close> is given: its inputs and results
  (\<open>dto.go\<close>), its ports (\<open>ports.go\<close>), the platform adapters behind them
  (\<open>platform/password\<close>, \<open>platform/jwtauth\<close>) and the \<open>Service\<close> value itself. The
  repositories are wired to PostgreSQL as in \<open>cmd/server/main.go\<close>. Code that is
  not part of the repository enters as fields: bcrypt, the OTP library, the
  JWT signer, the session store and the peer services, the latter as
  functions of the external state.
\<close>

section \<open>Inputs and results\<close>

record RegisterInput =
  ri_Email :: string
  ri_Password :: string

record LoginInput =
  li_Email :: string
  li_Password :: string

record Session =
  se_UserID :: uuid
  se_Email :: string
  se_CreatedAt :: time
  se_AccessToken :: string
  se_AccessTokenExpiresAt :: time
  se_RefreshToken :: string
  se_RefreshTokenExpiresAt :: time

record AvatarChange =
  ac_MediaID :: "uuid option"

record UpdateProfileInput =
  up_FirstName :: string
  up_LastName :: string
  up_Avatar :: "AvatarChange option"

record RegisterResult =
  rr_UserID :: uuid
  rr_SetupToken :: string
  rr_OtpauthURI :: string
  rr_Secret :: string
  rr_ExpiresAt :: time

definition LoginStatusOTPRequired :: string where
  "LoginStatusOTPRequired = ''otp_required''"

definition LoginStatusTOTPSetupRequired :: string where
  "LoginStatusTOTPSetupRequired = ''totp_setup_required''"

record LoginResult =
  lr_Status :: string
  lr_ChallengeToken :: string
  lr_SetupToken :: string
  lr_OtpauthURI :: string
  lr_Secret :: string
  lr_ExpiresAt :: time

record ChangePasswordInput =
  cp_CurrentPassword :: string
  cp_NewPassword :: string
  cp_OTP :: string

record PasswordResetRequestResult =
  pr_FlowToken :: string
  pr_ExpiresAt :: time

record PasswordResetOTPResult =
  po_ResetToken :: string
  po_ExpiresAt :: time

section \<open>Ports\<close>

type_synonym ('x, 'a) ext_call = "'x \<Rightarrow> (goerror + 'a) \<times> 'x"

record 'x session_activator =
  ss_Activate :: "uuid \<Rightarrow> uuid \<Rightarrow> duration \<Rightarrow> ('x, unit) ext_call"
  ss_ActivateAndReturnPrevious :: "uuid \<Rightarrow> uuid \<Rightarrow> duration \<Rightarrow> ('x, uuid \<times> bool \<times> int) ext_call"
  ss_Deactivate :: "uuid \<Rightarrow> ('x, unit) ext_call"
  ss_DeactivateIfCurrent :: "uuid \<Rightarrow> uuid \<Rightarrow> ('x, bool) ext_call"
  ss_DeactivateAndReturnPrevious :: "uuid \<Rightarrow> ('x, uuid \<times> bool) ext_call"

record 'x media_client =
  mc_VerifyOwnership :: "string \<Rightarrow> uuid list \<Rightarrow> ('x, unit) ext_call"
  mc_DeleteByIDs :: "string \<Rightarrow> uuid list \<Rightarrow> ('x, unit) ext_call"
  mc_DeleteAllByUser :: "string \<Rightarrow> ('x, unit) ext_call"

text \<open>
  What \<open>ports.go\<close> documents of the session store, in terms of the session
  \<open>active x u\<close> that is currently the only active one of user \<open>u\<close>.
\<close>

locale session_store =
  fixes ss :: "'x session_activator"
    and active :: "'x \<Rightarrow> uuid \<Rightarrow> uuid option"
  assumes activate:
      "ss_ActivateAndReturnPrevious ss u s ttl x = (Inr (prev, had, gen), x') \<Longrightarrow>
         active x' = (active x)(u := Some s) \<and> active x u = (if had then Some prev else None)"
    and deactivate: "ss_Deactivate ss u x = (Inr (), x') \<Longrightarrow> active x' = (active x)(u := None)"
    and deactivate_if_current:
      "ss_DeactivateIfCurrent ss u s x = (Inr b, x') \<Longrightarrow>
         active x' = (if active x u = Some s then (active x)(u := None) else active x)"
    and deactivate_return:
      "ss_DeactivateAndReturnPrevious ss u x = (Inr (prev, had), x') \<Longrightarrow>
         active x' = (active x)(u := None) \<and> active x u = (if had then Some prev else None)"
begin

lemma activated: "ss_ActivateAndReturnPrevious ss u s ttl x = (Inr r, x') \<Longrightarrow> active x' u = Some s"
  using activate by (cases r) auto

lemma deactivated:
  "ss_Deactivate ss u x = (Inr (), x') \<Longrightarrow> active x' u = None"
  "ss_DeactivateAndReturnPrevious ss u x = (Inr r, x') \<Longrightarrow> active x' u = None"
  using deactivate deactivate_return by (auto, cases r, auto)

lemma deactivated_session:
  "ss_DeactivateIfCurrent ss u s x = (Inr b, x') \<Longrightarrow> active x' u \<noteq> Some s"
  using deactivate_if_current [of u s x b x'] by (auto split: if_splits)

end

section \<open>Password hashing\<close>

record 'x bcrypt =
  bc_MinCost :: int
  bc_MaxCost :: int
  bc_DefaultCost :: int
  bc_GenerateFromPassword :: "byte list \<Rightarrow> int \<Rightarrow> ('x, byte list) ext_call"
  bc_CompareHashAndPassword :: "byte list \<Rightarrow> byte list \<Rightarrow> goerror option"

definition NewBcryptHasher :: "'x bcrypt \<Rightarrow> int \<Rightarrow> int" where
  "NewBcryptHasher b cost =
     (if cost < bc_MinCost b \<or> cost > bc_MaxCost b then bc_DefaultCost b else cost)"

definition BcryptHasher_Hash :: "'x bcrypt \<Rightarrow> int \<Rightarrow> string \<Rightarrow> ('x world, string) comp" where
  "BcryptHasher_Hash b cost plainPassword =
     bindM (external (bc_GenerateFromPassword b (bytes_of_string plainPassword) cost)) (\<lambda>hashed.
       ret (string_of_bytes hashed))"

definition BcryptHasher_Verify :: "'x bcrypt \<Rightarrow> string \<Rightarrow> string \<Rightarrow> goerror option" where
  "BcryptHasher_Verify b hash plainPassword =
     bc_CompareHashAndPassword b (bytes_of_string hash) (bytes_of_string plainPassword)"

section \<open>Access tokens\<close>

record access_claims =
  ac_Subject :: uuid
  ac_IssuedAt :: time
  ac_ExpiresAt :: time
  ac_SessionID :: uuid
  ac_SessionGeneration :: int

record jwt_issuer =
  ji_kid :: string
  ji_ttl :: duration
  ji_SignedString :: "string \<Rightarrow> access_claims \<Rightarrow> goerror + string"

definition Issuer_IssueWithGeneration ::
  "jwt_issuer \<Rightarrow> uuid \<Rightarrow> uuid \<Rightarrow> int \<Rightarrow> ('z env_scheme, string \<times> time) comp" where
  "Issuer_IssueWithGeneration j userID sessionID generation =
     bindM time_Now (\<lambda>now.
       let expiresAt = now + ji_ttl j;
           claims = \<lparr>ac_Subject = userID, ac_IssuedAt = now, ac_ExpiresAt = expiresAt,
                     ac_SessionID = sessionID, ac_SessionGeneration = generation\<rparr>
       in case ji_SignedString j (ji_kid j) claims of
            Inl e \<Rightarrow> fail (Wrap ''jwtauth: sign'' e)
          | Inr tok \<Rightarrow> ret (tok, expiresAt))"

definition Issuer_Issue :: "jwt_issuer \<Rightarrow> uuid \<Rightarrow> uuid \<Rightarrow> ('z env_scheme, string \<times> time) comp" where
  "Issuer_Issue j userID sessionID = Issuer_IssueWithGeneration j userID sessionID 0"

definition jwtauth_KeyID :: "byte list \<Rightarrow> string" where
  "jwtauth_KeyID pub = hex_EncodeToString (take 8 (sha256_Sum256 pub))"

lemma jwtauth_KeyID_length: "length (jwtauth_KeyID pub) = 16"
  by (simp add: jwtauth_KeyID_def length_hex_EncodeToString length_sha256_Sum256)

section \<open>The service value\<close>

record SecurityConfig =
  sc_RefreshTTL :: duration
  sc_SetupTokenTTL :: duration
  sc_LoginChallengeTTL :: duration
  sc_PasswordResetFlowTTL :: duration
  sc_PasswordResetTokenTTL :: duration
  sc_OTPMaxAttempts :: int
  sc_OTPLockoutDuration :: duration
  sc_ResetFlowMaxOTPAttempts :: int
  sc_TOTPIssuer :: string

text \<open>
  \<open>svc_cleaner\<close> is the dynamic type of \<open>Service.deletion\<close>: \<open>None\<close> for a nil
  \<open>DeletionRequester\<close>, \<open>Some None\<close> for one that is no
  \<open>SessionCleanupRequester\<close>, \<open>Some (Some f)\<close> for one whose
  \<open>DeleteSessionData\<close> is \<open>f\<close>. \<open>svc_generation_issuer\<close> says whether the issuer
  has \<open>IssueWithGeneration\<close>.
\<close>

record 'x service =
  svc_unicode :: unicode
  svc_bcrypt :: "'x bcrypt"
  svc_cost :: int
  svc_issuer :: jwt_issuer
  svc_generation_issuer :: bool
  svc_sessions :: "'x session_activator"
  svc_media :: "'x media_client"
  svc_apiaries_DeleteAllMine :: "string \<Rightarrow> ('x, unit) ext_call"
  svc_cipher :: aead
  svc_hotp :: hotp_validator
  svc_otp_Generate :: "string \<Rightarrow> string \<Rightarrow> ('x, string \<times> string) ext_call"
  svc_security :: SecurityConfig
  svc_cleaner :: "(uuid \<Rightarrow> uuid \<Rightarrow> ('x, unit) ext_call) option option"

definition hasher_Hash :: "'x service \<Rightarrow> string \<Rightarrow> ('x world, string) comp" where
  "hasher_Hash s p = BcryptHasher_Hash (svc_bcrypt s) (svc_cost s) p"

definition hasher_Verify :: "'x service \<Rightarrow> string \<Rightarrow> string \<Rightarrow> goerror option" where
  "hasher_Verify s h p = BcryptHasher_Verify (svc_bcrypt s) h p"


end
