(* ===== verification/Deletion_Store.thy ===== *)
theory Deletion_Store
  imports Repository_Facts
begin

text \<open>
  \<open>internal/repository/postgres/deletion_store.go\<close>: the transaction that marks
  an account for deletion and records its cleanup job, and the job store the
  deletion worker claims from.
\<close>

definition deletionServices :: "string list" where
  "deletionServices =
     [''apiary'', ''hive'', ''inspection'', ''harvest'', ''media'', ''notification'', ''subscription'']"

definition status_pending :: string where "status_pending = ''pending''"
definition status_processing :: string where "status_processing = ''processing''"
definition status_completed :: string where "status_completed = ''completed''"

lemma status_distinct [simp]:
  "status_pending \<noteq> status_completed" "status_completed \<noteq> status_pending"
  "status_processing \<noteq> status_completed" "status_completed \<noteq> status_processing"
  "status_pending \<noteq> status_processing" "status_processing \<noteq> status_pending"
  by (simp_all add: status_pending_def status_processing_def status_completed_def)

section \<open>Statements\<close>

definition select_deletion_status :: "uuid \<Rightarrow> string stmt" where
  "select_deletion_status i d = (case sql_find (\<lambda>u. u_ID u = i) (users d) of
       None \<Rightarrow> Inl (Sentinel Pgx_ErrNoRows)
     | Some u \<Rightarrow> Inr (u_DeletionStatus u, d))"

text \<open>INSERT of the job with ON CONFLICT (user_id) DO UPDATE, RETURNING id.\<close>

definition upsert_deletion_job :: "time \<Rightarrow> uuid \<Rightarrow> uuid \<Rightarrow> uuid stmt" where
  "upsert_deletion_job now jobID userID d =
     (case sql_find (\<lambda>j. dj_user_id j = userID) (account_deletion_jobs d) of
        Some j \<Rightarrow>
          Inr (dj_id j, d\<lparr>account_deletion_jobs := sql_update (\<lambda>r. dj_user_id r = userID)
             (\<lambda>r. r\<lparr>dj_updated_at := now\<rparr>) (account_deletion_jobs d)\<rparr>)
      | None \<Rightarrow>
          if conflicts col_dj_id (Some jobID) (account_deletion_jobs d)
          then Inl (PgError uniqueViolationCode)
          else Inr (jobID, d\<lparr>account_deletion_jobs := account_deletion_jobs d @
             [\<lparr>dj_id = jobID, dj_user_id = userID, dj_status = status_pending, dj_attempt_count = 0,
               dj_next_attempt_at = now, dj_lease_until = None, dj_last_error = None,
               dj_created_at = now, dj_updated_at = now\<rparr>]\<rparr>))"

text \<open>INSERT of a step with ON CONFLICT DO NOTHING.\<close>

definition insert_deletion_step :: "time \<Rightarrow> uuid \<Rightarrow> string \<Rightarrow> unit stmt" where
  "insert_deletion_step now jobID service d =
     (if conflicts col_ds_key (Some (jobID, service)) (account_deletion_steps d) then Inr ((), d)
      else if \<not> list_ex (\<lambda>j. dj_id j = jobID) (account_deletion_jobs d)
      then Inl (PgError foreignKeyViolationCode)
      else Inr ((), d\<lparr>account_deletion_steps := account_deletion_steps d @
        [\<lparr>ds_job_id = jobID, ds_service = service, ds_status = status_pending, ds_attempt_count = 0,
          ds_next_attempt_at = now, ds_last_error = None, ds_updated_at = now\<rparr>]\<rparr>))"

text \<open>
  The job the worker may claim: not completed, due, and not under a running
  lease; the one due first. Of jobs due at the same instant, whose order SQL
  leaves open, the model takes the one inserted first.
\<close>

definition claimable :: "time \<Rightarrow> deletion_job_row \<Rightarrow> bool" where
  "claimable now j \<longleftrightarrow>
     dj_status j \<noteq> status_completed \<and> dj_next_attempt_at j \<le> now \<and>
     (case dj_lease_until j of None \<Rightarrow> True | Some l \<Rightarrow> l < now)"

definition next_claim :: "time \<Rightarrow> db \<Rightarrow> deletion_job_row option" where
  "next_claim now d =
     (case sort_key dj_next_attempt_at (filter (claimable now) (account_deletion_jobs d)) of
        [] \<Rightarrow> None
      | j # _ \<Rightarrow> Some j)"

definition claim_job :: "time \<Rightarrow> (uuid \<times> uuid) stmt" where
  "claim_job now d = (case next_claim now d of
       None \<Rightarrow> Inl (Sentinel Pgx_ErrNoRows)
     | Some j \<Rightarrow>
         Inr ((dj_id j, dj_user_id j),
           d\<lparr>account_deletion_jobs := sql_update (\<lambda>r. dj_id r = dj_id j)
              (\<lambda>r. r\<lparr>dj_status := status_processing, dj_attempt_count := dj_attempt_count r + 1,
                     dj_lease_until := Some (now + 2 * time_Minute), dj_updated_at := now\<rparr>)
              (account_deletion_jobs d)\<rparr>))"

record DeletionStep =
  st_Service :: string
  st_Status :: string
  st_AttemptCount :: int

record DeletionJob =
  job_ID :: uuid
  job_UserID :: uuid
  job_Steps :: "DeletionStep list"

definition select_steps :: "uuid \<Rightarrow> (DeletionStep list) stmt" where
  "select_steps jobID d =
     Inr (map (\<lambda>s. \<lparr>st_Service = ds_service s, st_Status = ds_status s, st_AttemptCount = ds_attempt_count s\<rparr>)
           (sort_key ds_service (filter (\<lambda>s. ds_job_id s = jobID) (account_deletion_steps d))), d)"

definition complete_step :: "time \<Rightarrow> uuid \<Rightarrow> string \<Rightarrow> unit stmt" where
  "complete_step now jobID service d =
     Inr ((), d\<lparr>account_deletion_steps := sql_update (\<lambda>s. ds_job_id s = jobID \<and> ds_service s = service)
        (\<lambda>s. s\<lparr>ds_status := status_completed, ds_updated_at := now, ds_last_error := None\<rparr>)
        (account_deletion_steps d)\<rparr>)"

definition retry_step :: "time \<Rightarrow> uuid \<Rightarrow> string \<Rightarrow> int \<Rightarrow> duration \<Rightarrow> string \<Rightarrow> unit stmt" where
  "retry_step now jobID service att delay msg d =
     Inr ((), d\<lparr>account_deletion_steps := sql_update (\<lambda>s. ds_job_id s = jobID \<and> ds_service s = service)
        (\<lambda>s. s\<lparr>ds_status := status_pending, ds_attempt_count := att,
               ds_next_attempt_at := now + delay, ds_last_error := Some msg, ds_updated_at := now\<rparr>)
        (account_deletion_steps d)\<rparr>)"

definition release_job :: "time \<Rightarrow> uuid \<Rightarrow> unit stmt" where
  "release_job now jobID d =
     Inr ((), d\<lparr>account_deletion_jobs := sql_update (\<lambda>r. dj_id r = jobID)
        (\<lambda>r. r\<lparr>dj_status := status_pending, dj_lease_until := None, dj_updated_at := now\<rparr>)
        (account_deletion_jobs d)\<rparr>)"

definition complete_job :: "time \<Rightarrow> uuid \<Rightarrow> unit stmt" where
  "complete_job now jobID d =
     Inr ((), d\<lparr>account_deletion_jobs := sql_update (\<lambda>r. dj_id r = jobID)
        (\<lambda>r. r\<lparr>dj_status := status_completed, dj_lease_until := None, dj_last_error := None,
               dj_updated_at := now\<rparr>)
        (account_deletion_jobs d)\<rparr>)"

section \<open>DeletionStore\<close>

fun insert_steps :: "time \<Rightarrow> uuid \<Rightarrow> string list \<Rightarrow> ('x world, unit) comp" where
  "insert_steps now jobID [] = ret ()"
| "insert_steps now jobID (name # names) =
     wrapM ''deletion: create step'' (exec_sql (insert_deletion_step now jobID name)) (\<lambda>_.
     insert_steps now jobID names)"

definition DeletionStore_RequestDeletion :: "uuid \<Rightarrow> ('x world, unit) comp" where
  "DeletionStore_RequestDeletion userID = transaction (Wrap ''deletion: begin'') (\<lambda>now.
     bindM uuid_New (\<lambda>jobID.
     wrapM ''deletion: mark pending'' (exec_sql (mark_deletion_pending now userID)) (\<lambda>n.
     if n = 0 then
       tryM (exec_sql (select_deletion_status userID))
         (\<lambda>e. if errors_Is e Pgx_ErrNoRows then fail (Opaque ''deletion: account is missing'')
              else fail (Wrap ''deletion: check account status'' e))
         (\<lambda>status. if status \<noteq> DeletionStatusPending then fail (Opaque ''deletion: account is not deletable'')
              else ret (Some (Wrap ''deletion: commit existing request''), ()))
     else
       wrapM ''deletion: revoke tokens'' (exec_sql (revoke_all_tokens now userID)) (\<lambda>_.
       wrapM ''deletion: create job'' (exec_sql (upsert_deletion_job now jobID userID)) (\<lambda>jobID.
       bindM (insert_steps now jobID deletionServices) (\<lambda>_.
       ret (Some (Wrap ''deletion: commit''), ())))))))"

section \<open>deletionJobStore\<close>

definition jobs_ClaimDeletion :: "('x world, DeletionJob option) comp" where
  "jobs_ClaimDeletion = transaction id (\<lambda>now.
     tryM (exec_sql (claim_job now))
       (\<lambda>e. if errors_Is e Pgx_ErrNoRows then ret (None, None) else fail e)
       (\<lambda>(jid, uid).
     bindM (exec_sql (select_steps jid)) (\<lambda>steps.
     ret (Some id, Some \<lparr>job_ID = jid, job_UserID = uid, job_Steps = steps\<rparr>))))"

definition jobs_CompleteDeletionStep :: "uuid \<Rightarrow> string \<Rightarrow> ('x world, unit) comp" where
  "jobs_CompleteDeletionStep jobID service = bindM time_Now (\<lambda>now.
     exec_sql (complete_step now jobID service))"

definition go_min :: "int \<Rightarrow> int \<Rightarrow> int" where
  "go_min a b = (if a < b then a else b)"

text \<open>\<open>time.Duration(1<<min(attempt, 8)) * time.Minute\<close>.\<close>

definition retry_delay :: "int \<Rightarrow> duration" where
  "retry_delay att = 2 ^ nat (go_min att 8) * time_Minute"

definition jobs_RetryDeletionStep :: "uuid \<Rightarrow> string \<Rightarrow> int \<Rightarrow> string \<Rightarrow> ('x world, unit) comp" where
  "jobs_RetryDeletionStep jobID service att msg = bindM time_Now (\<lambda>now.
     bindM (exec_sql (retry_step now jobID service att (retry_delay att) msg)) (\<lambda>_.
     bindM time_Now (\<lambda>now. exec_sql (release_job now jobID))))"

definition jobs_CompleteDeletionJob :: "uuid \<Rightarrow> ('x world, unit) comp" where
  "jobs_CompleteDeletionJob jobID = bindM time_Now (\<lambda>now. exec_sql (complete_job now jobID))"

end
