(* ===== verification/Service.thy ===== *)
theory Service
  imports Ports Deletion_Store
begin

text \<open>
  The use cases of \<open>internal/application/auth/service.go\<close>: registration, login,
  refresh, logout, profile, account deletion, and the helpers every session
  and every setup challenge goes through. Each definition follows the Go
  function statement by statement, with its early returns.
\<close>

definition normalizeEmail :: "'x service \<Rightarrow> string \<Rightarrow> string" where
  "normalizeEmail s email =
     strings_ToLower (svc_unicode s) (strings_TrimSpace (svc_unicode s) email)"

section \<open>Helpers\<close>

text \<open>
  \<open>cleanupSessionDevices\<close> starts a detached goroutine when the deletion
  dependency can clean up sessions; the goroutine runs later (\<open>run_cleanup\<close>).
\<close>

definition cleanupSessionDevices :: "'x service \<Rightarrow> uuid \<Rightarrow> uuid \<Rightarrow> ('x world, unit) comp" where
  "cleanupSessionDevices s userID sessionID = (case svc_cleaner s of
       Some (Some f) \<Rightarrow> (\<lambda>w. (Inr (), w\<lparr>w_cleanups := w_cleanups w @ [(userID, sessionID)]\<rparr>))
     | _ \<Rightarrow> ret ())"

text \<open>One of the pending goroutines, the \<open>k\<close>-th, runs to its end: errors are only logged.\<close>

definition run_cleanup :: "'x service \<Rightarrow> nat \<Rightarrow> ('x world, unit) comp" where
  "run_cleanup s k w = (case svc_cleaner s of
       Some (Some f) \<Rightarrow>
         (if k < length (w_cleanups w) then
            (case w_cleanups w ! k of (u, sid) \<Rightarrow>
               (case external (f u sid) (w\<lparr>w_cleanups := take k (w_cleanups w) @ drop (Suc k) (w_cleanups w)\<rparr>) of
                  (_, w') \<Rightarrow> (Inr (), w')))
          else (Inr (), w))
     | _ \<Rightarrow> (Inr (), w))"

definition issueSession :: "'x service \<Rightarrow> user \<Rightarrow> ('x world, Session) comp" where
  "issueSession s u =
     wrapM ''auth: revoke prior sessions'' (refreshTokens_RevokeAllForUser (u_ID u)) (\<lambda>_.
     wrapM ''auth: generate refresh token'' tokenhash_Generate (\<lambda>rawRefresh.
     bindM (RefreshToken_New (u_ID u) (tokenhash_Hash rawRefresh) (sc_RefreshTTL (svc_security s))) (\<lambda>rt.
     wrapM ''auth: activate session''
       (external (ss_ActivateAndReturnPrevious (svc_sessions s) (u_ID u) (rt_ID rt)
          (sc_RefreshTTL (svc_security s)))) (\<lambda>(previous, hadPrevious, generation).
     wrapM ''auth: store refresh token'' (refreshTokens_Create rt) (\<lambda>_.
     bindM (if hadPrevious then cleanupSessionDevices s (u_ID u) previous else ret ()) (\<lambda>_.
     wrapM ''auth: issue access token''
       (if svc_generation_issuer s
        then Issuer_IssueWithGeneration (svc_issuer s) (u_ID u) (rt_ID rt) generation
        else Issuer_Issue (svc_issuer s) (u_ID u) (rt_ID rt)) (\<lambda>(accessToken, expiresAt).
     ret \<lparr>se_UserID = u_ID u, se_Email = u_Email u, se_CreatedAt = u_CreatedAt u,
          se_AccessToken = accessToken, se_AccessTokenExpiresAt = expiresAt,
          se_RefreshToken = rawRefresh, se_RefreshTokenExpiresAt = rt_ExpiresAt rt\<rparr>)))))))"

definition issueLoginChallenge :: "'x service \<Rightarrow> user \<Rightarrow> ('x world, LoginResult) comp" where
  "issueLoginChallenge s u =
     wrapM ''auth: generate login challenge token'' tokenhash_Generate (\<lambda>rawToken.
     bindM (LoginChallenge_New (u_ID u) (tokenhash_Hash rawToken) (sc_LoginChallengeTTL (svc_security s))) (\<lambda>c.
     wrapM ''auth: store login challenge'' (loginChallenges_Create c) (\<lambda>_.
     ret \<lparr>lr_Status = LoginStatusOTPRequired, lr_ChallengeToken = rawToken, lr_SetupToken = '''',
          lr_OtpauthURI = '''', lr_Secret = '''', lr_ExpiresAt = lc_ExpiresAt c\<rparr>)))"

text \<open>The middle of \<open>beginTOTPSetup\<close>: the first setup creates the row, a later one replaces it.\<close>

definition storeSetup :: "'x service \<Rightarrow> user \<Rightarrow> byte list \<Rightarrow> string \<Rightarrow> ('x world, credential) comp" where
  "storeSetup s u encryptedSecret setupTokenHash =
     tryM (credentials_GetByUserID (u_ID u))
       (\<lambda>e. if \<not> errors_Is e Totp_ErrNotFound then fail e
            else bindM (Credential_New (u_ID u) encryptedSecret setupTokenHash
                   (sc_SetupTokenTTL (svc_security s))) (\<lambda>cred.
                 wrapM ''auth: create totp credential'' (credentials_Create cred) (\<lambda>_. ret cred)))
       (\<lambda>cred.
            bindM (Credential_BeginSetup encryptedSecret setupTokenHash
                   (sc_SetupTokenTTL (svc_security s)) cred) (\<lambda>cred.
            wrapM ''auth: update totp credential'' (credentials_Update cred) (\<lambda>_. ret cred)))"

text \<open>
  The final \<open>*cred.SetupTokenExpiresAt\<close> dereferences a pointer both branches
  have just set.
\<close>

definition beginTOTPSetup :: "'x service \<Rightarrow> user \<Rightarrow> ('x world, RegisterResult) comp" where
  "beginTOTPSetup s u =
     wrapM ''auth: generate totp secret''
       (totp_GenerateSecret (\<lambda>i a. external (svc_otp_Generate s i a)) (sc_TOTPIssuer (svc_security s)) (u_Email u))
       (\<lambda>(secretBase32, otpauthURI).
     wrapM ''auth: encrypt totp secret'' (Cipher_Encrypt (svc_cipher s) (bytes_of_string secretBase32)) (\<lambda>encryptedSecret.
     wrapM ''auth: generate setup token'' tokenhash_Generate (\<lambda>rawSetupToken.
     bindM (storeSetup s u encryptedSecret (tokenhash_Hash rawSetupToken)) (\<lambda>cred.
     ret \<lparr>rr_UserID = u_ID u, rr_SetupToken = rawSetupToken, rr_OtpauthURI = otpauthURI,
          rr_Secret = secretBase32, rr_ExpiresAt = the (c_SetupTokenExpiresAt cred)\<rparr>))))"

section \<open>Register, Login\<close>

definition Register :: "'x service \<Rightarrow> RegisterInput \<Rightarrow> ('x world, RegisterResult) comp" where
  "Register s inp =
     wrapM ''auth: hash password'' (hasher_Hash s (ri_Password inp)) (\<lambda>hash.
     bindM (User_New (normalizeEmail s (ri_Email inp)) hash) (\<lambda>u.
     bindM (users_Create u) (\<lambda>_.
     beginTOTPSetup s u)))"

definition Login :: "'x service \<Rightarrow> LoginInput \<Rightarrow> ('x world, LoginResult) comp" where
  "Login s inp =
     tryM (users_GetByEmail (normalizeEmail s (li_Email inp)))
       (\<lambda>e. if errors_Is e User_ErrNotFound then fail (Sentinel ErrInvalidCredentials) else fail e)
       (\<lambda>u.
     if hasher_Verify s (u_PasswordHash u) (li_Password inp) \<noteq> None
     then fail (Sentinel ErrInvalidCredentials)
     else if u_DeletionStatus u = DeletionStatusPending then fail (Sentinel ErrInvalidCredentials)
     else
       let setup = bindM (beginTOTPSetup s u) (\<lambda>st.
             ret \<lparr>lr_Status = LoginStatusTOTPSetupRequired, lr_ChallengeToken = '''',
                  lr_SetupToken = rr_SetupToken st, lr_OtpauthURI = rr_OtpauthURI st,
                  lr_Secret = rr_Secret st, lr_ExpiresAt = rr_ExpiresAt st\<rparr>)
       in tryM (credentials_GetByUserID (u_ID u))
            (\<lambda>e. if \<not> errors_Is e Totp_ErrNotFound then fail e else setup)
            (\<lambda>cred. if Credential_IsEnabled cred then issueLoginChallenge s u else setup))"

section \<open>Refresh, Logout\<close>

definition Refresh :: "'x service \<Rightarrow> string \<Rightarrow> ('x world, Session) comp" where
  "Refresh s rawToken =
     tryM (refreshTokens_GetByHash (tokenhash_Hash rawToken))
       (\<lambda>e. if errors_Is e Token_ErrNotFound then fail (Sentinel ErrInvalidRefreshToken) else fail e)
       (\<lambda>rt.
     if RefreshToken_IsRevoked rt then
       wrapM ''auth: revoke all after reuse'' (refreshTokens_RevokeAllForUser (rt_UserID rt)) (\<lambda>_.
       fail (Sentinel ErrInvalidRefreshToken))
     else bindM (RefreshToken_IsExpired rt) (\<lambda>expired.
       if expired then fail (Sentinel ErrInvalidRefreshToken)
       else tryM (users_GetByID (rt_UserID rt)) (\<lambda>_. fail (Sentinel ErrInvalidRefreshToken)) (\<lambda>u.
         if u_DeletionStatus u = DeletionStatusPending then
           attempt (refreshTokens_RevokeAllForUser (rt_UserID rt)) (\<lambda>_.
           fail (Sentinel ErrInvalidRefreshToken))
         else wrapM ''auth: revoke rotated token'' (refreshTokens_Revoke (rt_ID rt)) (\<lambda>_.
           issueSession s u))))"

definition Logout :: "'x service \<Rightarrow> string \<Rightarrow> ('x world, unit) comp" where
  "Logout s rawToken =
     tryM (refreshTokens_GetByHash (tokenhash_Hash rawToken))
       (\<lambda>e. if errors_Is e Token_ErrNotFound then ret () else fail e)
       (\<lambda>rt.
     if RefreshToken_IsRevoked rt then ret ()
     else bindM (refreshTokens_Revoke (rt_ID rt)) (\<lambda>_.
       wrapM ''auth: deactivate session on logout''
         (external (ss_DeactivateIfCurrent (svc_sessions s) (rt_UserID rt) (rt_ID rt))) (\<lambda>_.
       cleanupSessionDevices s (rt_UserID rt) (rt_ID rt))))"

section \<open>CurrentUser, UpdateProfile\<close>

definition CurrentUser :: "uuid \<Rightarrow> ('x world, user) comp" where
  "CurrentUser userID = users_GetByID userID"

text \<open>The avatar to store and the one to delete, after the ownership check.\<close>

definition resolveAvatar ::
  "'x service \<Rightarrow> string \<Rightarrow> user \<Rightarrow> AvatarChange option \<Rightarrow> ('x world, uuid option \<times> uuid option) comp" where
  "resolveAvatar s accessToken u change = (case change of
       None \<Rightarrow> ret (u_AvatarMediaID u, None)
     | Some ch \<Rightarrow>
         (case ac_MediaID ch of
            Some m \<Rightarrow>
              bindM (external (mc_VerifyOwnership (svc_media s) accessToken [m])) (\<lambda>_.
              ret (Some m,
                   if u_AvatarMediaID u \<noteq> None \<and> u_AvatarMediaID u \<noteq> Some m
                   then u_AvatarMediaID u else None))
          | None \<Rightarrow> ret (None, u_AvatarMediaID u)))"

definition UpdateProfile ::
  "'x service \<Rightarrow> uuid \<Rightarrow> string \<Rightarrow> UpdateProfileInput \<Rightarrow> ('x world, user) comp" where
  "UpdateProfile s userID accessToken inp =
     bindM (users_GetByID userID) (\<lambda>u.
     bindM (resolveAvatar s accessToken u (up_Avatar inp)) (\<lambda>(avatarMediaID, oldAvatarToDelete).
     bindM (case oldAvatarToDelete of
              None \<Rightarrow> ret ()
            | Some old \<Rightarrow> external (mc_DeleteByIDs (svc_media s) accessToken [old])) (\<lambda>_.
     bindM (User_UpdateProfile (up_FirstName inp) (up_LastName inp) avatarMediaID u) (\<lambda>u.
     bindM (users_Update u) (\<lambda>_.
     ret u)))))"

end
