(* ===== verification/Service_Totp.thy ===== *)
theory Service_Totp
  imports Service
begin

text \<open>
  The OTP gate of \<open>internal/application/auth/service_totp.go\<close> and the use cases
  behind it: completing a setup, completing a login, changing the password,
  and \<open>DeleteAccount\<close> of \<open>service.go\<close>, which goes through the same gate.
\<close>

definition demoAccountEmail :: string where
  "demoAccountEmail = ''demo@gmail.com''"

definition demoOTPCode :: string where
  "demoOTPCode = ''123456''"

section \<open>The OTP gate\<close>

definition validateOTP ::
  "'x service \<Rightarrow> string \<Rightarrow> credential \<Rightarrow> string \<Rightarrow> ('x world, bool \<times> int \<times> bool) comp" where
  "validateOTP s email cred code =
     (if email = demoAccountEmail \<and> code = demoOTPCode then ret (True, 0, True)
      else case Cipher_Decrypt (svc_cipher s) (c_SecretEncrypted cred) of
             Inl e \<Rightarrow> fail (Wrap ''auth: decrypt totp secret'' e)
           | Inr secret \<Rightarrow> bindM time_Now (\<lambda>now.
               let (ok, counter) = totp_ValidateAt (svc_hotp s) code (string_of_bytes secret) now
               in ret (ok, counter, False)))"

text \<open>
  \<open>verifyOTP\<close> changes the credential through its pointer; the model returns the
  changed credential, which the callers go on using.
\<close>

definition verifyOTP ::
  "'x service \<Rightarrow> string \<Rightarrow> credential \<Rightarrow> string \<Rightarrow> ('x world, credential) comp" where
  "verifyOTP s email cred code =
     bindM (Credential_IsLocked cred) (\<lambda>locked.
     if locked then fail (Sentinel ErrOTPLocked)
     else bindM (validateOTP s email cred code) (\<lambda>(ok, counter, demoCode).
       let ok = (if ok \<and> \<not> demoCode \<and> Credential_IsCodeConsumed counter cred then False else ok)
       in if \<not> ok then
            bindM (Credential_RecordFailure (sc_OTPMaxAttempts (svc_security s))
                     (sc_OTPLockoutDuration (svc_security s)) cred) (\<lambda>cred.
            wrapM ''auth: persist otp failure'' (credentials_Update cred) (\<lambda>_.
            bindM (Credential_IsLocked cred) (\<lambda>locked.
            if locked then fail (Sentinel ErrOTPLocked) else fail (Sentinel ErrOTPInvalid))))
          else
            bindM (Credential_RecordSuccess counter cred) (\<lambda>cred.
            wrapM ''auth: persist otp success'' (credentials_Update cred) (\<lambda>_.
            ret cred))))"

section \<open>Use cases\<close>

definition SetupVerifyOTP :: "'x service \<Rightarrow> string \<Rightarrow> string \<Rightarrow> ('x world, Session) comp" where
  "SetupVerifyOTP s setupToken code =
     tryM (credentials_GetBySetupTokenHash (tokenhash_Hash setupToken))
       (\<lambda>e. if errors_Is e Totp_ErrNotFound then fail (Sentinel ErrSetupTokenInvalid) else fail e)
       (\<lambda>cred.
     bindM (Credential_IsSetupTokenExpired cred) (\<lambda>expired.
     if expired then fail (Sentinel ErrSetupTokenInvalid)
     else bindM (users_GetByID (c_UserID cred)) (\<lambda>u.
       bindM (verifyOTP s (u_Email u) cred code) (\<lambda>cred.
       if u_DeletionStatus u = DeletionStatusPending then fail (Sentinel ErrInvalidCredentials)
       else bindM (issueSession s u) (\<lambda>session.
         bindM (Credential_Enable cred) (\<lambda>cred.
         wrapM ''auth: enable totp credential'' (credentials_Update cred) (\<lambda>_.
         ret session)))))))"

definition LoginVerifyOTP :: "'x service \<Rightarrow> string \<Rightarrow> string \<Rightarrow> ('x world, Session) comp" where
  "LoginVerifyOTP s challengeToken code =
     tryM (loginChallenges_GetByHash (tokenhash_Hash challengeToken))
       (\<lambda>e. if errors_Is e LoginChallenge_ErrNotFound then fail (Sentinel ErrChallengeInvalid) else fail e)
       (\<lambda>challenge.
     bindM (LoginChallenge_IsExpired challenge) (\<lambda>expired.
     if expired \<or> LoginChallenge_IsConsumed challenge then fail (Sentinel ErrChallengeInvalid)
     else tryM (credentials_GetByUserID (lc_UserID challenge))
       (\<lambda>e. if errors_Is e Totp_ErrNotFound then fail (Sentinel ErrChallengeInvalid) else fail e)
       (\<lambda>cred.
     bindM (users_GetByID (lc_UserID challenge)) (\<lambda>u.
     bindM (verifyOTP s (u_Email u) cred code) (\<lambda>_.
     if u_DeletionStatus u = DeletionStatusPending then fail (Sentinel ErrChallengeInvalid)
     else bindM (issueSession s u) (\<lambda>session.
       wrapM ''auth: consume login challenge'' (loginChallenges_Consume (lc_ID challenge)) (\<lambda>_.
       ret session)))))))"

text \<open>The end of a password change, shared with \<open>ConfirmPasswordReset\<close>: the marker and the device cleanup.\<close>

definition deactivateAndCleanup :: "'x service \<Rightarrow> string \<Rightarrow> uuid \<Rightarrow> ('x world, unit) comp" where
  "deactivateAndCleanup s msg userID =
     wrapM msg (external (ss_DeactivateAndReturnPrevious (svc_sessions s) userID))
       (\<lambda>(previousSessionID, hadPrevious).
     if hadPrevious then cleanupSessionDevices s userID previousSessionID else ret ())"

definition ChangePassword :: "'x service \<Rightarrow> uuid \<Rightarrow> ChangePasswordInput \<Rightarrow> ('x world, unit) comp" where
  "ChangePassword s userID inp =
     bindM (users_GetByID userID) (\<lambda>u.
     if hasher_Verify s (u_PasswordHash u) (cp_CurrentPassword inp) \<noteq> None
     then fail (Sentinel ErrCurrentPasswordInvalid)
     else tryM (credentials_GetByUserID userID)
       (\<lambda>e. if errors_Is e Totp_ErrNotFound then fail (Sentinel ErrOTPInvalid) else fail e)
       (\<lambda>cred.
     bindM (verifyOTP s (u_Email u) cred (cp_OTP inp)) (\<lambda>_.
     wrapM ''auth: hash new password'' (hasher_Hash s (cp_NewPassword inp)) (\<lambda>newHash.
     bindM (users_UpdatePassword userID newHash) (\<lambda>_.
     wrapM ''auth: revoke sessions after password change'' (refreshTokens_RevokeAllForUser userID) (\<lambda>_.
     deactivateAndCleanup s ''auth: deactivate session after password change'' userID))))))"

definition DeleteAccount :: "'x service \<Rightarrow> uuid \<Rightarrow> string \<Rightarrow> string \<Rightarrow> ('x world, unit) comp" where
  "DeleteAccount s userID accessToken otp =
     bindM (users_GetByID userID) (\<lambda>u.
     tryM (credentials_GetByUserID userID)
       (\<lambda>e. if errors_Is e Totp_ErrNotFound then fail (Sentinel ErrOTPInvalid) else fail e)
       (\<lambda>cred.
     bindM (verifyOTP s (u_Email u) cred otp) (\<lambda>_.
     if svc_cleaner s \<noteq> None then
       bindM (DeletionStore_RequestDeletion userID) (\<lambda>_.
       wrapM ''auth: revoke sessions for deletion'' (refreshTokens_RevokeAllForUser userID) (\<lambda>_.
       wrapM ''auth: deactivate session for deletion''
         (external (ss_Deactivate (svc_sessions s) userID)) ret))
     else
       bindM (external (svc_apiaries_DeleteAllMine s accessToken)) (\<lambda>_.
       bindM (external (mc_DeleteAllByUser (svc_media s) accessToken)) (\<lambda>_.
       bindM (users_Delete userID) (\<lambda>_.
       wrapM ''auth: deactivate session after account deletion''
         (external (ss_Deactivate (svc_sessions s) userID)) ret))))))"

end
