(* ===== verification/Service_PasswordReset.thy ===== *)
theory Service_PasswordReset
  imports Service_Totp
begin

text \<open>
  The forgot-password flow of
  \<open>internal/application/auth/service_password_reset.go\<close>: request, OTP, new
  password. The OTP here has its own attempt cap and never touches the
  account-level lockout.
\<close>

text \<open>The account a new flow is bound to: only one with an enabled credential.\<close>

definition eligibleUser :: "'x service \<Rightarrow> string \<Rightarrow> ('x world, uuid option) comp" where
  "eligibleUser s email =
     tryM (users_GetByEmail (normalizeEmail s email))
       (\<lambda>e. if errors_Is e User_ErrNotFound then ret None else fail e)
       (\<lambda>u. tryM (credentials_GetByUserID (u_ID u))
         (\<lambda>e. if \<not> errors_Is e Totp_ErrNotFound then fail e else ret None)
         (\<lambda>cred. ret (if Credential_IsEnabled cred then Some (u_ID u) else None)))"

definition RequestPasswordReset ::
  "'x service \<Rightarrow> string \<Rightarrow> ('x world, PasswordResetRequestResult) comp" where
  "RequestPasswordReset s email =
     bindM (eligibleUser s email) (\<lambda>eligibleUserID.
     wrapM ''auth: generate password reset flow token'' tokenhash_Generate (\<lambda>rawFlowToken.
     bindM (PasswordResetFlow_New eligibleUserID (tokenhash_Hash rawFlowToken)
              (sc_PasswordResetFlowTTL (svc_security s))) (\<lambda>flow.
     wrapM ''auth: store password reset flow'' (passwordResetFlows_Create flow) (\<lambda>_.
     ret \<lparr>pr_FlowToken = rawFlowToken, pr_ExpiresAt = f_ExpiresAt flow\<rparr>))))"

text \<open>The check of the code against the flow's account, with the anti-replay write.\<close>

definition flowCodeValid :: "'x service \<Rightarrow> reset_flow \<Rightarrow> string \<Rightarrow> ('x world, bool) comp" where
  "flowCodeValid s flow code = (case f_UserID flow of
       None \<Rightarrow> ret False
     | Some userID \<Rightarrow>
         tryM (credentials_GetByUserID userID)
           (\<lambda>e. if \<not> errors_Is e Totp_ErrNotFound then fail e else ret False)
           (\<lambda>cred.
         if Credential_IsEnabled cred then
           bindM (users_GetByID userID) (\<lambda>u.
           bindM (validateOTP s (u_Email u) cred code) (\<lambda>(ok, counter, demoCode).
           if ok \<and> (demoCode \<or> \<not> Credential_IsCodeConsumed counter cred) then
             if \<not> demoCode then
               bindM (Credential_MarkCodeUsed counter cred) (\<lambda>cred.
               wrapM ''auth: persist totp anti-replay state'' (credentials_Update cred) (\<lambda>_.
               ret True))
             else ret True
           else ret False))
         else ret False))"

definition VerifyPasswordResetOTP ::
  "'x service \<Rightarrow> string \<Rightarrow> string \<Rightarrow> ('x world, PasswordResetOTPResult) comp" where
  "VerifyPasswordResetOTP s flowToken code =
     tryM (passwordResetFlows_GetByFlowTokenHash (tokenhash_Hash flowToken))
       (\<lambda>e. if errors_Is e PasswordReset_ErrNotFound then fail (Sentinel ErrPasswordResetFlowInvalid) else fail e)
       (\<lambda>flow.
     bindM (PasswordResetFlow_IsExpired flow) (\<lambda>expired.
     if expired \<or> PasswordResetFlow_IsConsumed flow \<or> PasswordResetFlow_IsOTPVerified flow
     then fail (Sentinel ErrPasswordResetFlowInvalid)
     else if PasswordResetFlow_IsOTPLocked (sc_ResetFlowMaxOTPAttempts (svc_security s)) flow
     then fail (Sentinel ErrOTPLocked)
     else bindM (flowCodeValid s flow code) (\<lambda>valid.
       if \<not> valid then
         (let (locked, flow) =
            PasswordResetFlow_RecordOTPFailure (sc_ResetFlowMaxOTPAttempts (svc_security s)) flow
          in wrapM ''auth: persist password reset otp failure'' (passwordResetFlows_Update flow) (\<lambda>_.
             if locked then fail (Sentinel ErrOTPLocked) else fail (Sentinel ErrOTPInvalid)))
       else
         wrapM ''auth: generate password reset token'' tokenhash_Generate (\<lambda>rawResetToken.
         bindM (PasswordResetFlow_MarkOTPVerified flow) (\<lambda>flow.
         bindM (PasswordResetFlow_IssueResetToken (tokenhash_Hash rawResetToken)
                  (sc_PasswordResetTokenTTL (svc_security s)) flow) (\<lambda>flow.
         wrapM ''auth: persist password reset otp success'' (passwordResetFlows_Update flow) (\<lambda>_.
         ret \<lparr>po_ResetToken = rawResetToken, po_ExpiresAt = the (f_ResetTokenExpiresAt flow)\<rparr>)))))))"

text \<open>The five disjuncts of the guard, in their order; the clock is read where Go evaluates them.\<close>

definition resetRefused :: "reset_flow \<Rightarrow> ('x world, bool) comp" where
  "resetRefused flow =
     bindM (PasswordResetFlow_IsExpired flow) (\<lambda>expired.
     if expired \<or> PasswordResetFlow_IsConsumed flow \<or> \<not> PasswordResetFlow_IsOTPVerified flow
     then ret True
     else bindM (PasswordResetFlow_IsResetTokenValid flow) (\<lambda>valid.
       ret (\<not> valid \<or> f_UserID flow = None)))"

definition ConfirmPasswordReset :: "'x service \<Rightarrow> string \<Rightarrow> string \<Rightarrow> ('x world, unit) comp" where
  "ConfirmPasswordReset s resetToken newPassword =
     tryM (passwordResetFlows_GetByResetTokenHash (tokenhash_Hash resetToken))
       (\<lambda>e. if errors_Is e PasswordReset_ErrNotFound then fail (Sentinel ErrPasswordResetTokenInvalid) else fail e)
       (\<lambda>flow.
     bindM (resetRefused flow) (\<lambda>refused.
     if refused then fail (Sentinel ErrPasswordResetTokenInvalid)
     else let userID = the (f_UserID flow) in
       wrapM ''auth: hash new password'' (hasher_Hash s newPassword) (\<lambda>newHash.
       bindM (users_UpdatePassword userID newHash) (\<lambda>_.
       bindM (PasswordResetFlow_Consume flow) (\<lambda>flow.
       wrapM ''auth: consume password reset flow'' (passwordResetFlows_Update flow) (\<lambda>_.
       wrapM ''auth: revoke sessions after password reset'' (refreshTokens_RevokeAllForUser userID) (\<lambda>_.
       deactivateAndCleanup s ''auth: deactivate session after password reset'' userID)))))))"

end
