(* ===== verification/Deletion_Worker.thy ===== *)
theory Deletion_Worker
  imports Deletion_Store Ports
begin

text \<open>
  \<open>internal/application/auth/deletion_worker.go\<close>: the worker that claims one
  deletion job, calls the cleanup client of every step that is not completed,
  deletes the user row after the last one and closes the job.
\<close>

text \<open>\<open>clients\<close> is the map from service names to cleanup clients.\<close>

type_synonym 'x cleanup_clients = "string \<Rightarrow> (uuid \<Rightarrow> ('x, unit) ext_call) option"

text \<open>
  \<open>cause.Error()\<close>, which the step keeps as its last error. The message of a
  server error is not part of \<open>PgError\<close>; its text here is the SQLSTATE part.
\<close>

fun sentinel_text :: "sentinel \<Rightarrow> string" where
  "sentinel_text User_ErrNotFound = ''user not found''"
| "sentinel_text User_ErrEmailTaken = ''email already registered''"
| "sentinel_text Token_ErrNotFound = ''refresh token not found''"
| "sentinel_text Totp_ErrNotFound = ''totp credential not found''"
| "sentinel_text LoginChallenge_ErrNotFound = ''login challenge not found''"
| "sentinel_text PasswordReset_ErrNotFound = ''password reset flow not found''"
| "sentinel_text ErrInvalidCredentials = ''invalid email or password''"
| "sentinel_text ErrInvalidRefreshToken = ''invalid refresh token''"
| "sentinel_text ErrAvatarNotFound = ''avatar not found''"
| "sentinel_text ErrOTPInvalid = ''invalid otp code''"
| "sentinel_text ErrOTPLocked = ''too many failed otp attempts''"
| "sentinel_text ErrSetupTokenInvalid = ''invalid or expired setup token''"
| "sentinel_text ErrChallengeInvalid = ''invalid or expired login challenge''"
| "sentinel_text ErrCurrentPasswordInvalid = ''current password is incorrect''"
| "sentinel_text ErrPasswordResetFlowInvalid = ''invalid or expired password reset flow''"
| "sentinel_text ErrPasswordResetTokenInvalid = ''invalid or expired password reset token''"
| "sentinel_text Pgx_ErrNoRows = ''no rows in result set''"

fun error_text :: "goerror \<Rightarrow> string" where
  "error_text (Sentinel s) = sentinel_text s"
| "error_text (Wrap msg e) = msg @ '': '' @ error_text e"
| "error_text (PgError code) = ''(SQLSTATE '' @ code @ '')''"
| "error_text (Opaque msg) = msg"

definition DeletionWorker_retry ::
  "DeletionJob \<Rightarrow> DeletionStep \<Rightarrow> goerror \<Rightarrow> ('x world, unit) comp" where
  "DeletionWorker_retry job step cause =
     bindM (jobs_RetryDeletionStep (job_ID job) (st_Service step) (st_AttemptCount step + 1) (error_text cause))
       (\<lambda>_. ret ())"

text \<open>
  The loop over the steps: \<open>Some ()\<close> when it ran to its end, \<open>None\<close> when a step was
  put back for a retry, which makes \<open>RunOnce\<close> return.
\<close>

fun run_steps :: "'x cleanup_clients \<Rightarrow> DeletionJob \<Rightarrow> DeletionStep list \<Rightarrow> ('x world, unit option) comp" where
  "run_steps clients job [] = ret (Some ())"
| "run_steps clients job (step # steps) =
     (if st_Status step = status_completed then run_steps clients job steps
      else case clients (st_Service step) of
             None \<Rightarrow>
               bindM (DeletionWorker_retry job step (Opaque ''missing cleanup client'')) (\<lambda>_. ret None)
           | Some deleteUserData \<Rightarrow>
               tryM (external (deleteUserData (job_UserID job)))
                 (\<lambda>e. bindM (DeletionWorker_retry job step e) (\<lambda>_. ret None))
                 (\<lambda>_. bindM (jobs_CompleteDeletionStep (job_ID job) (st_Service step)) (\<lambda>_.
                      run_steps clients job steps)))"

definition run_job :: "'x cleanup_clients \<Rightarrow> DeletionJob \<Rightarrow> ('x world, unit) comp" where
  "run_job clients job =
     bindM (run_steps clients job (job_Steps job)) (\<lambda>finished.
     case finished of
       None \<Rightarrow> ret ()
     | Some _ \<Rightarrow>
         tryM (users_Delete (job_UserID job))
           (\<lambda>e. if errors_Is e User_ErrNotFound then jobs_CompleteDeletionJob (job_ID job) else fail e)
           (\<lambda>_. jobs_CompleteDeletionJob (job_ID job)))"

definition DeletionWorker_RunOnce :: "'x cleanup_clients \<Rightarrow> ('x world, unit) comp" where
  "DeletionWorker_RunOnce clients =
     bindM jobs_ClaimDeletion (\<lambda>job.
     case job of None \<Rightarrow> ret () | Some job \<Rightarrow> run_job clients job)"

text \<open>
  The body of \<open>Run\<close>'s loop for a finite number of ticks: an error of one round
  is logged and the next round runs anyway.
\<close>

definition worker_interval :: "duration \<Rightarrow> duration" where
  "worker_interval interval = (if interval \<le> 0 then 5 * time_Second else interval)"

fun DeletionWorker_Run :: "'x cleanup_clients \<Rightarrow> nat \<Rightarrow> ('x world, unit) comp" where
  "DeletionWorker_Run clients 0 = ret ()"
| "DeletionWorker_Run clients (Suc ticks) =
     attempt (DeletionWorker_RunOnce clients) (\<lambda>_. DeletionWorker_Run clients ticks)"

end
