(* ===== verification/Db_Logic.thy ===== *)
theory Db_Logic
  imports Repository_Facts
begin

text \<open>
  A Hoare logic for the database part of the world. \<open>dbh A m B E\<close>: started in
  a database that satisfies \<open>A\<close>, the computation \<open>m\<close> ends in one that
  satisfies \<open>B x\<close> when it returns \<open>x\<close>, and \<open>E e\<close> when it fails with \<open>e\<close>. The rules for
  the combinators and the strongest postconditions of the repository methods
  let a proof follow the code forwards, error exits included.
\<close>

definition dbh ::
  "(db \<Rightarrow> bool) \<Rightarrow> ('x world, 'a) comp \<Rightarrow> ('a \<Rightarrow> db \<Rightarrow> bool) \<Rightarrow> (goerror \<Rightarrow> db \<Rightarrow> bool) \<Rightarrow> bool" where
  "dbh A m B E \<longleftrightarrow> (\<forall>w. A (w_db w) \<longrightarrow>
     (case m w of (Inr x, w') \<Rightarrow> B x (w_db w') | (Inl e, w') \<Rightarrow> E e (w_db w')))"

lemma dbhI:
  "(\<And>w x w'. A (w_db w) \<Longrightarrow> m w = (Inr x, w') \<Longrightarrow> B x (w_db w')) \<Longrightarrow>
   (\<And>w e w'. A (w_db w) \<Longrightarrow> m w = (Inl e, w') \<Longrightarrow> E e (w_db w')) \<Longrightarrow> dbh A m B E"
  by (auto simp: dbh_def split: prod.split sum.split)

lemma dbhD_Inr: "dbh A m B E \<Longrightarrow> m w = (Inr x, w') \<Longrightarrow> A (w_db w) \<Longrightarrow> B x (w_db w')"
  by (auto simp: dbh_def dest: spec [of _ w])

lemma dbhD_Inl: "dbh A m B E \<Longrightarrow> m w = (Inl e, w') \<Longrightarrow> A (w_db w) \<Longrightarrow> E e (w_db w')"
  by (auto simp: dbh_def dest: spec [of _ w])

lemma dbh_inv:
  assumes "dbh I m (\<lambda>_. I) (\<lambda>_. I)" "I (w_db w)"
  shows "I (w_db (snd (m w)))"
  using assms by (cases "m w"; cases "fst (m w)") (auto dest: dbhD_Inr dbhD_Inl)

lemma dbh_conseq:
  assumes "dbh A m B E" and "\<And>d. A' d \<Longrightarrow> A d" and "\<And>x d. B x d \<Longrightarrow> B' x d"
    and "\<And>e d. E e d \<Longrightarrow> E' e d"
  shows "dbh A' m B' E'"
  by (rule dbhI) (auto intro: assms(2-) dest: dbhD_Inr [OF assms(1)] dbhD_Inl [OF assms(1)])

section \<open>Combinators\<close>

lemma dbh_ret: "(\<And>d. A d \<Longrightarrow> B x d) \<Longrightarrow> dbh A (ret x) B E"
  by (simp add: dbh_def)

lemma dbh_fail: "(\<And>d. A d \<Longrightarrow> E e d) \<Longrightarrow> dbh A (fail e) B E"
  by (simp add: dbh_def)

lemma dbh_attempt:
  assumes "dbh A m M F" and "\<And>e. dbh (F e) (k (Inl e)) B E" and "\<And>x. dbh (M x) (k (Inr x)) B E"
  shows "dbh A (attempt m k) B E"
proof -
  have "case attempt m k w of (Inr x, w') \<Rightarrow> B x (w_db w') | (Inl e, w') \<Rightarrow> E e (w_db w')"
    if "A (w_db w)" for w
  proof -
    obtain r w1 where m: "m w = (r, w1)" by force
    obtain q w2 where k: "k r w1 = (q, w2)" by force
    show ?thesis
      using that m k
      by (cases r; cases q)
         (auto simp: attempt_apply dest: dbhD_Inr [OF assms(1)] dbhD_Inl [OF assms(1)]
           dest: dbhD_Inr [OF assms(2)] dbhD_Inl [OF assms(2)] dbhD_Inr [OF assms(3)] dbhD_Inl [OF assms(3)])
  qed
  then show ?thesis by (simp add: dbh_def)
qed

lemma dbh_tryM:
  assumes "dbh A m M F" and "\<And>e. dbh (F e) (h e) B E" and "\<And>x. dbh (M x) (k x) B E"
  shows "dbh A (tryM m h k) B E"
  unfolding tryM_def using assms by (intro dbh_attempt) simp_all

lemma dbh_bindM:
  assumes "dbh A m M F" and "\<And>e d. F e d \<Longrightarrow> E e d" and "\<And>x. dbh (M x) (k x) B E"
  shows "dbh A (bindM m k) B E"
  unfolding bindM_def using assms by (intro dbh_tryM) (auto intro: dbh_fail)

lemma dbh_wrapM:
  assumes "dbh A m M F" and "\<And>e d. F e d \<Longrightarrow> E (Wrap msg e) d" and "\<And>x. dbh (M x) (k x) B E"
  shows "dbh A (wrapM msg m k) B E"
  unfolding wrapM_def using assms by (intro dbh_tryM) (auto intro: dbh_fail)

lemma dbh_if:
  "(b \<Longrightarrow> dbh A m B E) \<Longrightarrow> (\<not> b \<Longrightarrow> dbh A n B E) \<Longrightarrow> dbh A (if b then m else n) B E"
  by simp

lemma dbh_option:
  "(v = None \<Longrightarrow> dbh A m B E) \<Longrightarrow> (\<And>x. v = Some x \<Longrightarrow> dbh A (k x) B E) \<Longrightarrow>
     dbh A (case v of None \<Rightarrow> m | Some x \<Rightarrow> k x) B E"
  by (simp split: option.split)

lemma dbh_sum:
  "(\<And>e. v = Inl e \<Longrightarrow> dbh A (h e) B E) \<Longrightarrow> (\<And>x. v = Inr x \<Longrightarrow> dbh A (k x) B E) \<Longrightarrow>
     dbh A (case v of Inl e \<Rightarrow> h e | Inr x \<Rightarrow> k x) B E"
  by (simp split: sum.split)

lemma dbh_prod:
  "(\<And>x y. v = (x, y) \<Longrightarrow> dbh A (k x y) B E) \<Longrightarrow> dbh A (case v of (x, y) \<Rightarrow> k x y) B E"
  by (simp split: prod.split)

lemmas dbh_comb =
  dbh_ret dbh_fail dbh_attempt dbh_tryM dbh_bindM dbh_wrapM dbh_if dbh_option dbh_sum dbh_prod

section \<open>Steps that leave the database alone\<close>

interpretation same_db: db_frame "\<lambda>d d'. d' = d"
  by unfold_locales auto

lemma dbh_same:
  assumes "keeps (\<lambda>w w'. w_db w' = w_db w) m" and "\<And>w x w'. m w = (Inr x, w') \<Longrightarrow> P x"
  shows "dbh A m (\<lambda>x d. A d \<and> P x) (\<lambda>_. A)"
  using keepsD [OF assms(1)] assms(2) by (intro dbhI) (metis, metis)

lemma dbh_skip:
  assumes "keeps (\<lambda>w w'. w_db w' = w_db w) m"
  shows "dbh A m (\<lambda>_. A) (\<lambda>_. A)"
  using dbh_same [OF assms, of "\<lambda>_. True"] by simp

section \<open>Repository methods\<close>

lemma dbh_reads:
  "dbh A (users_GetByEmail m) (\<lambda>u d. A d \<and> sql_find (\<lambda>u. u_Email u = m) (users d) = Some u)
     (\<lambda>e d. A d \<and> (errors_Is e User_ErrNotFound \<longrightarrow> sql_find (\<lambda>u. u_Email u = m) (users d) = None))"
  "dbh A (users_GetByID i) (\<lambda>u d. A d \<and> sql_find (\<lambda>u. u_ID u = i) (users d) = Some u) (\<lambda>_. A)"
  "dbh A (refreshTokens_GetByHash h)
     (\<lambda>t d. A d \<and> sql_find (\<lambda>t. rt_TokenHash t = h) (refresh_tokens d) = Some t) (\<lambda>_. A)"
  "dbh A (credentials_GetByUserID i)
     (\<lambda>c d. A d \<and> sql_find (\<lambda>c. c_UserID c = i) (two_factor_credentials d) = Some c)
     (\<lambda>e d. A d \<and> (errors_Is e Totp_ErrNotFound \<longrightarrow>
        sql_find (\<lambda>c. c_UserID c = i) (two_factor_credentials d) = None))"
  "dbh A (credentials_GetBySetupTokenHash h)
     (\<lambda>c d. A d \<and> sql_find (\<lambda>c. c_SetupTokenHash c = Some h) (two_factor_credentials d) = Some c) (\<lambda>_. A)"
  "dbh A (loginChallenges_GetByHash h)
     (\<lambda>c d. A d \<and> sql_find (\<lambda>c. lc_TokenHash c = h) (login_challenges d) = Some c) (\<lambda>_. A)"
  "dbh A (passwordResetFlows_GetByFlowTokenHash h)
     (\<lambda>f d. A d \<and> sql_find (\<lambda>f. f_FlowTokenHash f = h) (password_reset_flows d) = Some f) (\<lambda>_. A)"
  "dbh A (passwordResetFlows_GetByResetTokenHash h)
     (\<lambda>f d. A d \<and> sql_find (\<lambda>f. f_ResetTokenHash f = Some h) (password_reset_flows d) = Some f) (\<lambda>_. A)"
  by (rule dbhI; auto dest!: repo_spec repo_failed)+

lemma dbh_writes:
  "dbh A (users_Create u) (\<lambda>_ d'. \<exists>d. A d \<and> insert_user u d = Inr ((), d')) (\<lambda>_. A)"
  "dbh A (users_Update u) (\<lambda>_ d'. \<exists>d n. A d \<and> n \<noteq> 0 \<and> update_user u d = Inr (n, d')) (\<lambda>_. A)"
  "dbh A (users_UpdatePassword i h)
     (\<lambda>_ d'. \<exists>d now n. A d \<and> n \<noteq> 0 \<and> update_user_password now i h d = Inr (n, d')) (\<lambda>_. A)"
  "dbh A (users_Delete i) (\<lambda>_ d'. \<exists>d n. A d \<and> n \<noteq> 0 \<and> delete_user i d = Inr (n, d')) (\<lambda>_. A)"
  "dbh A (refreshTokens_Create t) (\<lambda>_ d'. \<exists>d. A d \<and> insert_refresh_token t d = Inr ((), d')) (\<lambda>_. A)"
  "dbh A (refreshTokens_Revoke i) (\<lambda>_ d'. \<exists>d now. A d \<and> revoke_token now i d = Inr ((), d')) (\<lambda>_. A)"
  "dbh A (refreshTokens_RevokeAllForUser i)
     (\<lambda>_ d'. \<exists>d now. A d \<and> revoke_all_tokens now i d = Inr ((), d')) (\<lambda>_. A)"
  "dbh A (credentials_Create c) (\<lambda>_ d'. \<exists>d. A d \<and> insert_credential c d = Inr ((), d')) (\<lambda>_. A)"
  "dbh A (credentials_Update c) (\<lambda>_ d'. \<exists>d n. A d \<and> n \<noteq> 0 \<and> update_credential c d = Inr (n, d')) (\<lambda>_. A)"
  "dbh A (loginChallenges_Create lc) (\<lambda>_ d'. \<exists>d. A d \<and> insert_login_challenge lc d = Inr ((), d')) (\<lambda>_. A)"
  "dbh A (loginChallenges_Consume i)
     (\<lambda>_ d'. \<exists>d now. A d \<and> consume_login_challenge now i d = Inr ((), d')) (\<lambda>_. A)"
  "dbh A (passwordResetFlows_Create f) (\<lambda>_ d'. \<exists>d. A d \<and> insert_reset_flow f d = Inr ((), d')) (\<lambda>_. A)"
  "dbh A (passwordResetFlows_Update f)
     (\<lambda>_ d'. \<exists>d n. A d \<and> n \<noteq> 0 \<and> update_reset_flow f d = Inr (n, d')) (\<lambda>_. A)"
  by (rule dbhI; auto dest!: repo_spec repo_failed; metis)+

lemma dbh_exec_sql: "dbh A (exec_sql st) (\<lambda>a d'. \<exists>d. A d \<and> st d = Inr (a, d')) (\<lambda>_. A)"
  by (rule dbhI) (auto dest!: exec_sql_Inr exec_sql_Inl)

text \<open>A transaction that does not commit leaves the database it found.\<close>

lemma transaction_cases:
  assumes "transaction wb body w = (r, w')"
  obtains (failed) e where "r = Inl e" "w_db w' = w_db w"
    | (rolled_back) now w1 w2 a where "w_db w1 = w_db w" "body now w1 = (Inr (None, a), w2)"
        "w_db w' = w_db w" "r = Inr a"
    | (committed) now w1 w2 wc a where "w_db w1 = w_db w" "body now w1 = (Inr (Some wc, a), w2)"
        "w_db w' = w_db w2" "r = Inr a"
proof -
  have tx: thesis if "in_tx (body now) w1 = (r, w')" "w_db w1 = w_db w" for now w1
    using that failed rolled_back committed
    by (auto simp: in_tx_def split: prod.splits sum.splits option.splits)
  show thesis
    using assms failed tx by (auto simp: transaction_def bindM_def tryM_peel)
qed

lemma dbh_transaction:
  assumes body: "\<And>now. dbh A (body now)
      (\<lambda>(c, a) d. case c of None \<Rightarrow> (\<forall>d. A d \<longrightarrow> B a d) | Some _ \<Rightarrow> B a d) (\<lambda>_ _. True)"
  shows "dbh A (transaction wb body) B (\<lambda>_. A)"
proof (rule dbhI)
  fix w x w'
  assume A: "A (w_db w)" and "transaction wb body w = (Inr x, w')"
  from this(2) show "B x (w_db w')"
  proof (cases rule: transaction_cases)
    case (rolled_back now w1 w2)
    then show ?thesis using A body [of now] by (auto dest!: dbhD_Inr)
  next
    case (committed now w1 w2 wc a)
    then show ?thesis using A body [of now] by (auto dest!: dbhD_Inr)
  qed auto
next
  fix w e w'
  assume A: "A (w_db w)" and "transaction wb body w = (Inl e, w')"
  from this(2) A show "A (w_db w')"
    by (cases rule: transaction_cases) auto
qed

end
