(* ===== verification/Service_Frames.thy ===== *)
theory Service_Frames
  imports Service_PasswordReset Deletion_Worker Db_Logic
begin

text \<open>
  Which statements each use case executes. Inside \<open>db_frame\<close> a use case keeps a
  relation on databases as soon as the statements it can reach keep it, on
  every path through it, error exits included; the properties choose the
  relation and discharge the statements.
\<close>

section \<open>Groups of statements\<close>

definition session_writes :: "(db \<Rightarrow> db \<Rightarrow> bool) \<Rightarrow> bool" where
  "session_writes D \<longleftrightarrow>
     (\<forall>now i. stmt_keeps D (revoke_all_tokens now i)) \<and> (\<forall>t. stmt_keeps D (insert_refresh_token t))"

definition setup_writes :: "(db \<Rightarrow> db \<Rightarrow> bool) \<Rightarrow> bool" where
  "setup_writes D \<longleftrightarrow>
     (\<forall>c. stmt_keeps D (insert_credential c)) \<and> (\<forall>c. stmt_keeps D (update_credential c))"

definition deletion_writes :: "(db \<Rightarrow> db \<Rightarrow> bool) \<Rightarrow> bool" where
  "deletion_writes D \<longleftrightarrow>
     (\<forall>now i. stmt_keeps D (mark_deletion_pending now i)) \<and>
     (\<forall>now j i. stmt_keeps D (upsert_deletion_job now j i)) \<and>
     (\<forall>now j n. stmt_keeps D (insert_deletion_step now j n))"

definition worker_writes :: "(db \<Rightarrow> db \<Rightarrow> bool) \<Rightarrow> bool" where
  "worker_writes D \<longleftrightarrow>
     (\<forall>now. stmt_keeps D (claim_job now)) \<and> (\<forall>now j n. stmt_keeps D (complete_step now j n)) \<and>
     (\<forall>now j n a dl m. stmt_keeps D (retry_step now j n a dl m)) \<and>
     (\<forall>now j. stmt_keeps D (release_job now j)) \<and> (\<forall>now j. stmt_keeps D (complete_job now j))"

context db_frame
begin

section \<open>Helpers\<close>

lemma keeps_tokenhash_Generate: "keepsD tokenhash_Generate"
  unfolding tokenhash_Generate_def by (intro repo_intros)

lemma keeps_Cipher_Encrypt: "keepsD (Cipher_Encrypt a p)"
  unfolding Cipher_Encrypt_def by (intro repo_intros)

lemma keeps_hasher_Hash: "keepsD (hasher_Hash s p)"
  unfolding hasher_Hash_def BcryptHasher_Hash_def by (intro repo_intros)

lemma keeps_Issuer:
  "keepsD (Issuer_IssueWithGeneration j u sid g)" "keepsD (Issuer_Issue j u sid)"
  unfolding Issuer_Issue_def Issuer_IssueWithGeneration_def Let_def by (intro repo_intros)+

lemma keeps_cleanupSessionDevices: "keepsD (cleanupSessionDevices s u sid)"
  by (rule keepsI) (auto simp: cleanupSessionDevices_def db_refl split: option.splits)

lemma keeps_run_cleanup: "keepsD (run_cleanup s k)"
  by (rule keepsI) (auto simp: run_cleanup_def db_refl split: option.splits if_splits prod.splits)

lemma keeps_validateOTP: "keepsD (validateOTP s e c code)"
  unfolding validateOTP_def Let_def by (intro repo_intros)

lemma keeps_totp_GenerateSecret: "keepsD (totp_GenerateSecret (\<lambda>i a. external (g i a)) i a)"
  unfolding totp_GenerateSecret_def by (intro repo_intros)

lemma keeps_deactivateAndCleanup: "keepsD (deactivateAndCleanup s msg u)"
  unfolding deactivateAndCleanup_def by (intro repo_intros keeps_cleanupSessionDevices)

lemmas helper_intros =
  repo_intros keeps_tokenhash_Generate keeps_Cipher_Encrypt keeps_hasher_Hash keeps_Issuer
  keeps_cleanupSessionDevices keeps_validateOTP keeps_totp_GenerateSecret keeps_deactivateAndCleanup

lemma keeps_verifyOTP:
  "(\<And>c. stmt_keeps D (update_credential c)) \<Longrightarrow> keepsD (verifyOTP s e c code)"
  unfolding verifyOTP_def Let_def by (intro helper_intros)

lemma keeps_issueSession: "session_writes D \<Longrightarrow> keepsD (issueSession s u)"
  unfolding issueSession_def session_writes_def by (intro helper_intros) blast+

lemma keeps_beginTOTPSetup: "setup_writes D \<Longrightarrow> keepsD (beginTOTPSetup s u)"
  unfolding beginTOTPSetup_def storeSetup_def setup_writes_def by (intro helper_intros) blast+

lemma keeps_issueLoginChallenge:
  "(\<And>c. stmt_keeps D (insert_login_challenge c)) \<Longrightarrow> keepsD (issueLoginChallenge s u)"
  unfolding issueLoginChallenge_def by (intro helper_intros)

section \<open>Use cases\<close>

lemma keeps_Register:
  "(\<And>u. stmt_keeps D (insert_user u)) \<Longrightarrow> setup_writes D \<Longrightarrow> keepsD (Register s inp)"
  unfolding Register_def by (intro helper_intros keeps_beginTOTPSetup)

lemma keeps_Login:
  "setup_writes D \<Longrightarrow> (\<And>c. stmt_keeps D (insert_login_challenge c)) \<Longrightarrow> keepsD (Login s inp)"
  unfolding Login_def Let_def by (intro helper_intros keeps_beginTOTPSetup keeps_issueLoginChallenge)

lemma keeps_Refresh:
  "session_writes D \<Longrightarrow> (\<And>now i. stmt_keeps D (revoke_token now i)) \<Longrightarrow> keepsD (Refresh s t)"
  unfolding Refresh_def by (intro helper_intros keeps_issueSession) (auto simp: session_writes_def)

lemma keeps_Logout: "(\<And>now i. stmt_keeps D (revoke_token now i)) \<Longrightarrow> keepsD (Logout s t)"
  unfolding Logout_def by (intro helper_intros)

lemma keeps_CurrentUser: "keepsD (CurrentUser i)"
  unfolding CurrentUser_def by (intro helper_intros)

lemma keeps_UpdateProfile: "(\<And>u. stmt_keeps D (update_user u)) \<Longrightarrow> keepsD (UpdateProfile s i a inp)"
  unfolding UpdateProfile_def resolveAvatar_def by (intro helper_intros)

lemma keeps_SetupVerifyOTP:
  "session_writes D \<Longrightarrow> (\<And>c. stmt_keeps D (update_credential c)) \<Longrightarrow> keepsD (SetupVerifyOTP s t code)"
  unfolding SetupVerifyOTP_def by (intro helper_intros keeps_verifyOTP keeps_issueSession)

lemma keeps_LoginVerifyOTP:
  "session_writes D \<Longrightarrow> (\<And>c. stmt_keeps D (update_credential c)) \<Longrightarrow>
   (\<And>now i. stmt_keeps D (consume_login_challenge now i)) \<Longrightarrow> keepsD (LoginVerifyOTP s t code)"
  unfolding LoginVerifyOTP_def by (intro helper_intros keeps_verifyOTP keeps_issueSession)

lemma keeps_ChangePassword:
  "(\<And>c. stmt_keeps D (update_credential c)) \<Longrightarrow> (\<And>now i h. stmt_keeps D (update_user_password now i h)) \<Longrightarrow>
   (\<And>now i. stmt_keeps D (revoke_all_tokens now i)) \<Longrightarrow> keepsD (ChangePassword s i inp)"
  unfolding ChangePassword_def by (intro helper_intros keeps_verifyOTP)

lemma keeps_insert_steps:
  "(\<And>now j n. stmt_keeps D (insert_deletion_step now j n)) \<Longrightarrow> keepsD (insert_steps now j names)"
  by (induction names) (auto intro!: helper_intros keeps_exec_sql)

lemma keeps_select_deletion_status: "stmt_keeps D (select_deletion_status i)"
  by (auto simp: stmt_keeps_def select_deletion_status_def db_refl split: option.splits)

lemma keeps_RequestDeletion:
  "deletion_writes D \<Longrightarrow> (\<And>now i. stmt_keeps D (revoke_all_tokens now i)) \<Longrightarrow>
     keepsD (DeletionStore_RequestDeletion i)"
  unfolding DeletionStore_RequestDeletion_def deletion_writes_def
  by (intro helper_intros keeps_transaction keeps_exec_sql keeps_insert_steps keeps_select_deletion_status) auto

lemma keeps_DeleteAccount:
  "(\<And>c. stmt_keeps D (update_credential c)) \<Longrightarrow> deletion_writes D \<Longrightarrow>
   (\<And>now i. stmt_keeps D (revoke_all_tokens now i)) \<Longrightarrow> (\<And>i. stmt_keeps D (delete_user i)) \<Longrightarrow>
     keepsD (DeleteAccount s i a otp)"
  unfolding DeleteAccount_def by (intro helper_intros keeps_verifyOTP keeps_RequestDeletion)

lemma keeps_RequestPasswordReset:
  "(\<And>f. stmt_keeps D (insert_reset_flow f)) \<Longrightarrow> keepsD (RequestPasswordReset s e)"
  unfolding RequestPasswordReset_def eligibleUser_def by (intro helper_intros)

lemma keeps_VerifyPasswordResetOTP:
  "(\<And>c. stmt_keeps D (update_credential c)) \<Longrightarrow> (\<And>f. stmt_keeps D (update_reset_flow f)) \<Longrightarrow>
     keepsD (VerifyPasswordResetOTP s t code)"
  unfolding VerifyPasswordResetOTP_def flowCodeValid_def Let_def by (intro helper_intros)

lemma keeps_ConfirmPasswordReset:
  "(\<And>now i h. stmt_keeps D (update_user_password now i h)) \<Longrightarrow> (\<And>f. stmt_keeps D (update_reset_flow f)) \<Longrightarrow>
   (\<And>now i. stmt_keeps D (revoke_all_tokens now i)) \<Longrightarrow> keepsD (ConfirmPasswordReset s t p)"
  unfolding ConfirmPasswordReset_def resetRefused_def Let_def by (intro helper_intros)

section \<open>The deletion worker\<close>

lemma keeps_select_steps: "stmt_keeps D (select_steps j)"
  by (auto simp: stmt_keeps_def select_steps_def db_refl)

lemma keeps_job_store:
  assumes "worker_writes D"
  shows "keepsD jobs_ClaimDeletion" "keepsD (jobs_CompleteDeletionStep j n)"
    "keepsD (jobs_RetryDeletionStep j n a m)" "keepsD (jobs_CompleteDeletionJob j)"
  using assms
  unfolding worker_writes_def jobs_ClaimDeletion_def jobs_CompleteDeletionStep_def
    jobs_RetryDeletionStep_def jobs_CompleteDeletionJob_def
  by (intro helper_intros keeps_transaction keeps_exec_sql keeps_select_steps; blast)+

lemma keeps_run_steps: "worker_writes D \<Longrightarrow> keepsD (run_steps clients job steps)"
  by (induction steps)
     (auto simp: DeletionWorker_retry_def intro!: helper_intros keeps_job_store)

lemma keeps_RunOnce:
  "worker_writes D \<Longrightarrow> (\<And>i. stmt_keeps D (delete_user i)) \<Longrightarrow> keepsD (DeletionWorker_RunOnce clients)"
  unfolding DeletionWorker_RunOnce_def run_job_def
  by (intro helper_intros keeps_job_store keeps_run_steps)

lemma keeps_Run:
  "worker_writes D \<Longrightarrow> (\<And>i. stmt_keeps D (delete_user i)) \<Longrightarrow> keepsD (DeletionWorker_Run clients n)"
  by (induction n) (auto intro!: helper_intros keeps_RunOnce)

end

end
