(* ===== verification/Invariants.thy ===== *)
theory Invariants
  imports Service_Frames
begin

text \<open>
  The invariant of the database under the use cases: what the constraints of
  the schema cannot express and the application code guarantees. This theory
  defines it and shows which statements keep it under which condition; the
  use cases follow in theory \<open>Service_Invariants\<close>.
\<close>

lemma ball_sql_update:
  "(\<forall>y \<in> set (sql_update P f t). Q y) \<longleftrightarrow> (\<forall>x \<in> set t. if P x then Q (f x) else Q x)"
  by (auto simp: set_sql_update)

lemma bex_sql_update:
  "(\<exists>y \<in> set (sql_update P f t). Q y) \<longleftrightarrow> (\<exists>x \<in> set t. if P x then Q (f x) else Q x)"
  by (auto simp: set_sql_update)

lemma sql_update_key:
  "x \<in> set t \<Longrightarrow> (\<And>r. k (f r) = k r) \<Longrightarrow> \<exists>y \<in> set (sql_update P f t). k y = k x"
  by (rule bexI [of _ "if P x then f x else x"]) (auto simp: set_sql_update)

section \<open>The invariant\<close>

definition live :: "refresh_token \<Rightarrow> bool" where
  "live t \<longleftrightarrow> rt_RevokedAt t = None"

text \<open>At most one refresh token of a user is live.\<close>

definition one_live :: "db \<Rightarrow> bool" where
  "one_live d \<longleftrightarrow> (\<forall>t \<in> set (refresh_tokens d). \<forall>t' \<in> set (refresh_tokens d).
     live t \<longrightarrow> live t' \<longrightarrow> rt_UserID t = rt_UserID t' \<longrightarrow> t = t')"

definition no_live :: "uuid \<Rightarrow> db \<Rightarrow> bool" where
  "no_live i d \<longleftrightarrow> (\<forall>t \<in> set (refresh_tokens d). rt_UserID t = i \<longrightarrow> \<not> live t)"

text \<open>A user who asked for deletion has no live refresh token and a complete deletion job.\<close>

definition pending :: "user \<Rightarrow> bool" where
  "pending u \<longleftrightarrow> u_DeletionStatus u = DeletionStatusPending"

definition has_job :: "uuid \<Rightarrow> db \<Rightarrow> bool" where
  "has_job i d \<longleftrightarrow> (\<exists>j \<in> set (account_deletion_jobs d). dj_user_id j = i \<and>
     (\<forall>n \<in> set deletionServices. \<exists>st \<in> set (account_deletion_steps d).
        ds_job_id st = dj_id j \<and> ds_service st = n))"

definition pending_ok :: "db \<Rightarrow> bool" where
  "pending_ok d \<longleftrightarrow> (\<forall>u \<in> set (users d). pending u \<longrightarrow> no_live (u_ID u) d \<and> has_job (u_ID u) d)"

definition status_ok :: "db \<Rightarrow> bool" where
  "status_ok d \<longleftrightarrow> (\<forall>u \<in> set (users d). u_DeletionStatus u \<in> {DeletionStatusActive, DeletionStatusPending})"

text \<open>
  A login challenge and a reset flow that is bound to an account only exist
  for accounts with an enabled second factor.
\<close>

definition enabled :: "uuid \<Rightarrow> db \<Rightarrow> bool" where
  "enabled i d \<longleftrightarrow> (\<exists>c \<in> set (two_factor_credentials d). c_UserID c = i \<and> Credential_IsEnabled c)"

definition second_factor :: "db \<Rightarrow> bool" where
  "second_factor d \<longleftrightarrow> (\<forall>c \<in> set (login_challenges d). enabled (lc_UserID c) d) \<and>
     (\<forall>f \<in> set (password_reset_flows d). \<forall>i. f_UserID f = Some i \<longrightarrow> enabled i d)"

definition rows_wf :: "SecurityConfig \<Rightarrow> db \<Rightarrow> bool" where
  "rows_wf sc d \<longleftrightarrow> (\<forall>c \<in> set (two_factor_credentials d). cred_wf (sc_OTPMaxAttempts sc) c) \<and>
     (\<forall>f \<in> set (password_reset_flows d). flow_wf (sc_ResetFlowMaxOTPAttempts sc) f)"

definition service_inv :: "SecurityConfig \<Rightarrow> db \<Rightarrow> bool" where
  "service_inv sc d \<longleftrightarrow> db_wf d \<and> rows_wf sc d \<and> one_live d \<and> pending_ok d \<and> status_ok d \<and> second_factor d"

lemma service_invD:
  assumes "service_inv sc d"
  shows "db_wf d" "rows_wf sc d" "one_live d" "pending_ok d" "status_ok d" "second_factor d"
  using assms by (simp_all add: service_inv_def)

lemma service_inv_empty: "service_inv sc empty_db"
  by (simp add: service_inv_def rows_wf_def one_live_def pending_ok_def status_ok_def
      second_factor_def empty_db_def) (simp add: empty_db_def [symmetric])

lemmas inv_defs =
  rows_wf_def one_live_def no_live_def live_def pending_ok_def pending_def has_job_def status_ok_def
  second_factor_def enabled_def

section \<open>Which tables each part depends on\<close>

lemma rows_wf_indep [simp]:
  "rows_wf sc (d\<lparr>users := a\<rparr>) = rows_wf sc d" "rows_wf sc (d\<lparr>refresh_tokens := b\<rparr>) = rows_wf sc d"
  "rows_wf sc (d\<lparr>login_challenges := c\<rparr>) = rows_wf sc d"
  "rows_wf sc (d\<lparr>account_deletion_jobs := e\<rparr>) = rows_wf sc d"
  "rows_wf sc (d\<lparr>account_deletion_steps := f\<rparr>) = rows_wf sc d"
  by (simp_all add: rows_wf_def)

lemma no_live_indep [simp]:
  "no_live i (d\<lparr>users := a\<rparr>) = no_live i d" "no_live i (d\<lparr>two_factor_credentials := b\<rparr>) = no_live i d"
  "no_live i (d\<lparr>login_challenges := c\<rparr>) = no_live i d"
  "no_live i (d\<lparr>password_reset_flows := e\<rparr>) = no_live i d"
  "no_live i (d\<lparr>account_deletion_jobs := f\<rparr>) = no_live i d"
  "no_live i (d\<lparr>account_deletion_steps := g\<rparr>) = no_live i d"
  by (simp_all add: no_live_def)

lemma one_live_indep [simp]:
  "one_live (d\<lparr>users := a\<rparr>) = one_live d" "one_live (d\<lparr>two_factor_credentials := b\<rparr>) = one_live d"
  "one_live (d\<lparr>login_challenges := c\<rparr>) = one_live d"
  "one_live (d\<lparr>password_reset_flows := e\<rparr>) = one_live d"
  "one_live (d\<lparr>account_deletion_jobs := f\<rparr>) = one_live d"
  "one_live (d\<lparr>account_deletion_steps := g\<rparr>) = one_live d"
  by (simp_all add: one_live_def)

lemma has_job_indep [simp]:
  "has_job i (d\<lparr>users := a\<rparr>) = has_job i d" "has_job i (d\<lparr>two_factor_credentials := b\<rparr>) = has_job i d"
  "has_job i (d\<lparr>login_challenges := c\<rparr>) = has_job i d"
  "has_job i (d\<lparr>password_reset_flows := e\<rparr>) = has_job i d"
  "has_job i (d\<lparr>refresh_tokens := f\<rparr>) = has_job i d"
  by (simp_all add: has_job_def)

lemma pending_ok_indep [simp]:
  "pending_ok (d\<lparr>two_factor_credentials := b\<rparr>) = pending_ok d"
  "pending_ok (d\<lparr>login_challenges := c\<rparr>) = pending_ok d"
  "pending_ok (d\<lparr>password_reset_flows := e\<rparr>) = pending_ok d"
  by (simp_all add: pending_ok_def)

lemma status_ok_indep [simp]:
  "status_ok (d\<lparr>refresh_tokens := a\<rparr>) = status_ok d"
  "status_ok (d\<lparr>two_factor_credentials := b\<rparr>) = status_ok d"
  "status_ok (d\<lparr>login_challenges := c\<rparr>) = status_ok d"
  "status_ok (d\<lparr>password_reset_flows := e\<rparr>) = status_ok d"
  "status_ok (d\<lparr>account_deletion_jobs := f\<rparr>) = status_ok d"
  "status_ok (d\<lparr>account_deletion_steps := g\<rparr>) = status_ok d"
  by (simp_all add: status_ok_def)

lemma enabled_indep [simp]:
  "enabled i (d\<lparr>users := a\<rparr>) = enabled i d" "enabled i (d\<lparr>refresh_tokens := b\<rparr>) = enabled i d"
  "enabled i (d\<lparr>login_challenges := c\<rparr>) = enabled i d"
  "enabled i (d\<lparr>password_reset_flows := e\<rparr>) = enabled i d"
  "enabled i (d\<lparr>account_deletion_jobs := f\<rparr>) = enabled i d"
  "enabled i (d\<lparr>account_deletion_steps := g\<rparr>) = enabled i d"
  by (simp_all add: enabled_def)

lemma second_factor_indep [simp]:
  "second_factor (d\<lparr>users := a\<rparr>) = second_factor d"
  "second_factor (d\<lparr>refresh_tokens := b\<rparr>) = second_factor d"
  "second_factor (d\<lparr>account_deletion_jobs := f\<rparr>) = second_factor d"
  "second_factor (d\<lparr>account_deletion_steps := g\<rparr>) = second_factor d"
  by (simp_all add: second_factor_def)

section \<open>Statements that always keep it\<close>

text \<open>Updates of users that keep identity and status, and updates of tokens that only revoke.\<close>

lemma users_update_keeps:
  assumes "\<And>r. u_ID (f r) = u_ID r \<and> u_DeletionStatus (f r) = u_DeletionStatus r"
  shows "pending_ok d \<Longrightarrow> pending_ok (d\<lparr>users := sql_update P f (users d)\<rparr>)"
    and "status_ok d \<Longrightarrow> status_ok (d\<lparr>users := sql_update P f (users d)\<rparr>)"
  using assms by (force simp: pending_ok_def pending_def status_ok_def set_sql_update)+

definition revoking :: "(refresh_token \<Rightarrow> refresh_token) \<Rightarrow> bool" where
  "revoking f \<longleftrightarrow> (\<forall>t. rt_UserID (f t) = rt_UserID t \<and> \<not> live (f t))"

lemma tokens_update_keeps:
  assumes "revoking f"
  shows "no_live i d \<Longrightarrow> no_live i (d\<lparr>refresh_tokens := sql_update P f (refresh_tokens d)\<rparr>)"
    and "one_live d \<Longrightarrow> one_live (d\<lparr>refresh_tokens := sql_update P f (refresh_tokens d)\<rparr>)"
    and "pending_ok d \<Longrightarrow> pending_ok (d\<lparr>refresh_tokens := sql_update P f (refresh_tokens d)\<rparr>)"
  using assms
  by (auto simp: no_live_def one_live_def pending_ok_def revoking_def set_sql_update split: if_splits)

lemma revoking_now [simp]: "revoking (\<lambda>t. t\<lparr>rt_RevokedAt := Some now\<rparr>)"
  by (simp add: revoking_def live_def)

lemma inv_insert_user: "insert_user u d = Inr (a, d') \<Longrightarrow> service_inv sc d \<Longrightarrow> service_inv sc d'"
  using insert_user_wf [of u d a d']
  by (auto simp: service_inv_def insert_user_def pending_ok_def pending_def status_ok_def split: if_splits)

lemma inv_update_user: "update_user u d = Inr (a, d') \<Longrightarrow> service_inv sc d \<Longrightarrow> service_inv sc d'"
  using update_user_wf [of u d a d'] by (auto simp: service_inv_def update_user_def users_update_keeps)

lemma inv_update_user_password:
  "update_user_password now i h d = Inr (a, d') \<Longrightarrow> service_inv sc d \<Longrightarrow> service_inv sc d'"
  using update_user_password_wf [of now i h d a d']
  by (auto simp: service_inv_def update_user_password_def users_update_keeps)

lemma inv_revoke_token: "revoke_token now i d = Inr (a, d') \<Longrightarrow> service_inv sc d \<Longrightarrow> service_inv sc d'"
  using revoke_token_wf [of now i d a d'] by (auto simp: service_inv_def revoke_token_def tokens_update_keeps)

lemma inv_revoke_all_tokens:
  "revoke_all_tokens now i d = Inr (a, d') \<Longrightarrow> service_inv sc d \<Longrightarrow> service_inv sc d'"
  using revoke_all_tokens_wf [of now i d a d']
  by (auto simp: service_inv_def revoke_all_tokens_def tokens_update_keeps)

lemma revoke_all_no_live: "revoke_all_tokens now i d = Inr (a, d') \<Longrightarrow> no_live i d'"
  by (auto simp: revoke_all_tokens_def) (simp add: no_live_def live_def ball_sql_update)

lemma inv_consume_login_challenge:
  "consume_login_challenge now i d = Inr (a, d') \<Longrightarrow> service_inv sc d \<Longrightarrow> service_inv sc d'"
  using consume_login_challenge_wf [of now i d a d']
  by (auto simp: service_inv_def consume_login_challenge_def second_factor_def set_sql_update)

lemma inv_delete_user:
  assumes del: "delete_user i d = Inr (a, d')" and inv: "service_inv sc d"
  shows "service_inv sc d'"
proof (cases "sql_count (\<lambda>r. u_ID r = i) (users d) = 0")
  case True
  with del inv show ?thesis by (simp add: delete_user_def Let_def)
next
  case False
  then have d': "d' = d\<lparr>users := sql_delete (\<lambda>r. u_ID r = i) (users d),
      refresh_tokens := sql_delete (\<lambda>t. rt_UserID t = i) (refresh_tokens d),
      two_factor_credentials := sql_delete (\<lambda>c. c_UserID c = i) (two_factor_credentials d),
      login_challenges := sql_delete (\<lambda>c. lc_UserID c = i) (login_challenges d),
      password_reset_flows := sql_delete (\<lambda>f. f_UserID f = Some i) (password_reset_flows d)\<rparr>"
    using del by (simp add: delete_user_def Let_def)
  have "db_wf d'" by (rule delete_user_wf [OF del service_invD(1) [OF inv]])
  moreover have "enabled k d' \<longleftrightarrow> enabled k d \<and> k \<noteq> i" for k
    by (auto simp: d' enabled_def set_sql_delete)
  then have "second_factor d'"
    using service_invD(6) [OF inv] by (auto simp: second_factor_def) (auto simp: d' set_sql_delete)
  moreover have "pending_ok d'" "rows_wf sc d'" "one_live d'" "status_ok d'"
    using service_invD(2-5) [OF inv]
    by (auto simp: d' rows_wf_def one_live_def pending_ok_def no_live_def status_ok_def set_sql_delete)
  ultimately show ?thesis by (simp add: service_inv_def)
qed

section \<open>Statements that keep it under a condition\<close>

lemma inv_insert_refresh_token:
  "insert_refresh_token t d = Inr (a, d') \<Longrightarrow> service_inv sc d \<Longrightarrow> no_live (rt_UserID t) d \<Longrightarrow>
   (\<And>u. u \<in> set (users d) \<Longrightarrow> u_ID u = rt_UserID t \<Longrightarrow> \<not> pending u) \<Longrightarrow> service_inv sc d'"
  using insert_refresh_token_wf [of t d a d']
  by (auto simp: service_inv_def insert_refresh_token_def pending_ok_def one_live_def no_live_def split: if_splits)

lemma inv_insert_credential:
  "insert_credential c d = Inr (a, d') \<Longrightarrow> service_inv sc d \<Longrightarrow> cred_wf (sc_OTPMaxAttempts sc) c \<Longrightarrow>
     service_inv sc d'"
  using insert_credential_wf [of c d a d']
  by (auto simp: service_inv_def insert_credential_def rows_wf_def second_factor_def enabled_def split: if_splits)

text \<open>A credential may be overwritten when it is well formed and does not take the second factor away.\<close>

lemma inv_update_credential:
  assumes upd: "update_credential c d = Inr (n, d')" and inv: "service_inv sc d"
    and wf: "cred_wf (sc_OTPMaxAttempts sc) c"
    and on: "enabled (c_UserID c) d \<Longrightarrow> Credential_IsEnabled c"
  shows "service_inv sc d'"
proof -
  let ?t = "two_factor_credentials d" and ?P = "\<lambda>r. c_UserID r = c_UserID c"
  let ?f = "\<lambda>r. c\<lparr>c_UserID := c_UserID r, c_CreatedAt := c_CreatedAt r\<rparr>"
  have d': "d' = d\<lparr>two_factor_credentials := sql_update ?P ?f ?t\<rparr>"
    using upd by (auto simp: update_credential_def split: if_splits)
  have "db_wf d'" by (rule update_credential_wf [OF upd service_invD(1) [OF inv]])
  moreover have "rows_wf sc d'"
    using service_invD(2) [OF inv] wf by (simp add: d' rows_wf_def ball_sql_update cred_wf_def)
  moreover have "enabled i d'" if "enabled i d" for i
  proof -
    from that obtain r where "r \<in> set ?t" "c_UserID r = i" "Credential_IsEnabled r"
      by (auto simp: enabled_def)
    with on show ?thesis
      by (auto simp: d' enabled_def bex_sql_update Credential_IsEnabled_def intro!: bexI [of _ r])
  qed
  then have "second_factor d'"
    using service_invD(6) [OF inv] by (auto simp: second_factor_def) (auto simp: d')
  ultimately show ?thesis using inv by (simp add: service_inv_def d')
qed

lemma inv_insert_login_challenge:
  "insert_login_challenge c d = Inr (a, d') \<Longrightarrow> service_inv sc d \<Longrightarrow> enabled (lc_UserID c) d \<Longrightarrow>
     service_inv sc d'"
  using insert_login_challenge_wf [of c d a d']
  by (auto simp: service_inv_def insert_login_challenge_def second_factor_def split: if_splits)

lemma inv_insert_reset_flow:
  "insert_reset_flow f d = Inr (a, d') \<Longrightarrow> service_inv sc d \<Longrightarrow>
   flow_wf (sc_ResetFlowMaxOTPAttempts sc) f \<Longrightarrow> (\<And>i. f_UserID f = Some i \<Longrightarrow> enabled i d) \<Longrightarrow>
     service_inv sc d'"
  using insert_reset_flow_wf [of f d a d']
  by (auto simp: service_inv_def insert_reset_flow_def rows_wf_def second_factor_def split: if_splits option.splits)

lemma inv_update_reset_flow:
  assumes upd: "update_reset_flow f d = Inr (n, d')" and inv: "service_inv sc d"
    and wf: "flow_wf (sc_ResetFlowMaxOTPAttempts sc) f"
    and row: "g \<in> set (password_reset_flows d)" "f_ID g = f_ID f" "f_UserID g = f_UserID f"
  shows "service_inv sc d'"
proof -
  let ?g = "\<lambda>r. r\<lparr>f_OTPVerifiedAt := f_OTPVerifiedAt f, f_OTPAttempts := f_OTPAttempts f,
      f_ResetTokenHash := f_ResetTokenHash f, f_ResetTokenExpiresAt := f_ResetTokenExpiresAt f,
      f_ConsumedAt := f_ConsumedAt f\<rparr>"
  have d': "d' = d\<lparr>password_reset_flows := sql_update (\<lambda>r. f_ID r = f_ID f) ?g (password_reset_flows d)\<rparr>"
    using upd by (auto simp: update_reset_flow_def split: if_splits)
  have "db_wf d'" by (rule update_reset_flow_wf [OF upd service_invD(1) [OF inv]])
  moreover have "unique_col col_f_id (password_reset_flows d)"
    using service_invD(1) [OF inv] by (simp add: db_wf_def)
  then have same: "r = g" if "r \<in> set (password_reset_flows d)" "f_ID r = f_ID f" for r
    using that row by (auto dest: unique_colD)
  have "flow_wf (sc_ResetFlowMaxOTPAttempts sc) (?g r)"
    if "r \<in> set (password_reset_flows d)" "f_ID r = f_ID f" for r
  proof -
    have "flow_wf (sc_ResetFlowMaxOTPAttempts sc) (?g g) = flow_wf (sc_ResetFlowMaxOTPAttempts sc) f"
      using row(3) by (simp add: flow_wf_def)
    then show ?thesis using wf same [OF that] by simp
  qed
  then have "rows_wf sc d'"
    using service_invD(2) [OF inv] by (simp add: d' rows_wf_def ball_sql_update)
  moreover have "second_factor d'"
    using service_invD(6) [OF inv] by (auto simp: d' second_factor_def ball_sql_update)
  ultimately show ?thesis using inv by (simp add: service_inv_def d')
qed

section \<open>Statements of the deletion workflow\<close>

lemma has_job_mono:
  assumes "has_job i d"
    and "\<And>j. j \<in> set (account_deletion_jobs d) \<Longrightarrow>
      \<exists>j' \<in> set (account_deletion_jobs d'). dj_id j' = dj_id j \<and> dj_user_id j' = dj_user_id j"
    and "\<And>st. st \<in> set (account_deletion_steps d) \<Longrightarrow>
      \<exists>st' \<in> set (account_deletion_steps d'). ds_job_id st' = ds_job_id st \<and> ds_service st' = ds_service st"
  shows "has_job i d'"
  using assms unfolding has_job_def by metis

text \<open>Inside the transaction of \<open>RequestDeletion\<close> the clause of the requesting user is open.\<close>

definition inv_but :: "SecurityConfig \<Rightarrow> uuid \<Rightarrow> db \<Rightarrow> bool" where
  "inv_but sc i d \<longleftrightarrow> db_wf d \<and> rows_wf sc d \<and> one_live d \<and> status_ok d \<and> second_factor d \<and>
     (\<forall>u \<in> set (users d). pending u \<longrightarrow> u_ID u \<noteq> i \<longrightarrow> no_live (u_ID u) d \<and> has_job (u_ID u) d)"

lemma inv_but_weaken: "service_inv sc d \<Longrightarrow> inv_but sc i d"
  by (simp add: service_inv_def inv_but_def pending_ok_def)

lemma inv_but_close: "inv_but sc i d \<Longrightarrow> no_live i d \<Longrightarrow> has_job i d \<Longrightarrow> service_inv sc d"
  by (auto simp: service_inv_def inv_but_def pending_ok_def)

lemma inv_mark_deletion_pending:
  "mark_deletion_pending now i d = Inr (n, d') \<Longrightarrow> service_inv sc d \<Longrightarrow> inv_but sc i d'"
  using mark_deletion_pending_wf [of now i d n d']
  by (auto simp: service_inv_def inv_but_def mark_deletion_pending_def Let_def pending_ok_def pending_def
      status_ok_def set_sql_update)

lemma mark_deletion_pending_none:
  "mark_deletion_pending now i d = Inr (0, d') \<Longrightarrow> d' = d"
  by (auto simp: mark_deletion_pending_def Let_def sql_update_none)

lemma inv_but_revoke_all:
  "revoke_all_tokens now i d = Inr (a, d') \<Longrightarrow> inv_but sc i d \<Longrightarrow> inv_but sc i d'"
  using revoke_all_tokens_wf [of now i d a d']
  by (auto simp: inv_but_def revoke_all_tokens_def tokens_update_keeps)

lemma db_wf_jobs:
  "db_wf d \<Longrightarrow> unique_col col_dj_id J \<Longrightarrow> unique_col col_dj_user J \<Longrightarrow>
   (\<And>st. st \<in> set (account_deletion_steps d) \<Longrightarrow> \<exists>j \<in> set J. dj_id j = ds_job_id st) \<Longrightarrow>
     db_wf (d\<lparr>account_deletion_jobs := J\<rparr>)"
  by (simp add: db_wf_def)

lemma db_wf_steps:
  "db_wf d \<Longrightarrow> unique_col col_ds_key S \<Longrightarrow>
   (\<And>st. st \<in> set S \<Longrightarrow> \<exists>j \<in> set (account_deletion_jobs d). dj_id j = ds_job_id st) \<Longrightarrow>
     db_wf (d\<lparr>account_deletion_steps := S\<rparr>)"
  by (simp add: db_wf_def)

lemma db_wf_jobsD:
  assumes "db_wf d"
  shows "unique_col col_dj_id (account_deletion_jobs d)" "unique_col col_dj_user (account_deletion_jobs d)"
    "unique_col col_ds_key (account_deletion_steps d)"
    "st \<in> set (account_deletion_steps d) \<Longrightarrow> \<exists>j \<in> set (account_deletion_jobs d). dj_id j = ds_job_id st"
  using assms by (auto simp: db_wf_def)

lemma jobs_update_wf:
  assumes "\<And>r. dj_id (f r) = dj_id r \<and> dj_user_id (f r) = dj_user_id r"
  shows "db_wf d \<Longrightarrow> db_wf (d\<lparr>account_deletion_jobs := sql_update P f (account_deletion_jobs d)\<rparr>)"
    and "has_job i d \<Longrightarrow> has_job i (d\<lparr>account_deletion_jobs := sql_update P f (account_deletion_jobs d)\<rparr>)"
proof -
  assume wf: "db_wf d"
  show "db_wf (d\<lparr>account_deletion_jobs := sql_update P f (account_deletion_jobs d)\<rparr>)"
  proof (rule db_wf_jobs [OF wf])
    fix st
    assume "st \<in> set (account_deletion_steps d)"
    with db_wf_jobsD(4) [OF wf] obtain j where "j \<in> set (account_deletion_jobs d)" "dj_id j = ds_job_id st"
      by blast
    with assms show "\<exists>j \<in> set (sql_update P f (account_deletion_jobs d)). dj_id j = ds_job_id st"
      using sql_update_key [of j "account_deletion_jobs d" dj_id f P] by auto
  qed (use assms db_wf_jobsD [OF wf] in \<open>simp_all add: unique_col_update_same\<close>)
next
  assume "has_job i d"
  then show "has_job i (d\<lparr>account_deletion_jobs := sql_update P f (account_deletion_jobs d)\<rparr>)"
    by (rule has_job_mono)
       (use assms sql_update_key [of _ "account_deletion_jobs d" "\<lambda>j. (dj_id j, dj_user_id j)" f P] in auto)
qed

lemma steps_update_wf:
  assumes "\<And>r. ds_job_id (f r) = ds_job_id r \<and> ds_service (f r) = ds_service r"
  shows "db_wf d \<Longrightarrow> db_wf (d\<lparr>account_deletion_steps := sql_update P f (account_deletion_steps d)\<rparr>)"
    and "has_job i d \<Longrightarrow> has_job i (d\<lparr>account_deletion_steps := sql_update P f (account_deletion_steps d)\<rparr>)"
proof -
  assume wf: "db_wf d"
  show "db_wf (d\<lparr>account_deletion_steps := sql_update P f (account_deletion_steps d)\<rparr>)"
    by (rule db_wf_steps [OF wf])
       (use assms db_wf_jobsD [OF wf] in \<open>auto simp: unique_col_update_same set_sql_update\<close>)
next
  assume "has_job i d"
  then show "has_job i (d\<lparr>account_deletion_steps := sql_update P f (account_deletion_steps d)\<rparr>)"
    by (rule has_job_mono)
       (use assms sql_update_key [of _ "account_deletion_steps d" "\<lambda>st. (ds_job_id st, ds_service st)" f P] in auto)
qed

lemma upsert_deletion_job_wf:
  assumes up: "upsert_deletion_job now j i d = Inr (a, d')" and wf: "db_wf d"
  shows "db_wf d'"
proof (cases "sql_find (\<lambda>j. dj_user_id j = i) (account_deletion_jobs d)")
  case None
  then have "\<forall>r \<in> set (account_deletion_jobs d). dj_user_id r \<noteq> i" by (simp add: sql_find_None)
  with None show ?thesis
    using up db_wf_jobsD [OF wf]
    by (auto simp: upsert_deletion_job_def conflicts_Some unique_col_snoc
        split: if_splits intro!: db_wf_jobs [OF wf])
next
  case (Some r)
  then show ?thesis using up by (auto simp: upsert_deletion_job_def jobs_update_wf wf)
qed

lemma insert_deletion_step_wf:
  assumes ins: "insert_deletion_step now j n d = Inr (a, d')" and wf: "db_wf d"
  shows "db_wf d'"
proof (cases "conflicts col_ds_key (Some (j, n)) (account_deletion_steps d)")
  case True
  then show ?thesis using ins wf by (simp add: insert_deletion_step_def)
next
  case False
  then have "\<exists>ja \<in> set (account_deletion_jobs d). dj_id ja = j"
    using ins by (auto simp: insert_deletion_step_def list_ex_iff split: if_splits)
  with False show ?thesis
    using ins db_wf_jobsD [OF wf]
    by (simp add: insert_deletion_step_def split: if_splits, hypsubst)
       (rule db_wf_steps [OF wf], auto simp: unique_col_snoc)
qed

lemma upsert_deletion_job_keeps:
  "upsert_deletion_job now j i d = Inr (a, d') \<Longrightarrow> has_job k d \<Longrightarrow> has_job k d'"
  by (auto simp: upsert_deletion_job_def jobs_update_wf split: option.splits if_splits)
     (auto simp: has_job_def)

lemma insert_deletion_step_keeps:
  "insert_deletion_step now j n d = Inr (a, d') \<Longrightarrow> has_job k d \<Longrightarrow> has_job k d'"
  by (erule has_job_mono) (auto simp: insert_deletion_step_def split: if_splits)

lemma inv_but_upsert:
  "upsert_deletion_job now j i d = Inr (a, d') \<Longrightarrow> inv_but sc k d \<Longrightarrow> inv_but sc k d'"
  using upsert_deletion_job_wf [of now j i d a d'] upsert_deletion_job_keeps [of now j i d a d']
  by (auto simp: inv_but_def upsert_deletion_job_def split: option.splits if_splits)

lemma inv_but_insert_step:
  "insert_deletion_step now j n d = Inr (a, d') \<Longrightarrow> inv_but sc k d \<Longrightarrow> inv_but sc k d'"
  using insert_deletion_step_wf [of now j n d a d'] insert_deletion_step_keeps [of now j n d a d']
  by (auto simp: inv_but_def insert_deletion_step_def split: if_splits)

end
