(* ===== verification/Service_Invariants.thy ===== *)
theory Service_Invariants
  imports Invariants
begin

text \<open>
  Every use case keeps the invariant \<open>service_inv\<close>, on every path through it:
  the proofs follow the code with the rules of \<open>Db_Logic\<close> and discharge the
  conditions of the statements from what the code has checked before.
\<close>

lemma dbh_post:
  "dbh A m B E \<Longrightarrow> (\<And>x d. B x d \<Longrightarrow> B' x d) \<Longrightarrow> (\<And>e d. E e d \<Longrightarrow> E' e d) \<Longrightarrow> dbh A m B' E'"
  by (rule dbh_conseq)

lemma dbh_pre: "dbh A m B E \<Longrightarrow> (\<And>d. A' d \<Longrightarrow> A d) \<Longrightarrow> dbh A' m B E"
  by (rule dbh_conseq)

section \<open>Steps that leave the database alone\<close>

lemma dbh_env:
  "dbh A time_Now (\<lambda>_. A) (\<lambda>_. A)"
  "dbh A (external f) (\<lambda>_. A) (\<lambda>_. A)"
  "dbh A tokenhash_Generate (\<lambda>_. A) (\<lambda>_. A)"
  "dbh A (Cipher_Encrypt ae bs) (\<lambda>_. A) (\<lambda>_. A)"
  "dbh A (hasher_Hash s p) (\<lambda>_. A) (\<lambda>_. A)"
  "dbh A (Issuer_IssueWithGeneration ji us sid g) (\<lambda>_. A) (\<lambda>_. A)"
  "dbh A (Issuer_Issue ji us sid) (\<lambda>_. A) (\<lambda>_. A)"
  "dbh A (cleanupSessionDevices s us sid) (\<lambda>_. A) (\<lambda>_. A)"
  "dbh A (validateOTP s e c code) (\<lambda>_. A) (\<lambda>_. A)"
  "dbh A (totp_GenerateSecret (\<lambda>i a. external (gen i a)) is ac) (\<lambda>_. A) (\<lambda>_. A)"
  "dbh A (deactivateAndCleanup s msg us) (\<lambda>_. A) (\<lambda>_. A)"
  "dbh A (User_UpdateProfile fn ln av ur) (\<lambda>_. A) (\<lambda>_. A)"
  "dbh A (RefreshToken_IsExpired rt) (\<lambda>_. A) (\<lambda>_. A)"
  "dbh A (LoginChallenge_IsExpired lc) (\<lambda>_. A) (\<lambda>_. A)"
  "dbh A (Credential_IsSetupTokenExpired c) (\<lambda>_. A) (\<lambda>_. A)"
  "dbh A (Credential_IsLocked c) (\<lambda>_. A) (\<lambda>_. A)"
  "dbh A (PasswordResetFlow_IsExpired fl) (\<lambda>_. A) (\<lambda>_. A)"
  "dbh A (PasswordResetFlow_IsResetTokenValid fl) (\<lambda>_. A) (\<lambda>_. A)"
  by (rule dbh_skip, intro same_db.helper_intros)+

lemma dbh_New:
  "dbh A (User_New m h) (\<lambda>u d. A d \<and> u_DeletionStatus u = DeletionStatusActive) (\<lambda>_. A)"
  "dbh A (RefreshToken_New i h ttl) (\<lambda>t d. A d \<and> rt_UserID t = i) (\<lambda>_. A)"
  "dbh A (LoginChallenge_New i h ttl) (\<lambda>c d. A d \<and> lc_UserID c = i) (\<lambda>_. A)"
  "dbh A (PasswordResetFlow_New oi h ttl) (\<lambda>f d. A d \<and> f_UserID f = oi \<and> (\<forall>m. flow_wf m f)) (\<lambda>_. A)"
  "dbh A (Credential_New i sec h ttl) (\<lambda>c d. A d \<and> (\<forall>m. cred_wf m c)) (\<lambda>_. A)"
  by (rule dbh_same, intro same_db.helper_intros,
      auto dest!: User_New_Inr RefreshToken_New_Inr LoginChallenge_New_Inr credential_Inr flow_Inr
        simp: flow_wf_def cred_wf_def)+

lemma dbh_flow:
  "dbh A (PasswordResetFlow_Consume fl) (\<lambda>f d. A d \<and> (\<exists>now. f = fl\<lparr>f_ConsumedAt := Some now\<rparr>)) (\<lambda>_. A)"
  "dbh A (PasswordResetFlow_MarkOTPVerified fl) (\<lambda>f d. A d \<and> (\<exists>now. f = fl\<lparr>f_OTPVerifiedAt := Some now\<rparr>)) (\<lambda>_. A)"
  "dbh A (PasswordResetFlow_IssueResetToken h ttl fl)
     (\<lambda>f d. A d \<and> (\<exists>t. f = fl\<lparr>f_ResetTokenHash := Some h, f_ResetTokenExpiresAt := Some t\<rparr>)) (\<lambda>_. A)"
  by (rule dbh_same, intro same_db.helper_intros, erule flow_Inr)+

text \<open>How a method changes a credential: it stays well formed, of the same user, and not less enabled.\<close>

definition cred_step :: "credential \<Rightarrow> credential \<Rightarrow> bool" where
  "cred_step c c' \<longleftrightarrow> c_UserID c' = c_UserID c \<and> (Credential_IsEnabled c \<longrightarrow> Credential_IsEnabled c')"

lemma dbh_BeginSetup:
  "dbh A (Credential_BeginSetup sec h ttl c) (\<lambda>c' d. A d \<and> c_UserID c' = c_UserID c \<and> (\<forall>m. cred_wf m c')) (\<lambda>_. A)"
  by (rule dbh_same, intro same_db.helper_intros) (auto simp: cred_wf_def dest!: credential_Inr)

lemma dbh_credential:
  "dbh A (Credential_Enable c)
     (\<lambda>c' d. A d \<and> cred_step c c' \<and> Credential_IsEnabled c' \<and> (cred_wf mx c \<longrightarrow> cred_wf mx c')) (\<lambda>_. A)"
  "dbh A (Credential_MarkCodeUsed k c)
     (\<lambda>c' d. A d \<and> cred_step c c' \<and> (cred_wf mx c \<longrightarrow> cred_wf mx c')) (\<lambda>_. A)"
  "dbh A (Credential_RecordSuccess k c)
     (\<lambda>c' d. A d \<and> cred_step c c' \<and> (cred_wf mx c \<longrightarrow> cred_wf mx c')) (\<lambda>_. A)"
  "dbh A (Credential_RecordFailure mx dur c)
     (\<lambda>c' d. A d \<and> cred_step c c' \<and> (cred_wf mx c \<longrightarrow> cred_wf mx c')) (\<lambda>_. A)"
  by (rule dbh_same, intro same_db.helper_intros,
      (frule credential_Inr, auto simp: cred_step_def Credential_IsEnabled_def intro: cred_wf_intros split: if_splits)[1])+

lemmas dbh_leaves = dbh_env dbh_New dbh_flow dbh_BeginSetup dbh_credential dbh_reads dbh_writes

section \<open>Issuing a session\<close>

text \<open>No user row with this id is pending deletion.\<close>

definition active_user :: "uuid \<Rightarrow> db \<Rightarrow> bool" where
  "active_user i d \<longleftrightarrow> (\<forall>u \<in> set (users d). u_ID u = i \<longrightarrow> \<not> pending u)"

lemma active_user_tokens [simp]: "active_user i (d\<lparr>refresh_tokens := t\<rparr>) = active_user i d"
  by (simp add: active_user_def)

lemma revoke_all_active: "revoke_all_tokens now i d = Inr (a, d') \<Longrightarrow> active_user k d \<Longrightarrow> active_user k d'"
  by (auto simp: revoke_all_tokens_def)

lemma inv_replace_token:
  "revoke_all_tokens now i d = Inr (a, d1) \<Longrightarrow> insert_refresh_token t d1 = Inr (b, d') \<Longrightarrow> rt_UserID t = i \<Longrightarrow>
   service_inv sc d \<Longrightarrow> active_user i d \<Longrightarrow> service_inv sc d'"
  using inv_insert_refresh_token [of t d1 b d' sc] revoke_all_active [of now i d a d1 i]
  by (auto simp: active_user_def dest: inv_revoke_all_tokens revoke_all_no_live)

lemma inv_issueSession:
  "dbh (\<lambda>d. service_inv sc d \<and> active_user (u_ID u) d) (issueSession s u)
     (\<lambda>_. service_inv sc) (\<lambda>_. service_inv sc)"
  unfolding issueSession_def
  by (rule dbh_comb dbh_leaves | (auto dest: inv_revoke_all_tokens; fail) | (blast dest: inv_replace_token; fail))+

section \<open>The OTP gate\<close>

text \<open>
  \<open>verifyOTP\<close> gets a credential that is the stored one and only writes that
  row; what is known of the other tables (\<open>P\<close>) stays.
\<close>

lemma stored_enabled:
  "service_inv sc d \<Longrightarrow> c \<in> set (two_factor_credentials d) \<Longrightarrow> enabled (c_UserID c) d \<Longrightarrow> Credential_IsEnabled c"
  by (auto simp: enabled_def dest!: service_invD(1) simp: db_wf_def) (metis unique_colD)

lemma stored_wf:
  "service_inv sc d \<Longrightarrow> c \<in> set (two_factor_credentials d) \<Longrightarrow> cred_wf (sc_OTPMaxAttempts sc) c"
  by (auto simp: service_inv_def rows_wf_def)

lemma inv_credential_step:
  "update_credential c' d = Inr (n, d') \<Longrightarrow> service_inv sc d \<Longrightarrow> c \<in> set (two_factor_credentials d) \<Longrightarrow>
   cred_step c c' \<Longrightarrow> (cred_wf (sc_OTPMaxAttempts sc) c \<longrightarrow> cred_wf (sc_OTPMaxAttempts sc) c') \<Longrightarrow> service_inv sc d'"
  by (erule inv_update_credential) (auto simp: cred_step_def dest: stored_wf stored_enabled)

lemma update_credential_users: "update_credential c d = Inr (n, d') \<Longrightarrow> users d' = users d"
  by (auto simp: update_credential_def split: if_splits)

lemma dbh_update_stored:
  "dbh (\<lambda>d. (service_inv sc d \<and> c \<in> set (two_factor_credentials d) \<and> P (users d)) \<and> cred_step c c' \<and>
       (cred_wf (sc_OTPMaxAttempts sc) c \<longrightarrow> cred_wf (sc_OTPMaxAttempts sc) c')) (credentials_Update c')
     (\<lambda>_ d. service_inv sc d \<and> P (users d) \<and> cred_wf (sc_OTPMaxAttempts sc) c' \<and> c_UserID c' = c_UserID c)
     (\<lambda>_. service_inv sc)"
  by (rule dbh_post, rule dbh_writes)
     (auto simp: cred_step_def update_credential_users dest: stored_wf intro: inv_credential_step)

lemma inv_verifyOTP:
  assumes "sc = svc_security s"
  shows "dbh (\<lambda>d. service_inv sc d \<and> cred \<in> set (two_factor_credentials d) \<and> P (users d)) (verifyOTP s email cred code)
     (\<lambda>c' d. service_inv sc d \<and> P (users d) \<and> cred_wf (sc_OTPMaxAttempts sc) c' \<and> c_UserID c' = c_UserID cred) (\<lambda>_. service_inv sc)"
  unfolding verifyOTP_def Let_def assms
  by (rule dbh_comb dbh_env dbh_credential [where mx = "sc_OTPMaxAttempts (svc_security s)"] dbh_update_stored
      | (auto; fail))+

text \<open>The gate, entered with a user row that was read before.\<close>

definition user_read :: "uuid \<Rightarrow> user \<Rightarrow> user list \<Rightarrow> bool" where
  "user_read i u t \<longleftrightarrow> sql_find (\<lambda>u. u_ID u = i) t = Some u"

lemma user_read_active:
  "service_inv sc d \<Longrightarrow> user_read i u (users d) \<Longrightarrow> \<not> u_DeletionStatus u = DeletionStatusPending \<Longrightarrow>
     active_user (u_ID u) d"
  unfolding active_user_def user_read_def pending_def
  by (auto dest!: service_invD(1) sql_find_Some simp: db_wf_def) (metis unique_colD)

lemma gate:
  "dbh (\<lambda>d. service_inv (svc_security s) d \<and> cred \<in> set (two_factor_credentials d) \<and> user_read i u (users d))
     (verifyOTP s (u_Email u) cred code)
     (\<lambda>c' d. service_inv (svc_security s) d \<and> user_read i u (users d) \<and>
        cred_wf (sc_OTPMaxAttempts (svc_security s)) c' \<and> c_UserID c' = c_UserID cred)
     (\<lambda>_. service_inv (svc_security s))"
  by (rule inv_verifyOTP) (rule refl)

section \<open>Session use cases\<close>

lemma issue_after_read:
  "u_DeletionStatus u \<noteq> DeletionStatusPending \<Longrightarrow>
   dbh (\<lambda>d. service_inv sc d \<and> user_read i u (users d) \<and> P) (issueSession s u)
     (\<lambda>_ d. service_inv sc d \<and> P) (\<lambda>_. service_inv sc)"
  by (rule dbhI)
     (auto dest: user_read_active dbhD_Inr [OF inv_issueSession] dbhD_Inl [OF inv_issueSession])

lemma dbh_tail:
  assumes "\<And>d. A d \<Longrightarrow> I d"
  shows "dbh A (deactivateAndCleanup s msg i) (\<lambda>_. I) (\<lambda>_. I)"
    "dbh A (cleanupSessionDevices s i j) (\<lambda>_. I) (\<lambda>_. I)"
    "dbh A (external f) (\<lambda>_. I) (\<lambda>_. I)"
  using assms by (auto intro: dbh_conseq [OF dbh_env(11)] dbh_conseq [OF dbh_env(8)] dbh_conseq [OF dbh_env(2)])

lemmas dbh_use_case =
  dbh_comb dbh_env dbh_New dbh_reads dbh_writes issue_after_read dbh_tail

lemma inv_SetupVerifyOTP:
  "dbh (service_inv (svc_security s)) (SetupVerifyOTP s t code)
     (\<lambda>_. service_inv (svc_security s)) (\<lambda>_. service_inv (svc_security s))"
  unfolding SetupVerifyOTP_def
  by (rule dbh_use_case dbh_credential [where mx = "sc_OTPMaxAttempts (svc_security s)"]
      | (rule dbh_pre, rule gate, force simp: user_read_def dest: sql_find_Some)
      | (auto intro: inv_update_credential; fail))+

lemma inv_LoginVerifyOTP:
  "dbh (service_inv (svc_security s)) (LoginVerifyOTP s t code)
     (\<lambda>_. service_inv (svc_security s)) (\<lambda>_. service_inv (svc_security s))"
  unfolding LoginVerifyOTP_def
  by (rule dbh_use_case | (rule dbh_pre, rule gate, force simp: user_read_def dest: sql_find_Some)
      | (auto intro: inv_consume_login_challenge; fail))+

lemma inv_ChangePassword:
  "dbh (service_inv (svc_security s)) (ChangePassword s i inp)
     (\<lambda>_. service_inv (svc_security s)) (\<lambda>_. service_inv (svc_security s))"
  unfolding ChangePassword_def
  by (rule dbh_use_case | (rule dbh_pre, rule gate, force simp: user_read_def dest: sql_find_Some)
      | (auto dest: inv_update_user_password inv_revoke_all_tokens; fail))+

lemma revoke_token_active: "revoke_token now i d = Inr (a, d') \<Longrightarrow> active_user k d \<Longrightarrow> active_user k d'"
  by (auto simp: revoke_token_def)

lemma inv_Refresh:
  "dbh (service_inv sc) (Refresh s t) (\<lambda>_. service_inv sc) (\<lambda>_. service_inv sc)"
  unfolding Refresh_def
  by (rule dbh_use_case
      | (auto dest: inv_revoke_token inv_revoke_all_tokens; fail)
      | (rule dbh_pre, rule inv_issueSession,
         auto intro: inv_revoke_token revoke_token_active user_read_active [unfolded user_read_def]))+

lemma inv_Logout:
  "dbh (service_inv sc) (Logout s t) (\<lambda>_. service_inv sc) (\<lambda>_. service_inv sc)"
  unfolding Logout_def by (rule dbh_use_case | (auto dest: inv_revoke_token; fail))+

text \<open>What only uses statements that always keep the invariant needs no walk through the code.\<close>

interpretation kept: db_frame "\<lambda>d d'. service_inv sc d \<longrightarrow> service_inv sc d'" for sc
  by unfold_locales auto

lemma dbh_kept:
  "keeps (\<lambda>w w'. service_inv sc (w_db w) \<longrightarrow> service_inv sc (w_db w')) m \<Longrightarrow>
     dbh (service_inv sc) m (\<lambda>_. service_inv sc) (\<lambda>_. service_inv sc)"
  by (rule dbhI) (auto dest: keepsD)

lemma inv_UpdateProfile:
  "dbh (service_inv sc) (UpdateProfile s i a inp) (\<lambda>_. service_inv sc) (\<lambda>_. service_inv sc)"
  by (intro dbh_kept kept.keeps_UpdateProfile) (auto simp: stmt_keeps_def intro: inv_update_user)

section \<open>Setup, registration, login\<close>

lemma inv_begin_setup:
  assumes upd: "update_credential c' d = Inr (n, d')" and inv: "service_inv sc d"
    and off: "\<not> enabled i d" and row: "sql_find (\<lambda>c. c_UserID c = i) (two_factor_credentials d) = Some c"
    and c': "c_UserID c' = c_UserID c" "\<forall>m. cred_wf m c'"
  shows "service_inv sc d'"
proof (rule inv_update_credential [OF upd inv])
  have "c_UserID c' = i" using sql_find_Some [OF row] c'(1) by simp
  then show "Credential_IsEnabled c'" if "enabled (c_UserID c') d" using off that by simp
qed (use c' in simp)

lemma inv_storeSetup:
  "dbh (\<lambda>d. service_inv sc d \<and> \<not> enabled (u_ID u) d) (storeSetup s u sec h)
     (\<lambda>_. service_inv sc) (\<lambda>_. service_inv sc)"
  unfolding storeSetup_def
  by (rule dbh_use_case dbh_BeginSetup | (auto intro: inv_insert_credential; fail)
      | (blast intro: inv_begin_setup; fail))+

lemma inv_beginTOTPSetup:
  "dbh (\<lambda>d. service_inv sc d \<and> \<not> enabled (u_ID u) d) (beginTOTPSetup s u) (\<lambda>_. service_inv sc) (\<lambda>_. service_inv sc)"
  unfolding beginTOTPSetup_def by (rule inv_storeSetup dbh_use_case | (auto; fail))+

lemma inv_issueLoginChallenge:
  "dbh (\<lambda>d. service_inv sc d \<and> enabled (u_ID u) d) (issueLoginChallenge s u)
     (\<lambda>_. service_inv sc) (\<lambda>_. service_inv sc)"
  unfolding issueLoginChallenge_def
  by (rule dbh_use_case | (auto intro: inv_insert_login_challenge; fail))+

lemma found_enabled:
  assumes "service_inv sc d"
  shows "sql_find (\<lambda>c. c_UserID c = i) (two_factor_credentials d) = None \<Longrightarrow> \<not> enabled i d"
    and "sql_find (\<lambda>c. c_UserID c = i) (two_factor_credentials d) = Some c \<Longrightarrow>
      enabled i d = Credential_IsEnabled c"
  using stored_enabled [OF assms, of c] by (auto simp: enabled_def sql_find_None dest!: sql_find_Some)

lemma inv_Login:
  "dbh (service_inv sc) (Login s inp) (\<lambda>_. service_inv sc) (\<lambda>_. service_inv sc)"
  unfolding Login_def Let_def
  by (rule dbh_use_case
      | (rule dbh_pre, rule inv_beginTOTPSetup inv_issueLoginChallenge, auto simp: found_enabled; fail)
      | (auto; fail))+

lemma insert_user_not_enabled:
  "insert_user u d = Inr (a, d') \<Longrightarrow> service_inv sc d \<Longrightarrow> \<not> enabled (u_ID u) d'"
  by (auto simp: insert_user_def conflicts_Some split: if_splits dest!: service_invD(1))
     (auto simp: db_wf_def enabled_def user_exists_iff)

lemma inv_Register:
  "dbh (service_inv sc) (Register s inp) (\<lambda>_. service_inv sc) (\<lambda>_. service_inv sc)"
  unfolding Register_def
  by (rule dbh_use_case | (auto; fail)
      | (rule dbh_pre, rule inv_beginTOTPSetup, auto intro: inv_insert_user dest: insert_user_not_enabled; fail))+

section \<open>Password reset\<close>

lemma inv_eligibleUser:
  "dbh (service_inv sc) (eligibleUser s m)
     (\<lambda>oi d. service_inv sc d \<and> (\<forall>i. oi = Some i \<longrightarrow> enabled i d)) (\<lambda>_. service_inv sc)"
  unfolding eligibleUser_def by (rule dbh_use_case | (auto simp: found_enabled; fail))+

lemma inv_RequestPasswordReset:
  "dbh (service_inv sc) (RequestPasswordReset s m) (\<lambda>_. service_inv sc) (\<lambda>_. service_inv sc)"
  unfolding RequestPasswordReset_def
  by (rule inv_eligibleUser dbh_use_case | (auto intro: inv_insert_reset_flow; fail))+

lemma update_credential_flows:
  "update_credential c d = Inr (n, d') \<Longrightarrow> password_reset_flows d' = password_reset_flows d"
  by (auto simp: update_credential_def split: if_splits)

lemma inv_flowCodeValid:
  "dbh (\<lambda>d. service_inv sc d \<and> Q (password_reset_flows d)) (flowCodeValid s flow code)
     (\<lambda>v d. service_inv sc d \<and> Q (password_reset_flows d) \<and> (v \<longrightarrow> f_UserID flow \<noteq> None)) (\<lambda>_. service_inv sc)"
  unfolding flowCodeValid_def
  by (rule dbh_use_case dbh_credential [where mx = "sc_OTPMaxAttempts sc"] | (auto; fail)
      | (auto dest!: sql_find_Some simp: update_credential_flows intro: inv_credential_step; fail))+

lemma inv_flow_step:
  assumes "update_reset_flow f d = Inr (n, d')" "service_inv sc d"
    and "sql_find P (password_reset_flows d) = Some g" "f_ID f = f_ID g" "f_UserID f = f_UserID g"
    and "flow_wf (sc_ResetFlowMaxOTPAttempts sc) g \<Longrightarrow> flow_wf (sc_ResetFlowMaxOTPAttempts sc) f"
  shows "service_inv sc d'"
proof -
  have g: "g \<in> set (password_reset_flows d)" using assms(3) by (auto dest: sql_find_Some)
  then have "flow_wf (sc_ResetFlowMaxOTPAttempts sc) g" using assms(2) by (auto simp: service_inv_def rows_wf_def)
  with assms g show ?thesis by (auto intro: inv_update_reset_flow)
qed

lemma inv_VerifyPasswordResetOTP:
  "dbh (service_inv (svc_security s)) (VerifyPasswordResetOTP s t code)
     (\<lambda>_. service_inv (svc_security s)) (\<lambda>_. service_inv (svc_security s))"
  unfolding VerifyPasswordResetOTP_def PasswordResetFlow_RecordOTPFailure_def Let_def prod.case
  by (rule inv_flowCodeValid dbh_use_case dbh_flow | (auto; fail)
     | (force intro: inv_flow_step simp: flow_wf_def PasswordResetFlow_IsOTPLocked_def; fail))+

lemma resetRefused_False:
  "resetRefused f w = (Inr False, w') \<Longrightarrow> \<not> PasswordResetFlow_IsConsumed f \<and>
     PasswordResetFlow_IsOTPVerified f \<and> f_UserID f \<noteq> None"
  by (auto simp: resetRefused_def peel split: if_splits)

lemma dbh_resetRefused:
  "dbh A (resetRefused f) (\<lambda>r d. A d \<and> (\<not> r \<longrightarrow> PasswordResetFlow_IsOTPVerified f)) (\<lambda>_. A)"
  by (rule dbh_same, unfold resetRefused_def, intro same_db.helper_intros, fold resetRefused_def)
     (auto dest: resetRefused_False)

lemma update_user_password_flows:
  "update_user_password now i h d = Inr (n, d') \<Longrightarrow> password_reset_flows d' = password_reset_flows d"
  by (auto simp: update_user_password_def)

lemma inv_confirm_flow:
  assumes "update_user_password now i h d = Inr (n, d1)" "update_reset_flow f d1 = Inr (m, d')" "service_inv sc d"
    and "sql_find P (password_reset_flows d) = Some g" "f = g\<lparr>f_ConsumedAt := Some t\<rparr>"
    and "PasswordResetFlow_IsOTPVerified g"
  shows "service_inv sc d'"
  using assms inv_update_user_password [OF assms(1,3)] update_user_password_flows [OF assms(1)]
  by (auto simp: flow_wf_def PasswordResetFlow_IsOTPVerified_def intro!: inv_flow_step [OF assms(2)])

lemma inv_ConfirmPasswordReset:
  "dbh (service_inv sc) (ConfirmPasswordReset s t p)
     (\<lambda>_. service_inv sc) (\<lambda>_. service_inv sc)"
  unfolding ConfirmPasswordReset_def Let_def
  by (rule dbh_resetRefused dbh_use_case dbh_flow | (auto dest: inv_update_user_password; fail)
      | (blast intro: inv_confirm_flow inv_revoke_all_tokens; fail))+

section \<open>Account deletion\<close>

definition closing :: "uuid \<Rightarrow> db \<Rightarrow> bool" where
  "closing i d \<longleftrightarrow> (\<exists>u \<in> set (users d). u_ID u = i \<and> pending u)"

text \<open>Inside the transaction, with the steps of the services in \<open>N\<close> created.\<close>

definition requested :: "SecurityConfig \<Rightarrow> uuid \<Rightarrow> uuid \<Rightarrow> string set \<Rightarrow> db \<Rightarrow> bool" where
  "requested sc i jid N d \<longleftrightarrow> inv_but sc i d \<and> no_live i d \<and> closing i d \<and>
     (\<exists>j \<in> set (account_deletion_jobs d). dj_id j = jid \<and> dj_user_id j = i) \<and>
     (\<forall>n \<in> N. \<exists>st \<in> set (account_deletion_steps d). ds_job_id st = jid \<and> ds_service st = n)"

lemma requested_close:
  assumes "requested sc i jid (set deletionServices) d"
  shows "service_inv sc d \<and> closing i d"
  using assms by (auto simp: requested_def has_job_def intro!: inv_but_close [of sc i d])

lemma requested_upsert:
  assumes up: "upsert_deletion_job now j i d = Inr (jid, d')" and d: "inv_but sc i d" "no_live i d" "closing i d"
  shows "requested sc i jid {} d'"
proof -
  have "no_live i d' \<and> closing i d'"
    using up d by (auto simp: upsert_deletion_job_def closing_def split: option.splits if_splits)
  moreover have "\<exists>r \<in> set (account_deletion_jobs d'). dj_id r = jid \<and> dj_user_id r = i"
    using up by (auto simp: upsert_deletion_job_def bex_sql_update split: option.splits if_splits dest!: sql_find_Some)
  ultimately show ?thesis using inv_but_upsert [OF up d(1)] by (simp add: requested_def)
qed

lemma requested_step:
  assumes ins: "insert_deletion_step now jid n d = Inr (a, d')" and R: "requested sc i jid N d"
  shows "requested sc i jid (insert n N) d'"
proof -
  have "inv_but sc i d'" using inv_but_insert_step [OF ins] R by (simp add: requested_def)
  moreover have "\<exists>st \<in> set (account_deletion_steps d'). ds_job_id st = jid \<and> ds_service st = n"
    using ins by (auto simp: insert_deletion_step_def conflicts_Some split: if_splits)
  ultimately show ?thesis
    using ins R by (auto simp: requested_def closing_def insert_deletion_step_def split: if_splits)
qed

lemma requested_steps:
  "dbh (requested sc i jid N) (insert_steps now jid names) (\<lambda>_. requested sc i jid (N \<union> set names)) (\<lambda>_ _. True)"
proof (induction names arbitrary: N)
  case (Cons n names)
  have "dbh (requested sc i jid N) (exec_sql (insert_deletion_step now jid n))
      (\<lambda>_. requested sc i jid (insert n N)) (\<lambda>_ _. True)"
    by (rule dbh_post, rule dbh_exec_sql) (auto intro: requested_step)
  moreover have "insert n N \<union> set names = N \<union> set (n # names)" by simp
  ultimately show ?case using Cons.IH [of "insert n N"] by (auto intro!: dbh_wrapM)
qed (simp add: dbh_ret)

lemma sql_count_pos: "0 < sql_count P t \<longleftrightarrow> (\<exists>r \<in> set t. P r)"
  using sql_count_0 [of P t] by auto

lemma mark_closing: "mark_deletion_pending now i d = Inr (n, d') \<Longrightarrow> n \<noteq> 0 \<Longrightarrow> closing i d'"
  by (auto simp: mark_deletion_pending_def Let_def closing_def bex_sql_update pending_def sql_count_pos)

lemma revoke_all_closing: "revoke_all_tokens now i d = Inr (a, d') \<Longrightarrow> closing k d \<Longrightarrow> closing k d'"
  by (auto simp: revoke_all_tokens_def closing_def)

lemma dbh_uuid_New: "dbh A uuid_New (\<lambda>_. A) (\<lambda>_. A)"
  by (rule dbh_skip) (rule same_db.keeps_uuid_New)

lemma status_closing:
  "select_deletion_status i d = Inr (st, d') \<Longrightarrow> st = DeletionStatusPending \<Longrightarrow> closing i d' \<and> d' = d"
  by (auto simp: select_deletion_status_def closing_def pending_def split: option.splits dest!: sql_find_Some)

lemma request_create:
  assumes "n \<noteq> 0"
  shows "dbh (\<lambda>d'. \<exists>d. service_inv sc d \<and> mark_deletion_pending now i d = Inr (n, d'))
     (wrapM m1 (exec_sql (revoke_all_tokens now i)) (\<lambda>_.
      wrapM m2 (exec_sql (upsert_deletion_job now jid i)) (\<lambda>jid.
      bindM (insert_steps now jid deletionServices) (\<lambda>_. ret (Some wc, ())))))
     (\<lambda>(c, a) d. c \<noteq> None \<and> service_inv sc d \<and> closing i d) (\<lambda>_ _. True)"
proof (intro dbh_wrapM [where F = "\<lambda>_ _. True"] dbh_bindM [where F = "\<lambda>_ _. True"] TrueI)
  show "dbh (\<lambda>d'. \<exists>d. service_inv sc d \<and> mark_deletion_pending now i d = Inr (n, d'))
      (exec_sql (revoke_all_tokens now i)) (\<lambda>_ d. inv_but sc i d \<and> no_live i d \<and> closing i d) (\<lambda>_ _. True)"
    by (rule dbh_post, rule dbh_exec_sql)
       (use assms in \<open>auto dest: inv_mark_deletion_pending inv_but_revoke_all revoke_all_no_live mark_closing
          revoke_all_closing\<close>)
  show "dbh (\<lambda>d. inv_but sc i d \<and> no_live i d \<and> closing i d) (exec_sql (upsert_deletion_job now jid i))
      (\<lambda>jid. requested sc i jid {}) (\<lambda>_ _. True)"
    by (rule dbh_post, rule dbh_exec_sql) (auto intro: requested_upsert)
  show "dbh (requested sc i jid {}) (insert_steps now jid deletionServices)
      (\<lambda>_. requested sc i jid (set deletionServices)) (\<lambda>_ _. True)" for jid
    using requested_steps [of sc i jid "{}"] by simp
qed (auto intro: dbh_ret dest: requested_close)

lemma request_deletion:
  "dbh (service_inv sc) (DeletionStore_RequestDeletion i) (\<lambda>_ d. service_inv sc d \<and> closing i d) (\<lambda>_. service_inv sc)"
  unfolding DeletionStore_RequestDeletion_def
  by (rule dbh_transaction)
     (rule dbh_post [OF request_create] dbh_comb dbh_uuid_New dbh_exec_sql
      | (auto dest!: mark_deletion_pending_none status_closing; fail))+

lemma inv_DeleteAccount:
  "dbh (service_inv (svc_security s)) (DeleteAccount s i a otp)
     (\<lambda>_. service_inv (svc_security s)) (\<lambda>_. service_inv (svc_security s))"
  unfolding DeleteAccount_def
  by (rule dbh_use_case | (rule dbh_pre, rule gate, force simp: user_read_def dest: sql_find_Some)
      | (rule dbh_pre, rule request_deletion, (auto; fail))
      | (auto dest: inv_delete_user inv_revoke_all_tokens; fail))+

section \<open>The deletion worker\<close>

lemma inv_jobs_update:
  assumes "\<And>r. dj_id (f r) = dj_id r \<and> dj_user_id (f r) = dj_user_id r" and "service_inv sc d"
  shows "service_inv sc (d\<lparr>account_deletion_jobs := sql_update P f (account_deletion_jobs d)\<rparr>)"
  using jobs_update_wf [where f = f] assms by (auto simp: service_inv_def pending_ok_def)

lemma inv_steps_update:
  assumes "\<And>r. ds_job_id (f r) = ds_job_id r \<and> ds_service (f r) = ds_service r" and "service_inv sc d"
  shows "service_inv sc (d\<lparr>account_deletion_steps := sql_update P f (account_deletion_steps d)\<rparr>)"
  using steps_update_wf [where f = f] assms by (auto simp: service_inv_def pending_ok_def)

lemma inv_worker_writes: "worker_writes (\<lambda>d d'. service_inv sc d \<longrightarrow> service_inv sc d')"
  by (auto simp: worker_writes_def stmt_keeps_def claim_job_def complete_step_def retry_step_def
      release_job_def complete_job_def intro!: inv_jobs_update inv_steps_update split: option.splits)

lemma inv_RunOnce:
  "dbh (service_inv sc) (DeletionWorker_RunOnce clients) (\<lambda>_. service_inv sc) (\<lambda>_. service_inv sc)"
  by (intro dbh_kept kept.keeps_RunOnce inv_worker_writes) (auto simp: stmt_keeps_def intro: inv_delete_user)

lemma inv_run_cleanup:
  "dbh (service_inv sc) (run_cleanup s k) (\<lambda>_. service_inv sc) (\<lambda>_. service_inv sc)"
  by (intro dbh_kept kept.keeps_run_cleanup)

lemmas inv_use_cases =
  inv_Register inv_Login inv_Refresh inv_Logout inv_UpdateProfile inv_DeleteAccount inv_SetupVerifyOTP
  inv_LoginVerifyOTP inv_ChangePassword inv_RequestPasswordReset inv_VerifyPasswordResetOTP
  inv_ConfirmPasswordReset inv_RunOnce inv_run_cleanup

end
