(* ===== verification/System.thy ===== *)
theory System
  imports Service_Invariants
begin

text \<open>
  The running service as a state machine: between two operations the clock, the
  random source, the faults and the state of everything outside the process
  may change in any way; an operation is one request, one round of the
  deletion worker or one detached cleanup goroutine. The whole-system
  invariants hold in every state such a machine can reach from an empty
  database.
\<close>

datatype op =
    OpRegister RegisterInput
  | OpLogin LoginInput
  | OpRefresh string
  | OpLogout string
  | OpUpdateProfile uuid string UpdateProfileInput
  | OpDeleteAccount uuid string string
  | OpSetupVerifyOTP string string
  | OpLoginVerifyOTP string string
  | OpChangePassword uuid ChangePasswordInput
  | OpRequestPasswordReset string
  | OpVerifyPasswordResetOTP string string
  | OpConfirmPasswordReset string string
  | OpWorker
  | OpCleanup nat

fun run_op :: "'x service \<Rightarrow> 'x cleanup_clients \<Rightarrow> op \<Rightarrow> 'x world \<Rightarrow> 'x world" where
  "run_op s cl (OpRegister inp) w = snd (Register s inp w)"
| "run_op s cl (OpLogin inp) w = snd (Login s inp w)"
| "run_op s cl (OpRefresh t) w = snd (Refresh s t w)"
| "run_op s cl (OpLogout t) w = snd (Logout s t w)"
| "run_op s cl (OpUpdateProfile i a inp) w = snd (UpdateProfile s i a inp w)"
| "run_op s cl (OpDeleteAccount i a otp) w = snd (DeleteAccount s i a otp w)"
| "run_op s cl (OpSetupVerifyOTP t code) w = snd (SetupVerifyOTP s t code w)"
| "run_op s cl (OpLoginVerifyOTP t code) w = snd (LoginVerifyOTP s t code w)"
| "run_op s cl (OpChangePassword i inp) w = snd (ChangePassword s i inp w)"
| "run_op s cl (OpRequestPasswordReset m) w = snd (RequestPasswordReset s m w)"
| "run_op s cl (OpVerifyPasswordResetOTP t code) w = snd (VerifyPasswordResetOTP s t code w)"
| "run_op s cl (OpConfirmPasswordReset t p) w = snd (ConfirmPasswordReset s t p w)"
| "run_op s cl OpWorker w = snd (DeletionWorker_RunOnce cl w)"
| "run_op s cl (OpCleanup k) w = snd (run_cleanup s k w)"

inductive step :: "'x service \<Rightarrow> 'x cleanup_clients \<Rightarrow> 'x world \<Rightarrow> 'x world \<Rightarrow> bool"
  for s :: "'x service" and cl :: "'x cleanup_clients" where
  environment: "w_db w' = w_db w \<Longrightarrow> w_cleanups w' = w_cleanups w \<Longrightarrow> step s cl w w'"
| operation: "step s cl w (run_op s cl oper w)"

inductive_cases stepE: "step s cl w w'"

definition initial :: "'x world \<Rightarrow> bool" where
  "initial w \<longleftrightarrow> w_db w = empty_db \<and> w_cleanups w = []"

inductive reachable :: "'x service \<Rightarrow> 'x cleanup_clients \<Rightarrow> 'x world \<Rightarrow> bool"
  for s :: "'x service" and cl :: "'x cleanup_clients" where
  start: "initial w \<Longrightarrow> reachable s cl w"
| run: "reachable s cl w \<Longrightarrow> step s cl w w' \<Longrightarrow> reachable s cl w'"

lemma run_op_inv:
  assumes "service_inv (svc_security s) (w_db w)"
  shows "service_inv (svc_security s) (w_db (run_op s cl oper w))"
  by (cases oper) (simp_all, (rule dbh_inv [where I = "service_inv (svc_security s)", OF _ assms], rule inv_use_cases)+)

lemma reachable_inv: "reachable s cl w \<Longrightarrow> service_inv (svc_security s) (w_db w)"
proof (induction rule: reachable.induct)
  case (run w w')
  from run.hyps(2) run.IH show ?case by (cases rule: stepE) (auto intro: run_op_inv)
qed (simp add: initial_def service_inv_empty)

section \<open>Histories of an account\<close>

text \<open>
  A history of account \<open>i\<close>: operations of any kind, for any user, rounds of the
  worker and deletion requests among them, and anything the environment does
  in between, as long as the row of account \<open>i\<close> stays in the table.
\<close>

inductive while_account :: "'x service \<Rightarrow> 'x cleanup_clients \<Rightarrow> uuid \<Rightarrow> 'x world \<Rightarrow> 'x world \<Rightarrow> bool"
  for s :: "'x service" and cl :: "'x cleanup_clients" and i :: uuid where
  none: "while_account s cl i w w"
| environment: "while_account s cl i w w1 \<Longrightarrow> w_db w' = w_db w1 \<Longrightarrow> w_cleanups w' = w_cleanups w1 \<Longrightarrow>
    while_account s cl i w w'"
| operation: "while_account s cl i w w1 \<Longrightarrow> user_exists i (w_db (run_op s cl oper w1)) \<Longrightarrow>
    while_account s cl i w (run_op s cl oper w1)"

lemma inv_while_account:
  "while_account s cl i w w' \<Longrightarrow> service_inv (svc_security s) (w_db w) \<Longrightarrow> service_inv (svc_security s) (w_db w')"
  by (induction rule: while_account.induct) (auto intro: run_op_inv)

text \<open>The operations that can remove a row of the users table.\<close>

fun deletes :: "op \<Rightarrow> bool" where
  "deletes (OpDeleteAccount i a otp) = True"
| "deletes OpWorker = True"
| "deletes _ = False"

section \<open>Rows that stay as they are\<close>

text \<open>
  Revoked refresh tokens and consumed login challenges: no statement but the
  deletion of the account touches such a row again.
\<close>

definition settled_rows :: "db \<Rightarrow> db \<Rightarrow> bool" where
  "settled_rows d d' \<longleftrightarrow>
     (\<forall>t \<in> set (refresh_tokens d). \<not> live t \<longrightarrow> t \<in> set (refresh_tokens d')) \<and>
     (\<forall>c \<in> set (login_challenges d). lc_ConsumedAt c \<noteq> None \<longrightarrow> c \<in> set (login_challenges d'))"

interpretation settled: db_frame settled_rows
  by unfold_locales (auto simp: settled_rows_def)

lemma settled_stmts:
  "stmt_keeps settled_rows (insert_user u)" "stmt_keeps settled_rows (update_user u)"
  "stmt_keeps settled_rows (update_user_password now i h)"
  "stmt_keeps settled_rows (insert_refresh_token t)" "stmt_keeps settled_rows (revoke_token now i)"
  "stmt_keeps settled_rows (revoke_all_tokens now i)"
  "stmt_keeps settled_rows (insert_credential c)" "stmt_keeps settled_rows (update_credential c)"
  "stmt_keeps settled_rows (insert_login_challenge lc)"
  "stmt_keeps settled_rows (consume_login_challenge now i)"
  "stmt_keeps settled_rows (insert_reset_flow f)" "stmt_keeps settled_rows (update_reset_flow f)"
  by (auto simp: stmt_keeps_def settled_rows_def insert_user_def update_user_def update_user_password_def
      insert_refresh_token_def revoke_token_def revoke_all_tokens_def insert_credential_def
      update_credential_def insert_login_challenge_def consume_login_challenge_def insert_reset_flow_def
      update_reset_flow_def set_sql_update live_def image_iff split: if_splits option.splits)

lemma settled_writes: "session_writes settled_rows" "setup_writes settled_rows"
  by (simp_all add: session_writes_def setup_writes_def settled_stmts)

lemma settled_op:
  assumes "\<not> deletes oper"
  shows "settled_rows (w_db w) (w_db (run_op s cl oper w))"
proof -
  note ops = settled.keeps_Register settled.keeps_Login settled.keeps_Refresh settled.keeps_Logout
    settled.keeps_UpdateProfile settled.keeps_SetupVerifyOTP settled.keeps_LoginVerifyOTP
    settled.keeps_ChangePassword settled.keeps_RequestPasswordReset settled.keeps_VerifyPasswordResetOTP
    settled.keeps_ConfirmPasswordReset settled.keeps_run_cleanup
  show ?thesis
    using assms
    by (cases oper)
       (simp_all, (rule ops [unfolded keeps_def, rule_format]; intro settled_stmts settled_writes)+)
qed

section \<open>Facts that last as long as the account\<close>

lemmas deletion_defs =
  mark_deletion_pending_def upsert_deletion_job_def insert_deletion_step_def claim_job_def complete_step_def retry_step_def
  release_job_def complete_job_def

text \<open>No statement of a deletion request or of the worker creates a user.\<close>

abbreviation no_new_user :: "uuid \<Rightarrow> db \<Rightarrow> db \<Rightarrow> bool" where
  "no_new_user i d d' \<equiv> user_exists i d' \<longrightarrow> user_exists i d"

interpretation new_user: db_frame "no_new_user i" for i
  by unfold_locales auto

lemma no_new_user_stmts:
  "deletion_writes (no_new_user i)" "worker_writes (no_new_user i)" "stmt_keeps (no_new_user i) (update_credential c)"
  "stmt_keeps (no_new_user i) (revoke_all_tokens now j)" "stmt_keeps (no_new_user i) (delete_user j)"
  by (auto simp: deletion_writes_def worker_writes_def stmt_keeps_def deletion_defs update_credential_def revoke_all_tokens_def
      delete_user_def user_exists_iff set_sql_update set_sql_delete Let_def split: if_splits option.splits)

lemma deletion_wf: "deletion_writes (\<lambda>d d'. db_wf d \<longrightarrow> db_wf d')" "worker_writes (\<lambda>d d'. db_wf d \<longrightarrow> db_wf d')"
  by (auto simp: deletion_writes_def worker_writes_def stmt_keeps_def claim_job_def complete_step_def retry_step_def release_job_def
      complete_job_def jobs_update_wf steps_update_wf
      dest: mark_deletion_pending_wf upsert_deletion_job_wf insert_deletion_step_wf split: option.splits)

text \<open>
  A fact about the rows of account \<open>i\<close> that the deletion of another account and the
  bookkeeping of deletions leave alone.
\<close>

locale account_fact =
  fixes i :: uuid and P :: "db \<Rightarrow> bool"
  assumes request: "deletion_writes (\<lambda>d d'. P d \<longrightarrow> P d')"
    and worker: "worker_writes (\<lambda>d d'. P d \<longrightarrow> P d')"
    and revoke: "stmt_keeps (\<lambda>d d'. P d \<longrightarrow> P d') (revoke_all_tokens now j)"
    and delete: "delete_user j d = Inr (n, d') \<Longrightarrow> j \<noteq> i \<Longrightarrow> P d \<Longrightarrow> P d'"
begin

definition lasting :: "db \<Rightarrow> bool" where
  "lasting d \<longleftrightarrow> (user_exists i d \<longrightarrow> P d)"

lemma lasting_stmt:
  assumes "stmt_keeps (\<lambda>d d'. P d \<longrightarrow> P d') st" and "stmt_keeps (no_new_user i) st"
  shows "stmt_keeps (\<lambda>d d'. lasting d \<longrightarrow> lasting d') st"
  using assms by (fastforce simp: stmt_keeps_def lasting_def)

lemma lasting_delete: "stmt_keeps (\<lambda>d d'. lasting d \<longrightarrow> lasting d') (delete_user j)"
proof (rule stmt_keepsI, rule impI)
  fix d n d'
  assume st: "delete_user j d = Inr (n, d')" and l: "lasting d"
  have "user_exists i d' \<longrightarrow> user_exists i d" using no_new_user_stmts(5) [of i j] st by (auto simp: stmt_keeps_def)
  moreover have "\<not> user_exists i d'" if "j = i"
    using st that by (auto simp: delete_user_def user_exists_iff set_sql_delete sql_count_0 Let_def split: if_splits)
  ultimately show "lasting d'" using delete [OF st] l by (auto simp: lasting_def)
qed

lemma lasting_writes:
  "deletion_writes (\<lambda>d d'. lasting d \<longrightarrow> lasting d')" "worker_writes (\<lambda>d d'. lasting d \<longrightarrow> lasting d')"
  "stmt_keeps (\<lambda>d d'. lasting d \<longrightarrow> lasting d') (revoke_all_tokens now j)"
  using request worker revoke no_new_user_stmts(1,2,4) [of i]
  by (auto simp: deletion_writes_def worker_writes_def intro!: lasting_stmt)

lemma lasting_frame: "db_frame (\<lambda>d d'. lasting d \<longrightarrow> lasting d')"
  by unfold_locales auto

lemma lasting_dbh:
  "dbh lasting (DeletionStore_RequestDeletion j) (\<lambda>_. lasting) (\<lambda>_. lasting)"
  "dbh lasting (refreshTokens_RevokeAllForUser j) (\<lambda>_. lasting) (\<lambda>_. lasting)"
  "dbh lasting (users_Delete j) (\<lambda>_. lasting) (\<lambda>_. lasting)"
  using keepsD [OF db_frame.keeps_RequestDeletion [OF lasting_frame lasting_writes(1,3)], rule_format]
    keepsD [OF db_frame.keeps_refreshTokens_RevokeAllForUser [OF lasting_frame lasting_writes(3)], rule_format]
    keepsD [OF db_frame.keeps_users_Delete [OF lasting_frame lasting_delete], rule_format]
  by (blast intro!: dbhI)+

lemma lasts_worker:
  assumes "P (w_db w)" and "DeletionWorker_RunOnce cl w = (r, w')" and "user_exists i (w_db w')"
  shows "P (w_db w')"
  using keepsD [OF db_frame.keeps_RunOnce [OF lasting_frame lasting_writes(2) lasting_delete] assms(2)] assms(1,3)
  by (auto simp: lasting_def)

lemma lasts_request:
  assumes "\<And>c. stmt_keeps (\<lambda>d d'. P d \<longrightarrow> P d') (update_credential c)"
    and "P (w_db w)" and "DeleteAccount s j a otp w = (r, w')" and "user_exists i (w_db w')"
  shows "P (w_db w')"
  using keepsD [OF db_frame.keeps_DeleteAccount [OF lasting_frame lasting_stmt [OF assms(1) no_new_user_stmts(3)] lasting_writes(1,3) lasting_delete] assms(3)]
    assms(2,4)
  by (auto simp: lasting_def)

end

text \<open>The settled rows of account \<open>i\<close>: they are there in \<open>d'\<close> as they were in \<open>d\<close>.\<close>

definition settled_of :: "uuid \<Rightarrow> db \<Rightarrow> db \<Rightarrow> bool" where
  "settled_of i d d' \<longleftrightarrow>
     (\<forall>t \<in> set (refresh_tokens d). rt_UserID t = i \<longrightarrow> \<not> live t \<longrightarrow> t \<in> set (refresh_tokens d')) \<and>
     (\<forall>c \<in> set (login_challenges d). lc_UserID c = i \<longrightarrow> lc_ConsumedAt c \<noteq> None \<longrightarrow> c \<in> set (login_challenges d'))"

interpretation settled_fact: account_fact i "settled_of i d" for i d
  by unfold_locales
     (auto simp: deletion_writes_def worker_writes_def stmt_keeps_def deletion_defs settled_of_def revoke_all_tokens_def
      delete_user_def set_sql_update set_sql_delete live_def image_iff Let_def split: if_splits option.splits)

lemma settled_update: "stmt_keeps (\<lambda>d d'. settled_of i d0 d \<longrightarrow> settled_of i d0 d') (update_credential c)"
  by (auto simp: stmt_keeps_def settled_of_def update_credential_def split: if_splits)

lemma settled_of_op:
  assumes "settled_of i d (w_db w)" and "user_exists i (w_db (run_op s cl oper w))"
  shows "settled_of i d (w_db (run_op s cl oper w))"
proof (cases "deletes oper")
  case True
  with assms show ?thesis
    by (cases oper) (auto intro: settled_fact.lasts_worker settled_fact.lasts_request [OF settled_update] prod.collapse [symmetric])
next
  case False
  from settled_op [OF this, of w s cl] assms(1) show ?thesis by (auto simp: settled_of_def settled_rows_def)
qed

lemma settled_of_refl: "settled_of i d d"
  by (simp add: settled_of_def)

lemma settled_while: "while_account s cl i w w' \<Longrightarrow> settled_of i (w_db w) (w_db w')"
  by (induction rule: while_account.induct) (auto intro: settled_of_op settled_of_refl)

text \<open>A round of the worker that finds no job changes no table.\<close>

lemma idle_round:
  assumes "account_deletion_jobs (w_db w) = []"
  shows "w_db (run_op s cl OpWorker w) = w_db w"
proof -
  have "next_claim now (w_db w) = None" for now by (simp add: next_claim_def assms)
  then have claim: "claim_job now (w_db w) = Inl (Sentinel Pgx_ErrNoRows)" for now by (simp add: claim_job_def)
  obtain r w1 where run: "jobs_ClaimDeletion w = (r, w1)" by fastforce
  have "w_db w1 = w_db w \<and> (\<forall>job. r \<noteq> Inr (Some job))"
    using run
    by (auto simp: jobs_ClaimDeletion_def transaction_def in_tx_def exec_sql_def fallible_def tryM_apply bindM_apply claim
        split: prod.splits sum.splits option.splits if_splits)
  with run show ?thesis
    by (cases r) (auto simp: DeletionWorker_RunOnce_def bindM_apply split: option.splits)
qed

lemma while_idle:
  "account_deletion_jobs (w_db w) = [] \<Longrightarrow> user_exists i (w_db w) \<Longrightarrow> while_account s cl i w (run_op s cl OpWorker w)"
  using while_account.operation [OF while_account.none, of i s cl OpWorker w] by (simp only: idle_round)

end
