(* ===== verification/Service_Errors.thy ===== *)
theory Service_Errors
  imports Service_PasswordReset
begin

text \<open>
  Which sentinel errors a use case can return. \<open>raises S m\<close>: whenever \<open>m\<close> fails,
  \<open>errors.Is\<close> finds only sentinels of \<open>S\<close> in the error. The rules follow the
  combinators, so the set of a use case comes from the sets of the
  repository methods and the branches of its code.
\<close>

definition within :: "sentinel set \<Rightarrow> goerror \<Rightarrow> bool" where
  "within S e \<longleftrightarrow> (\<forall>x. errors_Is e x \<longrightarrow> x \<in> S)"

lemma within_simps [simp]:
  "within S (Sentinel x) \<longleftrightarrow> x \<in> S" "within S (Wrap msg e) \<longleftrightarrow> within S e" "within S (PgError c)" "within S (Opaque msg)"
  by (auto simp: within_def)

lemma within_mono: "within T e \<Longrightarrow> T \<subseteq> S \<Longrightarrow> within S e"
  by (auto simp: within_def)

lemma within_handled: "within {x} e \<Longrightarrow> \<not> errors_Is e x \<Longrightarrow> within S e"
  by (auto simp: within_def)

definition raises :: "sentinel set \<Rightarrow> ('w, 'a) comp \<Rightarrow> bool" where
  "raises S m \<longleftrightarrow> (\<forall>w e w'. m w = (Inl e, w') \<longrightarrow> within S e)"

lemma raisesI: "(\<And>w e w'. m w = (Inl e, w') \<Longrightarrow> within S e) \<Longrightarrow> raises S m"
  by (auto simp: raises_def)

lemma raisesD: "raises S m \<Longrightarrow> m w = (Inl e, w') \<Longrightarrow> within S e"
  by (auto simp: raises_def)

lemma raises_mono: "raises T m \<Longrightarrow> T \<subseteq> S \<Longrightarrow> raises S m"
  by (auto simp: raises_def intro: within_mono)

section \<open>Combinators\<close>

lemma raises_ret: "raises S (ret x)"
  by (simp add: raises_def)

lemma raises_fail: "within S e \<Longrightarrow> raises S (fail e)"
  by (simp add: raises_def)

lemma raises_attempt: "(\<And>r. raises S (k r)) \<Longrightarrow> raises S (attempt m k)"
  by (auto simp: raises_def attempt_peel)

lemma raises_tryM:
  "raises T m \<Longrightarrow> (\<And>e. within T e \<Longrightarrow> raises S (h e)) \<Longrightarrow> (\<And>x. raises S (k x)) \<Longrightarrow> raises S (tryM m h k)"
  by (fastforce simp: raises_def tryM_peel)

lemma raises_bindM: "raises S m \<Longrightarrow> (\<And>x. raises S (k x)) \<Longrightarrow> raises S (bindM m k)"
  by (fastforce simp: raises_def bindM_peel_Inl)

lemma raises_wrapM: "raises S m \<Longrightarrow> (\<And>x. raises S (k x)) \<Longrightarrow> raises S (wrapM msg m k)"
  by (fastforce simp: raises_def wrapM_peel_Inl)

lemma raises_if: "(b \<Longrightarrow> raises S m) \<Longrightarrow> (\<not> b \<Longrightarrow> raises S n) \<Longrightarrow> raises S (if b then m else n)"
  by simp

lemma raises_option: "raises S m \<Longrightarrow> (\<And>x. raises S (k x)) \<Longrightarrow> raises S (case v of None \<Rightarrow> m | Some x \<Rightarrow> k x)"
  by (simp split: option.split)

lemma raises_sum: "(\<And>e. v = Inl e \<Longrightarrow> raises S (h e)) \<Longrightarrow> (\<And>x. raises S (k x)) \<Longrightarrow> raises S (case v of Inl e \<Rightarrow> h e | Inr x \<Rightarrow> k x)"
  by (simp split: sum.split)

lemma raises_prod: "(\<And>x y. raises S (k x y)) \<Longrightarrow> raises S (case v of (x, y) \<Rightarrow> k x y)"
  by (simp split: prod.split)

lemmas raises_comb =
  raises_ret raises_fail raises_attempt raises_tryM raises_bindM raises_wrapM raises_if raises_option raises_sum raises_prod

section \<open>Leaves\<close>

lemma raises_fallible: "raises S m \<Longrightarrow> raises S (fallible m)"
  by (auto simp: raises_def fallible_def split: prod.splits option.splits)

lemma raises_exec_sql: "(\<And>d e. st d = Inl e \<Longrightarrow> within S e) \<Longrightarrow> raises S (exec_sql st)"
  unfolding exec_sql_def
  by (rule raises_fallible) (auto simp: raises_def split: sum.splits)

lemma raises_rand_Read: "raises S (rand_Read n)"
  unfolding rand_Read_def by (rule raises_fallible) (simp add: raises_def)

lemma raises_clock: "raises S time_Now" "raises S uuid_New"
  by (simp_all add: raises_def)

lemmas raises_env = raises_clock raises_rand_Read

lemma raises_select: "raises {Pgx_ErrNoRows} (exec_sql (select_one P t))"
  by (rule raises_exec_sql) (auto simp: select_one_def split: option.splits)

lemma raises_scan:
  "raises {x} (tryM (exec_sql (select_one P t)) (\<lambda>e. if errors_Is e Pgx_ErrNoRows then fail (Sentinel x) else fail (Wrap msg e)) ret)"
  by (rule raises_select raises_comb | (auto intro: within_handled; fail))+

lemma raises_reads:
  "raises {User_ErrNotFound} (users_GetByEmail m)" "raises {User_ErrNotFound} (users_GetByID i)"
  "raises {Token_ErrNotFound} (refreshTokens_GetByHash h)"
  "raises {Totp_ErrNotFound} (credentials_GetByUserID i)" "raises {Totp_ErrNotFound} (credentials_GetBySetupTokenHash h)"
  "raises {LoginChallenge_ErrNotFound} (loginChallenges_GetByHash h)"
  "raises {PasswordReset_ErrNotFound} (passwordResetFlows_GetByFlowTokenHash h)"
  "raises {PasswordReset_ErrNotFound} (passwordResetFlows_GetByResetTokenHash h)"
  unfolding users_GetByEmail_def users_GetByID_def users_scanOne_def refreshTokens_GetByHash_def
    credentials_GetByUserID_def credentials_GetBySetupTokenHash_def credentials_scanOne_def loginChallenges_GetByHash_def
    passwordResetFlows_GetByFlowTokenHash_def passwordResetFlows_GetByResetTokenHash_def passwordResetFlows_scanOne_def
  by (rule raises_scan)+

lemma raises_writes:
  "raises {User_ErrEmailTaken} (users_Create u)" "raises {User_ErrNotFound} (users_Update u)"
  "raises {User_ErrNotFound} (users_UpdatePassword i h)" "raises {User_ErrNotFound} (users_Delete i)"
  "raises {} (refreshTokens_Create t)" "raises {} (refreshTokens_Revoke i)" "raises {} (refreshTokens_RevokeAllForUser i)"
  "raises {} (credentials_Create c)" "raises {Totp_ErrNotFound} (credentials_Update c)"
  "raises {} (loginChallenges_Create lc)" "raises {} (loginChallenges_Consume i)"
  "raises {} (passwordResetFlows_Create f)" "raises {PasswordReset_ErrNotFound} (passwordResetFlows_Update f)"
  unfolding users_Create_def users_Update_def users_UpdatePassword_def users_Delete_def refreshTokens_Create_def refreshTokens_Revoke_def
    refreshTokens_RevokeAllForUser_def credentials_Create_def credentials_Update_def loginChallenges_Create_def
    loginChallenges_Consume_def passwordResetFlows_Create_def passwordResetFlows_Update_def
  by (rule raises_exec_sql raises_comb raises_env
      | (auto simp: insert_user_def update_user_def update_user_password_def delete_user_def Let_def insert_refresh_token_def revoke_token_def
        revoke_all_tokens_def insert_credential_def update_credential_def insert_login_challenge_def
        consume_login_challenge_def insert_reset_flow_def update_reset_flow_def split: if_splits option.splits; fail))+


lemma raises_domain:
  "raises S (User_New m h)" "raises S (User_UpdateProfile fn ln av u)"
  "raises S (RefreshToken_New i h ttl)" "raises S (RefreshToken_IsExpired t)"
  "raises S (LoginChallenge_New i h ttl)" "raises S (LoginChallenge_IsExpired c)"
  "raises S (Credential_New i sec h ttl)" "raises S (Credential_BeginSetup sec h ttl cr)"
  "raises S (Credential_Enable cr)" "raises S (Credential_IsSetupTokenExpired cr)" "raises S (Credential_IsLocked cr)"
  "raises S (Credential_RecordFailure n dur cr)" "raises S (Credential_RecordSuccess k cr)"
  "raises S (Credential_MarkCodeUsed k cr)"
  "raises S (PasswordResetFlow_New oi h ttl)" "raises S (PasswordResetFlow_IsExpired f)"
  "raises S (PasswordResetFlow_MarkOTPVerified f)" "raises S (PasswordResetFlow_IssueResetToken h ttl f)"
  "raises S (PasswordResetFlow_IsResetTokenValid f)" "raises S (PasswordResetFlow_Consume f)"
  unfolding User_New_def User_UpdateProfile_def RefreshToken_New_def RefreshToken_IsExpired_def LoginChallenge_New_def
    LoginChallenge_IsExpired_def Credential_New_def Credential_BeginSetup_def Credential_Enable_def
    Credential_IsSetupTokenExpired_def Credential_IsLocked_def Credential_RecordFailure_def Credential_RecordSuccess_def
    Credential_MarkCodeUsed_def PasswordResetFlow_New_def PasswordResetFlow_IsExpired_def
    PasswordResetFlow_MarkOTPVerified_def PasswordResetFlow_IssueResetToken_def PasswordResetFlow_IsResetTokenValid_def
    PasswordResetFlow_Consume_def Let_def
  by (rule raises_comb raises_env)+

lemma raises_tokenhash_Generate: "raises S tokenhash_Generate"
  unfolding tokenhash_Generate_def by (rule raises_comb raises_env)+

section \<open>The deletion transaction\<close>

lemma fallible_ret_Inl: "fallible (ret x) w = (Inl e, w') \<Longrightarrow> \<exists>msg. e = Opaque msg"
  by (auto simp: fallible_def split: prod.splits option.splits)

lemma raises_transaction:
  assumes "\<And>now. raises S (body now)" and "\<And>msg. within S (wb (Opaque msg))"
    and "\<And>now w c a w1 msg. body now w = (Inr (Some c, a), w1) \<Longrightarrow> within S (c (Opaque msg))"
  shows "raises S (transaction wb body)"
proof -
  have "raises S (in_tx (body now))" for now
    using assms(1) [of now] assms(3) [of now]
    by (auto simp: raises_def in_tx_def split: prod.splits sum.splits option.splits dest: fallible_ret_Inl)
  moreover have "within S e" if "transaction wb body w = (Inl e, w')" and "\<And>now. raises S (in_tx (body now))" for w e w'
    using that assms(2) by (auto simp: transaction_def tryM_peel bindM_peel_Inl dest!: fallible_ret_Inl intro: raisesD)
  ultimately show ?thesis by (auto simp: raises_def)
qed

lemma raises_insert_steps: "raises S (insert_steps now j names)"
proof (induction names)
  case (Cons a names)
  then show ?case
    by (simp, intro raises_wrapM raises_exec_sql) (auto simp: insert_deletion_step_def split: if_splits)
qed (simp add: raises_def)

lemma raises_RequestDeletion: "raises S (DeletionStore_RequestDeletion i)"
  unfolding DeletionStore_RequestDeletion_def
proof (rule raises_transaction, goal_cases)
  case (1 now)
  have sel: "raises {Pgx_ErrNoRows} (exec_sql (select_deletion_status i))"
    by (rule raises_exec_sql) (auto simp: select_deletion_status_def split: option.splits)
  show ?case
    by (rule raises_tryM [OF sel] raises_comb raises_env raises_insert_steps raises_exec_sql
        | (auto simp: mark_deletion_pending_def revoke_all_tokens_def upsert_deletion_job_def Let_def
             split: option.splits if_splits intro: within_handled; fail))+
next
  case (3 now w c a w1 msg)
  then show ?case by (auto simp: peel split: if_splits)
qed simp

section \<open>Ports\<close>

text \<open>
  What the ports promise: their errors are their own. None of them is one of
  the sentinels of this program, apart from the media client, which reports a
  foreign avatar as \<open>ErrAvatarNotFound\<close>.
\<close>

definition ext_raises :: "sentinel set \<Rightarrow> ('x, 'a) ext_call \<Rightarrow> bool" where
  "ext_raises S f \<longleftrightarrow> (\<forall>x e x'. f x = (Inl e, x') \<longrightarrow> within S e)"

locale plain_ports =
  fixes s :: "'x service"
  assumes sessions_plain:
      "ext_raises {} (ss_ActivateAndReturnPrevious (svc_sessions s) u sid ttl)"
      "ext_raises {} (ss_Deactivate (svc_sessions s) u)" "ext_raises {} (ss_DeactivateIfCurrent (svc_sessions s) u sid)"
      "ext_raises {} (ss_DeactivateAndReturnPrevious (svc_sessions s) u)"
    and bcrypt_plain: "ext_raises {} (bc_GenerateFromPassword (svc_bcrypt s) p cost)"
    and otp_plain: "ext_raises {} (svc_otp_Generate s iss acc)"
    and jwt_plain: "ji_SignedString (svc_issuer s) kid claims = Inl e \<Longrightarrow> within {} e"
    and cipher_plain: "Cipher_Decrypt (svc_cipher s) ct = Inl e \<Longrightarrow> within {} e"
    and apiaries_plain: "ext_raises {} (svc_apiaries_DeleteAllMine s tok)"
    and media_plain: "ext_raises {} (mc_DeleteByIDs (svc_media s) tok ids)" "ext_raises {} (mc_DeleteAllByUser (svc_media s) tok)"
      "ext_raises {ErrAvatarNotFound} (mc_VerifyOwnership (svc_media s) tok ids)"
begin

lemma raises_external: "ext_raises T f \<Longrightarrow> T \<subseteq> S \<Longrightarrow> raises S (external f)"
  by (rule raisesI) (auto simp: external_Pair ext_raises_def intro: within_mono)

lemma raises_calls:
  "raises S (external (ss_ActivateAndReturnPrevious (svc_sessions s) u sid ttl))"
  "raises S (external (ss_Deactivate (svc_sessions s) u))"
  "raises S (external (ss_DeactivateIfCurrent (svc_sessions s) u sid))"
  "raises S (external (ss_DeactivateAndReturnPrevious (svc_sessions s) u))"
  "raises S (external (bc_GenerateFromPassword (svc_bcrypt s) p cost))"
  "raises S (external (svc_otp_Generate s iss acc))"
  "raises S (external (svc_apiaries_DeleteAllMine s tok))"
  "raises S (external (mc_DeleteByIDs (svc_media s) tok ids))" "raises S (external (mc_DeleteAllByUser (svc_media s) tok))"
  by (rule raises_external, rule sessions_plain bcrypt_plain otp_plain apiaries_plain media_plain, rule empty_subsetI)+

lemma raises_hash: "raises S (hasher_Hash s p)"
  unfolding hasher_Hash_def BcryptHasher_Hash_def by (rule raises_comb raises_calls)+

lemma raises_issuer: "raises S (Issuer_IssueWithGeneration (svc_issuer s) u sid g)" "raises S (Issuer_Issue (svc_issuer s) u sid)"
  unfolding Issuer_Issue_def Issuer_IssueWithGeneration_def Let_def
  by (rule raises_comb raises_env | (auto dest: jwt_plain intro: within_mono; fail))+

lemma raises_cleanup: "raises S (cleanupSessionDevices s u sid)"
  by (auto simp: raises_def cleanupSessionDevices_def split: option.splits)

lemma raises_encrypt: "raises S (Cipher_Encrypt ae bs)"
  unfolding Cipher_Encrypt_def Let_def by (rule raises_comb raises_env)+

lemma raises_secret: "raises S (totp_GenerateSecret (\<lambda>i a. external (svc_otp_Generate s i a)) iss acc)"
  unfolding totp_GenerateSecret_def by (rule raises_comb raises_calls)+

lemma raises_validateOTP: "raises S (validateOTP s m c code)"
  unfolding validateOTP_def Let_def
  by (rule raises_comb raises_env | (auto dest: cipher_plain intro: within_mono; fail))+

lemma raises_repositories:
  "{User_ErrNotFound} \<subseteq> S1 \<Longrightarrow> raises S1 (users_GetByID i)"
  "{User_ErrEmailTaken} \<subseteq> S2 \<Longrightarrow> raises S2 (users_Create u)"
  "{User_ErrNotFound} \<subseteq> S1 \<Longrightarrow> raises S1 (users_Update u)"
  "{User_ErrNotFound} \<subseteq> S1 \<Longrightarrow> raises S1 (users_UpdatePassword i h)"
  "{User_ErrNotFound} \<subseteq> S1 \<Longrightarrow> raises S1 (users_Delete i)"
  "{Totp_ErrNotFound} \<subseteq> S3 \<Longrightarrow> raises S3 (credentials_Update c)"
  "{PasswordReset_ErrNotFound} \<subseteq> S4 \<Longrightarrow> raises S4 (passwordResetFlows_Update f)"
  "raises S (refreshTokens_Create t)" "raises S (refreshTokens_Revoke i)" "raises S (refreshTokens_RevokeAllForUser i)"
  "raises S (credentials_Create c)" "raises S (loginChallenges_Create lc)" "raises S (loginChallenges_Consume i)"
  "raises S (passwordResetFlows_Create f)"
  by (rule raises_reads [THEN raises_mono] raises_writes [THEN raises_mono], (assumption | rule empty_subsetI))+

lemmas raises_try_reads = raises_reads [THEN raises_tryM]

lemmas raises_leaves =
  raises_env raises_domain raises_tokenhash_Generate raises_calls raises_hash raises_issuer raises_cleanup raises_encrypt
  raises_secret raises_validateOTP raises_repositories

lemma raises_issueSession: "raises S (issueSession s u)"
  unfolding issueSession_def by (rule raises_comb raises_leaves)+

lemma raises_issueLoginChallenge: "raises S (issueLoginChallenge s u)"
  unfolding issueLoginChallenge_def by (rule raises_comb raises_leaves)+

lemma raises_beginTOTPSetup: "Totp_ErrNotFound \<in> S \<Longrightarrow> raises S (beginTOTPSetup s u)"
  unfolding beginTOTPSetup_def storeSetup_def
  by (rule raises_try_reads raises_comb raises_leaves | (auto intro: within_handled; fail))+

lemma raises_verifyOTP: "{ErrOTPInvalid, ErrOTPLocked, Totp_ErrNotFound} \<subseteq> S \<Longrightarrow> raises S (verifyOTP s m c code)"
  unfolding verifyOTP_def Let_def
  by (rule raises_comb raises_leaves | (auto intro: within_handled; fail))+

lemma raises_flowCodeValid: "{User_ErrNotFound, Totp_ErrNotFound} \<subseteq> S \<Longrightarrow> raises S (flowCodeValid s f code)"
  unfolding flowCodeValid_def
  by (rule raises_try_reads raises_comb raises_leaves | (auto intro: within_handled; fail))+

lemma raises_deactivate: "raises S (deactivateAndCleanup s msg i)"
  unfolding deactivateAndCleanup_def by (rule raises_comb raises_leaves)+

lemma raises_resetRefused: "raises S (resetRefused f)"
  unfolding resetRefused_def by (rule raises_comb raises_leaves)+


lemmas raises_parts =
  raises_leaves raises_issueSession raises_issueLoginChallenge raises_beginTOTPSetup raises_verifyOTP raises_flowCodeValid
  raises_deactivate raises_resetRefused raises_RequestDeletion

section \<open>The use cases\<close>

lemma Register_raises: "raises {User_ErrEmailTaken, Totp_ErrNotFound} (Register s inp)"
  unfolding Register_def by (rule raises_try_reads raises_comb raises_parts | (auto intro: within_handled; fail))+

lemma Login_raises: "raises {ErrInvalidCredentials, Totp_ErrNotFound} (Login s inp)"
  unfolding Login_def Let_def by (rule raises_try_reads raises_comb raises_parts | (auto intro: within_handled; fail))+

lemma Refresh_raises: "raises {ErrInvalidRefreshToken} (Refresh s tok)"
  unfolding Refresh_def by (rule raises_try_reads raises_comb raises_parts | (auto intro: within_handled; fail))+

lemma Logout_raises: "raises {} (Logout s tok)"
  unfolding Logout_def by (rule raises_try_reads raises_comb raises_parts | (auto intro: within_handled; fail))+

lemma CurrentUser_raises: "raises {User_ErrNotFound} (CurrentUser i)"
  unfolding CurrentUser_def by (rule raises_reads)

lemma UpdateProfile_raises: "raises {User_ErrNotFound, ErrAvatarNotFound} (UpdateProfile s i tok inp)"
  unfolding UpdateProfile_def resolveAvatar_def
  by (rule raises_comb raises_parts raises_external [OF media_plain(3)] | (auto intro: within_handled; fail))+

lemma DeleteAccount_raises:
  "raises {User_ErrNotFound, ErrOTPInvalid, ErrOTPLocked, Totp_ErrNotFound} (DeleteAccount s i tok otp)"
  unfolding DeleteAccount_def
  by (rule raises_try_reads raises_comb raises_parts | (auto intro: within_handled; fail))+

lemma SetupVerifyOTP_raises:
  "raises {ErrSetupTokenInvalid, ErrInvalidCredentials, User_ErrNotFound, ErrOTPInvalid, ErrOTPLocked, Totp_ErrNotFound}
     (SetupVerifyOTP s tok code)"
  unfolding SetupVerifyOTP_def
  by (rule raises_try_reads raises_comb raises_parts | (auto intro: within_handled; fail))+

lemma LoginVerifyOTP_raises:
  "raises {ErrChallengeInvalid, User_ErrNotFound, ErrOTPInvalid, ErrOTPLocked, Totp_ErrNotFound} (LoginVerifyOTP s tok code)"
  unfolding LoginVerifyOTP_def
  by (rule raises_try_reads raises_comb raises_parts | (auto intro: within_handled; fail))+

lemma ChangePassword_raises:
  "raises {ErrCurrentPasswordInvalid, User_ErrNotFound, ErrOTPInvalid, ErrOTPLocked, Totp_ErrNotFound} (ChangePassword s i inp)"
  unfolding ChangePassword_def
  by (rule raises_try_reads raises_comb raises_parts | (auto intro: within_handled; fail))+

lemma RequestPasswordReset_raises: "raises {} (RequestPasswordReset s m)"
  unfolding RequestPasswordReset_def eligibleUser_def
  by (rule raises_try_reads raises_comb raises_parts | (auto intro: within_handled; fail))+

lemma VerifyPasswordResetOTP_raises:
  "raises {ErrPasswordResetFlowInvalid, ErrOTPInvalid, ErrOTPLocked, User_ErrNotFound, Totp_ErrNotFound,
     PasswordReset_ErrNotFound} (VerifyPasswordResetOTP s tok code)"
  unfolding VerifyPasswordResetOTP_def PasswordResetFlow_RecordOTPFailure_def Let_def prod.case
  by (rule raises_try_reads raises_comb raises_parts | (auto intro: within_handled; fail))+

lemma ConfirmPasswordReset_raises:
  "raises {ErrPasswordResetTokenInvalid, User_ErrNotFound, PasswordReset_ErrNotFound} (ConfirmPasswordReset s tok p)"
  unfolding ConfirmPasswordReset_def Let_def
  by (rule raises_try_reads raises_comb raises_parts | (auto intro: within_handled; fail))+

end

end
