(* ===== verification/Sha256_Eval.thy ===== *)
theory Sha256_Eval
  imports Tokenhash
begin

text \<open>
  SHA-256 evaluated inside the logic: the rounds over integers, which the
  simplifier computes with, and their agreement with the word definitions.
\<close>

unbundle bit_operations_syntax

abbreviation w32 :: "int \<Rightarrow> 32 word" where "w32 \<equiv> word_of_int"

definition irotr :: "nat \<Rightarrow> int \<Rightarrow> int" where
  "irotr n x = drop_bit n (take_bit 32 x) + push_bit (32 - n) (take_bit n x)"

lemma w32_irotr:
  assumes n: "n < 32"
  shows "w32 (irotr n x) = rotr32 n (w32 x)"
proof (rule sym)
  have "rotr32 n (w32 x) = drop_bit n (w32 x) + push_bit (32 - n) (w32 x)"
    unfolding rotr32_def
    by (rule disjunctive_add [symmetric]) (auto simp: bit_drop_bit_eq bit_push_bit_iff dest: bit_imp_le_length)
  also have "drop_bit n (w32 x) = w32 (drop_bit n (take_bit 32 x))"
    by (rule bit_word_eqI) (auto simp: bit_drop_bit_eq bit_word_of_int_iff bit_take_bit_iff)
  also have "push_bit (32 - n) (w32 x) = w32 (push_bit (32 - n) (take_bit n x))"
    using n by (intro bit_word_eqI) (auto simp: bit_push_bit_iff bit_word_of_int_iff bit_take_bit_iff)
  finally show "rotr32 n (w32 x) = w32 (irotr n x)" by (simp add: irotr_def)
qed

lemma drop_bit_w32: "drop_bit n (w32 x) = w32 (drop_bit n (take_bit 32 x))"
  by (rule bit_word_eqI) (auto simp: bit_drop_bit_eq bit_word_of_int_iff bit_take_bit_iff)

lemma w32_drop_bit: "take_bit 32 x = x \<Longrightarrow> w32 (drop_bit n x) = drop_bit n (w32 x)"
  by (simp add: drop_bit_w32)

lemma w32_bits: "w32 (x XOR y) = w32 x XOR w32 y" "w32 (x AND y) = w32 x AND w32 y" "w32 (NOT x) = NOT (w32 x)"
  by (auto intro!: bit_word_eqI simp: bit_simps)

lemma w32_mod: "w32 (x mod 4294967296) = w32 x"
  by (rule bit_word_eqI) (simp add: bit_word_of_int_iff bit_take_bit_iff flip: take_bit_eq_mod [of 32 x, simplified])

section \<open>One round and one step of the message schedule\<close>

definition ifinish :: "int list \<Rightarrow> int \<Rightarrow> int \<Rightarrow> int list" where
  "ifinish abcdefg t1 t2 = (case abcdefg of [a, b, c, d, e, f, g] \<Rightarrow>
     [(t1 + t2) mod 4294967296, a, b, c, (d + t1) mod 4294967296, e, f, g] | _ \<Rightarrow> abcdefg)"

fun iround :: "int list \<Rightarrow> int \<times> int \<Rightarrow> int list" where
  "iround [a, b, c, d, e, f, g, h] (k, w) = ifinish [a, b, c, d, e, f, g]
     (h + (irotr 6 e XOR irotr 11 e XOR irotr 25 e) + (g XOR (e AND (f XOR g))) + k + w)
     ((irotr 2 a XOR irotr 13 a XOR irotr 22 a) + ((a AND b) XOR (a AND c) XOR (b AND c)))"
| "iround st kw = st"

lemma choose_eq: "(e AND f) XOR (NOT e AND g) = g XOR (e AND (f XOR (g :: int)))"
  by (rule bit_eqI) (auto simp: bit_simps)

lemma sha256_round_w32:
  "length st = 8 \<Longrightarrow> sha256_round (map w32 st) (w32 k, w32 w) = map w32 (iround st (k, w))"
  by (cases "(st, (k, w))" rule: iround.cases)
     (simp_all add: Let_def ifinish_def w32_irotr w32_bits w32_mod choose_eq [symmetric])

lemma length_iround: "length st = 8 \<Longrightarrow> length (iround st kw) = 8"
  by (cases "(st, kw)" rule: iround.cases) (auto simp: ifinish_def)

lemma foldl_round_w32:
  "length st = 8 \<Longrightarrow>
     foldl sha256_round (map w32 st) (map (\<lambda>(k, w). (w32 k, w32 w)) kws) = map w32 (foldl iround st kws)"
  by (induction kws arbitrary: st) (auto simp: sha256_round_w32 length_iround)

definition isched :: "int list \<Rightarrow> int list" where
  "isched ws =
     (let n = length ws;
          a = ws ! (n - 15); b = ws ! (n - 2);
          s0 = irotr 7 a XOR irotr 18 a XOR drop_bit 3 a;
          s1 = irotr 17 b XOR irotr 19 b XOR drop_bit 10 b
      in ws @ [(s1 + ws ! (n - 7) + s0 + ws ! (n - 16)) mod 4294967296])"

definition small :: "int list \<Rightarrow> bool" where
  "small ws \<longleftrightarrow> (\<forall>w \<in> set ws. take_bit 32 w = w)"

lemma isched_w32:
  assumes "small ws" and "16 \<le> length ws"
  shows "sha256_sched_step (map w32 ws) = map w32 (isched ws)" and "small (isched ws)"
    and "16 \<le> length (isched ws)"
proof -
  have nth: "take_bit 32 (ws ! (length ws - k)) = ws ! (length ws - k)" if "0 < k" "k \<le> 16" for k
    using assms that by (auto simp: small_def)
  show "sha256_sched_step (map w32 ws) = map w32 (isched ws)"
    using assms(2)
    by (simp add: sha256_sched_step_def isched_def Let_def w32_irotr w32_drop_bit w32_bits w32_mod nth)
  show "small (isched ws)"
    using assms by (auto simp: small_def isched_def Let_def take_bit_eq_mod)
  show "16 \<le> length (isched ws)" using assms(2) by (simp add: isched_def Let_def)
qed

lemma isched_pow_w32:
  "small ws \<Longrightarrow> 16 \<le> length ws \<Longrightarrow> (sha256_sched_step ^^ n) (map w32 ws) = map w32 ((isched ^^ n) ws)"
  by (induction n arbitrary: ws) (simp_all add: isched_w32 del: funpow.simps add: funpow_0 funpow_Suc_right)

definition iblock :: "int list \<Rightarrow> int list \<Rightarrow> int list" where
  "iblock hs ws = map2 (\<lambda>x y. (x + y) mod 4294967296) hs
     (foldl iround hs (zip (map uint sha256_K) ((isched ^^ 48) ws)))"

lemma sha256_block_w32:
  assumes "length hs = 8" "small ws" "16 \<le> length ws" "be32 blk = map w32 ws"
  shows "sha256_block (map w32 hs) blk = map w32 (iblock hs ws)"
proof -
  have zip: "zip sha256_K (map w32 ys) = map (\<lambda>(k, w). (w32 k, w32 w)) (zip (map uint sha256_K) ys)" for ys
    by (simp add: zip_map1 zip_map2 comp_def case_prod_beta)
  have add: "map2 (+) (map w32 xs) (map w32 ys) = map w32 (map2 (\<lambda>x y. (x + y) mod 4294967296) xs ys)" for xs ys
    by (simp add: zip_map1 zip_map2 comp_def case_prod_beta w32_mod)
  show ?thesis
    using assms by (simp add: sha256_block_def Let_def isched_pow_w32 zip foldl_round_w32 add iblock_def)
qed

section \<open>Test vector\<close>

lemma irotr_eval: "irotr n x = (x mod 4294967296) div 2 ^ n + (x mod 2 ^ n) * 2 ^ (32 - n)"
  by (simp add: irotr_def take_bit_eq_mod drop_bit_eq_div push_bit_eq_mult)

lemma funpow_numeral: "(f ^^ numeral k) x = (f ^^ pred_numeral k) (f x)"
  by (simp add: numeral_eq_Suc funpow_swap1)

text \<open>The schedule with a window of the last sixteen words.\<close>

definition inext :: "int list \<Rightarrow> int" where
  "inext ws =
     ((irotr 17 (ws ! 14) XOR irotr 19 (ws ! 14) XOR drop_bit 10 (ws ! 14)) + ws ! 9 +
      (irotr 7 (ws ! 1) XOR irotr 18 (ws ! 1) XOR drop_bit 3 (ws ! 1)) + ws ! 0) mod 4294967296"

definition ishift :: "int list \<Rightarrow> int \<Rightarrow> int list" where
  "ishift ws x = tl ws @ [x]"

primrec iexpand :: "nat \<Rightarrow> int list \<Rightarrow> int list" where
  "iexpand 0 ws = []"
| "iexpand (Suc n) ws = inext ws # iexpand n (ishift ws (inext ws))"

lemma isched_window:
  assumes "length ws = 16"
  shows "isched (us @ ws) = us @ ws @ [inext ws]"
proof -
  have last: "(us @ ws) ! (length (us @ ws) - k) = ws ! (16 - k)" if "k \<le> 16" for k
  proof -
    have "length (us @ ws) - k = length us + (16 - k)" using assms that by simp
    then show ?thesis by simp
  qed
  have "(us @ ws) ! (length (us @ ws) - 15) = ws ! 1" "(us @ ws) ! (length (us @ ws) - 2) = ws ! 14"
    "(us @ ws) ! (length (us @ ws) - 7) = ws ! 9" "(us @ ws) ! (length (us @ ws) - 16) = ws ! 0"
    using last [of 15] last [of 2] last [of 7] last [of 16] by simp_all
  then show ?thesis by (simp only: isched_def inext_def Let_def append_assoc)
qed

lemma isched_pow_window:
  "length ws = 16 \<Longrightarrow> (isched ^^ n) (us @ ws) = us @ ws @ iexpand n ws"
proof (induction n arbitrary: us ws)
  case (Suc n)
  have "us @ ws @ [inext ws] = (us @ [hd ws]) @ ishift ws (inext ws)" and "length (ishift ws (inext ws)) = 16"
    using Suc.prems by (cases ws; simp add: ishift_def)+
  then show ?case
    using Suc.IH [of "ishift ws (inext ws)" "us @ [hd ws]"] Suc.prems
    by (cases ws) (simp_all add: funpow_swap1 isched_window ishift_def)
qed simp

lemma iexpand_numeral: "iexpand (numeral k) ws = inext ws # iexpand (pred_numeral k) (ishift ws (inext ws))"
  by (simp add: numeral_eq_Suc)

text \<open>A message of one block: its padded bytes as sixteen words, hashed.\<close>

definition isha_init :: "int list" where
  "isha_init = [0x6a09e667, 0xbb67ae85, 0x3c6ef372, 0xa54ff53a, 0x510e527f, 0x9b05688c, 0x1f83d9ab, 0x5be0cd19]"

lemma sha256_one_block:
  assumes "length bs < 56" and "be32 (sha256_pad bs) = map w32 ws" and "small ws" and "length ws = 16"
    and "foldl iround isha_init (zip (map uint sha256_K) (ws @ iexpand 48 ws)) = st"
  shows "sha256_Sum256 bs = concat (map be_bytes32 (map w32 (map2 (\<lambda>x y. (x + y) mod 4294967296) isha_init st)))"
proof -
  have len: "length (sha256_pad bs) = 64"
    using assms(1) by (simp add: sha256_pad_def be_bytes64_def le_mod_geq)
  have "sha256_block (map w32 isha_init) (sha256_pad bs) = map w32 (iblock isha_init ws)"
    using assms by (intro sha256_block_w32) (simp_all add: isha_init_def)
  moreover have "iblock isha_init ws = map2 (\<lambda>x y. (x + y) mod 4294967296) isha_init st"
    using isched_pow_window [OF assms(4), of 48 "[]"] assms(5) by (simp add: iblock_def)
  ultimately show ?thesis
    using len by (simp add: sha256_Sum256_def isha_init_def numeral_eq_Suc [of num.One] Let_def)
qed

lemma replicate_numeral: "replicate (numeral k) x = x # replicate (pred_numeral k) x"
  by (simp add: numeral_eq_Suc)

lemmas sha256_eval =
  iexpand_numeral inext_def ishift_def irotr_eval drop_bit_eq_div isha_init_def sha256_K_def ifinish_def

lemma sha256_abc_rounds:
  "foldl iround isha_init (zip (map uint sha256_K)
     ([1633837952, 0, 0, 0, 0, 0, 0, 0, 0, 0, 0, 0, 0, 0, 0, 24] @
      iexpand 48 [1633837952, 0, 0, 0, 0, 0, 0, 0, 0, 0, 0, 0, 0, 0, 0, 24])) =
     [1349398616, 3550093669, 80891244, 3093179625, 1593118500, 4212265488, 2492278198, 2518632596]"
  by (simp add: sha256_eval)

lemma sha256_abc:
  "sha256_Sum256 [0x61, 0x62, 0x63] =
     [186, 120, 22, 191, 143, 1, 207, 234, 65, 65, 64, 222, 93, 174, 34, 35, 176, 3, 97, 163,
      150, 23, 122, 156, 180, 16, 255, 97, 242, 0, 21, 173]"
  by (subst sha256_one_block [OF _ _ _ _ sha256_abc_rounds])
     (simp_all add: sha256_pad_def be_bytes64_def replicate_numeral small_def isha_init_def be_bytes32_def)

lemma sha256_A43_rounds:
  "foldl iround isha_init (zip (map uint sha256_K)
     ([1094795585, 1094795585, 1094795585, 1094795585, 1094795585, 1094795585, 1094795585,
      1094795585, 1094795585, 1094795585, 1094795648, 0, 0, 0, 0, 344] @
      iexpand 48 [1094795585, 1094795585, 1094795585, 1094795585, 1094795585, 1094795585, 1094795585,
      1094795585, 1094795585, 1094795585, 1094795648, 0, 0, 0, 0, 344])) =
     [2767621406, 4220659250, 2990768404, 1616899183, 865227072, 149597252, 2124848801, 2382692353]"
  by (simp add: sha256_eval)

lemma sha256_A43:
  "sha256_Sum256 (replicate 43 0x41) =
     [15, 0, 115, 133, 182, 249, 212, 183, 238, 178, 116, 134, 5, 175, 225, 169, 132, 160, 163,
      191, 163, 240, 20, 208, 158, 42, 120, 76, 233, 229, 205, 26]"
  by (subst sha256_one_block [OF _ _ _ _ sha256_A43_rounds])
     (simp_all add: sha256_pad_def be_bytes64_def replicate_numeral small_def isha_init_def be_bytes32_def)

text \<open>The token \<open>abc\<close> and the token made of 32 zero bytes have different hashes.\<close>

lemma zero_token: "base64_RawURL_Encode (map (\<lambda>_. 0) [0..<32]) = replicate 43 (CHR ''A'')"
  by (simp add: map_replicate_const b64_char_def b64_url_alphabet_def replicate_numeral)

lemma hash_abc_zero: "tokenhash_Hash ''abc'' \<noteq> tokenhash_Hash (base64_RawURL_Encode (map (\<lambda>_. 0) [0..<32]))"
proof
  assume "tokenhash_Hash ''abc'' = tokenhash_Hash (base64_RawURL_Encode (map (\<lambda>_. 0) [0..<32]))"
  then have "sha256_Sum256 (bytes_of_string ''abc'') = sha256_Sum256 (bytes_of_string (replicate 43 (CHR ''A'')))"
    unfolding tokenhash_Hash_def zero_token by (rule hex_EncodeToString_inj)
  moreover have "bytes_of_string ''abc'' = [0x61, 0x62, 0x63]"
    and "bytes_of_string (replicate 43 (CHR ''A'')) = replicate 43 0x41"
    by (simp_all add: bytes_of_string_def)
  ultimately show False by (simp add: sha256_abc sha256_A43)
qed

end
