(* ===== verification/Fakes.thy ===== *)
theory Fakes
  imports System Service_Errors Sha256_Eval
begin

text \<open>
  The in-memory test doubles of \<open>service_test.go\<close> (session store, media and
  apiary clients, security configuration) as a concrete service on which the
  properties are evaluated, with plain functions in place of bcrypt, the OTP
  library and the JWT signer, and the interpretation of the session-store
  contract on the fake store.
\<close>

section \<open>fakeSessionStore\<close>

record fake_ext =
  fx_active :: "uuid \<Rightarrow> uuid option"
  fx_nextActErr :: "string option"
  fx_calls :: "(string \<times> uuid list) list"
  fx_down :: "string list"

definition fake_Activate :: "uuid \<Rightarrow> uuid \<Rightarrow> duration \<Rightarrow> (fake_ext, unit) ext_call" where
  "fake_Activate userID sessionID ttl x = (Inr (), x\<lparr>fx_active := (fx_active x)(userID := Some sessionID)\<rparr>)"

definition fake_ActivateAndReturnPrevious ::
  "uuid \<Rightarrow> uuid \<Rightarrow> duration \<Rightarrow> (fake_ext, uuid \<times> bool \<times> int) ext_call" where
  "fake_ActivateAndReturnPrevious userID sessionID ttl x = (case fx_nextActErr x of
       Some msg \<Rightarrow> (Inl (Opaque msg), x\<lparr>fx_nextActErr := None\<rparr>)
     | None \<Rightarrow>
         (Inr (case fx_active x userID of None \<Rightarrow> uuid_Nil | Some p \<Rightarrow> p, fx_active x userID \<noteq> None, 1),
          x\<lparr>fx_active := (fx_active x)(userID := Some sessionID)\<rparr>))"

definition fake_Deactivate :: "uuid \<Rightarrow> (fake_ext, unit) ext_call" where
  "fake_Deactivate userID x = (Inr (), x\<lparr>fx_active := (fx_active x)(userID := None)\<rparr>)"

definition fake_DeactivateIfCurrent :: "uuid \<Rightarrow> uuid \<Rightarrow> (fake_ext, bool) ext_call" where
  "fake_DeactivateIfCurrent userID sessionID x =
     (if (case fx_active x userID of None \<Rightarrow> uuid_Nil | Some p \<Rightarrow> p) \<noteq> sessionID then (Inr False, x)
      else (Inr True, x\<lparr>fx_active := (fx_active x)(userID := None)\<rparr>))"

definition fake_DeactivateAndReturnPrevious :: "uuid \<Rightarrow> (fake_ext, uuid \<times> bool) ext_call" where
  "fake_DeactivateAndReturnPrevious userID x = (case fx_active x userID of
       None \<Rightarrow> (Inr (uuid_Nil, False), x)
     | Some p \<Rightarrow> (Inr (p, True), x\<lparr>fx_active := (fx_active x)(userID := None)\<rparr>))"

definition fakeSessionStore :: "fake_ext session_activator" where
  "fakeSessionStore =
     \<lparr>ss_Activate = fake_Activate, ss_ActivateAndReturnPrevious = fake_ActivateAndReturnPrevious,
      ss_Deactivate = fake_Deactivate, ss_DeactivateIfCurrent = fake_DeactivateIfCurrent,
      ss_DeactivateAndReturnPrevious = fake_DeactivateAndReturnPrevious\<rparr>"

interpretation fake: session_store fakeSessionStore fx_active
  by unfold_locales
     (auto simp: fakeSessionStore_def fake_ActivateAndReturnPrevious_def fake_Deactivate_def
       fake_DeactivateIfCurrent_def fake_DeactivateAndReturnPrevious_def fun_upd_idem_iff
       split: option.splits if_splits)

section \<open>The other collaborators\<close>

text \<open>A call of a peer service: it fails when the service is down, and is recorded.\<close>

definition fake_call :: "string \<Rightarrow> uuid list \<Rightarrow> (fake_ext, unit) ext_call" where
  "fake_call name args x =
     (if name \<in> set (fx_down x) then (Inl (Opaque name), x)
      else (Inr (), x\<lparr>fx_calls := fx_calls x @ [(name, args)]\<rparr>))"

definition fakeMediaClient :: "fake_ext media_client" where
  "fakeMediaClient =
     \<lparr>mc_VerifyOwnership = (\<lambda>tok ids. fake_call ''verify'' ids),
      mc_DeleteByIDs = (\<lambda>tok ids. fake_call ''delete'' ids),
      mc_DeleteAllByUser = (\<lambda>tok. fake_call ''delete all'' [])\<rparr>"

definition fake_clients :: "fake_ext cleanup_clients" where
  "fake_clients name = (if name \<in> set deletionServices then Some (\<lambda>u. fake_call name [u]) else None)"

definition fake_bcrypt :: "fake_ext bcrypt" where
  "fake_bcrypt =
     \<lparr>bc_MinCost = 4, bc_MaxCost = 31, bc_DefaultCost = 10,
      bc_GenerateFromPassword = (\<lambda>p cost x. (Inr (104 # p), x)),
      bc_CompareHashAndPassword = (\<lambda>h p. if h = 104 # p then None else Some (Opaque ''mismatch''))\<rparr>"

text \<open>A code of length \<open>n\<close> is valid at the counters that end in the digit \<open>n\<close>.\<close>

definition fake_hotp :: hotp_validator where
  "fake_hotp code k secret = Inr (unat k mod 10 = length code)"

definition fake_issuer :: jwt_issuer where
  "fake_issuer = \<lparr>ji_kid = ''kid'', ji_ttl = 15 * time_Minute, ji_SignedString = (\<lambda>kid c. Inr ''jwt'')\<rparr>"

definition ascii_unicode :: unicode where
  "ascii_unicode = \<lparr>un_ToLower = id, un_TrimFunc = id, un_TrimRightFunc = id\<rparr>"

definition newTestSecurityConfig :: SecurityConfig where
  "newTestSecurityConfig =
     \<lparr>sc_RefreshTTL = 60 * time_Minute, sc_SetupTokenTTL = 60 * time_Minute,
      sc_LoginChallengeTTL = 60 * time_Minute, sc_PasswordResetFlowTTL = 60 * time_Minute,
      sc_PasswordResetTokenTTL = 60 * time_Minute, sc_OTPMaxAttempts = 5,
      sc_OTPLockoutDuration = 15 * time_Minute, sc_ResetFlowMaxOTPAttempts = 5,
      sc_TOTPIssuer = ''Beebase''\<rparr>"

definition test_key :: "byte list" where
  "test_key = replicate 32 0"

definition newTestService :: "fake_ext service" where
  "newTestService =
     \<lparr>svc_unicode = ascii_unicode, svc_bcrypt = fake_bcrypt, svc_cost = NewBcryptHasher fake_bcrypt 4,
      svc_issuer = fake_issuer, svc_generation_issuer = True, svc_sessions = fakeSessionStore,
      svc_media = fakeMediaClient, svc_apiaries_DeleteAllMine = (\<lambda>tok. fake_call ''delete mine'' []),
      svc_cipher = aes_gcm test_key, svc_hotp = fake_hotp,
      svc_otp_Generate = (\<lambda>issuer account x. (Inr (''SECRET'', ''otpauth''), x)),
      svc_security = newTestSecurityConfig,
      svc_cleaner = Some (Some (\<lambda>u sid. fake_call ''cleanup'' [u, sid]))\<rparr>"

lemma newTestService_fields:
  "svc_unicode newTestService = ascii_unicode" "svc_bcrypt newTestService = fake_bcrypt"
  "svc_cost newTestService = 4" "svc_issuer newTestService = fake_issuer" "svc_generation_issuer newTestService"
  "svc_sessions newTestService = fakeSessionStore" "svc_media newTestService = fakeMediaClient"
  "svc_apiaries_DeleteAllMine newTestService = (\<lambda>tok. fake_call ''delete mine'' [])"
  "svc_cipher newTestService = aes_gcm test_key" "svc_hotp newTestService = fake_hotp"
  "svc_otp_Generate newTestService = (\<lambda>issuer account x. (Inr (''SECRET'', ''otpauth''), x))"
  "svc_security newTestService = newTestSecurityConfig"
  "svc_cleaner newTestService = Some (Some (\<lambda>u sid. fake_call ''cleanup'' [u, sid]))"
  by (simp_all add: newTestService_def NewBcryptHasher_def fake_bcrypt_def)

interpretation test_ports: plain_ports newTestService
proof (unfold_locales, goal_cases)
  case (8 ct e)
  then show ?case
    by (auto simp: newTestService_fields Cipher_Decrypt_def aes_gcm_def gcm_Open_def Let_def split: if_splits)
qed (auto simp: ext_raises_def newTestService_fields fake_bcrypt_def fakeSessionStore_def fakeMediaClient_def
      fake_ActivateAndReturnPrevious_def fake_Deactivate_def fake_DeactivateIfCurrent_def
      fake_DeactivateAndReturnPrevious_def fake_call_def fake_issuer_def split: option.splits if_splits)

section \<open>Worlds to evaluate in\<close>

definition test_ext :: fake_ext where
  "test_ext = \<lparr>fx_active = (\<lambda>_. None), fx_nextActErr = None, fx_calls = [], fx_down = []\<rparr>"

definition test_world :: "time \<Rightarrow> db \<Rightarrow> fake_ext world" where
  "test_world t d =
     \<lparr>e_now = t, e_clock = [], e_faults = [], e_entropy = (\<lambda>_. 0), e_entropy_pos = 0,
      e_uuids = (\<lambda>n. 1000 + of_nat n), e_uuid_pos = 0, w_db = d, w_ext = test_ext, w_cleanups = []\<rparr>"

definition test_user :: user where
  "test_user = \<lparr>u_ID = 1, u_Email = ''a@b'', u_PasswordHash = ''hpw'', u_FirstName = '''', u_LastName = '''',
     u_AvatarMediaID = None, u_CreatedAt = 0, u_UpdatedAt = 0, u_DeletionStatus = DeletionStatusActive\<rparr>"

definition test_nonce :: "byte list" where
  "test_nonce = replicate 12 7"

definition test_sealed :: "byte list" where
  "test_sealed = test_nonce @ ae_Seal (aes_gcm test_key) test_nonce (bytes_of_string ''SECRET'')"

definition test_cred :: credential where
  "test_cred = \<lparr>c_UserID = 1, c_SecretEncrypted = test_sealed, c_EnabledAt = Some 0, c_SetupTokenHash = None,
     c_SetupTokenExpiresAt = None, c_FailedAttempts = 0, c_LockedUntil = None, c_LastUsedCounter = None,
     c_CreatedAt = 0, c_UpdatedAt = 0\<rparr>"

definition test_challenge :: login_challenge where
  "test_challenge = \<lparr>lc_ID = 3, lc_UserID = 1, lc_TokenHash = tokenhash_Hash ''c'', lc_ExpiresAt = 1000 * time_Minute,
     lc_CreatedAt = 0, lc_ConsumedAt = None\<rparr>"

definition test_token :: refresh_token where
  "test_token = \<lparr>rt_ID = 2, rt_UserID = 1, rt_TokenHash = ''old'', rt_ExpiresAt = 1000 * time_Minute, rt_CreatedAt = 0,
     rt_RevokedAt = None\<rparr>"

definition test_db :: db where
  "test_db = empty_db\<lparr>users := [test_user], refresh_tokens := [test_token],
     two_factor_credentials := [test_cred], login_challenges := [test_challenge]\<rparr>"

lemma test_sealed_opens: "Cipher_Decrypt (aes_gcm test_key) test_sealed = Inr (bytes_of_string ''SECRET'')"
proof -
  have "ae_NonceSize (aes_gcm test_key) = length test_nonce" by (simp add: aes_gcm_def test_nonce_def)
  then show ?thesis by (simp add: Cipher_Decrypt_def test_sealed_def gcm.open_seal)
qed

lemma hash_not_short: "tokenhash_Hash r = h \<Longrightarrow> length h = 64"
  using tokenhash_Hash_shape(1) by blast

section \<open>Evaluation\<close>

text \<open>Rules that run a computation in a world with no pending fault.\<close>

lemma run_exec_sql [run_simps]:
  "e_faults w = [] \<Longrightarrow> exec_sql st w = (case st (w_db w) of Inl e \<Rightarrow> (Inl e, w) | Inr (a, d) \<Rightarrow> (Inr a, w\<lparr>w_db := d\<rparr>))"
  by (simp add: exec_sql_def fallible_def next_fault_def)

lemma run_time_Now [run_simps]: "e_clock w = [] \<Longrightarrow> time_Now w = (Inr (e_now w), w)"
  by (simp add: time_Now_def)

lemma run_Generate [run_simps]:
  "e_faults w = [] \<Longrightarrow> tokenhash_Generate w =
     (Inr (base64_RawURL_Encode (map (e_entropy w) [e_entropy_pos w ..< e_entropy_pos w + 32])),
      w\<lparr>e_entropy_pos := e_entropy_pos w + 32\<rparr>)"
  by (simp add: tokenhash_Generate_def rand_Read_def fallible_def next_fault_def wrapM_apply rawTokenBytes_def)

lemma run_rand_Read [run_simps]:
  "e_faults w = [] \<Longrightarrow> rand_Read n w = (Inr (map (e_entropy w) [e_entropy_pos w ..< e_entropy_pos w + n]),
      w\<lparr>e_entropy_pos := e_entropy_pos w + n\<rparr>)"
  by (simp add: rand_Read_def fallible_def next_fault_def)

lemma gcm_nonce_size [run_simps]: "ae_NonceSize (aes_gcm key) = 12"
  by (simp add: aes_gcm_def)

lemmas [run_simps] =
  effect_simps uuid_New_def external_def select_one_def sql_find_def sql_update_def sql_count_def sql_delete_def
  conflicts_Some user_exists_def

lemmas run_repositories =
  users_Create_def users_scanOne_def users_GetByEmail_def users_GetByID_def users_Update_def
  users_UpdatePassword_def users_Delete_def refreshTokens_Create_def refreshTokens_GetByHash_def
  refreshTokens_Revoke_def refreshTokens_RevokeAllForUser_def credentials_Create_def credentials_scanOne_def
  credentials_GetByUserID_def credentials_GetBySetupTokenHash_def credentials_Update_def
  loginChallenges_Create_def loginChallenges_GetByHash_def loginChallenges_Consume_def
  passwordResetFlows_Create_def passwordResetFlows_scanOne_def passwordResetFlows_GetByFlowTokenHash_def
  passwordResetFlows_GetByResetTokenHash_def passwordResetFlows_Update_def
  insert_user_def update_user_def update_user_password_def delete_user_def mark_deletion_pending_def
  insert_refresh_token_def revoke_token_def revoke_all_tokens_def insert_credential_def
  update_credential_def insert_login_challenge_def consume_login_challenge_def insert_reset_flow_def
  update_reset_flow_def

lemmas run_domain =
  User_New_def User_UpdateProfile_def RefreshToken_New_def RefreshToken_IsExpired_def
  RefreshToken_IsRevoked_def LoginChallenge_New_def LoginChallenge_IsExpired_def
  LoginChallenge_IsConsumed_def Credential_New_def Credential_BeginSetup_def Credential_Enable_def
  Credential_IsEnabled_def Credential_IsSetupTokenExpired_def Credential_IsLocked_def
  Credential_RecordFailure_def Credential_MarkCodeUsed_def Credential_RecordSuccess_def
  Credential_IsCodeConsumed_def PasswordResetFlow_New_def PasswordResetFlow_IsExpired_def
  PasswordResetFlow_IsConsumed_def PasswordResetFlow_IsOTPVerified_def PasswordResetFlow_IsOTPLocked_def
  PasswordResetFlow_RecordOTPFailure_def PasswordResetFlow_MarkOTPVerified_def
  PasswordResetFlow_IssueResetToken_def PasswordResetFlow_IsResetTokenValid_def PasswordResetFlow_Consume_def

lemmas run_service =
  hasher_Hash_def hasher_Verify_def BcryptHasher_Hash_def BcryptHasher_Verify_def
  Issuer_IssueWithGeneration_def cleanupSessionDevices_def issueSession_def issueLoginChallenge_def
  verifyOTP_def validateOTP_def demoAccountEmail_def demoOTPCode_def totp_ValidateAt_cases
  time_Unix_def time_Second_def time_Minute_def totp_period_def deactivateAndCleanup_def

lemmas run_fakes =
  newTestService_fields fakeSessionStore_def fake_ActivateAndReturnPrevious_def fake_Deactivate_def
  fake_DeactivateIfCurrent_def fake_DeactivateAndReturnPrevious_def fake_call_def fakeMediaClient_def
  fake_bcrypt_def fake_hotp_def fake_issuer_def ascii_unicode_def newTestSecurityConfig_def
  test_ext_def test_world_def test_user_def test_cred_def test_challenge_def test_token_def test_db_def
  empty_db_def test_sealed_opens uuid_Nil_def DeletionStatusActive_def DeletionStatusPending_def

lemma hash_not_old [simp]: "tokenhash_Hash r \<noteq> ''old''" "''old'' \<noteq> tokenhash_Hash r"
  by (auto dest: hash_not_short hash_not_short [OF sym])

end
