(* ===== verification/Scenario.thy ===== *)
theory Scenario
  imports Fakes
begin

text \<open>
  A run of the test service from the empty database: an account registers,
  enrols its second factor, logs in, and another time asks for its deletion.
  The states of this run are where the properties are evaluated.
\<close>

lemma normalized: "normalizeEmail newTestService '' A@B '' = ''a@b''"
  by (simp add: normalizeEmail_def newTestService_fields strings_ToLower_def is_ascii_def ascii_lower_def
      ascii_space_def byte_of_def; code_simp)

definition registered :: "fake_ext world" where
  "registered = run_op newTestService fake_clients
     (OpRegister \<lparr>ri_Email = '' A@B '', ri_Password = ''pw''\<rparr>) (test_world 0 empty_db)"

lemma registered_users: "map u_Email (users (w_db registered)) = [''a@b'']"
  by (simp add: registered_def Register_def beginTOTPSetup_def storeSetup_def totp_GenerateSecret_def
      Cipher_Encrypt_def normalized run_simps run_repositories run_domain run_service run_fakes Let_def)

definition zero_raw :: string where
  "zero_raw = ''AAAAAAAAAAAAAAAAAAAAAAAAAAAAAAAAAAAAAAAAAAA''"

lemma b64_zero: "b64_char 0 = CHR ''A''"
  by (simp add: b64_char_def b64_url_alphabet_def)

definition enrolled :: "fake_ext world" where
  "enrolled = run_op newTestService fake_clients (OpSetupVerifyOTP zero_raw '''') registered"

definition challenged :: "fake_ext world" where
  "challenged = run_op newTestService fake_clients (OpLogin \<lparr>li_Email = '' A@B '', li_Password = ''pw''\<rparr>) enrolled"

definition leaving :: "fake_ext world" where
  "leaving = run_op newTestService fake_clients (OpDeleteAccount 1000 ''jwt'' ''1'') enrolled"

lemma decrypt_sealed: "length nonce = 12 \<Longrightarrow> Cipher_Decrypt (aes_gcm key) (nonce @ ae_Seal (aes_gcm key) nonce p) = Inr p"
  by (simp add: Cipher_Decrypt_def gcm.open_seal gcm_nonce_size)

lemmas run_scenario =
  registered_def enrolled_def zero_raw_def Register_def beginTOTPSetup_def storeSetup_def totp_GenerateSecret_def
  Cipher_Encrypt_def normalized SetupVerifyOTP_def decrypt_sealed b64_zero
  challenged_def leaving_def Login_def DeleteAccount_def

lemmas run_deletion =
  DeletionStore_RequestDeletion_def transaction_def in_tx_def fallible_def next_fault_def mark_deletion_pending_def
  upsert_deletion_job_def deletionServices_def insert_deletion_step_def select_deletion_status_def status_pending_def

lemma enrolled_token: "map rt_UserID (filter live (refresh_tokens (w_db enrolled))) = [1000]"
  by (simp add: run_scenario run_simps run_repositories run_domain run_service run_fakes Let_def live_def)

lemma challenged_challenge: "map lc_UserID (login_challenges (w_db challenged)) = [1000]"
  by (simp add: run_scenario run_simps run_repositories run_domain run_service run_fakes Let_def
    bytes_of_string_def string_of_bytes_def comp_def)

lemma leaving_status: "map u_ID (filter pending (users (w_db leaving))) = [1000]"
  by (simp add: run_scenario run_deletion run_simps run_repositories run_domain run_service run_fakes Let_def pending_def conflicts_def)

lemma in_mapped: "map f xs = v # vs \<Longrightarrow> \<exists>x. x \<in> set xs \<and> f x = v"
  by (cases xs) auto

lemma scenario_reachable:
  "reachable newTestService fake_clients registered" "reachable newTestService fake_clients enrolled"
  "reachable newTestService fake_clients challenged" "reachable newTestService fake_clients leaving"
  unfolding registered_def enrolled_def challenged_def leaving_def
  by (rule reachable.run [OF _ step.operation] reachable.start | simp add: initial_def test_world_def)+

end
