(* ===== verification/Service_Runs.thy ===== *)
theory Service_Runs
  imports System
begin

text \<open>
  What a finished run of a use case went through: which clock reading each
  check saw, which rows it read, which statements changed the database and
  which calls reached the outside. The properties of the use cases rest on
  these inversions.
\<close>

lemma case_prod_peel [peel]:
  "(case v of (x, y) \<Rightarrow> f x y) w = (r, w') \<longleftrightarrow> (\<exists>x y. v = (x, y) \<and> f x y w = (r, w'))"
  by (cases v) auto

section \<open>What the clock says\<close>

text \<open>
  \<open>clock_now w\<close> is the next reading of the clock. A SQL statement does not read
  the clock of the process.
\<close>

definition clock_now :: "'z env_scheme \<Rightarrow> time" where
  "clock_now w = (case e_clock w of [] \<Rightarrow> e_now w | t # ts \<Rightarrow> t)"

lemma time_Now_reads: "time_Now w = (Inr t, w') \<Longrightarrow> t = clock_now w"
  by (auto simp: time_Now_def clock_now_def split: list.splits)

text \<open>The readings the clock may still give, and the ones a step leaves.\<close>

definition readings :: "'z env_scheme \<Rightarrow> time set" where
  "readings w = insert (e_now w) (set (e_clock w))"

lemma clock_now_reading: "clock_now w \<in> readings w"
  by (auto simp: clock_now_def readings_def split: list.split)

lemma time_Now_readings: "time_Now w = (Inr t, w') \<Longrightarrow> t \<in> readings w \<and> readings w' \<subseteq> readings w"
  by (auto simp: time_Now_def readings_def split: list.splits)

lemma next_fault_clock: "next_fault w = (f, w') \<Longrightarrow> e_now w' = e_now w \<and> e_clock w' = e_clock w"
  by (auto simp: next_fault_def split: list.splits)

lemma exec_sql_env: "exec_sql st w = (r, w') \<Longrightarrow> e_now w' = e_now w \<and> e_clock w' = e_clock w"
  by (cases "next_fault w") (auto simp: exec_sql_def fallible_def dest!: next_fault_clock
      split: option.splits sum.splits)

lemma exec_sql_clock [simp]: "exec_sql st w = (r, w') \<Longrightarrow> clock_now w' = clock_now w"
  by (drule exec_sql_env) (auto simp: clock_now_def split: list.split)

lemma exec_sql_readings [simp]: "exec_sql st w = (r, w') \<Longrightarrow> readings w' = readings w"
  by (drule exec_sql_env) (auto simp: readings_def)

lemma scan_clock:
  assumes "tryM (exec_sql st) (\<lambda>e. if P e then fail (a e) else fail (b e)) ret w = (r, w')"
  shows "clock_now w' = clock_now w"
  using assms by (auto simp: tryM_peel split: if_splits)

lemma reads_clock [simp]:
  "refreshTokens_GetByHash h w = (r1, w') \<Longrightarrow> clock_now w' = clock_now w"
  "loginChallenges_GetByHash h w = (r2, w') \<Longrightarrow> clock_now w' = clock_now w"
  "credentials_GetByUserID i w = (r3, w') \<Longrightarrow> clock_now w' = clock_now w"
  "credentials_GetBySetupTokenHash h w = (r3, w') \<Longrightarrow> clock_now w' = clock_now w"
  "passwordResetFlows_GetByFlowTokenHash h w = (r4, w') \<Longrightarrow> clock_now w' = clock_now w"
  "passwordResetFlows_GetByResetTokenHash h w = (r4, w') \<Longrightarrow> clock_now w' = clock_now w"
  "users_GetByID i w = (r5, w') \<Longrightarrow> clock_now w' = clock_now w"
  unfolding refreshTokens_GetByHash_def loginChallenges_GetByHash_def credentials_GetByUserID_def
    credentials_GetBySetupTokenHash_def credentials_scanOne_def passwordResetFlows_GetByFlowTokenHash_def
    passwordResetFlows_GetByResetTokenHash_def passwordResetFlows_scanOne_def users_GetByID_def users_scanOne_def
  by (erule scan_clock)+

section \<open>Steps of a successful run\<close>

lemma tokenhash_Generate_frame [simp]:
  assumes "tokenhash_Generate w = (r, w')"
  shows "w_db w' = w_db w" and "w_ext w' = w_ext w" and "w_cleanups w' = w_cleanups w"
  using assms by (auto simp: tokenhash_Generate_def wrapM_def tryM_peel)

lemma RefreshToken_New_frame [simp]:
  assumes "RefreshToken_New i h ttl w = (r, w')"
  shows "w_db w' = w_db w" and "w_ext w' = w_ext w" and "w_cleanups w' = w_cleanups w"
  using assms by (auto simp: RefreshToken_New_def bindM_def tryM_peel)

definition issued_claims :: "'x service \<Rightarrow> Session \<Rightarrow> uuid \<Rightarrow> int \<Rightarrow> time \<Rightarrow> access_claims" where
  "issued_claims s se sid gen now =
     \<lparr>ac_Subject = se_UserID se, ac_IssuedAt = now, ac_ExpiresAt = se_AccessTokenExpiresAt se,
      ac_SessionID = sid, ac_SessionGeneration = (if svc_generation_issuer s then gen else 0)\<rparr>"

lemma Issuer_Inr:
  assumes "Issuer_IssueWithGeneration j i sid gen w = (Inr (tok, exp), w')"
  shows "unchanged w w' \<and> (\<exists>now. ji_SignedString j (ji_kid j)
     \<lparr>ac_Subject = i, ac_IssuedAt = now, ac_ExpiresAt = exp, ac_SessionID = sid, ac_SessionGeneration = gen\<rparr> = Inr tok)"
  using assms by (auto simp: Issuer_IssueWithGeneration_def peel Let_def)

lemma cleanup_frame [simp]:
  assumes "cleanupSessionDevices s i sid w = (r, w')"
  shows "w_db w' = w_db w" and "w_ext w' = w_ext w" 
  using assms by (auto simp: cleanupSessionDevices_def split: option.splits)

lemma cleanup_Inr: "cleanupSessionDevices s i sid w = (Inr x, w') \<Longrightarrow>
   w_cleanups w' = w_cleanups w @ (case svc_cleaner s of Some (Some f) \<Rightarrow> [(i, sid)] | _ \<Rightarrow> [])"
  by (auto simp: cleanupSessionDevices_def split: option.splits)

lemma issueSession_Inr:
  assumes "issueSession s u w = (Inr se, w')"
  obtains rt prev had gen now d1 now' where
    "se_UserID se = u_ID u" "rt_UserID rt = u_ID u" "live rt"
    "rt_TokenHash rt = tokenhash_Hash (se_RefreshToken se)" "rt_ExpiresAt rt = se_RefreshTokenExpiresAt se"
    "ss_ActivateAndReturnPrevious (svc_sessions s) (u_ID u) (rt_ID rt) (sc_RefreshTTL (svc_security s)) (w_ext w)
       = (Inr (prev, had, gen), w_ext w')"
    "revoke_all_tokens now (u_ID u) (w_db w) = Inr ((), d1)" "insert_refresh_token rt d1 = Inr ((), w_db w')"
    "ji_SignedString (svc_issuer s) (ji_kid (svc_issuer s)) (issued_claims s se (rt_ID rt) gen now') = Inr (se_AccessToken se)"
proof -
  from assms obtain w1 w2 w3 w4 w5 w6 raw rt prev had gen tok ex where
    1: "refreshTokens_RevokeAllForUser (u_ID u) w = (Inr (), w1)" and
    2: "tokenhash_Generate w1 = (Inr raw, w2)" and
    3: "RefreshToken_New (u_ID u) (tokenhash_Hash raw) (sc_RefreshTTL (svc_security s)) w2 = (Inr rt, w3)" and
    4: "external (ss_ActivateAndReturnPrevious (svc_sessions s) (u_ID u) (rt_ID rt) (sc_RefreshTTL (svc_security s))) w3
          = (Inr (prev, had, gen), w4)" and
    5: "refreshTokens_Create rt w4 = (Inr (), w5)" and
    6: "(if had then cleanupSessionDevices s (u_ID u) prev else ret ()) w5 = (Inr (), w6)" and
    7: "(if svc_generation_issuer s then Issuer_IssueWithGeneration (svc_issuer s) (u_ID u) (rt_ID rt) gen
         else Issuer_Issue (svc_issuer s) (u_ID u) (rt_ID rt)) w6 = (Inr (tok, ex), w')" and
    se: "se = \<lparr>se_UserID = u_ID u, se_Email = u_Email u, se_CreatedAt = u_CreatedAt u, se_AccessToken = tok,
       se_AccessTokenExpiresAt = ex, se_RefreshToken = raw, se_RefreshTokenExpiresAt = rt_ExpiresAt rt\<rparr>"
    unfolding issueSession_def by (simp add: peel) blast
  obtain now where now: "ji_SignedString (svc_issuer s) (ji_kid (svc_issuer s)) (issued_claims s se (rt_ID rt) gen now) = Inr tok"
    and w': "unchanged w6 w'"
    using 7 by (auto simp: issued_claims_def se Issuer_Issue_def split: if_splits dest!: Issuer_Inr)
  have "w_db w6 = w_db w5" "w_ext w6 = w_ext w5" using 6 by (cases had; simp)+
  then have 8: "insert_refresh_token rt (w_db w4) = Inr ((), w_db w')" "w_ext w' = w_ext w4"
    using refreshTokens_Create_Inr [OF 5] w' by simp_all
  have 9: "w_db w4 = w_db w1" "w_ext w3 = w_ext w1" using 2 3 4 by simp_all
  from refreshTokens_RevokeAllForUser_Inr [OF 1] obtain t where
    "revoke_all_tokens t (u_ID u) (w_db w) = Inr ((), w_db w1)" "w_ext w1 = w_ext w" by blast
  moreover have "ss_ActivateAndReturnPrevious (svc_sessions s) (u_ID u) (rt_ID rt) (sc_RefreshTTL (svc_security s))
      (w_ext w3) = (Inr (prev, had, gen), w_ext w4)"
    using 4 by (auto simp: external_Pair)
  ultimately show thesis
    using that [of rt prev had gen t "w_db w1" now] RefreshToken_New_Inr [OF 3] 8 9 now
    by (simp add: se live_def)
qed

section \<open>The OTP gate\<close>

text \<open>
  \<open>locked_at c t\<close>: the credential is locked at time \<open>t\<close>. \<open>accepted s email c code k now\<close>: at
  time \<open>now\<close> the gate takes \<open>code\<close> for the credential, at counter \<open>k\<close>; the
  demo account has its fixed code, every other code must be valid in the
  window and later than the last one used.
\<close>

definition locked_at :: "credential \<Rightarrow> time \<Rightarrow> bool" where
  "locked_at c t = (case c_LockedUntil c of None \<Rightarrow> False | Some u \<Rightarrow> t < u)"

definition demo :: "string \<Rightarrow> string \<Rightarrow> bool" where
  "demo email code \<longleftrightarrow> email = demoAccountEmail \<and> code = demoOTPCode"

definition accepted :: "'x service \<Rightarrow> string \<Rightarrow> credential \<Rightarrow> string \<Rightarrow> int \<Rightarrow> time \<Rightarrow> bool" where
  "accepted s email c code k now \<longleftrightarrow> (if demo email code then k = 0
     else (\<exists>secret. Cipher_Decrypt (svc_cipher s) (c_SecretEncrypted c) = Inr secret \<and>
        totp_ValidateAt (svc_hotp s) code (string_of_bytes secret) now = (True, k)) \<and>
        \<not> Credential_IsCodeConsumed k c)"

lemma Credential_IsLocked_Inr:
  "Credential_IsLocked c w = (Inr b, w') \<Longrightarrow>
     b = locked_at c (clock_now w) \<and> unchanged w w' \<and> readings w' \<subseteq> readings w"
  by (auto simp: Credential_IsLocked_def locked_at_def peel split: option.splits
      dest: time_Now_reads time_Now_readings)

lemma validateOTP_Inr:
  assumes "validateOTP s email c code w = (Inr (ok, k, d), w')"
  shows "unchanged w w' \<and> d = demo email code \<and> readings w' \<subseteq> readings w \<and> (\<exists>now \<in> readings w.
     ok \<and> (d \<or> \<not> Credential_IsCodeConsumed k c) \<longleftrightarrow> accepted s email c code k now)"
proof (cases "demo email code")
  case True
  then show ?thesis using assms clock_now_reading [of w]
    by (auto simp: validateOTP_def demo_def accepted_def)
next
  case False
  with assms obtain secret now where d: "Cipher_Decrypt (svc_cipher s) (c_SecretEncrypted c) = Inr secret"
    "time_Now w = (Inr now, w')" "totp_ValidateAt (svc_hotp s) code (string_of_bytes secret) now = (ok, k)" "\<not> d"
    by (auto simp: validateOTP_def demo_def peel Let_def )
  with False time_Now_readings [OF d(2)] show ?thesis
    by (auto simp: accepted_def intro!: bexI [of _ now])
qed

lemma Credential_RecordSuccess_readings:
  "Credential_RecordSuccess k c w = (Inr c', w') \<Longrightarrow> unchanged w w'"
  by (auto simp: Credential_RecordSuccess_def Credential_MarkCodeUsed_def peel)

lemma verifyOTP_Inr:
  assumes "verifyOTP s email c code w = (Inr c', w')"
  obtains k now t n where "\<not> locked_at c (clock_now w)" "now \<in> readings w" "accepted s email c code k now"
    "c' = c\<lparr>c_FailedAttempts := 0, c_LockedUntil := None, c_LastUsedCounter := Some k, c_UpdatedAt := t\<rparr>"
    "n \<noteq> 0" "update_credential c' (w_db w) = Inr (n, w_db w')" "db_only w w'"
proof -
  from assms obtain w1 ok k d w2 w3 where
    1: "Credential_IsLocked c w = (Inr False, w1)" and
    2: "validateOTP s email c code w1 = (Inr (ok, k, d), w2)" and
    ok: "ok" "d \<or> \<not> Credential_IsCodeConsumed k c" and
    3: "Credential_RecordSuccess k c w2 = (Inr c', w3)" and
    4: "credentials_Update c' w3 = (Inr (), w')"
    by (auto simp: verifyOTP_def peel Let_def split: if_splits)
  note l = Credential_IsLocked_Inr [OF 1]
  from validateOTP_Inr [OF 2] ok obtain now where v: "unchanged w1 w2" "now \<in> readings w1"
    "accepted s email c code k now" by auto
  from Credential_RecordSuccess_Inr [OF 3] obtain t where c': "c' = c\<lparr>c_FailedAttempts := 0, c_LockedUntil := None,
     c_LastUsedCounter := Some k, c_UpdatedAt := t\<rparr>" by blast
  from credentials_Update_Inr [OF 4] obtain n where
    u: "n \<noteq> 0" "update_credential c' (w_db w3) = Inr (n, w_db w')" "db_only w3 w'" by blast
  have "unchanged w w3" using l v(1) Credential_RecordSuccess_readings [OF 3] by simp
  with l v c' u show thesis using that [of now k t n] by auto
qed

section \<open>Tables a step does not touch\<close>

interpretation same_tokens: db_frame "\<lambda>d d'. refresh_tokens d' = refresh_tokens d"
  by unfold_locales auto

interpretation same_challenges: db_frame "\<lambda>d d'. login_challenges d' = login_challenges d"
  by unfold_locales auto

interpretation same_credentials: db_frame "\<lambda>d d'. two_factor_credentials d' = two_factor_credentials d"
  by unfold_locales auto

interpretation same_flows: db_frame "\<lambda>d d'. password_reset_flows d' = password_reset_flows d"
  by unfold_locales auto

interpretation same_users: db_frame "\<lambda>d d'. users d' = users d"
  by unfold_locales auto

lemmas stmt_defs =
  insert_user_def update_user_def update_user_password_def delete_user_def mark_deletion_pending_def
  insert_refresh_token_def revoke_token_def revoke_all_tokens_def insert_credential_def update_credential_def
  insert_login_challenge_def consume_login_challenge_def insert_reset_flow_def update_reset_flow_def

lemma session_writes_frames:
  "session_writes (\<lambda>d d'. login_challenges d' = login_challenges d)"
  "session_writes (\<lambda>d d'. two_factor_credentials d' = two_factor_credentials d)"
  "session_writes (\<lambda>d d'. password_reset_flows d' = password_reset_flows d)"
  "session_writes (\<lambda>d d'. users d' = users d)"
  by (auto simp: session_writes_def stmt_keeps_def stmt_defs split: if_splits)

lemma issueSession_frame:
  assumes "issueSession s u w = (r, w')"
  shows "login_challenges (w_db w') = login_challenges (w_db w)"
    and "two_factor_credentials (w_db w') = two_factor_credentials (w_db w)"
    and "password_reset_flows (w_db w') = password_reset_flows (w_db w)"
    and "users (w_db w') = users (w_db w)"
  using keepsD [OF same_challenges.keeps_issueSession [OF session_writes_frames(1)] assms]
    keepsD [OF same_credentials.keeps_issueSession [OF session_writes_frames(2)] assms]
    keepsD [OF same_flows.keeps_issueSession [OF session_writes_frames(3)] assms]
    keepsD [OF same_users.keeps_issueSession [OF session_writes_frames(4)] assms] by simp_all

lemma update_credential_frame:
  assumes "update_credential c d = Inr (n, d')"
  shows "login_challenges d' = login_challenges d" "refresh_tokens d' = refresh_tokens d" "users d' = users d"
    "password_reset_flows d' = password_reset_flows d"
  using assms by (auto simp: update_credential_def split: if_splits)

section \<open>The use cases behind the gate\<close>

lemma LoginChallenge_IsExpired_Inr:
  "LoginChallenge_IsExpired c w = (Inr b, w') \<Longrightarrow>
     unchanged w w' \<and> b = (clock_now w > lc_ExpiresAt c) \<and> readings w' \<subseteq> readings w"
  by (auto simp: LoginChallenge_IsExpired_def peel dest: time_Now_reads time_Now_readings)

text \<open>The gate as the use cases enter it, with all they have read before.\<close>

definition passed :: "'x service \<Rightarrow> user \<Rightarrow> credential \<Rightarrow> string \<Rightarrow> credential \<Rightarrow> 'x world \<Rightarrow> 'x world \<Rightarrow> bool" where
  "passed s u c code c' w w' \<longleftrightarrow>
     (\<exists>t \<in> readings w. \<not> locked_at c t) \<and>
     (\<exists>k upd now. now \<in> readings w \<and> accepted s (u_Email u) c code k now \<and>
        c' = c\<lparr>c_FailedAttempts := 0, c_LockedUntil := None, c_LastUsedCounter := Some k, c_UpdatedAt := upd\<rparr>) \<and>
     (\<exists>n. n \<noteq> 0 \<and> update_credential c' (w_db w) = Inr (n, w_db w')) \<and> db_only w w'"

lemma verifyOTP_passed:
  assumes "verifyOTP s (u_Email u) c code w1 = (Inr c', w')" and "unchanged w w1" and "readings w1 \<subseteq> readings w"
  shows "passed s u c code c' w w'"
  using assms(1)
proof (rule verifyOTP_Inr)
  fix k now t n
  assume "\<not> locked_at c (clock_now w1)" "now \<in> readings w1" "accepted s (u_Email u) c code k now"
    "c' = c\<lparr>c_FailedAttempts := 0, c_LockedUntil := None, c_LastUsedCounter := Some k, c_UpdatedAt := t\<rparr>"
    "n \<noteq> (0::nat)" "update_credential c' (w_db w1) = Inr (n, w_db w')" "db_only w1 w'"
  moreover have "clock_now w1 \<in> readings w" "now \<in> readings w" if "now \<in> readings w1"
    using clock_now_reading [of w1] assms(3) that by auto
  ultimately show ?thesis using assms(2) unfolding passed_def by auto
qed

lemma reads_readings:
  "loginChallenges_GetByHash h w = (r2, w') \<Longrightarrow> readings w' = readings w"
  "credentials_GetByUserID i w = (r3, w') \<Longrightarrow> readings w' = readings w"
  "credentials_GetBySetupTokenHash h w = (r3, w') \<Longrightarrow> readings w' = readings w"
  "users_GetByID i w = (r5, w') \<Longrightarrow> readings w' = readings w"
  "passwordResetFlows_GetByFlowTokenHash h w = (r4, w') \<Longrightarrow> readings w' = readings w"
  "passwordResetFlows_GetByResetTokenHash h w = (r4, w') \<Longrightarrow> readings w' = readings w"
  unfolding loginChallenges_GetByHash_def credentials_GetByUserID_def passwordResetFlows_GetByFlowTokenHash_def
    passwordResetFlows_GetByResetTokenHash_def passwordResetFlows_scanOne_def
    credentials_GetBySetupTokenHash_def credentials_scanOne_def users_GetByID_def users_scanOne_def
  by (auto simp: tryM_peel split: if_splits)

lemma LoginVerifyOTP_Inr:
  assumes "LoginVerifyOTP s tok code w = (Inr se, w')"
  obtains ch c u c' w1 w2 n where
    "sql_find (\<lambda>c. lc_TokenHash c = tokenhash_Hash tok) (login_challenges (w_db w)) = Some ch"
    "clock_now w \<le> lc_ExpiresAt ch" "lc_ConsumedAt ch = None"
    "sql_find (\<lambda>c. c_UserID c = lc_UserID ch) (two_factor_credentials (w_db w)) = Some c"
    "sql_find (\<lambda>u. u_ID u = lc_UserID ch) (users (w_db w)) = Some u" "\<not> pending u"
    "passed s u c code c' w w1" "issueSession s u w1 = (Inr se, w2)"
    "consume_login_challenge n (lc_ID ch) (w_db w2) = Inr ((), w_db w')" "w_ext w' = w_ext w2"
proof -
  from assms obtain ch w1 w2 c w3 u w4 c' w5 w6 where
    1: "loginChallenges_GetByHash (tokenhash_Hash tok) w = (Inr ch, w1)" and
    2: "LoginChallenge_IsExpired ch w1 = (Inr False, w2)" "\<not> LoginChallenge_IsConsumed ch" and
    3: "credentials_GetByUserID (lc_UserID ch) w2 = (Inr c, w3)" and
    4: "users_GetByID (lc_UserID ch) w3 = (Inr u, w4)" and
    5: "verifyOTP s (u_Email u) c code w4 = (Inr c', w5)" and
    6: "u_DeletionStatus u \<noteq> DeletionStatusPending" "issueSession s u w5 = (Inr se, w6)" and
    7: "loginChallenges_Consume (lc_ID ch) w6 = (Inr (), w')"
    by (auto simp: LoginVerifyOTP_def peel split: if_splits)
  note u = loginChallenges_GetByHash_Inr [OF 1] LoginChallenge_IsExpired_Inr [OF 2(1)]
    credentials_GetByUserID_Inr [OF 3] users_GetByID_Inr [OF 4]
  have r: "readings w4 \<subseteq> readings w" using u(2) reads_readings(1) [OF 1] reads_readings(2) [OF 3] reads_readings(4) [OF 4] by simp
  have "unchanged w w4" using u by simp
  then have p: "passed s u c code c' w w5" by (rule verifyOTP_passed [OF 5 _ r])
  from loginChallenges_Consume_Inr [OF 7] obtain n where
    "consume_login_challenge n (lc_ID ch) (w_db w6) = Inr ((), w_db w')" "w_ext w' = w_ext w6" by blast
  then show thesis
    using that [of ch c u c' w5 w6 n] u p 6 2(2) reads_clock(2) [OF 1]
    by (simp add: pending_def LoginChallenge_IsConsumed_def)
qed

lemma Credential_IsSetupTokenExpired_Inr:
  "Credential_IsSetupTokenExpired c w = (Inr False, w') \<Longrightarrow> unchanged w w' \<and> readings w' \<subseteq> readings w \<and>
     (\<exists>t. c_SetupTokenExpiresAt c = Some t \<and> clock_now w \<le> t)"
  by (auto simp: Credential_IsSetupTokenExpired_def peel split: option.splits dest: time_Now_reads time_Now_readings)

lemma Credential_Enable_unchanged: "Credential_Enable c w = (Inr c', w') \<Longrightarrow> unchanged w w'"
  by (auto simp: Credential_Enable_def peel)

lemma SetupVerifyOTP_Inr:
  assumes "SetupVerifyOTP s tok code w = (Inr se, w')"
  obtains c u c' w1 w2 n now k exp where
    "sql_find (\<lambda>c. c_SetupTokenHash c = Some (tokenhash_Hash tok)) (two_factor_credentials (w_db w)) = Some c"
    "c_SetupTokenExpiresAt c = Some exp" "clock_now w \<le> exp"
    "sql_find (\<lambda>u. u_ID u = c_UserID c) (users (w_db w)) = Some u" "\<not> pending u"
    "passed s u c code c' w w1" "issueSession s u w1 = (Inr se, w2)" "k \<noteq> 0"
    "update_credential (c'\<lparr>c_EnabledAt := Some now, c_SetupTokenHash := None, c_SetupTokenExpiresAt := None,
       c_UpdatedAt := now\<rparr>) (w_db w2) = Inr (k, w_db w')" "w_ext w' = w_ext w2"
proof -
  from assms obtain c w1 w2 u w3 c' w4 w5 c'' w6 where
    1: "credentials_GetBySetupTokenHash (tokenhash_Hash tok) w = (Inr c, w1)" and
    2: "Credential_IsSetupTokenExpired c w1 = (Inr False, w2)" and
    3: "users_GetByID (c_UserID c) w2 = (Inr u, w3)" and
    4: "verifyOTP s (u_Email u) c code w3 = (Inr c', w4)" and
    5: "u_DeletionStatus u \<noteq> DeletionStatusPending" "issueSession s u w4 = (Inr se, w5)" and
    6: "Credential_Enable c' w5 = (Inr c'', w6)" and
    7: "credentials_Update c'' w6 = (Inr (), w')"
    by (auto simp: SetupVerifyOTP_def peel split: if_splits)
  note u = credentials_GetBySetupTokenHash_Inr [OF 1] Credential_IsSetupTokenExpired_Inr [OF 2] users_GetByID_Inr [OF 3]
  have r: "readings w3 \<subseteq> readings w" using u(2) reads_readings(3) [OF 1] reads_readings(4) [OF 3] by simp
  have "unchanged w w3" using u by simp
  then have p: "passed s u c code c' w w4" by (rule verifyOTP_passed [OF 4 _ r])
  from u(2) reads_clock(4) [OF 1] obtain exp where e: "c_SetupTokenExpiresAt c = Some exp" "clock_now w \<le> exp" by auto
  from Credential_Enable_Inr [OF 6] obtain now where
    c'': "c'' = c'\<lparr>c_EnabledAt := Some now, c_SetupTokenHash := None, c_SetupTokenExpiresAt := None, c_UpdatedAt := now\<rparr>" by blast
  from credentials_Update_Inr [OF 7] obtain k where "k \<noteq> 0" "update_credential c'' (w_db w6) = Inr (k, w_db w')"
    "w_ext w' = w_ext w6" by blast
  with Credential_Enable_unchanged [OF 6] show thesis
    using that [of c exp u c' w4 w5 k now] u p 5 e c'' by (simp add: pending_def)
qed

end
