(* ===== verification/Session_Properties.thy ===== *)
theory Session_Properties
  imports Service_Runs Scenario
begin

text \<open>
  What the session operations guarantee: issuing a session leaves exactly one
  live refresh token and makes its session the active one, refreshing rotates
  the presented token for good, presenting a rotated token again ends every
  session of the account, and logging out ends the presented one.
\<close>

section \<open>The only session\<close>

text \<open>
  \<open>rt\<close> is the one live refresh token of its user, and its session the one the
  session store calls active.
\<close>

definition only_session :: "('x \<Rightarrow> uuid \<Rightarrow> uuid option) \<Rightarrow> refresh_token \<Rightarrow> 'x world \<Rightarrow> bool" where
  "only_session active rt w \<longleftrightarrow>
     rt \<in> set (refresh_tokens (w_db w)) \<and> live rt \<and>
     (\<forall>t \<in> set (refresh_tokens (w_db w)). rt_UserID t = rt_UserID rt \<longrightarrow> live t \<longrightarrow> t = rt) \<and>
     active (w_ext w) (rt_UserID rt) = Some (rt_ID rt)"

context session_store
begin

lemma issueSession_only:
  assumes "issueSession s u w = (Inr se, w')" and ss: "svc_sessions s = ss"
  obtains rt gen now where "only_session active rt w'" "rt_UserID rt = u_ID u"
    "rt_TokenHash rt = tokenhash_Hash (se_RefreshToken se)" "rt_ExpiresAt rt = se_RefreshTokenExpiresAt se"
    "ji_SignedString (svc_issuer s) (ji_kid (svc_issuer s)) (issued_claims s se (rt_ID rt) gen now) = Inr (se_AccessToken se)"
    "\<forall>r \<in> set (refresh_tokens (w_db w)). rt_TokenHash r \<noteq> rt_TokenHash rt"
  using assms(1)
proof (rule issueSession_Inr)
  fix rt prev had gen now d1 now'
  assume a: "rt_UserID rt = u_ID u" "live rt" "rt_TokenHash rt = tokenhash_Hash (se_RefreshToken se)"
    "rt_ExpiresAt rt = se_RefreshTokenExpiresAt se"
    "ss_ActivateAndReturnPrevious (svc_sessions s) (u_ID u) (rt_ID rt) (sc_RefreshTTL (svc_security s)) (w_ext w)
       = (Inr (prev, had, gen), w_ext w')"
    "revoke_all_tokens now (u_ID u) (w_db w) = Inr ((), d1)" "insert_refresh_token rt d1 = Inr ((), w_db w')"
    "ji_SignedString (svc_issuer s) (ji_kid (svc_issuer s)) (issued_claims s se (rt_ID rt) gen now') = Inr (se_AccessToken se)"
  from a(6) have "no_live (u_ID u) d1" by (rule revoke_all_no_live)
  moreover have "refresh_tokens (w_db w') = refresh_tokens d1 @ [rt]"
    using a(7) [symmetric] by (auto simp: insert_refresh_token_def split: if_splits)
  ultimately have "only_session active rt w'"
    using a(1,2) activated [OF a(5) [unfolded ss]] by (auto simp: only_session_def no_live_def)
  moreover have "\<forall>r \<in> set (refresh_tokens (w_db w)). rt_TokenHash r \<noteq> rt_TokenHash rt"
  proof (rule ballI)
    fix r
    assume "r \<in> set (refresh_tokens (w_db w))"
    then have "\<exists>y \<in> set (refresh_tokens d1). rt_TokenHash y = rt_TokenHash r"
      using a(6) [symmetric] by (auto simp: revoke_all_tokens_def intro!: sql_update_key)
    moreover have "\<forall>y \<in> set (refresh_tokens d1). rt_TokenHash y \<noteq> rt_TokenHash rt"
      using a(7) by (auto simp: insert_refresh_token_def conflicts_Some split: if_splits)
    ultimately show "rt_TokenHash r \<noteq> rt_TokenHash rt" by auto
  qed
  ultimately show thesis using a that by blast
qed

end

text \<open>
  C6: A session that is issued is the user's only one: afterwards the user has
  exactly one live refresh token, stored under the hash of the token handed out
  (a hash no token had before) and with the expiry handed out, the session store has that token's id as the
  active session, and the access token is the signature of claims for this
  user and this session.
\<close>

theorem issueSession_exclusive:
  assumes "session_store (svc_sessions s) active" and "issueSession s u w = (Inr se, w')"
  shows "\<exists>rt gen now. only_session active rt w' \<and> rt_UserID rt = u_ID u \<and> se_UserID se = u_ID u \<and>
     rt_TokenHash rt = tokenhash_Hash (se_RefreshToken se) \<and> rt_ExpiresAt rt = se_RefreshTokenExpiresAt se \<and>
     rt_TokenHash rt \<notin> rt_TokenHash ` set (refresh_tokens (w_db w)) \<and>
     ji_SignedString (svc_issuer s) (ji_kid (svc_issuer s)) (issued_claims s se (rt_ID rt) gen now) = Inr (se_AccessToken se)"
proof -
  have "se_UserID se = u_ID u" using assms(2) by (rule issueSession_Inr)
  moreover obtain rt gen now where "only_session active rt w'" "rt_UserID rt = u_ID u"
    "rt_TokenHash rt = tokenhash_Hash (se_RefreshToken se)" "rt_ExpiresAt rt = se_RefreshTokenExpiresAt se"
    "ji_SignedString (svc_issuer s) (ji_kid (svc_issuer s)) (issued_claims s se (rt_ID rt) gen now) = Inr (se_AccessToken se)"
    "\<forall>r \<in> set (refresh_tokens (w_db w)). rt_TokenHash r \<noteq> rt_TokenHash rt"
    by (rule session_store.issueSession_only [OF assms HOL.refl]) blast
  ultimately show ?thesis
    by (intro exI [of _ rt] exI [of _ gen] exI [of _ now]) auto
qed

lemma fake_sessions: "session_store (svc_sessions newTestService) fx_active"
  using fake.session_store_axioms by (simp add: newTestService_fields)

lemma issueSession_runs:
  "\<exists>se w'. issueSession newTestService test_user (test_world 0 test_db) = (Inr se, w')"
  by (simp add: run_simps run_repositories run_domain run_service run_fakes Let_def)

theorem issueSession_exclusive_witness:
  "\<exists>se w' rt. issueSession newTestService test_user (test_world 0 test_db) = (Inr se, w') \<and>
     only_session fx_active rt w' \<and> rt_TokenHash rt = tokenhash_Hash (se_RefreshToken se)"
proof -
  obtain se w' where run: "issueSession newTestService test_user (test_world 0 test_db) = (Inr se, w')"
    using issueSession_runs by blast
  from issueSession_exclusive [OF fake_sessions run] run show ?thesis by blast
qed

section \<open>Refresh\<close>

lemma RefreshToken_IsExpired_Inr:
  "RefreshToken_IsExpired rt w = (Inr b, w') \<Longrightarrow> unchanged w w' \<and> b = (clock_now w > rt_ExpiresAt rt)"
  by (auto simp: RefreshToken_IsExpired_def peel dest: time_Now_reads)

lemma Refresh_Inr:
  assumes "Refresh s t w = (Inr se, w')"
  obtains rt u n w1 where "sql_find (\<lambda>r. rt_TokenHash r = tokenhash_Hash t) (refresh_tokens (w_db w)) = Some rt"
    "live rt" "clock_now w \<le> rt_ExpiresAt rt" "sql_find (\<lambda>u. u_ID u = rt_UserID rt) (users (w_db w)) = Some u"
    "\<not> pending u" "revoke_token n (rt_ID rt) (w_db w) = Inr ((), w_db w1)" "w_ext w1 = w_ext w"
    "issueSession s u w1 = (Inr se, w')"
proof -
  from assms obtain rt w1 w2 u w3 w4 where
    1: "refreshTokens_GetByHash (tokenhash_Hash t) w = (Inr rt, w1)" and l: "live rt" and
    2: "RefreshToken_IsExpired rt w1 = (Inr False, w2)" and
    3: "users_GetByID (rt_UserID rt) w2 = (Inr u, w3)" and p: "\<not> pending u" and
    4: "refreshTokens_Revoke (rt_ID rt) w3 = (Inr (), w4)" and
    5: "issueSession s u w4 = (Inr se, w')"
    by (auto simp: Refresh_def peel live_def pending_def RefreshToken_IsRevoked_def split: if_splits)
  note u = refreshTokens_GetByHash_Inr [OF 1] RefreshToken_IsExpired_Inr [OF 2] users_GetByID_Inr [OF 3]
  from u 1 have "clock_now w \<le> rt_ExpiresAt rt" by simp
  moreover from refreshTokens_Revoke_Inr [OF 4] obtain n where
    "revoke_token n (rt_ID rt) (w_db w3) = Inr ((), w_db w4)" "w_ext w4 = w_ext w3" by blast
  ultimately show thesis using that [of rt u n w4] u l p 5 by simp
qed

lemma revoke_token_revokes:
  "revoke_token now i d = Inr ((), d') \<Longrightarrow> rt \<in> set (refresh_tokens d) \<Longrightarrow> rt_ID rt = i \<Longrightarrow> live rt \<Longrightarrow>
     rt\<lparr>rt_RevokedAt := Some now\<rparr> \<in> set (refresh_tokens d')"
  by (auto simp: revoke_token_def set_sql_update live_def image_iff)

lemma issueSession_settled: "issueSession s u w = (r, w') \<Longrightarrow> settled_rows (w_db w) (w_db w')"
  by (rule keepsD [OF settled.keeps_issueSession [OF settled_writes(1)]])

lemma Refresh_revokes:
  assumes "Refresh s t w = (Inr se, w')"
  obtains rt u n where "rt \<in> set (refresh_tokens (w_db w))" "rt_TokenHash rt = tokenhash_Hash t"
    "live rt" "clock_now w \<le> rt_ExpiresAt rt" "u \<in> set (users (w_db w))" "u_ID u = rt_UserID rt" "\<not> pending u"
    "rt\<lparr>rt_RevokedAt := Some n\<rparr> \<in> set (refresh_tokens (w_db w'))"
    "\<exists>w1. issueSession s u w1 = (Inr se, w') \<and> rt\<lparr>rt_RevokedAt := Some n\<rparr> \<in> set (refresh_tokens (w_db w1))"
  using assms
proof (rule Refresh_Inr)
  fix rt u n w1
  assume a: "sql_find (\<lambda>r. rt_TokenHash r = tokenhash_Hash t) (refresh_tokens (w_db w)) = Some rt"
    "live rt" "clock_now w \<le> rt_ExpiresAt rt" "sql_find (\<lambda>u. u_ID u = rt_UserID rt) (users (w_db w)) = Some u"
    "\<not> pending u" "revoke_token n (rt_ID rt) (w_db w) = Inr ((), w_db w1)"
    "issueSession s u w1 = (Inr se, w')"
  have f: "rt \<in> set (refresh_tokens (w_db w))" "rt_TokenHash rt = tokenhash_Hash t"
    "u \<in> set (users (w_db w))" "u_ID u = rt_UserID rt"
    using a(1,4) by (auto dest: sql_find_Some)
  then have r: "rt\<lparr>rt_RevokedAt := Some n\<rparr> \<in> set (refresh_tokens (w_db w1))"
    using revoke_token_revokes [OF a(6)] a(2) by simp
  then have "rt\<lparr>rt_RevokedAt := Some n\<rparr> \<in> set (refresh_tokens (w_db w'))"
    using issueSession_settled [OF a(7)] by (auto simp: settled_rows_def live_def)
  with a f r that show thesis by blast
qed

text \<open>
  C7: Refreshing rotates. When a refresh succeeds, the presented token was
  stored, live and not expired at the moment it was checked, and its user was
  not waiting for deletion; afterwards the presented token is revoked and the
  session handed out is the only one of the same user.
\<close>

theorem Refresh_rotates:
  assumes "session_store (svc_sessions s) active" and "Refresh s t w = (Inr se, w')"
  shows "\<exists>rt n new. rt \<in> set (refresh_tokens (w_db w)) \<and> rt_TokenHash rt = tokenhash_Hash t \<and>
     live rt \<and> clock_now w \<le> rt_ExpiresAt rt \<and>
     (\<exists>u \<in> set (users (w_db w)). u_ID u = rt_UserID rt \<and> \<not> pending u) \<and>
     rt\<lparr>rt_RevokedAt := Some n\<rparr> \<in> set (refresh_tokens (w_db w')) \<and>
     only_session active new w' \<and> rt_UserID new = rt_UserID rt \<and>
     rt_TokenHash new = tokenhash_Hash (se_RefreshToken se) \<and> rt_TokenHash new \<noteq> rt_TokenHash rt"
  using assms(2)
proof (rule Refresh_revokes)
  fix rt u n
  assume a: "rt \<in> set (refresh_tokens (w_db w))" "rt_TokenHash rt = tokenhash_Hash t" "live rt"
     "clock_now w \<le> rt_ExpiresAt rt" "u \<in> set (users (w_db w))" "u_ID u = rt_UserID rt" "\<not> pending u"
     "rt\<lparr>rt_RevokedAt := Some n\<rparr> \<in> set (refresh_tokens (w_db w'))"
  assume "\<exists>w1. issueSession s u w1 = (Inr se, w') \<and> rt\<lparr>rt_RevokedAt := Some n\<rparr> \<in> set (refresh_tokens (w_db w1))"
  then obtain w1 where i: "issueSession s u w1 = (Inr se, w')"
    and r: "rt\<lparr>rt_RevokedAt := Some n\<rparr> \<in> set (refresh_tokens (w_db w1))" by blast
  from assms(1) i HOL.refl show ?thesis
  proof (rule session_store.issueSession_only)
    fix new
    assume b: "only_session active new w'" "rt_UserID new = u_ID u"
      "rt_TokenHash new = tokenhash_Hash (se_RefreshToken se)"
      "\<forall>r \<in> set (refresh_tokens (w_db w1)). rt_TokenHash r \<noteq> rt_TokenHash new"
    from bspec [OF b(4) r] a b show ?thesis
      by (intro exI [of _ rt] exI [of _ n] exI [of _ new]) auto
  qed
qed

text \<open>A database in which the token \<open>abc\<close> is the live refresh token of the test user.\<close>

definition abc_token :: refresh_token where
  "abc_token = test_token\<lparr>rt_TokenHash := tokenhash_Hash ''abc''\<rparr>"

definition abc_db :: db where
  "abc_db = test_db\<lparr>refresh_tokens := [abc_token]\<rparr>"

lemmas run_abc =
  abc_db_def abc_token_def hash_abc_zero hash_abc_zero [symmetric] clock_now_def

lemma Refresh_runs: "\<exists>se w'. Refresh newTestService ''abc'' (test_world 0 abc_db) = (Inr se, w')"
  by (simp add: Refresh_def run_simps run_repositories run_domain run_service run_fakes run_abc Let_def)

theorem Refresh_rotates_witness:
  "\<exists>se w' new. Refresh newTestService ''abc'' (test_world 0 abc_db) = (Inr se, w') \<and>
     only_session fx_active new w' \<and> rt_TokenHash new = tokenhash_Hash (se_RefreshToken se)"
  using Refresh_runs Refresh_rotates [OF fake_sessions] by blast

lemma found_by_hash:
  assumes "db_wf d" and "r \<in> set (refresh_tokens d)" and "rt_TokenHash r = h"
  shows "sql_find (\<lambda>r. rt_TokenHash r = h) (refresh_tokens d) = Some r"
  using sql_find_unique [of col_rt_hash "refresh_tokens d" r h] assms by (simp add: db_wf_def)

lemma revoked_refused:
  assumes "service_inv (svc_security s) (w_db w)" and "r \<in> set (refresh_tokens (w_db w))" and "\<not> live r"
    and "rt_TokenHash r = tokenhash_Hash t" and "while_account s cl (rt_UserID r) w w2"
  shows "Refresh s t w2 \<noteq> (Inr se, w3)"
proof
  assume "Refresh s t w2 = (Inr se, w3)"
  then obtain rt where rt: "sql_find (\<lambda>r. rt_TokenHash r = tokenhash_Hash t) (refresh_tokens (w_db w2)) = Some rt"
    "live rt" by (rule Refresh_Inr)
  have "r \<in> set (refresh_tokens (w_db w2))"
    using settled_while [OF assms(5)] assms(2,3) by (auto simp: settled_of_def)
  moreover have "db_wf (w_db w2)" using inv_while_account [OF assms(5,1)] by (rule service_invD)
  ultimately show False using found_by_hash [of "w_db w2" r "tokenhash_Hash t"] rt assms(3,4) by simp
qed

text \<open>
  C8: A rotated token is dead. Once a refresh with a token has succeeded, no
  later refresh with the same token succeeds for as long as the account exists,
  whatever operations run in between: requests of any user, rounds of the
  worker, deletion requests, this account's included.
\<close>

theorem rotated_token_refused:
  assumes "service_inv (svc_security s) (w_db w)" and "Refresh s t w = (Inr se, w1)"
    and "while_account s cl (se_UserID se) w1 w2"
  shows "Refresh s t w2 \<noteq> (Inr se2, w3)"
  using assms(2)
proof (rule Refresh_revokes)
  fix rt u n
  assume "rt_TokenHash rt = tokenhash_Hash t" "rt\<lparr>rt_RevokedAt := Some n\<rparr> \<in> set (refresh_tokens (w_db w1))"
    and u: "u_ID u = rt_UserID rt" "\<exists>w1'. issueSession s u w1' = (Inr se, w1) \<and> rt\<lparr>rt_RevokedAt := Some n\<rparr> \<in> set (refresh_tokens (w_db w1'))"
  moreover have "se_UserID se = rt_UserID rt" using u by (metis issueSession_Inr)
  moreover have "service_inv (svc_security s) (w_db w1)"
    using run_op_inv [OF assms(1), of cl "OpRefresh t"] assms(2) by simp
  ultimately show ?thesis
    using revoked_refused [of s w1 "rt\<lparr>rt_RevokedAt := Some n\<rparr>"] assms(3) by (auto simp: live_def)
qed

lemma abc_inv: "service_inv newTestSecurityConfig abc_db"
  by (simp add: service_inv_def inv_defs db_wf_def user_exists_def cred_wf_def Credential_IsEnabled_def
      run_abc run_fakes)

lemma test_security [simp]: "svc_security newTestService = newTestSecurityConfig"
  by (simp add: newTestService_fields)

lemma test_world_db [simp]: "w_db (test_world t d) = d"
  by (simp add: test_world_def)

lemma Refresh_leaves:
  "case Refresh newTestService ''abc'' (test_world 0 abc_db) of
     (Inr se, w1) \<Rightarrow> user_exists (se_UserID se) (w_db w1) \<and> account_deletion_jobs (w_db w1) = [] | (Inl e, w1) \<Rightarrow> False"
  by (simp add: Refresh_def run_simps run_repositories run_domain run_service run_fakes run_abc user_exists_def Let_def)

theorem rotated_token_refused_witness:
  "\<exists>se w1. Refresh newTestService ''abc'' (test_world 0 abc_db) = (Inr se, w1) \<and>
     (\<forall>se2. fst (Refresh newTestService ''abc'' (run_op newTestService (\<lambda>_. None) OpWorker w1)) \<noteq> Inr se2)"
proof -
  obtain se w1 where run: "Refresh newTestService ''abc'' (test_world 0 abc_db) = (Inr se, w1)"
    and idle: "account_deletion_jobs (w_db w1) = []" "user_exists (se_UserID se) (w_db w1)"
    using Refresh_leaves by (auto split: prod.splits sum.splits)
  have "Refresh newTestService ''abc'' (run_op newTestService (\<lambda>_. None) OpWorker w1) \<noteq> (Inr se2, w3)" for se2 w3
    using rotated_token_refused [OF _ run while_idle [OF idle]] abc_inv by simp
  then have "\<forall>se2. fst (Refresh newTestService ''abc'' (run_op newTestService (\<lambda>_. None) OpWorker w1)) \<noteq> Inr se2" by (metis prod.collapse)
  with run show ?thesis by blast
qed

section \<open>Reuse of a revoked token\<close>

lemma RevokeAll_faultless:
  assumes "e_faults w = []"
  shows "\<exists>w'. refreshTokens_RevokeAllForUser i w = (Inr (), w')"
  using assms
  by (cases "e_clock w") (simp_all add: refreshTokens_RevokeAllForUser_def bindM_apply wrapM_apply time_Now_def
      run_exec_sql revoke_all_tokens_def)

lemma GetByHash_faultless:
  assumes "e_faults w = []" "sql_find (\<lambda>r. rt_TokenHash r = h) (refresh_tokens (w_db w)) = Some rt"
  shows "refreshTokens_GetByHash h w = (Inr rt, w)"
  using assms
  by (simp add: refreshTokens_GetByHash_def tryM_apply exec_sql_def fallible_def next_fault_def select_one_def)

text \<open>
  C9: Presenting a revoked refresh token never yields a session. It is taken
  for theft: unless the database fails, the answer is \<open>ErrInvalidRefreshToken\<close> and
  no refresh token of the user is live any more. The session store is not
  consulted: the marker of the active session stays as it is.
\<close>

theorem Refresh_reuse:
  assumes "sql_find (\<lambda>r. rt_TokenHash r = tokenhash_Hash t) (refresh_tokens (w_db w)) = Some rt" and "\<not> live rt"
  shows "\<exists>e w'. Refresh s t w = (Inl e, w') \<and> w_ext w' = w_ext w \<and>
     (errors_Is e ErrInvalidRefreshToken \<longrightarrow> no_live (rt_UserID rt) (w_db w')) \<and>
     (e_faults w = [] \<longrightarrow> e = Sentinel ErrInvalidRefreshToken)"
proof -
  obtain r w' where run: "Refresh s t w = (r, w')" by fastforce
  from run consider (found) rt' w1 where "refreshTokens_GetByHash (tokenhash_Hash t) w = (Inr rt', w1)"
    | (failed) e w1 where "refreshTokens_GetByHash (tokenhash_Hash t) w = (Inl e, w1)"
    by (cases "refreshTokens_GetByHash (tokenhash_Hash t) w"; cases "fst (refreshTokens_GetByHash (tokenhash_Hash t) w)") auto
  then show ?thesis
  proof cases
    case found
    from refreshTokens_GetByHash_Inr [OF found] assms(1) have rt: "rt' = rt" "unchanged w w1" by auto
    obtain q w2 where q: "refreshTokens_RevokeAllForUser (rt_UserID rt) w1 = (q, w2)" by fastforce
    have "e_faults w = [] \<Longrightarrow> w1 = w" using GetByHash_faultless [of w] assms(1) found by simp
    then have "e_faults w = [] \<Longrightarrow> \<exists>x. q = Inr x" using RevokeAll_faultless [of w "rt_UserID rt"] q by auto
    moreover have "q = Inr () \<Longrightarrow> no_live (rt_UserID rt) (w_db w2) \<and> w_ext w2 = w_ext w"
      using refreshTokens_RevokeAllForUser_Inr [of "rt_UserID rt" w1 w2] q rt revoke_all_no_live by fastforce
    moreover have "\<And>e. q = Inl e \<Longrightarrow> w_ext w2 = w_ext w \<and> \<not> errors_Is e ErrInvalidRefreshToken"
      using q rt refreshTokens_RevokeAllForUser_Inl [of "rt_UserID rt" w1 _ w2]
      by (auto simp: refreshTokens_RevokeAllForUser_def bindM_def wrapM_def tryM_peel revoke_all_tokens_def
          dest!: exec_sql_Inl)
    ultimately show ?thesis
      using assms(2) found rt q
      by (cases q) (auto simp: Refresh_def tryM_apply wrapM_apply RefreshToken_IsRevoked_def live_def)
  next
    case failed
    from refreshTokens_GetByHash_Inl [OF failed] assms(1) have "unchanged w w1" "\<not> errors_Is e Token_ErrNotFound" by auto
    moreover have "\<not> errors_Is e ErrInvalidRefreshToken" "e_faults w \<noteq> []"
      using failed assms(1) GetByHash_faultless [of w "tokenhash_Hash t" rt]
      by (auto simp: refreshTokens_GetByHash_def dest!: scan_Inl)
    ultimately show ?thesis using failed by (simp add: Refresh_def tryM_apply)
  qed
qed

theorem Refresh_reuse_witness:
  "\<exists>w'. Refresh newTestService ''abc'' (test_world 0 (abc_db\<lparr>refresh_tokens := [abc_token\<lparr>rt_RevokedAt := Some 0\<rparr>]\<rparr>))
     = (Inl (Sentinel ErrInvalidRefreshToken), w') \<and> no_live 1 (w_db w')"
proof -
  let ?w = "test_world 0 (abc_db\<lparr>refresh_tokens := [abc_token\<lparr>rt_RevokedAt := Some 0\<rparr>]\<rparr>)"
  let ?rt = "abc_token\<lparr>rt_RevokedAt := Some 0\<rparr>"
  have "sql_find (\<lambda>r. rt_TokenHash r = tokenhash_Hash ''abc'') (refresh_tokens (w_db ?w)) = Some ?rt" "\<not> live ?rt"
    by (simp_all add: sql_find_def abc_token_def live_def)
  from Refresh_reuse [OF this, of newTestService] show ?thesis
    by (auto simp: abc_token_def test_token_def test_world_def)
qed

section \<open>Logout\<close>

definition end_session :: "'x service \<Rightarrow> refresh_token \<Rightarrow> ('x world, unit) comp" where
  "end_session s rt = bindM (refreshTokens_Revoke (rt_ID rt)) (\<lambda>_.
     wrapM ''auth: deactivate session on logout''
       (external (ss_DeactivateIfCurrent (svc_sessions s) (rt_UserID rt) (rt_ID rt))) (\<lambda>_.
     cleanupSessionDevices s (rt_UserID rt) (rt_ID rt)))"

lemma Logout_found:
  assumes "Logout s t w = (r, w')"
    and "sql_find (\<lambda>r. rt_TokenHash r = tokenhash_Hash t) (refresh_tokens (w_db w)) = Some rt"
  obtains (failed) e where "r = Inl e" "unchanged w w'" "e_faults w \<noteq> []"
    | (revoked) "\<not> live rt" "r = Inr ()" "unchanged w w'"
    | (ended) w1 where "live rt" "unchanged w w1" "end_session s rt w1 = (r, w')"
proof (cases "refreshTokens_GetByHash (tokenhash_Hash t) w")
  case (Pair q w1)
  show thesis
  proof (cases q)
    case (Inl e)
    with Pair refreshTokens_GetByHash_Inl assms(2) GetByHash_faultless [OF _ assms(2)]
    have "unchanged w w1" "\<not> errors_Is e Token_ErrNotFound" "e_faults w \<noteq> []" by fastforce+
    moreover from this assms(1) Pair Inl have "r = Inl e \<and> w1 = w'" by (simp add: Logout_def tryM_apply)
    ultimately show thesis using failed by blast
  next
    case (Inr rt')
    with Pair refreshTokens_GetByHash_Inr assms(2) have u: "unchanged w w1" "rt' = rt" by fastforce+
    have "(if live rt then end_session s rt w1 else (Inr (), w1)) = (r, w')"
      using assms(1) Pair Inr u(2)
      by (simp add: Logout_def tryM_apply end_session_def live_def RefreshToken_IsRevoked_def split: if_splits)
    with u revoked ended show thesis by (auto split: if_splits)
  qed
qed

lemma end_session_revokes:
  assumes "end_session s rt w = (r, w')" and "w_db w' \<noteq> w_db w \<or> r = Inr ()"
  obtains n where "revoke_token n (rt_ID rt) (w_db w) = Inr ((), w_db w')"
proof (cases "refreshTokens_Revoke (rt_ID rt) w")
  case (Pair q w1)
  show thesis
  proof (cases q)
    case (Inl e)
    with Pair assms show thesis by (auto simp: end_session_def bindM_apply dest: refreshTokens_Revoke_Inl)
  next
    case (Inr _)
    then have "w_db w' = w_db w1"
      using assms(1) Pair by (auto simp: end_session_def bindM_apply wrapM_def tryM_peel)
    with refreshTokens_Revoke_Inr [of "rt_ID rt" w w1] Pair Inr that show thesis by fastforce
  qed
qed

lemma end_session_Inr:
  assumes "end_session s rt w = (Inr (), w')"
  obtains b where "ss_DeactivateIfCurrent (svc_sessions s) (rt_UserID rt) (rt_ID rt) (w_ext w) = (Inr b, w_ext w')"
    "w_cleanups w' = w_cleanups w @ (case svc_cleaner s of Some (Some f) \<Rightarrow> [(rt_UserID rt, rt_ID rt)] | _ \<Rightarrow> [])"
proof -
  from assms obtain w1 b w2 where 1: "refreshTokens_Revoke (rt_ID rt) w = (Inr (), w1)" and
    2: "external (ss_DeactivateIfCurrent (svc_sessions s) (rt_UserID rt) (rt_ID rt)) w1 = (Inr b, w2)" and
    3: "cleanupSessionDevices s (rt_UserID rt) (rt_ID rt) w2 = (Inr (), w')"
    by (auto simp: end_session_def peel)
  from 2 obtain x where "ss_DeactivateIfCurrent (svc_sessions s) (rt_UserID rt) (rt_ID rt) (w_ext w1) = (Inr b, x)"
    "w2 = w1\<lparr>w_ext := x\<rparr>" unfolding external_Pair by blast
  with refreshTokens_Revoke_Inr [OF 1] cleanup_frame(2) [OF 3] cleanup_Inr [OF 3] that [of b] show thesis by simp
qed

text \<open>
  C10: Logging out with a live token ends its session and no other. The token is
  revoked and every other token row is as before; the session store loses its
  session where it was the active one, and nothing else: another session that
  has become the active one, of this user or of another, stays. The device
  cleanup is started when there is a cleanup client. For as long as the account
  exists, whatever operations run, no refresh with this token succeeds.
\<close>

theorem Logout_ends_session:
  assumes "session_store (svc_sessions s) active" and "service_inv (svc_security s) (w_db w)"
    and "rt \<in> set (refresh_tokens (w_db w))" and "rt_TokenHash rt = tokenhash_Hash t" and "live rt"
    and "Logout s t w = (Inr (), w')"
  shows "(\<exists>n. rt\<lparr>rt_RevokedAt := Some n\<rparr> \<in> set (refresh_tokens (w_db w'))) \<and>
     (\<forall>r. rt_ID r \<noteq> rt_ID rt \<longrightarrow> r \<in> set (refresh_tokens (w_db w')) \<longleftrightarrow> r \<in> set (refresh_tokens (w_db w))) \<and>
     active (w_ext w') = (if active (w_ext w) (rt_UserID rt) = Some (rt_ID rt)
       then (active (w_ext w))(rt_UserID rt := None) else active (w_ext w)) \<and>
     (\<forall>f. svc_cleaner s = Some (Some f) \<longrightarrow> (rt_UserID rt, rt_ID rt) \<in> set (w_cleanups w')) \<and>
     (\<forall>cl w2 se w3. while_account s cl (rt_UserID rt) w' w2 \<longrightarrow> Refresh s t w2 \<noteq> (Inr se, w3))"
proof -
  from assms(2) have wf: "db_wf (w_db w)" by (rule service_invD)
  from assms(6) found_by_hash [OF wf assms(3,4)] obtain w1 where
    u: "unchanged w w1" and e: "end_session s rt w1 = (Inr (), w')" using assms(5) by (rule_tac Logout_found) auto
  from e u obtain n where 1: "revoke_token n (rt_ID rt) (w_db w) = Inr ((), w_db w')"
    by (rule_tac end_session_revokes) auto
  from e u obtain b where
    2: "ss_DeactivateIfCurrent (svc_sessions s) (rt_UserID rt) (rt_ID rt) (w_ext w) = (Inr b, w_ext w')" and
    3: "w_cleanups w' = w_cleanups w @ (case svc_cleaner s of Some (Some f) \<Rightarrow> [(rt_UserID rt, rt_ID rt)] | _ \<Rightarrow> [])"
    by (rule_tac end_session_Inr) auto
  have r: "rt\<lparr>rt_RevokedAt := Some n\<rparr> \<in> set (refresh_tokens (w_db w'))"
    using revoke_token_revokes [OF 1 assms(3)] assms(5) by simp
  have rows: "\<forall>r. rt_ID r \<noteq> rt_ID rt \<longrightarrow> r \<in> set (refresh_tokens (w_db w')) \<longleftrightarrow> r \<in> set (refresh_tokens (w_db w))"
    using 1 by (auto simp: revoke_token_def set_sql_update image_iff dest!: sym [of _ "w_db w'"])
  note off = session_store.deactivate_if_current [OF assms(1) 2]
  have "service_inv (svc_security s) (w_db w')"
    using run_op_inv [OF assms(2), of undefined "OpLogout t"] assms(6) by simp
  from revoked_refused [OF this r] assms(4) have "\<forall>cl w2 se w3. while_account s cl (rt_UserID rt) w' w2 \<longrightarrow> Refresh s t w2 \<noteq> (Inr se, w3)"
    by (simp add: live_def)
  with r rows off 3 show ?thesis by auto
qed

lemma Logout_runs: "\<exists>w'. Logout newTestService ''abc'' (test_world 0 abc_db) = (Inr (), w')"
  by (simp add: Logout_def run_simps run_repositories run_domain run_service run_fakes run_abc Let_def)

lemma abc_stored:
  "abc_token \<in> set (refresh_tokens (w_db (test_world t abc_db)))" "rt_TokenHash abc_token = tokenhash_Hash ''abc''" "live abc_token"
  by (simp_all add: abc_db_def abc_token_def test_token_def live_def)

theorem Logout_ends_session_witness:
  "\<exists>w'. Logout newTestService ''abc'' (test_world 0 abc_db) = (Inr (), w') \<and>
     (1, 2) \<in> set (w_cleanups w') \<and> (\<forall>se. fst (Refresh newTestService ''abc'' w') \<noteq> Inr se)"
proof -
  obtain w' where run: "Logout newTestService ''abc'' (test_world 0 abc_db) = (Inr (), w')"
    using Logout_runs by blast
  have "service_inv (svc_security newTestService) (w_db (test_world 0 abc_db))" using abc_inv by simp
  note ends = Logout_ends_session [OF fake_sessions this abc_stored run]
  from ends have "(1, 2) \<in> set (w_cleanups w')" by (simp add: abc_token_def test_token_def newTestService_fields)
  moreover from ends have "\<forall>se w3. Refresh newTestService ''abc'' w' \<noteq> (Inr se, w3)" by (blast intro: while_account.none)
  ultimately show ?thesis using run by (metis prod.collapse)
qed

text \<open>
  A logout that revoked the token but could not reach the session store
  cannot be completed by trying again: every further logout with the token
  reports success and leaves the session marker, with it the access token, as
  it is.
\<close>

theorem Logout_retry_leaves_marker:
  assumes "service_inv (svc_security s) (w_db w)"
    and "rt \<in> set (refresh_tokens (w_db w))" and "rt_TokenHash rt = tokenhash_Hash t" and "live rt"
    and "Logout s t w = (Inl e, w1)" and "w_db w1 \<noteq> w_db w"
    and "while_account s cl (rt_UserID rt) w1 w2" and "Logout s t w2 = (r, w3)"
  shows "unchanged w2 w3 \<and> (e_faults w2 = [] \<longrightarrow> r = Inr ())"
proof -
  from assms(1) have wf: "db_wf (w_db w)" by (rule service_invD)
  from assms(5) found_by_hash [OF wf assms(2,3)] obtain w0 where
    u: "unchanged w w0" and e: "end_session s rt w0 = (Inl e, w1)" using assms(4,6) by (rule_tac Logout_found) auto
  from e u assms(6) obtain n where "revoke_token n (rt_ID rt) (w_db w) = Inr ((), w_db w1)"
    by (rule_tac end_session_revokes) auto
  then have "rt\<lparr>rt_RevokedAt := Some n\<rparr> \<in> set (refresh_tokens (w_db w1))"
    using revoke_token_revokes [OF _ assms(2)] assms(4) by simp
  then have "rt\<lparr>rt_RevokedAt := Some n\<rparr> \<in> set (refresh_tokens (w_db w2))"
    using settled_while [OF assms(7)] by (auto simp: settled_of_def live_def)
  moreover have "service_inv (svc_security s) (w_db w1)"
    using run_op_inv [OF assms(1), of undefined "OpLogout t"] assms(5) by simp
  then have "db_wf (w_db w2)" by (rule service_invD [OF inv_while_account [OF assms(7)]])
  ultimately have found: "sql_find (\<lambda>r. rt_TokenHash r = tokenhash_Hash t) (refresh_tokens (w_db w2))
      = Some (rt\<lparr>rt_RevokedAt := Some n\<rparr>)"
    using assms(3) by (rule_tac found_by_hash) auto
  from assms(8) found show ?thesis by (rule Logout_found) (auto simp: live_def)
qed

text \<open>A service whose session store is down for deactivations.\<close>

definition down_service :: "fake_ext service" where
  "down_service = newTestService\<lparr>svc_sessions := fakeSessionStore
     \<lparr>ss_DeactivateIfCurrent := (\<lambda>u sid x. (Inl (Opaque ''down''), x))\<rparr>\<rparr>"

lemma Logout_down:
  "\<exists>e w1. Logout down_service ''abc'' (test_world 0 abc_db) = (Inl e, w1) \<and> w_db w1 \<noteq> abc_db \<and> e_faults w1 = []"
  by (simp add: Logout_def down_service_def run_simps run_repositories run_domain run_service run_fakes run_abc Let_def)

theorem Logout_retry_leaves_marker_witness:
  "\<exists>e w1. Logout down_service ''abc'' (test_world 0 abc_db) = (Inl e, w1) \<and>
     fst (Logout down_service ''abc'' w1) = Inr ()"
proof -
  obtain e w1 where run: "Logout down_service ''abc'' (test_world 0 abc_db) = (Inl e, w1)"
    and d: "w_db w1 \<noteq> w_db (test_world 0 abc_db)" and f: "e_faults w1 = []"
    using Logout_down by auto
  have i: "service_inv (svc_security down_service) (w_db (test_world 0 abc_db))"
    using abc_inv by (simp add: down_service_def)
  from Logout_retry_leaves_marker [OF i abc_stored run d while_account.none, of "fst (Logout down_service ''abc'' w1)"
      "snd (Logout down_service ''abc'' w1)"] f run show ?thesis by auto
qed

end
