(* ===== verification/Otp_Properties.thy ===== *)
theory Otp_Properties
  imports Session_Properties
begin

text \<open>
  What the second factor guarantees: a login or a setup only completes with a
  code the gate accepts, a login challenge completes one login, a locked
  credential accepts nothing, failures lead to the lockout, and a code's
  counter is used at most once.
\<close>

section \<open>Completing a login\<close>

lemma consume_sets:
  "consume_login_challenge n i d = Inr ((), d') \<Longrightarrow> ch \<in> set (login_challenges d) \<Longrightarrow> lc_ID ch = i \<Longrightarrow>
   lc_ConsumedAt ch = None \<Longrightarrow> ch\<lparr>lc_ConsumedAt := Some n\<rparr> \<in> set (login_challenges d')"
  by (auto simp: consume_login_challenge_def set_sql_update image_iff)

lemma passed_frame:
  assumes "passed s u c code c' w w1"
  shows "login_challenges (w_db w1) = login_challenges (w_db w)" "refresh_tokens (w_db w1) = refresh_tokens (w_db w)"
    "users (w_db w1) = users (w_db w)" "password_reset_flows (w_db w1) = password_reset_flows (w_db w)"
    "w_ext w1 = w_ext w"
  using assms update_credential_frame unfolding passed_def by blast+

lemma only_session_cong:
  "refresh_tokens (w_db w') = refresh_tokens (w_db w) \<Longrightarrow> w_ext w' = w_ext w \<Longrightarrow>
     only_session active rt w' = only_session active rt w"
  by (simp add: only_session_def)

lemma LoginVerifyOTP_consumes:
  assumes "LoginVerifyOTP s tok code w = (Inr se, w')"
  obtains ch n where "ch \<in> set (login_challenges (w_db w))" "lc_TokenHash ch = tokenhash_Hash tok"
    "lc_UserID ch = se_UserID se" "ch\<lparr>lc_ConsumedAt := Some n\<rparr> \<in> set (login_challenges (w_db w'))"
  using assms
proof (rule LoginVerifyOTP_Inr)
  fix ch c u c' w1 w2 n
  assume a: "sql_find (\<lambda>c. lc_TokenHash c = tokenhash_Hash tok) (login_challenges (w_db w)) = Some ch"
    "lc_ConsumedAt ch = None" "passed s u c code c' w w1" "issueSession s u w1 = (Inr se, w2)"
    "sql_find (\<lambda>u. u_ID u = lc_UserID ch) (users (w_db w)) = Some u"
    "consume_login_challenge n (lc_ID ch) (w_db w2) = Inr ((), w_db w')"
  have "ch \<in> set (login_challenges (w_db w2))"
    using sql_find_Some [OF a(1)] passed_frame(1) [OF a(3)] issueSession_frame(1) [OF a(4)] by simp
  moreover have "lc_UserID ch = se_UserID se" using sql_find_Some [OF a(5)] issueSession_Inr [OF a(4)] by metis
  ultimately show thesis using that [of ch n] sql_find_Some [OF a(1)] consume_sets [OF a(6)] a(2) by simp
qed

text \<open>
  C23: A login completes only through the second factor. When \<open>LoginVerifyOTP\<close>
  returns a session, the challenge was stored under the token's hash, not
  expired and not consumed; the credential of its user was not locked and the
  gate accepted the code; the user was not waiting for deletion. Afterwards
  the challenge is consumed and the session is the user's only one.
\<close>

theorem LoginVerifyOTP_gate:
  assumes "session_store (svc_sessions s) active" and "LoginVerifyOTP s tok code w = (Inr se, w')"
  shows "\<exists>ch c u k t now n rt.
     ch \<in> set (login_challenges (w_db w)) \<and> lc_TokenHash ch = tokenhash_Hash tok \<and>
     clock_now w \<le> lc_ExpiresAt ch \<and> lc_ConsumedAt ch = None \<and>
     c \<in> set (two_factor_credentials (w_db w)) \<and> c_UserID c = lc_UserID ch \<and>
     u \<in> set (users (w_db w)) \<and> u_ID u = lc_UserID ch \<and> \<not> pending u \<and>
     t \<in> readings w \<and> \<not> locked_at c t \<and> now \<in> readings w \<and> accepted s (u_Email u) c code k now \<and>
     ch\<lparr>lc_ConsumedAt := Some n\<rparr> \<in> set (login_challenges (w_db w')) \<and>
     only_session active rt w' \<and> rt_UserID rt = lc_UserID ch \<and> rt_TokenHash rt = tokenhash_Hash (se_RefreshToken se)"
  using assms(2)
proof (rule LoginVerifyOTP_Inr)
  fix ch c u c' w1 w2 n
  assume a: "sql_find (\<lambda>c. lc_TokenHash c = tokenhash_Hash tok) (login_challenges (w_db w)) = Some ch"
    "clock_now w \<le> lc_ExpiresAt ch" "lc_ConsumedAt ch = None"
    "sql_find (\<lambda>c. c_UserID c = lc_UserID ch) (two_factor_credentials (w_db w)) = Some c"
    "sql_find (\<lambda>u. u_ID u = lc_UserID ch) (users (w_db w)) = Some u" "\<not> pending u"
    "passed s u c code c' w w1" "issueSession s u w1 = (Inr se, w2)"
    "consume_login_challenge n (lc_ID ch) (w_db w2) = Inr ((), w_db w')" "w_ext w' = w_ext w2"
  note f = sql_find_Some [OF a(1)] sql_find_Some [OF a(4)] sql_find_Some [OF a(5)]
  have "ch \<in> set (login_challenges (w_db w2))"
    using f(1) passed_frame(1) [OF a(7)] issueSession_frame(1) [OF a(8)] by simp
  then have ch: "ch\<lparr>lc_ConsumedAt := Some n\<rparr> \<in> set (login_challenges (w_db w'))"
    using consume_sets [OF a(9)] a(3) by simp
  from session_store.issueSession_only [OF assms(1) a(8) HOL.refl] obtain rt where
    "only_session active rt w2" "rt_UserID rt = u_ID u" "rt_TokenHash rt = tokenhash_Hash (se_RefreshToken se)" by blast
  moreover have "refresh_tokens (w_db w') = refresh_tokens (w_db w2)"
    using a(9) [symmetric] by (auto simp: consume_login_challenge_def)
  ultimately have rt: "only_session active rt w'" "rt_UserID rt = lc_UserID ch"
      "rt_TokenHash rt = tokenhash_Hash (se_RefreshToken se)"
    using only_session_cong [of w' w2] a(10) f(3) by auto
  from a(7) obtain k t now where "t \<in> readings w" "\<not> locked_at c t" "now \<in> readings w"
    "accepted s (u_Email u) c code k now" unfolding passed_def by blast
  with a f ch rt show ?thesis by blast
qed

lemma LoginVerifyOTP_runs:
  "\<exists>se w'. LoginVerifyOTP newTestService ''c'' ''55555'' (test_world (150 * time_Second) test_db) = (Inr se, w')"
  by (simp add: LoginVerifyOTP_def run_simps run_repositories run_domain run_service run_fakes Let_def)

theorem LoginVerifyOTP_gate_witness:
  "\<exists>se w' rt. LoginVerifyOTP newTestService ''c'' ''55555'' (test_world (150 * time_Second) test_db) = (Inr se, w') \<and>
     only_session fx_active rt w' \<and> rt_TokenHash rt = tokenhash_Hash (se_RefreshToken se)"
  using LoginVerifyOTP_runs LoginVerifyOTP_gate [OF fake_sessions] by blast

text \<open>
  C24: A login challenge is good for one login: after it has completed one, no
  later attempt with the same token yields a session for as long as the account
  exists, whatever operations run in between, rounds of the worker and deletion
  requests included.
\<close>

theorem challenge_single_use:
  assumes "service_inv (svc_security s) (w_db w)" and "LoginVerifyOTP s tok code w = (Inr se, w1)"
    and "while_account s cl (se_UserID se) w1 w2"
  shows "LoginVerifyOTP s tok code2 w2 \<noteq> (Inr se2, w3)"
proof
  assume again: "LoginVerifyOTP s tok code2 w2 = (Inr se2, w3)"
  from assms(2) obtain ch n where ch: "lc_TokenHash ch = tokenhash_Hash tok"
    "lc_UserID ch = se_UserID se" "ch\<lparr>lc_ConsumedAt := Some n\<rparr> \<in> set (login_challenges (w_db w1))" by (rule LoginVerifyOTP_consumes)
  then have there: "ch\<lparr>lc_ConsumedAt := Some n\<rparr> \<in> set (login_challenges (w_db w2))"
    using settled_while [OF assms(3)] by (auto simp: settled_of_def)
  have "service_inv (svc_security s) (w_db w1)"
    using run_op_inv [OF assms(1), of cl "OpLoginVerifyOTP tok code"] assms(2) by simp
  then have "db_wf (w_db w2)" by (rule service_invD [OF inv_while_account [OF assms(3)]])
  then have "unique_col col_lc_hash (login_challenges (w_db w2))" by (simp add: db_wf_def)
  from sql_find_unique [OF this there, of "tokenhash_Hash tok"] ch(1)
  have "sql_find (\<lambda>c. lc_TokenHash c = tokenhash_Hash tok) (login_challenges (w_db w2)) = Some (ch\<lparr>lc_ConsumedAt := Some n\<rparr>)"
    by simp
  with again show False by (rule_tac LoginVerifyOTP_Inr [OF again]) simp
qed

lemma test_inv: "service_inv newTestSecurityConfig test_db"
  by (simp add: service_inv_def inv_defs db_wf_def user_exists_def cred_wf_def Credential_IsEnabled_def run_fakes)

lemma LoginVerifyOTP_leaves:
  "case LoginVerifyOTP newTestService ''c'' ''55555'' (test_world (150 * time_Second) test_db) of
     (Inr se, w1) \<Rightarrow> user_exists (se_UserID se) (w_db w1) \<and> account_deletion_jobs (w_db w1) = [] | (Inl e, w1) \<Rightarrow> False"
  by (simp add: LoginVerifyOTP_def run_simps run_repositories run_domain run_service run_fakes user_exists_def Let_def)

theorem challenge_single_use_witness:
  "\<exists>se w1. LoginVerifyOTP newTestService ''c'' ''55555'' (test_world (150 * time_Second) test_db) = (Inr se, w1) \<and>
     (\<forall>se2. fst (LoginVerifyOTP newTestService ''c'' ''666666'' (run_op newTestService (\<lambda>_. None) OpWorker w1)) \<noteq> Inr se2)"
proof -
  obtain se w1 where run: "LoginVerifyOTP newTestService ''c'' ''55555'' (test_world (150 * time_Second) test_db) = (Inr se, w1)"
    and idle: "account_deletion_jobs (w_db w1) = []" "user_exists (se_UserID se) (w_db w1)"
    using LoginVerifyOTP_leaves by (auto split: prod.splits sum.splits)
  have "LoginVerifyOTP newTestService ''c'' ''666666'' (run_op newTestService (\<lambda>_. None) OpWorker w1) \<noteq> (Inr se2, w3)" for se2 w3
    using challenge_single_use [OF _ run while_idle [OF idle]] test_inv by simp
  then have "\<forall>se2. fst (LoginVerifyOTP newTestService ''c'' ''666666'' (run_op newTestService (\<lambda>_. None) OpWorker w1)) \<noteq> Inr se2"
    by (metis prod.collapse)
  with run show ?thesis by blast
qed

section \<open>Completing a setup\<close>

lemma update_credential_stores:
  assumes "update_credential c d = Inr (n, d')" and "n \<noteq> 0"
  obtains r where "r \<in> set (two_factor_credentials d)" "c_UserID r = c_UserID c"
    "c\<lparr>c_CreatedAt := c_CreatedAt r\<rparr> \<in> set (two_factor_credentials d')"
proof -
  have n: "n = sql_count (\<lambda>r. c_UserID r = c_UserID c) (two_factor_credentials d)"
    and d': "two_factor_credentials d' = sql_update (\<lambda>r. c_UserID r = c_UserID c)
       (\<lambda>r. c\<lparr>c_UserID := c_UserID r, c_CreatedAt := c_CreatedAt r\<rparr>) (two_factor_credentials d)"
    using assms(1) by (auto simp: update_credential_def split: if_splits)
  from n assms(2) sql_count_0 [of "\<lambda>r. c_UserID r = c_UserID c" "two_factor_credentials d"]
  obtain r where r: "r \<in> set (two_factor_credentials d)" "c_UserID r = c_UserID c" by auto
  have "c\<lparr>c_UserID := c_UserID r, c_CreatedAt := c_CreatedAt r\<rparr> = c\<lparr>c_CreatedAt := c_CreatedAt r\<rparr>"
    using r(2) by (cases c) simp
  with r d' that [of r] show thesis by (force simp: set_sql_update)
qed

text \<open>
  C25: Enrolment completes only with a code of the new secret. When
  \<open>SetupVerifyOTP\<close> returns a session, the setup token belonged to a stored
  credential and was not expired, the gate accepted the code for it and the
  user was not waiting for deletion. Afterwards the credential is enabled, its
  setup token is gone, and the session is the user's only one.
\<close>

theorem SetupVerifyOTP_gate:
  assumes "session_store (svc_sessions s) active" and "SetupVerifyOTP s tok code w = (Inr se, w')"
  shows "\<exists>c u k exp t now c2 rt.
     c \<in> set (two_factor_credentials (w_db w)) \<and> c_SetupTokenHash c = Some (tokenhash_Hash tok) \<and>
     c_SetupTokenExpiresAt c = Some exp \<and> clock_now w \<le> exp \<and>
     u \<in> set (users (w_db w)) \<and> u_ID u = c_UserID c \<and> \<not> pending u \<and>
     t \<in> readings w \<and> \<not> locked_at c t \<and> now \<in> readings w \<and> accepted s (u_Email u) c code k now \<and>
     c2 \<in> set (two_factor_credentials (w_db w')) \<and> c_UserID c2 = c_UserID c \<and> Credential_IsEnabled c2 \<and>
     c_SetupTokenHash c2 = None \<and> c_LastUsedCounter c2 = Some k \<and>
     only_session active rt w' \<and> rt_UserID rt = c_UserID c \<and> rt_TokenHash rt = tokenhash_Hash (se_RefreshToken se)"
  using assms(2)
proof (rule SetupVerifyOTP_Inr)
  fix c u w1 w2 now' n exp and c' :: credential
  let ?c2 = "c'\<lparr>c_EnabledAt := Some now', c_SetupTokenHash := None, c_SetupTokenExpiresAt := None, c_UpdatedAt := now'\<rparr>"
  assume a: "sql_find (\<lambda>c. c_SetupTokenHash c = Some (tokenhash_Hash tok)) (two_factor_credentials (w_db w)) = Some c"
    "c_SetupTokenExpiresAt c = Some exp" "clock_now w \<le> exp"
    "sql_find (\<lambda>u. u_ID u = c_UserID c) (users (w_db w)) = Some u" "\<not> pending u"
    "passed s u c code c' w w1" "issueSession s u w1 = (Inr se, w2)" "n \<noteq> 0"
    "update_credential ?c2 (w_db w2) = Inr (n, w_db w')" "w_ext w' = w_ext w2"
  note f = sql_find_Some [OF a(1)] sql_find_Some [OF a(4)]
  from a(6) obtain k t now upd where p: "t \<in> readings w" "\<not> locked_at c t" "now \<in> readings w"
    "accepted s (u_Email u) c code k now"
    "c' = c\<lparr>c_FailedAttempts := 0, c_LockedUntil := None, c_LastUsedCounter := Some k, c_UpdatedAt := upd\<rparr>"
    unfolding passed_def by blast
  from a(9,8) obtain r :: credential where
    c2: "?c2\<lparr>c_CreatedAt := c_CreatedAt r\<rparr> \<in> set (two_factor_credentials (w_db w'))" by (rule update_credential_stores)
  from session_store.issueSession_only [OF assms(1) a(7) HOL.refl] obtain rt where
    "only_session active rt w2" "rt_UserID rt = u_ID u" "rt_TokenHash rt = tokenhash_Hash (se_RefreshToken se)" by blast
  then have rt: "only_session active rt w'" "rt_UserID rt = c_UserID c"
      "rt_TokenHash rt = tokenhash_Hash (se_RefreshToken se)"
    using only_session_cong [of w' w2] update_credential_frame(2) [OF a(9)] a(10) f(2) by auto
  show ?thesis
    using a f p c2 rt
    by (intro exI [of _ c] exI [of _ u] exI [of _ k] exI [of _ exp] exI [of _ t] exI [of _ now]
        exI [of _ "?c2\<lparr>c_CreatedAt := c_CreatedAt r\<rparr>"] exI [of _ rt]) (simp add: Credential_IsEnabled_def)
qed

lemma SetupVerifyOTP_runs: "\<exists>se w'. SetupVerifyOTP newTestService zero_raw '''' registered = (Inr se, w')"
  by (simp add: run_scenario run_simps run_repositories run_domain run_service run_fakes Let_def)

theorem SetupVerifyOTP_gate_witness:
  "\<exists>se w' c2. SetupVerifyOTP newTestService zero_raw '''' registered = (Inr se, w') \<and>
     c2 \<in> set (two_factor_credentials (w_db w')) \<and> Credential_IsEnabled c2 \<and> c_SetupTokenHash c2 = None"
  using SetupVerifyOTP_runs SetupVerifyOTP_gate [OF fake_sessions] by blast

section \<open>Every branch of the gate\<close>

lemma update_credential_same_key:
  assumes "update_credential c d = Inr (n, d1)" and "c_UserID c' = c_UserID c" and "c_SetupTokenHash c' = c_SetupTokenHash c"
  shows "\<exists>d'. update_credential c' d = Inr (n, d')"
  using assms by (auto simp: update_credential_def split: if_splits)

lemma run_credentials_Update:
  "e_faults w = [] \<Longrightarrow> update_credential c (w_db w) = Inr (n, d) \<Longrightarrow> n \<noteq> 0 \<Longrightarrow>
     credentials_Update c w = (Inr (), w\<lparr>w_db := d\<rparr>)"
  by (simp add: credentials_Update_def wrapM_apply run_exec_sql)

definition failed_once :: "'x service \<Rightarrow> time \<Rightarrow> credential \<Rightarrow> credential" where
  "failed_once s now c =
     (if c_FailedAttempts c + 1 \<ge> sc_OTPMaxAttempts (svc_security s)
      then c\<lparr>c_LockedUntil := Some (now + sc_OTPLockoutDuration (svc_security s)), c_FailedAttempts := 0, c_UpdatedAt := now\<rparr>
      else c\<lparr>c_FailedAttempts := c_FailedAttempts c + 1, c_UpdatedAt := now\<rparr>)"

text \<open>
  C26: The gate on each of its branches, for a stored credential whose secret
  decrypts, with the database up and the clock at \<open>now\<close>. A locked credential
  answers \<open>ErrOTPLocked\<close> and changes nothing, whatever the code. Otherwise an
  accepted code is recorded with its counter and clears the failures; any
  other code is counted, and the failure that reaches the cap locks the
  credential for the configured time and answers \<open>ErrOTPLocked\<close>, the others
  answer \<open>ErrOTPInvalid\<close>.
\<close>

theorem verifyOTP_branches:
  assumes "e_faults w = []" and "e_clock w = []" and "e_now w = now"
    and "update_credential c (w_db w) = Inr (n, d)" and "n \<noteq> 0"
    and "Cipher_Decrypt (svc_cipher s) (c_SecretEncrypted c) = Inr secret"
  shows "if locked_at c now then verifyOTP s email c code w = (Inl (Sentinel ErrOTPLocked), w)
     else if \<exists>k. accepted s email c code k now
     then \<exists>k c' d'. accepted s email c code k now \<and>
        c' = c\<lparr>c_FailedAttempts := 0, c_LockedUntil := None, c_LastUsedCounter := Some k, c_UpdatedAt := now\<rparr> \<and>
        update_credential c' (w_db w) = Inr (n, d') \<and> verifyOTP s email c code w = (Inr c', w\<lparr>w_db := d'\<rparr>)
     else \<exists>d'. update_credential (failed_once s now c) (w_db w) = Inr (n, d') \<and>
        verifyOTP s email c code w =
          (Inl (Sentinel (if locked_at (failed_once s now c) now then ErrOTPLocked else ErrOTPInvalid)), w\<lparr>w_db := d'\<rparr>)"
proof -
  have locked: "Credential_IsLocked c (w\<lparr>w_db := d'\<rparr>) = (Inr (locked_at c now), w\<lparr>w_db := d'\<rparr>)" for c d'
    using assms(2,3) by (simp add: Credential_IsLocked_def locked_at_def bindM_apply run_time_Now split: option.split)
  have valid: "\<exists>ok k. validateOTP s email c code w = (Inr (ok, k, demo email code), w) \<and>
      (\<forall>j. accepted s email c code j now \<longleftrightarrow> j = k \<and> ok \<and> (demo email code \<or> \<not> Credential_IsCodeConsumed k c))"
    using assms(2,3,6)
    by (cases "totp_ValidateAt (svc_hotp s) code (string_of_bytes secret) now")
       (auto simp: validateOTP_def demo_def accepted_def bindM_apply run_time_Now)
  have stored: "\<exists>d'. update_credential c' (w_db w) = Inr (n, d') \<and> credentials_Update c' w = (Inr (), w\<lparr>w_db := d'\<rparr>)"
    if "c_UserID c' = c_UserID c" "c_SetupTokenHash c' = c_SetupTokenHash c" for c'
    using update_credential_same_key [OF assms(4) that] run_credentials_Update [OF assms(1)] assms(5) by blast
  obtain ok k where v: "validateOTP s email c code w = (Inr (ok, k, demo email code), w)"
    and acc: "\<forall>j. accepted s email c code j now \<longleftrightarrow> j = k \<and> ok \<and> (demo email code \<or> \<not> Credential_IsCodeConsumed k c)"
    using valid by blast
  let ?c' = "c\<lparr>c_FailedAttempts := 0, c_LockedUntil := None, c_LastUsedCounter := Some k, c_UpdatedAt := now\<rparr>"
  have success: "Credential_RecordSuccess k c w = (Inr ?c', w)"
    using assms(2,3) by (simp add: Credential_RecordSuccess_def Credential_MarkCodeUsed_def bindM_apply run_time_Now)
  have failure: "Credential_RecordFailure (sc_OTPMaxAttempts (svc_security s)) (sc_OTPLockoutDuration (svc_security s)) c w
      = (Inr (failed_once s now c), w)"
    using assms(2,3) by (simp add: Credential_RecordFailure_def failed_once_def Let_def bindM_apply run_time_Now)
  have key: "c_UserID (failed_once s now c) = c_UserID c" "c_SetupTokenHash (failed_once s now c) = c_SetupTokenHash c"
    by (simp_all add: failed_once_def)
  show ?thesis
    using v acc stored [of ?c'] stored [OF key] success failure locked locked [of c "w_db w"]
    by (auto simp: verifyOTP_def bindM_apply wrapM_apply)
qed

lemma test_rejects: "\<not> accepted newTestService ''a@b'' test_cred ''x'' k (150 * time_Second)"
  by (simp add: accepted_def demo_def newTestService_fields test_cred_def test_sealed_opens totp_ValidateAt_cases fake_hotp_def
      demoAccountEmail_def time_Unix_def time_Second_def totp_period_def)

theorem verifyOTP_branches_witness:
  "\<exists>w'. verifyOTP newTestService ''a@b'' test_cred ''x'' (test_world (150 * time_Second) test_db)
     = (Inl (Sentinel ErrOTPInvalid), w')"
proof -
  let ?w = "test_world (150 * time_Second) test_db"
  have upd: "update_credential test_cred (w_db ?w) = Inr (1, test_db)"
    by (simp add: update_credential_def sql_count_def sql_update_def test_db_def test_cred_def)
  have open_: "Cipher_Decrypt (svc_cipher newTestService) (c_SecretEncrypted test_cred) = Inr (bytes_of_string ''SECRET'')"
    by (simp add: newTestService_fields test_cred_def test_sealed_opens)
  have free: "\<not> locked_at test_cred t" "\<not> locked_at (failed_once newTestService t' test_cred) t" for t t'
    by (simp_all add: locked_at_def failed_once_def test_cred_def newTestService_fields newTestSecurityConfig_def)
  have "e_faults ?w = []" "e_clock ?w = []" "e_now ?w = 150 * time_Second" by (simp_all add: test_world_def)
  from verifyOTP_branches [OF this upd _ open_, of "''a@b''" "''x''"] show ?thesis
    using free test_rejects by auto
qed

end
