(* ===== verification/Otp_Replay.thy ===== *)
theory Otp_Replay
  imports Otp_Properties
begin

text \<open>
  The anti-replay counter of the second factor: it never goes back for an
  account other than the demo account, so a code that was used is not
  accepted again; for the demo account its fixed code sets it back.
\<close>

section \<open>A counter is used once\<close>

text \<open>
  \<open>used_upto i k\<close>: the account \<open>i\<close> is not the demo account and the last
  counter its credential has accepted is at least \<open>k\<close>.
\<close>

definition used_upto :: "uuid \<Rightarrow> int \<Rightarrow> db \<Rightarrow> bool" where
  "used_upto i k d \<longleftrightarrow> db_wf d \<and> (\<exists>u \<in> set (users d). u_ID u = i \<and> u_Email u \<noteq> demoAccountEmail) \<and>
     (\<exists>c \<in> set (two_factor_credentials d). c_UserID c = i \<and> (\<exists>j \<ge> k. c_LastUsedCounter c = Some j))"

interpretation used: db_frame "\<lambda>d d'. used_upto i k d \<longrightarrow> used_upto i k d'" for i k
  by unfold_locales auto

abbreviation used_keeps :: "uuid \<Rightarrow> int \<Rightarrow> 'a stmt \<Rightarrow> bool" where
  "used_keeps i k \<equiv> stmt_keeps (\<lambda>d d'. used_upto i k d \<longrightarrow> used_upto i k d')"

lemma used_keepsI:
  assumes "\<And>a d d'. st d = Inr (a, d') \<Longrightarrow> db_wf d \<Longrightarrow> db_wf d'"
    and "\<And>a d d' u. st d = Inr (a, d') \<Longrightarrow> u \<in> set (users d) \<Longrightarrow>
           \<exists>u' \<in> set (users d'). (u_ID u', u_Email u') = (u_ID u, u_Email u)"
    and "\<And>a d d'. st d = Inr (a, d') \<Longrightarrow> set (two_factor_credentials d) \<subseteq> set (two_factor_credentials d')"
  shows "used_keeps i k st"
proof (rule stmt_keepsI, rule impI)
  fix d a d'
  assume st: "st d = Inr (a, d')" and "used_upto i k d"
  then obtain u where "db_wf d" "u \<in> set (users d)" "u_ID u = i" "u_Email u \<noteq> demoAccountEmail"
    and c: "\<exists>c \<in> set (two_factor_credentials d). c_UserID c = i \<and> (\<exists>j \<ge> k. c_LastUsedCounter c = Some j)"
    by (auto simp: used_upto_def)
  with assms(1) [OF st] assms(2) [OF st, of u] assms(3) [OF st] show "used_upto i k d'"
    unfolding used_upto_def by (metis Pair_inject subsetD)
qed

lemma used_stmts:
  "used_keeps i k (insert_user u)"
  "used_keeps i k (update_user u)"
  "used_keeps i k (update_user_password now us h)"
  "used_keeps i k (insert_refresh_token t)"
  "used_keeps i k (revoke_token now tid)"
  "used_keeps i k (revoke_all_tokens now us)"
  "used_keeps i k (insert_credential c)"
  "used_keeps i k (insert_login_challenge lc)"
  "used_keeps i k (consume_login_challenge now tid)"
  "used_keeps i k (insert_reset_flow f)"
  "used_keeps i k (update_reset_flow f)"
  by (rule used_keepsI, (erule stmt_wf, assumption),
      (auto simp: stmt_defs bex_sql_update split: if_splits option.splits; metis)[1],
      (auto simp: stmt_defs split: if_splits option.splits)[1])+

definition not_older :: "credential \<Rightarrow> credential \<Rightarrow> bool" where
  "not_older c c' \<longleftrightarrow> (\<forall>j. c_LastUsedCounter c = Some j \<longrightarrow> (\<exists>j' \<ge> j. c_LastUsedCounter c' = Some j'))"

lemma used_update:
  assumes upd: "update_credential c' d = Inr (n, d')" and used: "used_upto i k d"
    and c: "c \<in> set (two_factor_credentials d)" "c_UserID c' = c_UserID c" and old: "c_UserID c = i \<Longrightarrow> not_older c c'"
  shows "used_upto i k d'"
proof -
  have wf: "db_wf d" using used by (simp add: used_upto_def)
  have d': "two_factor_credentials d' = sql_update (\<lambda>r. c_UserID r = c_UserID c')
       (\<lambda>r. c'\<lparr>c_UserID := c_UserID r, c_CreatedAt := c_CreatedAt r\<rparr>) (two_factor_credentials d)" "users d' = users d"
    using upd by (auto simp: update_credential_def split: if_splits)
  obtain r j where r: "r \<in> set (two_factor_credentials d)" "c_UserID r = i" "k \<le> j" "c_LastUsedCounter r = Some j"
    using used by (auto simp: used_upto_def)
  have "\<exists>x \<in> set (two_factor_credentials d'). c_UserID x = i \<and> (\<exists>j \<ge> k. c_LastUsedCounter x = Some j)"
  proof (cases "c_UserID c = i")
    case True
    have "unique_col col_c_user (two_factor_credentials d)" using wf by (simp add: db_wf_def)
    from unique_colD [OF this r(1) c(1), of i] r(2) True have "r = c" by simp
    with old [OF True] r obtain j' where "k \<le> j'" "c_LastUsedCounter c' = Some j'" by (auto simp: not_older_def)
    with r True c(2) show ?thesis by (auto simp: d' bex_sql_update intro!: bexI [of _ r])
  next
    case False
    with r c(2) show ?thesis by (auto simp: d' bex_sql_update intro!: bexI [of _ r])
  qed
  with used update_credential_wf [OF upd wf] d' show ?thesis by (auto simp: used_upto_def)
qed

lemma not_older_refl: "c_LastUsedCounter c' = c_LastUsedCounter c \<Longrightarrow> not_older c c'"
  by (simp add: not_older_def)

lemma not_older_used:
  "\<not> Credential_IsCodeConsumed n c \<Longrightarrow> c_LastUsedCounter c' = Some n \<Longrightarrow> not_older c c'"
  by (auto simp: not_older_def Credential_IsCodeConsumed_def)

lemma dbh_used:
  "keeps (\<lambda>w w'. used_upto i k (w_db w) \<longrightarrow> used_upto i k (w_db w')) m \<Longrightarrow>
     dbh (used_upto i k) m (\<lambda>_. used_upto i k) (\<lambda>_. used_upto i k)"
  by (rule dbhI) (auto dest: keepsD)

lemma used_writes: "session_writes (\<lambda>d d'. used_upto i k d \<longrightarrow> used_upto i k d')"
  by (simp add: session_writes_def used_stmts)

lemma dbh_counter:
  "dbh A (Credential_BeginSetup sec h ttl c)
     (\<lambda>c' d. A d \<and> c_UserID c' = c_UserID c \<and> c_LastUsedCounter c' = c_LastUsedCounter c) (\<lambda>_. A)"
  "dbh A (Credential_Enable c)
     (\<lambda>c' d. A d \<and> c_UserID c' = c_UserID c \<and> c_LastUsedCounter c' = c_LastUsedCounter c) (\<lambda>_. A)"
  "dbh A (Credential_RecordFailure mx dur c)
     (\<lambda>c' d. A d \<and> c_UserID c' = c_UserID c \<and> c_LastUsedCounter c' = c_LastUsedCounter c) (\<lambda>_. A)"
  "dbh A (Credential_RecordSuccess n c)
     (\<lambda>c' d. A d \<and> c_UserID c' = c_UserID c \<and> c_LastUsedCounter c' = Some n) (\<lambda>_. A)"
  "dbh A (Credential_MarkCodeUsed n c)
     (\<lambda>c' d. A d \<and> c_UserID c' = c_UserID c \<and> c_LastUsedCounter c' = Some n) (\<lambda>_. A)"
  by (rule dbh_same, intro same_db.helper_intros, (drule credential_Inr, auto split: if_splits)[1])+

lemma dbh_validateOTP:
  "dbh A (validateOTP s email c code) (\<lambda>(ok, n, d) db. A db \<and> d = demo email code) (\<lambda>_. A)"
  by (rule dbhI) (auto dest: validateOTP_Inr keepsD [OF same_db.keeps_validateOTP])

text \<open>The user of the credential is the one whose email the gate gets.\<close>

definition gate_reads :: "user \<Rightarrow> credential \<Rightarrow> db \<Rightarrow> bool" where
  "gate_reads u c d \<longleftrightarrow> u \<in> set (users d) \<and> u_ID u = c_UserID c \<and> c \<in> set (two_factor_credentials d)"

lemma gate_not_demo:
  "used_upto i k d \<Longrightarrow> gate_reads u c d \<Longrightarrow> c_UserID c = i \<Longrightarrow> \<not> demo (u_Email u) code"
  unfolding used_upto_def gate_reads_def demo_def db_wf_def
  by (metis (no_types, lifting) unique_colD)

lemma used_gate_update:
  assumes "update_credential c' d = Inr (n, d')" "used_upto i k d" "gate_reads u c d" "c_UserID c' = c_UserID c"
    and "\<not> demo (u_Email u) code \<Longrightarrow> not_older c c'"
  shows "used_upto i k d'"
  using assms gate_not_demo [OF assms(2,3)] by (auto simp: gate_reads_def intro: used_update)

text \<open>The stored row has the counter of \<open>c\<close>.\<close>

definition counter_row :: "credential \<Rightarrow> db \<Rightarrow> bool" where
  "counter_row c d \<longleftrightarrow> (\<exists>r \<in> set (two_factor_credentials d). c_UserID r = c_UserID c \<and> c_LastUsedCounter r = c_LastUsedCounter c)"

lemma update_counter_row: "update_credential c d = Inr (n, d') \<Longrightarrow> n \<noteq> 0 \<Longrightarrow> counter_row c d'"
  by (erule update_credential_stores) (auto simp: counter_row_def intro: rev_bexI)

lemma used_verifyOTP:
  "dbh (\<lambda>d. used_upto i k d \<and> gate_reads u c d) (verifyOTP s (u_Email u) c code)
     (\<lambda>c' d. used_upto i k d \<and> counter_row c' d) (\<lambda>_. used_upto i k)"
  unfolding verifyOTP_def Let_def
  by (rule dbh_validateOTP dbh_comb dbh_env dbh_counter dbh_writes
      | (auto split: if_splits intro: used_gate_update [where code = code] not_older_refl not_older_used update_counter_row; fail))+

lemma used_update_row:
  "update_credential c' d = Inr (n, d') \<Longrightarrow> used_upto i k d \<Longrightarrow> counter_row c d \<Longrightarrow> c_UserID c' = c_UserID c \<Longrightarrow>
     c_LastUsedCounter c' = c_LastUsedCounter c \<Longrightarrow> used_upto i k d'"
  unfolding counter_row_def by (elim bexE conjE, rule used_update, assumption+) (simp_all add: not_older_refl)

lemma used_issueSession:
  "dbh (\<lambda>d. used_upto i k d \<and> counter_row c d) (issueSession s u) (\<lambda>_ d. used_upto i k d \<and> counter_row c d) (\<lambda>_. used_upto i k)"
  using issueSession_frame(2) [of s u] keepsD [OF used.keeps_issueSession [OF used_writes]]
  by (intro dbhI) (fastforce simp: counter_row_def)+

lemma gate_readsI:
  "sql_find (\<lambda>u. u_ID u = c_UserID c) (users d) = Some u \<Longrightarrow> sql_find P (two_factor_credentials d) = Some c \<Longrightarrow> gate_reads u c d"
  by (auto simp: gate_reads_def dest!: sql_find_Some)

lemma gate_readsI2:
  "sql_find (\<lambda>u. u_ID u = j) (users d) = Some u \<Longrightarrow> sql_find (\<lambda>c. c_UserID c = j) (two_factor_credentials d) = Some c \<Longrightarrow>
     gate_reads u c d"
  by (auto simp: gate_reads_def dest!: sql_find_Some)

lemma used_SetupVerifyOTP:
  "dbh (used_upto i k) (SetupVerifyOTP s tok code) (\<lambda>_. used_upto i k) (\<lambda>_. used_upto i k)"
  unfolding SetupVerifyOTP_def
  by (rule used_issueSession dbh_comb dbh_env dbh_counter dbh_reads dbh_writes
      | (rule dbh_pre, rule used_verifyOTP, force intro: gate_readsI)
      | (auto intro: used_update_row; fail))+

lemma used_LoginVerifyOTP:
  "dbh (used_upto i k) (LoginVerifyOTP s tok code) (\<lambda>_. used_upto i k) (\<lambda>_. used_upto i k)"
  unfolding LoginVerifyOTP_def
  by (rule used_issueSession dbh_comb dbh_env dbh_reads
      | (rule dbh_pre, rule used_verifyOTP, force intro: gate_readsI2)
      | (rule dbh_pre, rule dbh_used, intro used.keeps_loginChallenges_Consume used_stmts, auto; fail)
      | (auto; fail))+

lemma used_ChangePassword:
  "dbh (used_upto i k) (ChangePassword s us inp) (\<lambda>_. used_upto i k) (\<lambda>_. used_upto i k)"
  unfolding ChangePassword_def
  by (rule dbh_comb dbh_env dbh_reads
      | (rule dbh_pre, rule used_verifyOTP, force intro: gate_readsI2)
      | (rule dbh_pre, rule dbh_used, intro used.keeps_users_UpdatePassword used.keeps_refreshTokens_RevokeAllForUser used_stmts, auto; fail)
      | (auto; fail))+

lemma used_storeSetup:
  "dbh (used_upto i k) (storeSetup s u sec h) (\<lambda>_. used_upto i k) (\<lambda>_. used_upto i k)"
  unfolding storeSetup_def
  by (rule dbh_comb dbh_env dbh_New dbh_counter dbh_reads
      | (rule dbh_pre, rule dbh_used, intro used.keeps_credentials_Create used_stmts, auto; fail)
      | rule dbh_writes
      | (auto dest!: sql_find_Some intro: used_update not_older_refl; fail))+

lemma used_beginTOTPSetup:
  "dbh (used_upto i k) (beginTOTPSetup s u) (\<lambda>_. used_upto i k) (\<lambda>_. used_upto i k)"
  unfolding beginTOTPSetup_def by (rule used_storeSetup dbh_comb dbh_env | (auto; fail))+

lemma used_Register:
  "dbh (used_upto i k) (Register s inp) (\<lambda>_. used_upto i k) (\<lambda>_. used_upto i k)"
  unfolding Register_def
  by (rule used_beginTOTPSetup dbh_comb dbh_env dbh_New
      | (rule dbh_pre, rule dbh_used, intro used.keeps_users_Create used_stmts, auto; fail)
      | (auto; fail))+

lemma used_Login:
  "dbh (used_upto i k) (Login s inp) (\<lambda>_. used_upto i k) (\<lambda>_. used_upto i k)"
  unfolding Login_def Let_def
  by (rule dbh_comb dbh_env dbh_reads
      | (rule dbh_pre, rule used_beginTOTPSetup, auto; fail)
      | (rule dbh_pre, rule dbh_used, intro used.keeps_issueLoginChallenge used_stmts, auto; fail)
      | (auto; fail))+

lemma used_flowCodeValid:
  "dbh (used_upto i k) (flowCodeValid s flow code) (\<lambda>_. used_upto i k) (\<lambda>_. used_upto i k)"
  unfolding flowCodeValid_def
  by (rule dbh_validateOTP dbh_comb dbh_env dbh_counter dbh_reads dbh_writes
      | (auto dest!: sql_find_Some intro: used_update not_older_used; fail))+

lemma used_VerifyPasswordResetOTP:
  "dbh (used_upto i k) (VerifyPasswordResetOTP s tok code) (\<lambda>_. used_upto i k) (\<lambda>_. used_upto i k)"
  unfolding VerifyPasswordResetOTP_def PasswordResetFlow_RecordOTPFailure_def Let_def prod.case
  by (rule dbh_comb dbh_env dbh_flow dbh_reads
      | (rule dbh_pre, rule used_flowCodeValid, auto; fail)
      | (rule dbh_pre, rule dbh_used, intro used.keeps_passwordResetFlows_Update used_stmts, auto; fail)
      | (auto; fail))+

lemma used_same_rows:
  assumes "used_upto i k d" "db_wf d'" "two_factor_credentials d' = two_factor_credentials d"
    and "map (\<lambda>u. (u_ID u, u_Email u)) (users d') = map (\<lambda>u. (u_ID u, u_Email u)) (users d)"
  shows "used_upto i k d'"
proof -
  from assms(1) obtain u where "u \<in> set (users d)" "u_ID u = i" and e: "u_Email u \<noteq> demoAccountEmail"
    by (auto simp: used_upto_def)
  then have "(i, u_Email u) \<in> set (map (\<lambda>u. (u_ID u, u_Email u)) (users d))" by force
  then obtain u' where "u' \<in> set (users d')" "u_ID u' = i" "u_Email u' \<noteq> demoAccountEmail"
    unfolding assms(4) [symmetric] using e by auto
  with assms(1-3) show ?thesis by (auto simp: used_upto_def)
qed

lemma deletion_rows:
  "deletion_writes (\<lambda>d d'. two_factor_credentials d' = two_factor_credentials d \<and>
     map (\<lambda>u. (u_ID u, u_Email u)) (users d') = map (\<lambda>u. (u_ID u, u_Email u)) (users d))"
  "worker_writes (\<lambda>d d'. two_factor_credentials d' = two_factor_credentials d \<and>
     map (\<lambda>u. (u_ID u, u_Email u)) (users d') = map (\<lambda>u. (u_ID u, u_Email u)) (users d))"
  by (auto simp: deletion_writes_def worker_writes_def stmt_keeps_def deletion_defs sql_update_def Let_def
      split: option.splits if_splits)

lemma used_row_stmt:
  assumes "stmt_keeps (\<lambda>d d'. db_wf d \<longrightarrow> db_wf d') st"
    and "stmt_keeps (\<lambda>d d'. two_factor_credentials d' = two_factor_credentials d \<and>
     map (\<lambda>u. (u_ID u, u_Email u)) (users d') = map (\<lambda>u. (u_ID u, u_Email u)) (users d)) st"
  shows "used_keeps i k st"
proof (rule stmt_keepsI, rule impI)
  fix d a d'
  assume st: "st d = Inr (a, d')" and u: "used_upto i k d"
  then have "db_wf d'" using assms(1) by (auto simp: stmt_keeps_def used_upto_def)
  with st assms(2) u show "used_upto i k d'" by (auto simp: stmt_keeps_def intro: used_same_rows)
qed

interpretation used_fact: account_fact i "used_upto i k" for i k
proof
  show "deletion_writes (\<lambda>d d'. used_upto i k d \<longrightarrow> used_upto i k d')" "worker_writes (\<lambda>d d'. used_upto i k d \<longrightarrow> used_upto i k d')"
    using deletion_wf deletion_rows by (auto simp: deletion_writes_def worker_writes_def intro!: used_row_stmt)
  show "stmt_keeps (\<lambda>d d'. used_upto i k d \<longrightarrow> used_upto i k d') (revoke_all_tokens now j)" for now j by (rule used_stmts)
  show "used_upto i k d'" if "delete_user j d = Inr (n, d')" "j \<noteq> i" "used_upto i k d" for j d n d'
    using that delete_user_wf [OF that(1)]
    by (auto simp: used_upto_def delete_user_def set_sql_delete Let_def split: if_splits)
qed

lemma used_gate_lasting:
  "dbh (\<lambda>d. used_fact.lasting i k d \<and> gate_reads u c d) (verifyOTP s (u_Email u) c code)
     (\<lambda>_. used_fact.lasting i k) (\<lambda>_. used_fact.lasting i k)"
proof -
  have "used_fact.lasting i k (w_db w')"
    if l: "used_fact.lasting i k (w_db w)" "gate_reads u c (w_db w)" and run: "verifyOTP s (u_Email u) c code w = (r, w')"
    for w w' and r :: "goerror + credential"
  proof (cases "user_exists i (w_db w)")
    case True
    with l have "used_upto i k (w_db w) \<and> gate_reads u c (w_db w)" by (simp add: used_fact.lasting_def)
    with run dbhD_Inr [OF used_verifyOTP] dbhD_Inl [OF used_verifyOTP] have "used_upto i k (w_db w')" by (cases r) blast+
    then show ?thesis by (simp add: used_fact.lasting_def)
  next
    case False
    then have "\<not> user_exists i (w_db w')"
      using keepsD [OF new_user.keeps_verifyOTP [OF no_new_user_stmts(3)] run] by blast
    then show ?thesis by (simp add: used_fact.lasting_def)
  qed
  then show ?thesis by (blast intro!: dbhI)
qed

lemma used_DeleteAccount:
  assumes "used_upto i k (w_db w)" and "DeleteAccount s j a otp w = (r, w')" and "user_exists i (w_db w')"
  shows "used_upto i k (w_db w')"
proof -
  have "dbh (used_fact.lasting i k) (DeleteAccount s j a otp) (\<lambda>_. used_fact.lasting i k) (\<lambda>_. used_fact.lasting i k)"
    unfolding DeleteAccount_def
    by (rule used_fact.lasting_dbh dbh_comb dbh_env dbh_reads
        | (rule dbh_pre, rule used_gate_lasting, force intro: gate_readsI2)
        | (rule dbh_pre, rule used_fact.lasting_dbh, auto; fail)
        | (auto; fail))+
  from dbhD_Inr [OF this] dbhD_Inl [OF this] assms show ?thesis
    by (cases r) (auto simp: used_fact.lasting_def)
qed

lemma used_op:
  assumes "used_upto i k (w_db w)" and "user_exists i (w_db (run_op s cl oper w))"
  shows "used_upto i k (w_db (run_op s cl oper w))"
proof (cases "deletes oper")
  case False
  note frames = used.keeps_Refresh used.keeps_Logout used.keeps_UpdateProfile used.keeps_RequestPasswordReset
    used.keeps_ConfirmPasswordReset used.keeps_run_cleanup
  note steps = used_SetupVerifyOTP used_LoginVerifyOTP used_ChangePassword used_Login used_Register
    used_VerifyPasswordResetOTP
  from False show ?thesis
    by (cases oper)
       (simp_all, (rule dbh_inv [where I = "used_upto i k", OF _ assms(1)],
          (rule steps | rule dbh_used, intro frames used_stmts used_writes))+)
next
  case True
  with assms show ?thesis
    by (cases oper) (auto intro: used_fact.lasts_worker used_DeleteAccount prod.collapse [symmetric])
qed

lemma used_while: "while_account s cl i w w' \<Longrightarrow> used_upto i k (w_db w) \<Longrightarrow> used_upto i k (w_db w')"
  by (induction rule: while_account.induct) (auto intro: used_op)

lemma LoginVerifyOTP_counter:
  assumes "LoginVerifyOTP s tok code w = (Inr se, w')" and "service_inv (svc_security s) (w_db w)"
    and u: "u \<in> set (users (w_db w))" "u_ID u = se_UserID se" "u_Email u \<noteq> demoAccountEmail"
  obtains c k now where "c \<in> set (two_factor_credentials (w_db w))" "c_UserID c = se_UserID se"
    "now \<in> readings w" "accepted s (u_Email u) c code k now" "used_upto (se_UserID se) k (w_db w')"
  using assms(1)
proof (rule LoginVerifyOTP_Inr)
  fix ch c v w1 w2 n and c' :: credential
  assume a: "sql_find (\<lambda>c. c_UserID c = lc_UserID ch) (two_factor_credentials (w_db w)) = Some c"
    "sql_find (\<lambda>u. u_ID u = lc_UserID ch) (users (w_db w)) = Some v"
    "passed s v c code c' w w1" "issueSession s v w1 = (Inr se, w2)"
    "consume_login_challenge n (lc_ID ch) (w_db w2) = Inr ((), w_db w')"
  have id: "se_UserID se = u_ID v" using a(4) by (rule issueSession_Inr)
  note f = sql_find_Some [OF a(1)] sql_find_Some [OF a(2)]
  have "unique_col col_u_id (users (w_db w))" using service_invD(1) [OF assms(2)] by (simp add: db_wf_def)
  from unique_colD [OF this u(1), of v "se_UserID se"] f(2) u(2) id have v: "v = u" by simp
  from a(3) obtain k now upd m where p: "accepted s (u_Email u) c code k now" "m \<noteq> 0" and now: "now \<in> readings w" and
    c': "c' = c\<lparr>c_FailedAttempts := 0, c_LockedUntil := None, c_LastUsedCounter := Some k, c_UpdatedAt := upd\<rparr>"
    "update_credential c' (w_db w) = Inr (m, w_db w1)" unfolding passed_def v by blast
  have same: "two_factor_credentials (w_db w') = two_factor_credentials (w_db w1)" "users (w_db w') = users (w_db w)"
    using a(5) [symmetric] issueSession_frame(2,4) [OF a(4)] passed_frame(3) [OF a(3)]
    by (auto simp: consume_login_challenge_def)
  have "counter_row c' (w_db w')" using update_counter_row [OF c'(2) p(2)] same by (simp add: counter_row_def)
  moreover have "db_wf (w_db w')"
    using run_op_inv [OF assms(2), of undefined "OpLoginVerifyOTP tok code"] assms(1) by (auto dest: service_invD)
  ultimately have "used_upto (se_UserID se) k (w_db w')"
    using u same f id c'(1) by (auto simp: used_upto_def counter_row_def)
  then show thesis using that [of c now k] f id p(1) now by simp
qed

text \<open>
  C27: A one-time code is one-time. After a login of an account other than the
  demo account with a code accepted at counter \<open>k1\<close>, and for as long as the
  account exists, whatever operations run, rounds of the worker and deletion
  requests included, the gate accepts a code for this account only at a counter
  later than \<open>k1\<close>: the code of the login, or an older one, is refused.
\<close>

theorem otp_used_once:
  assumes "service_inv (svc_security s) (w_db w)" and "LoginVerifyOTP s tok code w = (Inr se, w1)"
    and "u \<in> set (users (w_db w))" and "u_ID u = se_UserID se" and "u_Email u \<noteq> demoAccountEmail"
    and "while_account s cl (se_UserID se) w1 w2"
    and "gate_reads v c2 (w_db w2)" and "c_UserID c2 = se_UserID se"
    and "verifyOTP s (u_Email v) c2 code2 w2 = (Inr c3, w3)"
  shows "\<exists>c1 secret1 secret2 now1 now2 k1 k2.
     c1 \<in> set (two_factor_credentials (w_db w)) \<and> c_UserID c1 = se_UserID se \<and>
     Cipher_Decrypt (svc_cipher s) (c_SecretEncrypted c1) = Inr secret1 \<and>
     now1 \<in> readings w \<and> totp_ValidateAt (svc_hotp s) code (string_of_bytes secret1) now1 = (True, k1) \<and>
     Cipher_Decrypt (svc_cipher s) (c_SecretEncrypted c2) = Inr secret2 \<and>
     now2 \<in> readings w2 \<and> totp_ValidateAt (svc_hotp s) code2 (string_of_bytes secret2) now2 = (True, k2) \<and> k1 < k2"
  using assms(2,1,3-5)
proof (rule LoginVerifyOTP_counter)
  fix c1 k1 now1
  assume c1: "c1 \<in> set (two_factor_credentials (w_db w))" "c_UserID c1 = se_UserID se"
    "now1 \<in> readings w" "accepted s (u_Email u) c1 code k1 now1" and used: "used_upto (se_UserID se) k1 (w_db w1)"
  have used: "used_upto (se_UserID se) k1 (w_db w2)" using used_while [OF assms(6) used] .
  have nd: "\<not> demo (u_Email v) code2" using gate_not_demo [OF used assms(7,8)] .
  from assms(9) obtain k2 now2 where acc: "now2 \<in> readings w2" "accepted s (u_Email v) c2 code2 k2 now2" by (rule verifyOTP_Inr)
  from used obtain r j where r: "r \<in> set (two_factor_credentials (w_db w2))" "c_UserID r = se_UserID se"
    "k1 \<le> j" "c_LastUsedCounter r = Some j" "db_wf (w_db w2)" by (auto simp: used_upto_def)
  then have "unique_col col_c_user (two_factor_credentials (w_db w2))" by (simp add: db_wf_def)
  from unique_colD [OF this r(1), of c2 "se_UserID se"] r(2) assms(7,8) have "r = c2" by (simp add: gate_reads_def)
  with acc nd r have "k1 < k2" by (auto simp: accepted_def Credential_IsCodeConsumed_def)
  moreover from c1(4) assms(5) obtain secret1 where "Cipher_Decrypt (svc_cipher s) (c_SecretEncrypted c1) = Inr secret1"
    "totp_ValidateAt (svc_hotp s) code (string_of_bytes secret1) now1 = (True, k1)"
    by (auto simp: accepted_def demo_def)
  moreover from acc(2) nd obtain secret2 where "Cipher_Decrypt (svc_cipher s) (c_SecretEncrypted c2) = Inr secret2"
    "totp_ValidateAt (svc_hotp s) code2 (string_of_bytes secret2) now2 = (True, k2)"
    by (auto simp: accepted_def)
  ultimately show ?thesis using c1(1-3) acc(1) by blast
qed

definition second_cred :: credential where
  "second_cred = test_cred\<lparr>c_LastUsedCounter := Some 5, c_UpdatedAt := 150 * time_Second\<rparr>"

lemma second_code_runs:
  "case LoginVerifyOTP newTestService ''c'' ''55555'' (test_world (150 * time_Second) test_db) of
     (Inr se, w1) \<Rightarrow> se_UserID se = 1 \<and> gate_reads test_user second_cred (w_db w1) \<and>
       account_deletion_jobs (w_db w1) = [] \<and>
       (\<exists>c3 w3. verifyOTP newTestService (u_Email test_user) second_cred ''666666'' (run_op newTestService (\<lambda>_. None) OpWorker w1) = (Inr c3, w3))
   | (Inl e, w1) \<Rightarrow> False"
  by (simp add: LoginVerifyOTP_def gate_reads_def second_cred_def run_simps run_repositories run_domain run_service
      run_fakes Let_def DeletionWorker_RunOnce_def jobs_ClaimDeletion_def transaction_def in_tx_def fallible_def next_fault_def
      claim_job_def next_claim_def)

theorem otp_used_once_witness:
  "\<exists>se w1 c2 k1 k2. LoginVerifyOTP newTestService ''c'' ''55555'' (test_world (150 * time_Second) test_db) = (Inr se, w1) \<and>
     c2 \<in> set (two_factor_credentials (w_db w1)) \<and>
     (\<exists>sec1 sec2 now1 now2. totp_ValidateAt fake_hotp ''55555'' sec1 now1 = (True, k1) \<and>
        totp_ValidateAt fake_hotp ''666666'' sec2 now2 = (True, k2)) \<and> k1 < k2"
proof -
  obtain se w1 c3 w3 where
    run: "LoginVerifyOTP newTestService ''c'' ''55555'' (test_world (150 * time_Second) test_db) = (Inr se, w1)"
    and id: "se_UserID se = 1" and g: "gate_reads test_user second_cred (w_db w1)"
    and idle: "account_deletion_jobs (w_db w1) = []"
    and again: "verifyOTP newTestService (u_Email test_user) second_cred ''666666'' (run_op newTestService (\<lambda>_. None) OpWorker w1) = (Inr c3, w3)"
    using second_code_runs by (auto split: prod.splits sum.splits)
  have inv: "service_inv (svc_security newTestService) (w_db (test_world (150 * time_Second) test_db))" using test_inv by simp
  have u: "test_user \<in> set (users (w_db (test_world (150 * time_Second) test_db)))" "u_ID test_user = se_UserID se"
    "u_Email test_user \<noteq> demoAccountEmail"
    using id by (simp_all add: test_db_def test_user_def demoAccountEmail_def)
  have lives: "user_exists (se_UserID se) (w_db w1)" using g id by (auto simp: gate_reads_def user_exists_iff second_cred_def test_cred_def)
  have g2: "gate_reads test_user second_cred (w_db (run_op newTestService (\<lambda>_. None) OpWorker w1))"
    unfolding idle_round [OF idle] by (rule g)
  have c2: "c_UserID second_cred = se_UserID se" using id by (simp add: second_cred_def test_cred_def)
  obtain sec1 now1 k1 sec2 now2 k2 where
    "totp_ValidateAt (svc_hotp newTestService) ''55555'' (string_of_bytes sec1) now1 = (True, k1)"
    "totp_ValidateAt (svc_hotp newTestService) ''666666'' (string_of_bytes sec2) now2 = (True, k2)" "k1 < k2"
    using otp_used_once [OF inv run u while_idle [OF idle lives] g2 c2 again] by blast
  then show ?thesis using run g unfolding newTestService_fields gate_reads_def by blast
qed

section \<open>The demo account\<close>

text \<open>
  C28: The exception to the previous property is the demo account: accepting
  its fixed code records counter 0 as the last used one, so that every real
  code still in its window is accepted again, also one that was used before.
\<close>

theorem demo_code_rewinds:
  assumes "verifyOTP s demoAccountEmail c demoOTPCode w = (Inr c', w')"
    and "Cipher_Decrypt (svc_cipher s) (c_SecretEncrypted c) = Inr secret" and "code \<noteq> demoOTPCode"
    and "totp_ValidateAt (svc_hotp s) code (string_of_bytes secret) now = (True, k)" and "0 < k"
  shows "c_LastUsedCounter c' = Some 0 \<and> accepted s demoAccountEmail c' code k now"
  using assms(1)
proof (rule verifyOTP_Inr)
  fix j t now'
  assume "accepted s demoAccountEmail c demoOTPCode j now'"
    and "c' = c\<lparr>c_FailedAttempts := 0, c_LockedUntil := None, c_LastUsedCounter := Some j, c_UpdatedAt := t\<rparr>"
  moreover from this(1) have "j = 0" by (simp add: accepted_def demo_def)
  ultimately show ?thesis
    using assms(2-) by (simp add: accepted_def demo_def Credential_IsCodeConsumed_def)
qed

lemma demo_runs:
  "\<exists>c' w'. verifyOTP newTestService demoAccountEmail second_cred demoOTPCode (test_world (150 * time_Second) test_db) = (Inr c', w')"
  by (simp add: second_cred_def run_simps run_repositories run_domain run_service run_fakes Let_def)

theorem demo_code_rewinds_witness:
  "\<exists>c' w'. verifyOTP newTestService demoAccountEmail second_cred demoOTPCode (test_world (150 * time_Second) test_db)
       = (Inr c', w') \<and>
     Credential_IsCodeConsumed 5 second_cred \<and>
     accepted newTestService demoAccountEmail c' ''55555'' 5 (150 * time_Second)"
proof -
  obtain c' w' where run: "verifyOTP newTestService demoAccountEmail second_cred demoOTPCode
      (test_world (150 * time_Second) test_db) = (Inr c', w')" using demo_runs by blast
  have o: "Cipher_Decrypt (svc_cipher newTestService) (c_SecretEncrypted second_cred) = Inr (bytes_of_string ''SECRET'')"
    by (simp add: newTestService_fields second_cred_def test_cred_def test_sealed_opens)
  have v: "totp_ValidateAt (svc_hotp newTestService) ''55555'' (string_of_bytes (bytes_of_string ''SECRET'')) (150 * time_Second)
      = (True, 5)"
    by (simp add: newTestService_fields totp_ValidateAt_cases fake_hotp_def time_Unix_def time_Second_def totp_period_def Let_def)
  have c: "Credential_IsCodeConsumed 5 second_cred" by (simp add: Credential_IsCodeConsumed_def second_cred_def)
  have n: "''55555'' \<noteq> demoOTPCode" by (simp add: demoOTPCode_def)
  from demo_code_rewinds [OF run o n v] run c show ?thesis by auto
qed

end
