(* ===== verification/Requests.thy ===== *)
theory Requests
  imports Go_Strings
begin

text \<open>
  The request DTOs of \<open>transport/http/auth/requests.go\<close> and
  \<open>transport/http/profile/requests.go\<close>: how \<open>encoding/json\<close> fills them and how
  they are validated. The text of a body becomes a JSON value through the
  parameter \<open>hl_json\<close>; \<open>net/mail\<close>'s address parser, \<open>uuid.Parse\<close>, the Unicode
  tables and the constants of \<open>beebase-common\<close> are parameters as well.
\<close>

section \<open>Iterating over a string\<close>

text \<open>
  Go's \<open>range\<close> over a string decodes UTF-8: a byte that starts no valid
  sequence gives U+FFFD and is skipped alone.
\<close>

definition utf8_cont :: "nat \<Rightarrow> bool" where
  "utf8_cont b \<longleftrightarrow> 128 \<le> b \<and> b \<le> 191"

definition utf8_RuneError :: nat where
  "utf8_RuneError = 65533"

definition utf8_DecodeRune :: "nat \<Rightarrow> nat list \<Rightarrow> nat \<times> nat" where
  "utf8_DecodeRune b bs =
     (if b < 128 then (b, 1)
      else if 194 \<le> b \<and> b \<le> 223 then
        (case bs of
           c # _ \<Rightarrow> if utf8_cont c then ((b - 192) * 64 + (c - 128), 2) else (utf8_RuneError, 1)
         | [] \<Rightarrow> (utf8_RuneError, 1))
      else if 224 \<le> b \<and> b \<le> 239 then
        (case bs of
           c # d # _ \<Rightarrow>
             if (if b = 224 then 160 else 128) \<le> c \<and> c \<le> (if b = 237 then 159 else 191) \<and> utf8_cont d
             then ((b - 224) * 4096 + (c - 128) * 64 + (d - 128), 3) else (utf8_RuneError, 1)
         | _ \<Rightarrow> (utf8_RuneError, 1))
      else if 240 \<le> b \<and> b \<le> 244 then
        (case bs of
           c # d # e # _ \<Rightarrow>
             if (if b = 240 then 144 else 128) \<le> c \<and> c \<le> (if b = 244 then 143 else 191) \<and> utf8_cont d \<and> utf8_cont e
             then ((b - 240) * 262144 + (c - 128) * 4096 + (d - 128) * 64 + (e - 128), 4) else (utf8_RuneError, 1)
         | _ \<Rightarrow> (utf8_RuneError, 1))
      else (utf8_RuneError, 1))"

function runes_of_bytes :: "nat list \<Rightarrow> nat list" where
  "runes_of_bytes [] = []"
| "runes_of_bytes (b # bs) = (case utf8_DecodeRune b bs of (r, n) \<Rightarrow> r # runes_of_bytes (drop (n - 1) bs))"
  by pat_completeness auto
termination by (relation "measure length") auto

definition range_string :: "string \<Rightarrow> nat list" where
  "range_string s = runes_of_bytes (map byte_of s)"

lemma utf8_DecodeRune_ascii: "b < 128 \<Longrightarrow> utf8_DecodeRune b bs = (b, 1)"
  by (simp add: utf8_DecodeRune_def)

lemma utf8_two: "194 \<le> b \<Longrightarrow> 128 \<le> (b - 192) * 64 + (c - 128 :: nat)"
  by simp

lemma utf8_three:
  assumes "224 \<le> b" and "(if b = 224 then 160 else 128) \<le> c"
  shows "128 \<le> (b - 224) * 4096 + (c - 128) * 64 + (d - 128 :: nat)"
  using assms by (cases "b = 224") auto

lemma utf8_four:
  assumes "240 \<le> b" and "(if b = 240 then 144 else 128) \<le> c"
  shows "128 \<le> (b - 240) * 262144 + (c - 128) * 4096 + (d - 128) * 64 + (e - 128 :: nat)"
  using assms by (cases "b = 240") auto

lemma utf8_DecodeRune_high:
  assumes "128 \<le> b"
  shows "128 \<le> fst (utf8_DecodeRune b bs)"
proof -
  have pick: "128 \<le> fst (if P then (x, n) else (utf8_RuneError, 1))" if "P \<Longrightarrow> 128 \<le> x" for P x and n :: nat
    using that by (simp add: utf8_RuneError_def)
  consider "b < 194" | "194 \<le> b \<and> b \<le> 223" | "224 \<le> b \<and> b \<le> 239" | "240 \<le> b \<and> b \<le> 244" | "244 < b" by linarith
  then show ?thesis
  proof cases
    case 2
    then show ?thesis
      by (cases bs) (simp_all only: utf8_DecodeRune_def list.case, auto simp: utf8_RuneError_def)
  next
    case 3
    then have "\<not> b < 128" "\<not> (194 \<le> b \<and> b \<le> 223)" by auto
    with 3 show ?thesis
      unfolding utf8_DecodeRune_def by (auto split: list.split simp del: if_split intro!: pick utf8_three simp: utf8_RuneError_def)
  next
    case 4
    then have "\<not> b < 128" "\<not> (194 \<le> b \<and> b \<le> 223)" "\<not> (224 \<le> b \<and> b \<le> 239)" by auto
    with 4 show ?thesis
      unfolding utf8_DecodeRune_def by (auto split: list.split simp del: if_split intro!: pick utf8_four simp: utf8_RuneError_def)
  qed (use assms in \<open>auto simp: utf8_DecodeRune_def utf8_RuneError_def\<close>)
qed

lemma runes_below_128:
  assumes "P \<subseteq> {..< 128}"
  shows "(\<forall>r \<in> set (runes_of_bytes bs). r \<in> P) \<longleftrightarrow> (\<forall>b \<in> set bs. b \<in> P)"
proof (induction bs)
  case (Cons b bs)
  show ?case
  proof (cases "b < 128")
    case True
    then show ?thesis using Cons by (simp add: utf8_DecodeRune_ascii)
  next
    case False
    obtain r n where "utf8_DecodeRune b bs = (r, n)" by force
    with False utf8_DecodeRune_high [of b bs] have "r \<notin> P" "b \<notin> P" using assms by auto
    then show ?thesis using \<open>utf8_DecodeRune b bs = (r, n)\<close> by simp
  qed
qed simp

section \<open>Decoding a body\<close>

datatype json =
    JNull
  | JBool bool
  | JNum string
  | JStr string
  | JArr "json list"
  | JObj "(string \<times> json) list"

record httplib =
  hl_unicode :: unicode
  hl_IsDigit :: "nat \<Rightarrow> bool"
  hl_ParseAddress :: "string \<Rightarrow> bool"
  hl_uuid_Parse :: "string \<Rightarrow> uuid option"
  hl_json :: "string \<Rightarrow> json option"
  hl_foldName :: "string \<Rightarrow> string"
  hl_CodeInvalidBody :: string
  hl_CodeMissingAuthorization :: string

text \<open>
  Decoding into a struct whose fields are strings, or pointers to strings
  (\<open>ptr\<close>). A member goes to the field of its name, or else to the one whose
  name is the same after folding; other members are ignored. \<open>null\<close> clears a
  pointer and leaves a string alone; any other type is an error. \<open>None\<close> stands
  for a field that was not set.
\<close>

definition json_field :: "httplib \<Rightarrow> string list \<Rightarrow> string \<Rightarrow> string option" where
  "json_field lib names key =
     (if key \<in> set names then Some key else List.find (\<lambda>n. hl_foldName lib n = hl_foldName lib key) names)"

fun json_members ::
  "httplib \<Rightarrow> string list \<Rightarrow> (string \<Rightarrow> bool) \<Rightarrow> (string \<times> json) list \<Rightarrow> (string \<Rightarrow> string option) \<Rightarrow> (string \<Rightarrow> string option) option" where
  "json_members lib names ptr [] st = Some st"
| "json_members lib names ptr ((key, v) # ms) st =
     (case json_field lib names key of
        None \<Rightarrow> json_members lib names ptr ms st
      | Some n \<Rightarrow>
          (case v of
             JStr s \<Rightarrow> json_members lib names ptr ms (st(n := Some s))
           | JNull \<Rightarrow> json_members lib names ptr ms (if ptr n then st(n := None) else st)
           | _ \<Rightarrow> None))"

definition json_Decode ::
  "httplib \<Rightarrow> string list \<Rightarrow> (string \<Rightarrow> bool) \<Rightarrow> string \<Rightarrow> (string \<Rightarrow> string option) option" where
  "json_Decode lib names ptr body = (case hl_json lib body of
       Some (JObj ms) \<Rightarrow> json_members lib names ptr ms (\<lambda>_. None)
     | Some JNull \<Rightarrow> Some (\<lambda>_. None)
     | _ \<Rightarrow> None)"

definition str_field :: "(string \<Rightarrow> string option) \<Rightarrow> string \<Rightarrow> string" where
  "str_field st n = (case st n of None \<Rightarrow> '''' | Some s \<Rightarrow> s)"

section \<open>Field validation\<close>

definition minPasswordLength :: nat where
  "minPasswordLength = 8"

definition passwordSpecialChars :: string where
  "passwordSpecialChars = ''!@#$%^&*()_+-=[]{}|;:,.<>?''"

definition otpLength :: nat where
  "otpLength = 6"

definition CodeEmailRequired :: string where
  "CodeEmailRequired = ''email_required''"

definition CodeEmailInvalid :: string where
  "CodeEmailInvalid = ''email_invalid''"

definition CodePasswordRequired :: string where
  "CodePasswordRequired = ''password_required''"

definition CodePasswordTooShort :: string where
  "CodePasswordTooShort = ''password_too_short''"

definition CodePasswordMissingDigit :: string where
  "CodePasswordMissingDigit = ''password_missing_digit''"

definition CodePasswordMissingSpecialChar :: string where
  "CodePasswordMissingSpecialChar = ''password_missing_special_char''"

definition CodeOTPRequired :: string where
  "CodeOTPRequired = ''otp_required''"

definition CodeOTPInvalidFormat :: string where
  "CodeOTPInvalidFormat = ''otp_invalid_format''"

definition CodeSetupTokenRequired :: string where
  "CodeSetupTokenRequired = ''setup_token_required''"

definition CodeChallengeTokenRequired :: string where
  "CodeChallengeTokenRequired = ''challenge_token_required''"

definition CodeCurrentPasswordRequired :: string where
  "CodeCurrentPasswordRequired = ''current_password_required''"

definition CodeConfirmPasswordMismatch :: string where
  "CodeConfirmPasswordMismatch = ''confirm_password_mismatch''"

definition CodeFlowTokenRequired :: string where
  "CodeFlowTokenRequired = ''flow_token_required''"

definition CodeResetTokenRequired :: string where
  "CodeResetTokenRequired = ''reset_token_required''"

text \<open>\<open>unicode.IsDigit\<close>: the Latin-1 range is built in, above it the tables decide.\<close>

definition unicode_IsDigit :: "httplib \<Rightarrow> nat \<Rightarrow> bool" where
  "unicode_IsDigit lib r \<longleftrightarrow> (if r \<le> 255 then 48 \<le> r \<and> r \<le> 57 else hl_IsDigit lib r)"

definition validateEmail :: "httplib \<Rightarrow> string \<Rightarrow> string" where
  "validateEmail lib email =
     (if strings_TrimSpace (hl_unicode lib) email = '''' then CodeEmailRequired
      else if \<not> hl_ParseAddress lib email then CodeEmailInvalid
      else '''')"

definition containsDigit :: "httplib \<Rightarrow> string \<Rightarrow> bool" where
  "containsDigit lib s = list_ex (unicode_IsDigit lib) (range_string s)"

definition validatePassword :: "httplib \<Rightarrow> string \<Rightarrow> string" where
  "validatePassword lib password =
     (if length password < minPasswordLength then CodePasswordTooShort
      else if \<not> containsDigit lib password then CodePasswordMissingDigit
      else if \<not> strings_ContainsAny password passwordSpecialChars then CodePasswordMissingSpecialChar
      else '''')"

definition validateOTPCode :: "string \<Rightarrow> string" where
  "validateOTPCode code =
     (if code = '''' then CodeOTPRequired
      else if length code \<noteq> otpLength then CodeOTPInvalidFormat
      else if list_ex (\<lambda>r. r < 48 \<or> 57 < r) (range_string code) then CodeOTPInvalidFormat
      else '''')"

text \<open>An entry of the \<open>fields\<close> map, or none when the code is empty.\<close>

definition field_error :: "string \<Rightarrow> string \<Rightarrow> (string \<times> string) list" where
  "field_error name code = (if code \<noteq> '''' then [(name, code)] else [])"

definition field_if :: "bool \<Rightarrow> string \<Rightarrow> string \<Rightarrow> (string \<times> string) list" where
  "field_if b name code = (if b then [(name, code)] else [])"

section \<open>The requests of package auth\<close>

record RegisterRequest =
  rg_Email :: string
  rg_Password :: string

definition RegisterRequest_decode :: "httplib \<Rightarrow> string \<Rightarrow> RegisterRequest option" where
  "RegisterRequest_decode lib body = map_option
     (\<lambda>st. \<lparr>rg_Email = str_field st ''email'', rg_Password = str_field st ''password''\<rparr>)
     (json_Decode lib [''email'', ''password''] (\<lambda>_. False) body)"

definition RegisterRequest_Validate :: "httplib \<Rightarrow> RegisterRequest \<Rightarrow> (string \<times> string) list" where
  "RegisterRequest_Validate lib r =
     field_error ''email'' (validateEmail lib (rg_Email r)) @
     field_error ''password'' (validatePassword lib (rg_Password r))"

record LoginRequest =
  lg_Email :: string
  lg_Password :: string

definition LoginRequest_decode :: "httplib \<Rightarrow> string \<Rightarrow> LoginRequest option" where
  "LoginRequest_decode lib body = map_option
     (\<lambda>st. \<lparr>lg_Email = str_field st ''email'', lg_Password = str_field st ''password''\<rparr>)
     (json_Decode lib [''email'', ''password''] (\<lambda>_. False) body)"

definition LoginRequest_Validate :: "httplib \<Rightarrow> LoginRequest \<Rightarrow> (string \<times> string) list" where
  "LoginRequest_Validate lib r =
     field_error ''email'' (validateEmail lib (lg_Email r)) @
     field_if (lg_Password r = '''') ''password'' CodePasswordRequired"

record SetupVerifyRequest =
  sv_SetupToken :: string
  sv_OTP :: string

definition SetupVerifyRequest_decode :: "httplib \<Rightarrow> string \<Rightarrow> SetupVerifyRequest option" where
  "SetupVerifyRequest_decode lib body = map_option
     (\<lambda>st. \<lparr>sv_SetupToken = str_field st ''setupToken'', sv_OTP = str_field st ''otp''\<rparr>)
     (json_Decode lib [''setupToken'', ''otp''] (\<lambda>_. False) body)"

definition SetupVerifyRequest_Validate :: "httplib \<Rightarrow> SetupVerifyRequest \<Rightarrow> (string \<times> string) list" where
  "SetupVerifyRequest_Validate lib r =
     field_if (strings_TrimSpace (hl_unicode lib) (sv_SetupToken r) = '''') ''setupToken'' CodeSetupTokenRequired @
     field_error ''otp'' (validateOTPCode (sv_OTP r))"

record LoginVerifyOTPRequest =
  lv_ChallengeToken :: string
  lv_OTP :: string

definition LoginVerifyOTPRequest_decode :: "httplib \<Rightarrow> string \<Rightarrow> LoginVerifyOTPRequest option" where
  "LoginVerifyOTPRequest_decode lib body = map_option
     (\<lambda>st. \<lparr>lv_ChallengeToken = str_field st ''challengeToken'', lv_OTP = str_field st ''otp''\<rparr>)
     (json_Decode lib [''challengeToken'', ''otp''] (\<lambda>_. False) body)"

definition LoginVerifyOTPRequest_Validate :: "httplib \<Rightarrow> LoginVerifyOTPRequest \<Rightarrow> (string \<times> string) list" where
  "LoginVerifyOTPRequest_Validate lib r =
     field_if (strings_TrimSpace (hl_unicode lib) (lv_ChallengeToken r) = '''') ''challengeToken'' CodeChallengeTokenRequired @
     field_error ''otp'' (validateOTPCode (lv_OTP r))"

record ChangePasswordRequest =
  cq_CurrentPassword :: string
  cq_NewPassword :: string
  cq_OTP :: string

definition ChangePasswordRequest_decode :: "httplib \<Rightarrow> string \<Rightarrow> ChangePasswordRequest option" where
  "ChangePasswordRequest_decode lib body = map_option
     (\<lambda>st. \<lparr>cq_CurrentPassword = str_field st ''currentPassword'', cq_NewPassword = str_field st ''newPassword'',
            cq_OTP = str_field st ''otp''\<rparr>)
     (json_Decode lib [''currentPassword'', ''newPassword'', ''otp''] (\<lambda>_. False) body)"

definition ChangePasswordRequest_Validate :: "httplib \<Rightarrow> ChangePasswordRequest \<Rightarrow> (string \<times> string) list" where
  "ChangePasswordRequest_Validate lib r =
     field_if (cq_CurrentPassword r = '''') ''currentPassword'' CodeCurrentPasswordRequired @
     field_error ''newPassword'' (validatePassword lib (cq_NewPassword r)) @
     field_error ''otp'' (validateOTPCode (cq_OTP r))"

record PasswordResetRequestRequest =
  pq_Email :: string

definition PasswordResetRequestRequest_decode :: "httplib \<Rightarrow> string \<Rightarrow> PasswordResetRequestRequest option" where
  "PasswordResetRequestRequest_decode lib body = map_option (\<lambda>st. \<lparr>pq_Email = str_field st ''email''\<rparr>)
     (json_Decode lib [''email''] (\<lambda>_. False) body)"

definition PasswordResetRequestRequest_Validate :: "httplib \<Rightarrow> PasswordResetRequestRequest \<Rightarrow> (string \<times> string) list" where
  "PasswordResetRequestRequest_Validate lib r = field_error ''email'' (validateEmail lib (pq_Email r))"

record PasswordResetVerifyOTPRequest =
  pv_FlowToken :: string
  pv_OTP :: string

definition PasswordResetVerifyOTPRequest_decode :: "httplib \<Rightarrow> string \<Rightarrow> PasswordResetVerifyOTPRequest option" where
  "PasswordResetVerifyOTPRequest_decode lib body = map_option
     (\<lambda>st. \<lparr>pv_FlowToken = str_field st ''flowToken'', pv_OTP = str_field st ''otp''\<rparr>)
     (json_Decode lib [''flowToken'', ''otp''] (\<lambda>_. False) body)"

definition PasswordResetVerifyOTPRequest_Validate ::
  "httplib \<Rightarrow> PasswordResetVerifyOTPRequest \<Rightarrow> (string \<times> string) list" where
  "PasswordResetVerifyOTPRequest_Validate lib r =
     field_if (strings_TrimSpace (hl_unicode lib) (pv_FlowToken r) = '''') ''flowToken'' CodeFlowTokenRequired @
     field_error ''otp'' (validateOTPCode (pv_OTP r))"

record PasswordResetConfirmRequest =
  pc_ResetToken :: string
  pc_NewPassword :: string
  pc_ConfirmPassword :: string

definition PasswordResetConfirmRequest_decode :: "httplib \<Rightarrow> string \<Rightarrow> PasswordResetConfirmRequest option" where
  "PasswordResetConfirmRequest_decode lib body = map_option
     (\<lambda>st. \<lparr>pc_ResetToken = str_field st ''resetToken'', pc_NewPassword = str_field st ''newPassword'',
            pc_ConfirmPassword = str_field st ''confirmPassword''\<rparr>)
     (json_Decode lib [''resetToken'', ''newPassword'', ''confirmPassword''] (\<lambda>_. False) body)"

definition PasswordResetConfirmRequest_Validate :: "httplib \<Rightarrow> PasswordResetConfirmRequest \<Rightarrow> (string \<times> string) list" where
  "PasswordResetConfirmRequest_Validate lib r =
     field_if (strings_TrimSpace (hl_unicode lib) (pc_ResetToken r) = '''') ''resetToken'' CodeResetTokenRequired @
     field_error ''newPassword'' (validatePassword lib (pc_NewPassword r)) @
     field_if (pc_NewPassword r \<noteq> pc_ConfirmPassword r) ''confirmPassword'' CodeConfirmPasswordMismatch"

section \<open>The requests of package profile\<close>

definition maxFirstNameLength :: nat where
  "maxFirstNameLength = 100"

definition maxLastNameLength :: nat where
  "maxLastNameLength = 100"

definition profile_otpLength :: nat where
  "profile_otpLength = 6"

definition profile_CodeFirstNameRequired :: string where
  "profile_CodeFirstNameRequired = ''first_name_required''"

definition profile_CodeFirstNameTooLong :: string where
  "profile_CodeFirstNameTooLong = ''first_name_too_long''"

definition profile_CodeLastNameRequired :: string where
  "profile_CodeLastNameRequired = ''last_name_required''"

definition profile_CodeLastNameTooLong :: string where
  "profile_CodeLastNameTooLong = ''last_name_too_long''"

definition profile_CodeAvatarInvalid :: string where
  "profile_CodeAvatarInvalid = ''avatar_invalid''"

definition profile_CodeOTPRequired :: string where
  "profile_CodeOTPRequired = ''otp_required''"

definition profile_CodeOTPInvalidFormat :: string where
  "profile_CodeOTPInvalidFormat = ''otp_invalid_format''"

definition profile_validateOTP :: "string \<Rightarrow> string" where
  "profile_validateOTP code =
     (if code = '''' then profile_CodeOTPRequired
      else if length code \<noteq> profile_otpLength then profile_CodeOTPInvalidFormat
      else if list_ex (\<lambda>r. r < 48 \<or> 57 < r) (range_string code) then profile_CodeOTPInvalidFormat
      else '''')"

record UpdateProfileRequest =
  uq_FirstName :: string
  uq_LastName :: string
  uq_Avatar :: "string option"

definition UpdateProfileRequest_decode :: "httplib \<Rightarrow> string \<Rightarrow> UpdateProfileRequest option" where
  "UpdateProfileRequest_decode lib body = map_option
     (\<lambda>st. \<lparr>uq_FirstName = str_field st ''firstName'', uq_LastName = str_field st ''lastName'', uq_Avatar = st ''avatar''\<rparr>)
     (json_Decode lib [''firstName'', ''lastName'', ''avatar''] (\<lambda>n. n = ''avatar'') body)"

definition UpdateProfileRequest_Validate :: "httplib \<Rightarrow> UpdateProfileRequest \<Rightarrow> (string \<times> string) list" where
  "UpdateProfileRequest_Validate lib r =
     (let name = strings_TrimSpace (hl_unicode lib) (uq_FirstName r);
          last = strings_TrimSpace (hl_unicode lib) (uq_LastName r)
      in (if name = '''' then [(''firstName'', profile_CodeFirstNameRequired)]
          else if maxFirstNameLength < length name then [(''firstName'', profile_CodeFirstNameTooLong)] else []) @
         (if last = '''' then [(''lastName'', profile_CodeLastNameRequired)]
          else if maxLastNameLength < length last then [(''lastName'', profile_CodeLastNameTooLong)] else []) @
         (case uq_Avatar r of
            None \<Rightarrow> []
          | Some a \<Rightarrow> if a \<noteq> '''' \<and> hl_uuid_Parse lib a = None then [(''avatar'', profile_CodeAvatarInvalid)] else []))"

record DeleteAccountRequest =
  dq_OTP :: string

definition DeleteAccountRequest_decode :: "httplib \<Rightarrow> string \<Rightarrow> DeleteAccountRequest option" where
  "DeleteAccountRequest_decode lib body = map_option (\<lambda>st. \<lparr>dq_OTP = str_field st ''otp''\<rparr>)
     (json_Decode lib [''otp''] (\<lambda>_. False) body)"

definition DeleteAccountRequest_Validate :: "httplib \<Rightarrow> DeleteAccountRequest \<Rightarrow> (string \<times> string) list" where
  "DeleteAccountRequest_Validate lib r = field_error ''otp'' (profile_validateOTP (dq_OTP r))"

section \<open>What validation lets through\<close>

definition six_digits :: "string \<Rightarrow> bool" where
  "six_digits code \<longleftrightarrow> length code = 6 \<and> set code \<subseteq> set ''0123456789''"

lemma digit_bytes: "c \<in> set ''0123456789'' \<longleftrightarrow> byte_of c \<in> {48..57}"
proof
  assume "byte_of c \<in> {48..57}"
  then have "byte_of c \<in> {48, 49, 50, 51, 52, 53, 54, 55, 56, 57}" by (simp, presburger)
  moreover have "c = char_of (byte_of c)" by (simp add: byte_of_def)
  ultimately show "c \<in> set ''0123456789''" by (auto simp: char_of_def bit_0)
qed (auto simp: byte_of_def)

lemma digit_runes: "\<not> list_ex (\<lambda>r. r < 48 \<or> 57 < r) (range_string s) \<longleftrightarrow> set s \<subseteq> set ''0123456789''"
proof -
  have "\<not> list_ex (\<lambda>r. r < 48 \<or> 57 < r) (range_string s) \<longleftrightarrow> (\<forall>r \<in> set (range_string s). r \<in> {48..57})"
    by (auto simp: list_ex_iff)
  also have "\<dots> \<longleftrightarrow> (\<forall>b \<in> set (map byte_of s). b \<in> {48..57})"
    unfolding range_string_def by (rule runes_below_128) auto
  also have "\<dots> \<longleftrightarrow> (\<forall>c \<in> set s. c \<in> set ''0123456789'')"
    unfolding digit_bytes by (simp only: set_map ball_simps)
  finally show ?thesis by (simp only: subset_eq)
qed

lemma validateOTPCode_iff: "validateOTPCode code = '''' \<longleftrightarrow> six_digits code"
  using digit_runes [of code]
  by (auto simp: validateOTPCode_def six_digits_def otpLength_def CodeOTPRequired_def CodeOTPInvalidFormat_def)

lemma profile_validateOTP_iff: "profile_validateOTP code = '''' \<longleftrightarrow> six_digits code"
  using digit_runes [of code]
  by (auto simp: profile_validateOTP_def six_digits_def profile_otpLength_def profile_CodeOTPRequired_def
      profile_CodeOTPInvalidFormat_def)

end
