(* ===== verification/Handlers.thy ===== *)
theory Handlers
  imports Requests Service_Errors
begin

text \<open>
  The HTTP handlers of \<open>transport/http/auth\<close> and \<open>transport/http/profile\<close>. What a
  handler does to its \<open>ResponseWriter\<close> is the list of its calls, in order: the
  functions of \<open>beebase-common/httpx\<close> appear as constructors, without a model
  of their own. A handler takes the request and the world and returns these
  calls with the new world.
\<close>

section \<open>Responses\<close>

record UserResponse =
  ur_ID :: uuid
  ur_Email :: string
  ur_CreatedAt :: time

record SessionResponse =
  sr_AccessToken :: string
  sr_AccessTokenExpiresAt :: int
  sr_RefreshTokenExpiresAt :: int
  sr_User :: UserResponse

definition newSessionResponse :: "Session \<Rightarrow> SessionResponse" where
  "newSessionResponse s =
     \<lparr>sr_AccessToken = se_AccessToken s,
      sr_AccessTokenExpiresAt = time_Unix (se_AccessTokenExpiresAt s),
      sr_RefreshTokenExpiresAt = time_Unix (se_RefreshTokenExpiresAt s),
      sr_User = \<lparr>ur_ID = se_UserID s, ur_Email = se_Email s, ur_CreatedAt = se_CreatedAt s\<rparr>\<rparr>"

definition newUserResponse :: "user \<Rightarrow> UserResponse" where
  "newUserResponse u = \<lparr>ur_ID = u_ID u, ur_Email = u_Email u, ur_CreatedAt = u_CreatedAt u\<rparr>"

record TOTPSetupResponse =
  ts_Status :: string
  ts_SetupToken :: string
  ts_OtpauthURI :: string
  ts_Secret :: string
  ts_ExpiresAt :: int

definition newTOTPSetupResponseFromRegister :: "RegisterResult \<Rightarrow> TOTPSetupResponse" where
  "newTOTPSetupResponseFromRegister r =
     \<lparr>ts_Status = LoginStatusTOTPSetupRequired, ts_SetupToken = rr_SetupToken r, ts_OtpauthURI = rr_OtpauthURI r,
      ts_Secret = rr_Secret r, ts_ExpiresAt = time_Unix (rr_ExpiresAt r)\<rparr>"

definition newTOTPSetupResponseFromLogin :: "LoginResult \<Rightarrow> TOTPSetupResponse" where
  "newTOTPSetupResponseFromLogin r =
     \<lparr>ts_Status = lr_Status r, ts_SetupToken = lr_SetupToken r, ts_OtpauthURI = lr_OtpauthURI r,
      ts_Secret = lr_Secret r, ts_ExpiresAt = time_Unix (lr_ExpiresAt r)\<rparr>"

record LoginOTPRequiredResponse =
  lo_Status :: string
  lo_ChallengeToken :: string
  lo_ExpiresAt :: int

definition newLoginOTPRequiredResponse :: "LoginResult \<Rightarrow> LoginOTPRequiredResponse" where
  "newLoginOTPRequiredResponse r =
     \<lparr>lo_Status = lr_Status r, lo_ChallengeToken = lr_ChallengeToken r, lo_ExpiresAt = time_Unix (lr_ExpiresAt r)\<rparr>"

record PasswordResetRequestedResponse =
  pp_FlowToken :: string
  pp_ExpiresAt :: int

definition newPasswordResetRequestedResponse :: "PasswordResetRequestResult \<Rightarrow> PasswordResetRequestedResponse" where
  "newPasswordResetRequestedResponse r = \<lparr>pp_FlowToken = pr_FlowToken r, pp_ExpiresAt = time_Unix (pr_ExpiresAt r)\<rparr>"

record PasswordResetOTPVerifiedResponse =
  pw_ResetToken :: string
  pw_ExpiresAt :: int

definition newPasswordResetOTPVerifiedResponse :: "PasswordResetOTPResult \<Rightarrow> PasswordResetOTPVerifiedResponse" where
  "newPasswordResetOTPVerifiedResponse r = \<lparr>pw_ResetToken = po_ResetToken r, pw_ExpiresAt = time_Unix (po_ExpiresAt r)\<rparr>"

record ProfileResponse =
  pf_ID :: uuid
  pf_Email :: string
  pf_FirstName :: string
  pf_LastName :: string
  pf_Avatar :: "uuid option"

definition profile_newResponse :: "user \<Rightarrow> ProfileResponse" where
  "profile_newResponse u =
     \<lparr>pf_ID = u_ID u, pf_Email = u_Email u, pf_FirstName = u_FirstName u, pf_LastName = u_LastName u,
      pf_Avatar = u_AvatarMediaID u\<rparr>"

section \<open>What a handler writes\<close>

datatype http_body =
    BodySession SessionResponse
  | BodyUser UserResponse
  | BodyTOTPSetup TOTPSetupResponse
  | BodyLoginOTPRequired LoginOTPRequiredResponse
  | BodyResetRequested PasswordResetRequestedResponse
  | BodyResetVerified PasswordResetOTPVerifiedResponse
  | BodyProfile ProfileResponse
  | BodyStatus string

record CookieOptions =
  co_Domain :: string
  co_Secure :: bool
  co_SameSiteLax :: bool

datatype http_write =
    WriteJSON int http_body
  | WriteError int string string
  | WriteValidationError "(string \<times> string) list"
  | WriteInternalError goerror
  | WriteHeader int
  | SetCookie string string string time CookieOptions
  | ClearCookie string string CookieOptions

record http_request =
  rq_Body :: string
  rq_Cookie :: "string \<Rightarrow> string option"
  rq_Authorization :: string
  rq_UserID :: "uuid option"

type_synonym 'x served = "'x world \<Rightarrow> http_write list \<times> 'x world"

definition StatusOK :: int where
  "StatusOK = 200"

definition StatusCreated :: int where
  "StatusCreated = 201"

definition StatusNoContent :: int where
  "StatusNoContent = 204"

definition StatusBadRequest :: int where
  "StatusBadRequest = 400"

definition StatusUnauthorized :: int where
  "StatusUnauthorized = 401"

definition StatusNotFound :: int where
  "StatusNotFound = 404"

definition StatusConflict :: int where
  "StatusConflict = 409"

definition StatusTooManyRequests :: int where
  "StatusTooManyRequests = 429"

definition StatusServiceUnavailable :: int where
  "StatusServiceUnavailable = 503"


definition respond :: "http_write list \<Rightarrow> 'x served" where
  "respond ws = (\<lambda>w. (ws, w))"

text \<open>The call of a use case: its error goes to \<open>writeServiceError\<close>, its result to the response.\<close>

definition serve :: "('x world, 'a) comp \<Rightarrow> (goerror \<Rightarrow> http_write list) \<Rightarrow> ('a \<Rightarrow> http_write list) \<Rightarrow> 'x served" where
  "serve m onError onResult = (\<lambda>w. case m w of
       (Inl e, w') \<Rightarrow> (onError e, w')
     | (Inr x, w') \<Rightarrow> (onResult x, w'))"

text \<open>The response of a request that was not accepted, or the decoded request.\<close>

definition decodeAndValidate ::
  "httplib \<Rightarrow> (httplib \<Rightarrow> string \<Rightarrow> 'q option) \<Rightarrow> (httplib \<Rightarrow> 'q \<Rightarrow> (string \<times> string) list) \<Rightarrow> http_request \<Rightarrow>
     http_write list + 'q" where
  "decodeAndValidate lib decode Validate r = (case decode lib (rq_Body r) of
       None \<Rightarrow> Inl [WriteError StatusBadRequest (hl_CodeInvalidBody lib) ''request body must be valid JSON'']
     | Some q \<Rightarrow>
         (let fields = Validate lib q in
          if length fields > 0 then Inl [WriteValidationError fields] else Inr q))"

definition with_body ::
  "httplib \<Rightarrow> (httplib \<Rightarrow> string \<Rightarrow> 'q option) \<Rightarrow> (httplib \<Rightarrow> 'q \<Rightarrow> (string \<times> string) list) \<Rightarrow> http_request \<Rightarrow>
     ('q \<Rightarrow> 'x served) \<Rightarrow> 'x served" where
  "with_body lib decode Validate r k = (case decodeAndValidate lib decode Validate r of
       Inl ws \<Rightarrow> respond ws
     | Inr q \<Rightarrow> k q)"

section \<open>Package auth\<close>

definition CodeEmailTaken :: string where
  "CodeEmailTaken = ''email_taken''"

definition CodeUserNotFound :: string where
  "CodeUserNotFound = ''user_not_found''"

definition CodeInvalidCredentials :: string where
  "CodeInvalidCredentials = ''invalid_credentials''"

definition CodeInvalidRefreshToken :: string where
  "CodeInvalidRefreshToken = ''invalid_refresh_token''"

definition CodeOTPInvalid :: string where
  "CodeOTPInvalid = ''otp_invalid''"

definition CodeOTPLocked :: string where
  "CodeOTPLocked = ''otp_locked''"

definition CodeSetupTokenInvalid :: string where
  "CodeSetupTokenInvalid = ''totp_setup_token_invalid''"

definition CodeChallengeInvalid :: string where
  "CodeChallengeInvalid = ''login_challenge_invalid''"

definition CodeCurrentPasswordInvalid :: string where
  "CodeCurrentPasswordInvalid = ''current_password_invalid''"

definition CodePasswordResetFlowInvalid :: string where
  "CodePasswordResetFlowInvalid = ''password_reset_flow_invalid''"

definition CodePasswordResetTokenInvalid :: string where
  "CodePasswordResetTokenInvalid = ''password_reset_token_invalid''"

definition refreshTokenCookieName :: string where
  "refreshTokenCookieName = ''refreshToken''"

definition refreshTokenCookiePath :: string where
  "refreshTokenCookiePath = ''/api/v1/auth''"

record 'x auth_handler =
  hd_service :: "'x service"
  hd_cookie :: CookieOptions

definition setRefreshCookie :: "'x auth_handler \<Rightarrow> Session \<Rightarrow> http_write list" where
  "setRefreshCookie h session =
     [SetCookie refreshTokenCookieName (se_RefreshToken session) refreshTokenCookiePath
        (se_RefreshTokenExpiresAt session) (hd_cookie h)]"

definition clearRefreshCookie :: "'x auth_handler \<Rightarrow> http_write list" where
  "clearRefreshCookie h = [ClearCookie refreshTokenCookieName refreshTokenCookiePath (hd_cookie h)]"

definition refreshTokenFromCookie :: "http_request \<Rightarrow> http_write list + string" where
  "refreshTokenFromCookie r = (case rq_Cookie r refreshTokenCookieName of
       None \<Rightarrow> Inl [WriteError StatusUnauthorized CodeInvalidRefreshToken ''invalid or expired refresh token'']
     | Some v \<Rightarrow>
         if v = '''' then Inl [WriteError StatusUnauthorized CodeInvalidRefreshToken ''invalid or expired refresh token'']
         else Inr v)"

definition writeServiceError :: "goerror \<Rightarrow> http_write list" where
  "writeServiceError err =
     (if errors_Is err User_ErrEmailTaken
        then [WriteError StatusConflict CodeEmailTaken ''an account with this email already exists'']
      else if errors_Is err User_ErrNotFound
        then [WriteError StatusNotFound CodeUserNotFound ''user not found'']
      else if errors_Is err ErrInvalidCredentials
        then [WriteError StatusUnauthorized CodeInvalidCredentials ''invalid email or password'']
      else if errors_Is err ErrInvalidRefreshToken
        then [WriteError StatusUnauthorized CodeInvalidRefreshToken ''invalid or expired refresh token'']
      else if errors_Is err ErrOTPInvalid
        then [WriteError StatusBadRequest CodeOTPInvalid ''invalid otp code'']
      else if errors_Is err ErrOTPLocked
        then [WriteError StatusTooManyRequests CodeOTPLocked ''too many failed otp attempts'']
      else if errors_Is err ErrSetupTokenInvalid
        then [WriteError StatusUnauthorized CodeSetupTokenInvalid ''invalid or expired setup token'']
      else if errors_Is err ErrChallengeInvalid
        then [WriteError StatusUnauthorized CodeChallengeInvalid ''invalid or expired login challenge'']
      else if errors_Is err ErrCurrentPasswordInvalid
        then [WriteError StatusUnauthorized CodeCurrentPasswordInvalid ''current password is incorrect'']
      else if errors_Is err ErrPasswordResetFlowInvalid
        then [WriteError StatusBadRequest CodePasswordResetFlowInvalid ''invalid or expired password reset flow'']
      else if errors_Is err ErrPasswordResetTokenInvalid
        then [WriteError StatusBadRequest CodePasswordResetTokenInvalid ''invalid or expired password reset token'']
      else [WriteInternalError err])"

text \<open>The response without a user id in the context, shared by the handlers behind \<open>RequireAuth\<close>.\<close>

definition missing_auth :: "httplib \<Rightarrow> http_write list" where
  "missing_auth lib = [WriteError StatusUnauthorized (hl_CodeMissingAuthorization lib) ''missing authentication'']"

definition Handler_Register :: "httplib \<Rightarrow> 'x auth_handler \<Rightarrow> http_request \<Rightarrow> 'x served" where
  "Handler_Register lib h r =
     with_body lib RegisterRequest_decode RegisterRequest_Validate r (\<lambda>req.
     serve (Register (hd_service h) \<lparr>ri_Email = rg_Email req, ri_Password = rg_Password req\<rparr>) writeServiceError
       (\<lambda>result. [WriteJSON StatusCreated (BodyTOTPSetup (newTOTPSetupResponseFromRegister result))]))"

definition Handler_Login :: "httplib \<Rightarrow> 'x auth_handler \<Rightarrow> http_request \<Rightarrow> 'x served" where
  "Handler_Login lib h r =
     with_body lib LoginRequest_decode LoginRequest_Validate r (\<lambda>req.
     serve (Login (hd_service h) \<lparr>li_Email = lg_Email req, li_Password = lg_Password req\<rparr>) writeServiceError
       (\<lambda>result.
          if lr_Status result = LoginStatusOTPRequired
          then [WriteJSON StatusOK (BodyLoginOTPRequired (newLoginOTPRequiredResponse result))]
          else [WriteJSON StatusOK (BodyTOTPSetup (newTOTPSetupResponseFromLogin result))]))"

definition Handler_SetupVerifyOTP :: "httplib \<Rightarrow> 'x auth_handler \<Rightarrow> http_request \<Rightarrow> 'x served" where
  "Handler_SetupVerifyOTP lib h r =
     with_body lib SetupVerifyRequest_decode SetupVerifyRequest_Validate r (\<lambda>req.
     serve (SetupVerifyOTP (hd_service h) (sv_SetupToken req) (sv_OTP req)) writeServiceError
       (\<lambda>session. setRefreshCookie h session @ [WriteJSON StatusOK (BodySession (newSessionResponse session))]))"

definition Handler_LoginVerifyOTP :: "httplib \<Rightarrow> 'x auth_handler \<Rightarrow> http_request \<Rightarrow> 'x served" where
  "Handler_LoginVerifyOTP lib h r =
     with_body lib LoginVerifyOTPRequest_decode LoginVerifyOTPRequest_Validate r (\<lambda>req.
     serve (LoginVerifyOTP (hd_service h) (lv_ChallengeToken req) (lv_OTP req)) writeServiceError
       (\<lambda>session. setRefreshCookie h session @ [WriteJSON StatusOK (BodySession (newSessionResponse session))]))"

definition Handler_ChangePassword :: "httplib \<Rightarrow> 'x auth_handler \<Rightarrow> http_request \<Rightarrow> 'x served" where
  "Handler_ChangePassword lib h r = (case rq_UserID r of
       None \<Rightarrow> respond (missing_auth lib)
     | Some userID \<Rightarrow>
         with_body lib ChangePasswordRequest_decode ChangePasswordRequest_Validate r (\<lambda>req.
         serve (ChangePassword (hd_service h) userID
             \<lparr>cp_CurrentPassword = cq_CurrentPassword req, cp_NewPassword = cq_NewPassword req, cp_OTP = cq_OTP req\<rparr>)
           writeServiceError (\<lambda>_. [WriteHeader StatusNoContent])))"

definition Handler_RequestPasswordReset :: "httplib \<Rightarrow> 'x auth_handler \<Rightarrow> http_request \<Rightarrow> 'x served" where
  "Handler_RequestPasswordReset lib h r =
     with_body lib PasswordResetRequestRequest_decode PasswordResetRequestRequest_Validate r (\<lambda>req.
     serve (RequestPasswordReset (hd_service h) (pq_Email req)) writeServiceError
       (\<lambda>result. [WriteJSON StatusOK (BodyResetRequested (newPasswordResetRequestedResponse result))]))"

definition Handler_VerifyPasswordResetOTP :: "httplib \<Rightarrow> 'x auth_handler \<Rightarrow> http_request \<Rightarrow> 'x served" where
  "Handler_VerifyPasswordResetOTP lib h r =
     with_body lib PasswordResetVerifyOTPRequest_decode PasswordResetVerifyOTPRequest_Validate r (\<lambda>req.
     serve (VerifyPasswordResetOTP (hd_service h) (pv_FlowToken req) (pv_OTP req)) writeServiceError
       (\<lambda>result. [WriteJSON StatusOK (BodyResetVerified (newPasswordResetOTPVerifiedResponse result))]))"

definition Handler_ConfirmPasswordReset :: "httplib \<Rightarrow> 'x auth_handler \<Rightarrow> http_request \<Rightarrow> 'x served" where
  "Handler_ConfirmPasswordReset lib h r =
     with_body lib PasswordResetConfirmRequest_decode PasswordResetConfirmRequest_Validate r (\<lambda>req.
     serve (ConfirmPasswordReset (hd_service h) (pc_ResetToken req) (pc_NewPassword req)) writeServiceError
       (\<lambda>_. [WriteHeader StatusNoContent]))"

definition Handler_Refresh :: "'x auth_handler \<Rightarrow> http_request \<Rightarrow> 'x served" where
  "Handler_Refresh h r = (case refreshTokenFromCookie r of
       Inl ws \<Rightarrow> respond ws
     | Inr rawToken \<Rightarrow>
         serve (Refresh (hd_service h) rawToken) writeServiceError
           (\<lambda>session. setRefreshCookie h session @ [WriteJSON StatusOK (BodySession (newSessionResponse session))]))"

definition Handler_Logout :: "'x auth_handler \<Rightarrow> http_request \<Rightarrow> 'x served" where
  "Handler_Logout h r = (case refreshTokenFromCookie r of
       Inl ws \<Rightarrow> respond ws
     | Inr rawToken \<Rightarrow>
         serve (Logout (hd_service h) rawToken) writeServiceError
           (\<lambda>_. clearRefreshCookie h @ [WriteHeader StatusNoContent]))"

definition Handler_Me :: "httplib \<Rightarrow> 'x auth_handler \<Rightarrow> http_request \<Rightarrow> 'x served" where
  "Handler_Me lib h r = (case rq_UserID r of
       None \<Rightarrow> respond (missing_auth lib)
     | Some userID \<Rightarrow>
         serve (CurrentUser userID) writeServiceError (\<lambda>u. [WriteJSON StatusOK (BodyUser (newUserResponse u))]))"

section \<open>Package profile\<close>

definition profile_CodeUserNotFound :: string where
  "profile_CodeUserNotFound = ''user_not_found''"

definition profile_CodeAvatarNotFound :: string where
  "profile_CodeAvatarNotFound = ''avatar_not_found''"

definition profile_CodeOTPInvalid :: string where
  "profile_CodeOTPInvalid = ''otp_invalid''"

definition profile_CodeOTPLocked :: string where
  "profile_CodeOTPLocked = ''otp_locked''"

definition profile_writeServiceError :: "goerror \<Rightarrow> http_write list" where
  "profile_writeServiceError err =
     (if errors_Is err User_ErrNotFound
        then [WriteError StatusNotFound profile_CodeUserNotFound ''user not found'']
      else if errors_Is err ErrAvatarNotFound
        then [WriteValidationError [(''avatar'', profile_CodeAvatarNotFound)]]
      else if errors_Is err ErrOTPInvalid
        then [WriteError StatusBadRequest profile_CodeOTPInvalid ''invalid otp code'']
      else if errors_Is err ErrOTPLocked
        then [WriteError StatusTooManyRequests profile_CodeOTPLocked ''too many failed otp attempts'']
      else [WriteInternalError err])"

definition requireUserID :: "httplib \<Rightarrow> http_request \<Rightarrow> http_write list + uuid" where
  "requireUserID lib r = (case rq_UserID r of
       None \<Rightarrow> Inl [WriteError StatusUnauthorized (hl_CodeMissingAuthorization lib) ''missing authentication'']
     | Some userID \<Rightarrow> Inr userID)"

definition requireAuth :: "httplib \<Rightarrow> http_request \<Rightarrow> http_write list + (uuid \<times> string)" where
  "requireAuth lib r = (case requireUserID lib r of
       Inl ws \<Rightarrow> Inl ws
     | Inr userID \<Rightarrow> Inr (userID, strings_TrimPrefix (rq_Authorization r) ''Bearer ''))"

definition Handler_Get :: "httplib \<Rightarrow> http_request \<Rightarrow> 'x served" where
  "Handler_Get lib r = (case requireUserID lib r of
       Inl ws \<Rightarrow> respond ws
     | Inr userID \<Rightarrow>
         serve (CurrentUser userID) profile_writeServiceError
           (\<lambda>u. [WriteJSON StatusOK (BodyProfile (profile_newResponse u))]))"

text \<open>
  The avatar the request asks for. \<open>Validate\<close> has parsed a non-empty id before;
  \<open>uuid.Parse\<close> returns the nil id with an error.
\<close>

definition requestedAvatar :: "httplib \<Rightarrow> UpdateProfileRequest \<Rightarrow> AvatarChange option" where
  "requestedAvatar lib req = (case uq_Avatar req of
       None \<Rightarrow> None
     | Some a \<Rightarrow>
         if a = '''' then Some \<lparr>ac_MediaID = None\<rparr>
         else Some \<lparr>ac_MediaID = Some (case hl_uuid_Parse lib a of Some i \<Rightarrow> i | None \<Rightarrow> uuid_Nil)\<rparr>)"

definition Handler_Update :: "httplib \<Rightarrow> 'x service \<Rightarrow> http_request \<Rightarrow> 'x served" where
  "Handler_Update lib s r = (case requireAuth lib r of
       Inl ws \<Rightarrow> respond ws
     | Inr (userID, token) \<Rightarrow>
         with_body lib UpdateProfileRequest_decode UpdateProfileRequest_Validate r (\<lambda>req.
         serve (UpdateProfile s userID token
             \<lparr>up_FirstName = strings_TrimSpace (hl_unicode lib) (uq_FirstName req),
              up_LastName = strings_TrimSpace (hl_unicode lib) (uq_LastName req),
              up_Avatar = requestedAvatar lib req\<rparr>)
           profile_writeServiceError (\<lambda>updated. [WriteJSON StatusOK (BodyProfile (profile_newResponse updated))])))"

definition Handler_Delete :: "httplib \<Rightarrow> 'x service \<Rightarrow> http_request \<Rightarrow> 'x served" where
  "Handler_Delete lib s r = (case requireAuth lib r of
       Inl ws \<Rightarrow> respond ws
     | Inr (userID, token) \<Rightarrow>
         with_body lib DeleteAccountRequest_decode DeleteAccountRequest_Validate r (\<lambda>req.
         serve (DeleteAccount s userID token (dq_OTP req)) profile_writeServiceError
           (\<lambda>_. [WriteHeader StatusNoContent])))"

section \<open>Health\<close>

definition HealthHandler :: "'x served" where
  "HealthHandler = respond [WriteJSON StatusOK (BodyStatus ''ok'')]"

text \<open>\<open>db.Ping\<close> is an infrastructure call that can fail.\<close>

definition ReadyHandler :: "'x served" where
  "ReadyHandler = serve (fallible (ret ()))
     (\<lambda>_. [WriteJSON StatusServiceUnavailable (BodyStatus ''unavailable'')])
     (\<lambda>_. [WriteJSON StatusOK (BodyStatus ''ok'')])"

end
