(* ===== verification/Router.thy ===== *)
theory Router
  imports Handlers
begin

text \<open>
  The route table of \<open>transport/http/router.go\<close>. Matching a request against
  the table, the middleware stack and the answer to a request that matches no
  route are the library's; \<open>RequireAuth\<close> of \<open>beebase-common\<close> and the JWKS handler
  are parameters. What is modelled is which handler a route reaches, and with
  which user id in its context.
\<close>

datatype endpoint =
    EpHealth
  | EpReady
  | EpJWKS
  | EpRegister
  | EpLogin
  | EpRefresh
  | EpLogout
  | EpSetupVerifyOTP
  | EpLoginVerifyOTP
  | EpRequestPasswordReset
  | EpVerifyPasswordResetOTP
  | EpConfirmPasswordReset
  | EpMe
  | EpChangePassword
  | EpProfileGet
  | EpProfileUpdate
  | EpProfileDelete

record route =
  ro_Method :: string
  ro_Path :: string
  ro_RequireAuth :: bool
  ro_Endpoint :: endpoint

definition open_route :: "string \<Rightarrow> string \<Rightarrow> endpoint \<Rightarrow> route" where
  "open_route mth path ep = \<lparr>ro_Method = mth, ro_Path = path, ro_RequireAuth = False, ro_Endpoint = ep\<rparr>"

definition protected_route :: "string \<Rightarrow> string \<Rightarrow> endpoint \<Rightarrow> route" where
  "protected_route mth path ep = \<lparr>ro_Method = mth, ro_Path = path, ro_RequireAuth = True, ro_Endpoint = ep\<rparr>"

definition NewRouter :: "route list" where
  "NewRouter =
     [open_route ''GET'' ''/health'' EpHealth,
      open_route ''GET'' ''/ready'' EpReady,
      open_route ''GET'' ''/.well-known/jwks.json'' EpJWKS,
      open_route ''POST'' ''/api/v1/auth/register'' EpRegister,
      open_route ''POST'' ''/api/v1/auth/login'' EpLogin,
      open_route ''POST'' ''/api/v1/auth/refresh'' EpRefresh,
      open_route ''POST'' ''/api/v1/auth/logout'' EpLogout,
      open_route ''POST'' ''/api/v1/auth/2fa/setup/verify'' EpSetupVerifyOTP,
      open_route ''POST'' ''/api/v1/auth/login/verify-otp'' EpLoginVerifyOTP,
      open_route ''POST'' ''/api/v1/auth/password-reset/request'' EpRequestPasswordReset,
      open_route ''POST'' ''/api/v1/auth/password-reset/verify-otp'' EpVerifyPasswordResetOTP,
      open_route ''POST'' ''/api/v1/auth/password-reset/confirm'' EpConfirmPasswordReset,
      protected_route ''GET'' ''/api/v1/auth/me'' EpMe,
      protected_route ''POST'' ''/api/v1/auth/change-password'' EpChangePassword,
      protected_route ''GET'' ''/api/v1/profile/'' EpProfileGet,
      protected_route ''PUT'' ''/api/v1/profile/'' EpProfileUpdate,
      protected_route ''DELETE'' ''/api/v1/profile/'' EpProfileDelete]"

text \<open>
  What the router is given: the handlers, the JWKS handler and the middleware
  \<open>RequireAuth\<close>, which answers the request itself or passes it on with the id
  of the authenticated user; the session store it asks is part of the
  external state.
\<close>

record 'x router_deps =
  rd_lib :: httplib
  rd_auth :: "'x auth_handler"
  rd_profile :: "'x service"
  rd_jwks :: "http_write list"
  rd_RequireAuth :: "http_request \<Rightarrow> 'x \<Rightarrow> (http_write list + uuid) \<times> 'x"

fun handle :: "'x router_deps \<Rightarrow> endpoint \<Rightarrow> http_request \<Rightarrow> 'x served" where
  "handle d EpHealth r = HealthHandler"
| "handle d EpReady r = ReadyHandler"
| "handle d EpJWKS r = respond (rd_jwks d)"
| "handle d EpRegister r = Handler_Register (rd_lib d) (rd_auth d) r"
| "handle d EpLogin r = Handler_Login (rd_lib d) (rd_auth d) r"
| "handle d EpRefresh r = Handler_Refresh (rd_auth d) r"
| "handle d EpLogout r = Handler_Logout (rd_auth d) r"
| "handle d EpSetupVerifyOTP r = Handler_SetupVerifyOTP (rd_lib d) (rd_auth d) r"
| "handle d EpLoginVerifyOTP r = Handler_LoginVerifyOTP (rd_lib d) (rd_auth d) r"
| "handle d EpRequestPasswordReset r = Handler_RequestPasswordReset (rd_lib d) (rd_auth d) r"
| "handle d EpVerifyPasswordResetOTP r = Handler_VerifyPasswordResetOTP (rd_lib d) (rd_auth d) r"
| "handle d EpConfirmPasswordReset r = Handler_ConfirmPasswordReset (rd_lib d) (rd_auth d) r"
| "handle d EpMe r = Handler_Me (rd_lib d) (rd_auth d) r"
| "handle d EpChangePassword r = Handler_ChangePassword (rd_lib d) (rd_auth d) r"
| "handle d EpProfileGet r = Handler_Get (rd_lib d) r"
| "handle d EpProfileUpdate r = Handler_Update (rd_lib d) (rd_profile d) r"
| "handle d EpProfileDelete r = Handler_Delete (rd_lib d) (rd_profile d) r"

definition serve_route :: "'x router_deps \<Rightarrow> route \<Rightarrow> http_request \<Rightarrow> 'x served" where
  "serve_route d ro r w =
     (if ro_RequireAuth ro then
        (case rd_RequireAuth d r (w_ext w) of
           (Inl ws, x) \<Rightarrow> (ws, w\<lparr>w_ext := x\<rparr>)
         | (Inr userID, x) \<Rightarrow> handle d (ro_Endpoint ro) (r\<lparr>rq_UserID := Some userID\<rparr>) (w\<lparr>w_ext := x\<rparr>))
      else handle d (ro_Endpoint ro) (r\<lparr>rq_UserID := None\<rparr>) w)"

end
