(* ===== verification/Isolation.thy ===== *)
theory Isolation
  imports Service_Invariants Router
begin

text \<open>
  The use cases behind \<open>RequireAuth\<close> work on the account they are called for:
  whatever they return, the rows of every other account are as they were.
\<close>

section \<open>The rows of the others\<close>

text \<open>
  What the tables hold for the users other than \<open>i\<close>, in the six tables whose rows
  name a user. The steps of a deletion job name the job only.
\<close>

definition foreign :: "uuid \<Rightarrow> db \<Rightarrow>
    user list \<times> refresh_token list \<times> credential list \<times> login_challenge list \<times> reset_flow list \<times> deletion_job_row list" where
  "foreign i d =
     (filter (\<lambda>u. u_ID u \<noteq> i) (users d), filter (\<lambda>t. rt_UserID t \<noteq> i) (refresh_tokens d),
      filter (\<lambda>c. c_UserID c \<noteq> i) (two_factor_credentials d), filter (\<lambda>c. lc_UserID c \<noteq> i) (login_challenges d),
      filter (\<lambda>f. f_UserID f \<noteq> Some i) (password_reset_flows d), filter (\<lambda>j. dj_user_id j \<noteq> i) (account_deletion_jobs d))"

lemma filter_sql_update:
  "(\<And>r. P r \<Longrightarrow> key r = i) \<Longrightarrow> (\<And>r. P r \<Longrightarrow> key (f r) = key r) \<Longrightarrow>
     filter (\<lambda>r. key r \<noteq> i) (sql_update P f t) = filter (\<lambda>r. key r \<noteq> i) t"
  by (induction t) (auto simp: sql_update_def)

lemma filter_sql_delete:
  "(\<And>r. P r \<Longrightarrow> key r = i) \<Longrightarrow> filter (\<lambda>r. key r \<noteq> i) (sql_delete P t) = filter (\<lambda>r. key r \<noteq> i) t"
  by (induction t) (auto simp: sql_delete_def)

lemma foreign_update_user: "update_user u d = Inr (n, d') \<Longrightarrow> u_ID u = i \<Longrightarrow> foreign i d' = foreign i d"
  by (auto simp: update_user_def foreign_def filter_sql_update)

lemma foreign_update_password: "update_user_password now i h d = Inr (n, d') \<Longrightarrow> foreign i d' = foreign i d"
  by (auto simp: update_user_password_def foreign_def filter_sql_update)

lemma foreign_update_credential: "update_credential c d = Inr (n, d') \<Longrightarrow> c_UserID c = i \<Longrightarrow> foreign i d' = foreign i d"
  by (auto simp: update_credential_def foreign_def filter_sql_update split: if_splits)

lemma foreign_revoke_all: "revoke_all_tokens now i d = Inr (a, d') \<Longrightarrow> foreign i d' = foreign i d"
  by (auto simp: revoke_all_tokens_def foreign_def intro!: filter_sql_update)

lemma foreign_delete_user: "delete_user i d = Inr (n, d') \<Longrightarrow> foreign i d' = foreign i d"
  by (auto simp: delete_user_def foreign_def Let_def filter_sql_delete split: if_splits)

lemma foreign_mark_pending: "mark_deletion_pending now i d = Inr (n, d') \<Longrightarrow> foreign i d' = foreign i d"
  by (auto simp: mark_deletion_pending_def foreign_def Let_def intro!: filter_sql_update)

lemma foreign_upsert_job: "upsert_deletion_job now j i d = Inr (n, d') \<Longrightarrow> foreign i d' = foreign i d"
  by (auto simp: upsert_deletion_job_def foreign_def filter_sql_update split: option.splits if_splits)

lemma foreign_insert_step: "insert_deletion_step now j n d = Inr (a, d') \<Longrightarrow> foreign i d' = foreign i d"
  by (auto simp: insert_deletion_step_def foreign_def split: if_splits)

lemma foreign_select_status: "select_deletion_status i d = Inr (a, d') \<Longrightarrow> foreign i d' = foreign i d"
  by (auto simp: select_deletion_status_def select_one_def split: option.splits)

lemma foreign_insert_user: "insert_user u d = Inr (a, d') \<Longrightarrow> u_ID u = i \<Longrightarrow> foreign i d' = foreign i d"
  by (auto simp: insert_user_def foreign_def split: if_splits)

lemma foreign_insert_credential: "insert_credential c d = Inr (a, d') \<Longrightarrow> c_UserID c = i \<Longrightarrow> foreign i d' = foreign i d"
  by (auto simp: insert_credential_def foreign_def split: if_splits)

lemma foreign_insert_challenge: "insert_login_challenge c d = Inr (a, d') \<Longrightarrow> lc_UserID c = i \<Longrightarrow> foreign i d' = foreign i d"
  by (auto simp: insert_login_challenge_def foreign_def split: if_splits)

lemmas foreign_stmts =
  foreign_update_user foreign_update_password foreign_update_credential foreign_revoke_all foreign_delete_user
  foreign_mark_pending foreign_upsert_job foreign_insert_step foreign_select_status

section \<open>The use cases\<close>

definition keeps_foreign :: "uuid \<Rightarrow> ('x world, 'a) comp \<Rightarrow> bool" where
  "keeps_foreign i m \<longleftrightarrow> (\<forall>F. dbh (\<lambda>d. foreign i d = F) m (\<lambda>_ d. foreign i d = F) (\<lambda>_ d. foreign i d = F))"

lemma keeps_foreignD: "keeps_foreign i m \<Longrightarrow> m w = (r, w') \<Longrightarrow> foreign i (w_db w') = foreign i (w_db w)"
  unfolding keeps_foreign_def
  by (cases r; drule spec [of _ "foreign i (w_db w)"]) (auto dest: dbhD_Inr dbhD_Inl simp del: split_paired_All)

text \<open>What was learned of the values read is set aside, so that every step starts from the same assertion.\<close>

lemma dbh_fact: "(P \<Longrightarrow> dbh A m B E) \<Longrightarrow> dbh (\<lambda>d. A d \<and> P) m B E"
  by (cases P) (auto simp: dbh_def)

lemma foreign_sql:
  "(\<And>d a d'. st d = Inr (a, d') \<Longrightarrow> foreign i d' = foreign i d) \<Longrightarrow>
     dbh (\<lambda>d. foreign i d = F) (exec_sql st) (\<lambda>_ d. foreign i d = F) (\<lambda>_ d. foreign i d = F)"
  by (rule dbh_post, rule dbh_exec_sql) auto

lemma foreign_reads:
  "dbh (\<lambda>d. foreign i d = F) (users_GetByID k) (\<lambda>u d. foreign i d = F \<and> u_ID u = k) (\<lambda>_ d. foreign i d = F)"
  "dbh (\<lambda>d. foreign i d = F) (credentials_GetByUserID k) (\<lambda>c d. foreign i d = F \<and> c_UserID c = k) (\<lambda>_ d. foreign i d = F)"
  "dbh (\<lambda>d. foreign i d = F) (User_UpdateProfile fn ln av u) (\<lambda>u' d. foreign i d = F \<and> u_ID u' = u_ID u) (\<lambda>_ d. foreign i d = F)"
    apply (rule dbh_post, rule dbh_reads, auto dest: sql_find_Some)[1]
   apply (rule dbh_post, rule dbh_reads, auto dest: sql_find_Some)[1]
  apply (rule dbh_same, intro same_db.helper_intros, auto simp: User_UpdateProfile_def peel)
  done

lemma foreign_writes:
  "u_ID u = i \<Longrightarrow> dbh (\<lambda>d. foreign i d = F) (users_Update u) (\<lambda>_ d. foreign i d = F) (\<lambda>_ d. foreign i d = F)"
  "c_UserID c = i \<Longrightarrow> dbh (\<lambda>d. foreign i d = F) (credentials_Update c) (\<lambda>_ d. foreign i d = F) (\<lambda>_ d. foreign i d = F)"
  "dbh (\<lambda>d. foreign i d = F) (users_UpdatePassword i h) (\<lambda>_ d. foreign i d = F) (\<lambda>_ d. foreign i d = F)"
  "dbh (\<lambda>d. foreign i d = F) (refreshTokens_RevokeAllForUser i) (\<lambda>_ d. foreign i d = F) (\<lambda>_ d. foreign i d = F)"
  "dbh (\<lambda>d. foreign i d = F) (users_Delete i) (\<lambda>_ d. foreign i d = F) (\<lambda>_ d. foreign i d = F)"
  by (rule dbh_post, rule dbh_writes, (clarify, drule foreign_stmts, simp_all)[1], assumption)+

lemma foreign_verifyOTP:
  "c_UserID cred = i \<Longrightarrow>
   dbh (\<lambda>d. foreign i d = F) (verifyOTP s email cred code) (\<lambda>_ d. foreign i d = F) (\<lambda>_ d. foreign i d = F)"
  unfolding verifyOTP_def Let_def
  by (rule dbh_fact foreign_writes dbh_comb dbh_env dbh_credential(4) dbh_credential(1-3) [where mx = 0]
      | (simp add: cred_step_def; fail))+

lemma foreign_insert_steps:
  "dbh (\<lambda>d. foreign i d = F) (insert_steps now j ns) (\<lambda>_ d. foreign i d = F) (\<lambda>_ d. foreign i d = F)"
proof (induction ns)
  case Nil
  show ?case unfolding insert_steps.simps by (rule dbh_ret)
next
  case (Cons n ns)
  show ?case
    unfolding insert_steps.simps
    by (rule dbh_wrapM, rule foreign_sql, erule foreign_insert_step, assumption, rule Cons.IH)
qed

lemma foreign_request:
  "dbh (\<lambda>d. foreign i d = F) (DeletionStore_RequestDeletion i) (\<lambda>_ d. foreign i d = F) (\<lambda>_ d. foreign i d = F)"
  unfolding DeletionStore_RequestDeletion_def
  by (rule dbh_transaction)
     (rule dbh_comb dbh_uuid_New foreign_sql foreign_insert_steps | (auto dest: foreign_stmts; fail))+

lemmas foreign_use_case =
  dbh_fact foreign_reads foreign_writes foreign_verifyOTP foreign_request dbh_comb dbh_env

lemma foreign_ChangePassword: "keeps_foreign i (ChangePassword s i inp)"
  unfolding ChangePassword_def keeps_foreign_def
  by (rule allI foreign_use_case | assumption)+

lemma foreign_DeleteAccount: "keeps_foreign i (DeleteAccount s i at otp)"
  unfolding DeleteAccount_def keeps_foreign_def
  by (rule allI foreign_use_case | assumption)+

lemma foreign_resolveAvatar:
  "dbh (\<lambda>d. foreign i d = F) (resolveAvatar s tok u ch) (\<lambda>_ d. foreign i d = F) (\<lambda>_ d. foreign i d = F)"
  by (rule dbh_skip, unfold resolveAvatar_def, intro same_db.helper_intros)

lemma foreign_delete_old:
  "dbh (\<lambda>d. foreign i d = F) (case old of None \<Rightarrow> ret () | Some m \<Rightarrow> external (f m)) (\<lambda>_ d. foreign i d = F) (\<lambda>_ d. foreign i d = F)"
  by (rule dbh_skip, intro same_db.helper_intros)

lemma foreign_UpdateProfile: "keeps_foreign i (UpdateProfile s i tok inp)"
  unfolding UpdateProfile_def keeps_foreign_def
  by (rule allI dbh_fact foreign_reads foreign_resolveAvatar foreign_delete_old foreign_writes dbh_bindM dbh_prod dbh_ret
      | assumption | (erule trans; assumption))+

lemma foreign_CurrentUser: "keeps_foreign i (CurrentUser k)"
  unfolding CurrentUser_def keeps_foreign_def
  by (rule allI, rule dbh_post, rule foreign_reads) auto

end
