(* ===== verification/Login_Properties.thy ===== *)
theory Login_Properties
  imports Otp_Replay Isolation
begin

text \<open>
  What registration, the first login step and the password changes guarantee:
  a password alone never creates a session, a failed login does not tell why
  it failed, registration never touches another account, and the password of
  an account changes through the two password operations only.
\<close>

section \<open>Where sessions come from\<close>

definition no_new_session :: "db \<Rightarrow> db \<Rightarrow> bool" where
  "no_new_session d d' \<longleftrightarrow> (\<forall>t \<in> set (refresh_tokens d'). live t \<longrightarrow> t \<in> set (refresh_tokens d))"

interpretation no_new: db_frame no_new_session
  by unfold_locales (auto simp: no_new_session_def)

lemma no_new_stmts:
  "stmt_keeps no_new_session (insert_user u)" "stmt_keeps no_new_session (update_user u)"
  "stmt_keeps no_new_session (update_user_password now i h)" "stmt_keeps no_new_session (delete_user i)"
  "stmt_keeps no_new_session (mark_deletion_pending now i)"
  "stmt_keeps no_new_session (revoke_token now i)" "stmt_keeps no_new_session (revoke_all_tokens now i)"
  "stmt_keeps no_new_session (insert_credential c)" "stmt_keeps no_new_session (update_credential c)"
  "stmt_keeps no_new_session (insert_login_challenge lc)"
  "stmt_keeps no_new_session (consume_login_challenge now i)"
  "stmt_keeps no_new_session (insert_reset_flow f)" "stmt_keeps no_new_session (update_reset_flow f)"
  "stmt_keeps no_new_session (upsert_deletion_job now i j)"
  "stmt_keeps no_new_session (insert_deletion_step now i n)"
  "stmt_keeps no_new_session (claim_job now)" "stmt_keeps no_new_session (complete_step now i n)"
  "stmt_keeps no_new_session (retry_step now i n at dl msg)" "stmt_keeps no_new_session (release_job now i)"
  "stmt_keeps no_new_session (complete_job now i)"
  by (auto simp: stmt_keeps_def no_new_session_def stmt_defs upsert_deletion_job_def insert_deletion_step_def
      claim_job_def complete_step_def retry_step_def release_job_def complete_job_def
      set_sql_update set_sql_delete live_def Let_def split: if_splits option.splits)

lemma no_new_writes:
  "setup_writes no_new_session" "deletion_writes no_new_session" "worker_writes no_new_session"
  by (simp_all add: setup_writes_def deletion_writes_def worker_writes_def no_new_stmts)

fun opens_session :: "op \<Rightarrow> bool" where
  "opens_session (OpRefresh t) = True"
| "opens_session (OpSetupVerifyOTP t code) = True"
| "opens_session (OpLoginVerifyOTP t code) = True"
| "opens_session _ = False"

lemma closing_op:
  assumes "\<not> opens_session oper" and "t \<in> set (refresh_tokens (w_db (run_op s cl oper w)))" and "live t"
  shows "t \<in> set (refresh_tokens (w_db w))"
proof -
  note ops = no_new.keeps_Register no_new.keeps_Login no_new.keeps_Logout no_new.keeps_UpdateProfile
    no_new.keeps_DeleteAccount no_new.keeps_ChangePassword no_new.keeps_RequestPasswordReset
    no_new.keeps_VerifyPasswordResetOTP no_new.keeps_ConfirmPasswordReset no_new.keeps_RunOnce no_new.keeps_run_cleanup
  have "no_new_session (w_db w) (w_db (run_op s cl oper w))"
    using assms(1)
    by (cases oper)
       (simp_all, (rule ops [unfolded keeps_def, rule_format]; intro no_new_stmts no_new_writes)+)
  with assms(2,3) show ?thesis by (auto simp: no_new_session_def)
qed

text \<open>
  C29: Only three operations can open a session: the two OTP verifications and
  the refresh. After any other operation, on every path through it, each live
  refresh token was there before; in particular a correct password alone
  opens none.
\<close>

theorem sessions_open_by_otp:
  assumes "\<not> opens_session oper" and "t \<in> set (refresh_tokens (w_db (run_op s cl oper w)))" and "live t"
  shows "t \<in> set (refresh_tokens (w_db w))"
  using assms by (rule closing_op)

lemma challenged_token: "map rt_UserID (filter live (refresh_tokens (w_db challenged))) = [1000]"
  by (simp add: run_scenario run_simps run_repositories run_domain run_service run_fakes Let_def live_def
      bytes_of_string_def string_of_bytes_def comp_def)

theorem sessions_open_by_otp_witness:
  "\<exists>t \<in> set (refresh_tokens (w_db challenged)). live t \<and> t \<in> set (refresh_tokens (w_db enrolled))"
proof -
  from in_mapped [OF challenged_token] obtain t where t: "t \<in> set (refresh_tokens (w_db challenged))" "live t" by auto
  from t(1) have "t \<in> set (refresh_tokens (w_db enrolled))"
    unfolding challenged_def by (rule sessions_open_by_otp [rotated]) (simp_all add: t)
  with t show ?thesis by blast
qed

section \<open>The first login step\<close>

lemma issueLoginChallenge_Inr:
  assumes "issueLoginChallenge s u w = (Inr r, w')"
  obtains ch where "lr_Status r = LoginStatusOTPRequired" "lc_UserID ch = u_ID u" "lc_ConsumedAt ch = None"
    "lc_TokenHash ch = tokenhash_Hash (lr_ChallengeToken r)" "lc_ExpiresAt ch = lr_ExpiresAt r"
    "insert_login_challenge ch (w_db w) = Inr ((), w_db w')"
proof -
  from assms obtain tok w1 ch w2 where 1: "tokenhash_Generate w = (Inr tok, w1)" and
    2: "LoginChallenge_New (u_ID u) (tokenhash_Hash tok) (sc_LoginChallengeTTL (svc_security s)) w1 = (Inr ch, w2)" and
    3: "loginChallenges_Create ch w2 = (Inr (), w')" and
    r: "r = \<lparr>lr_Status = LoginStatusOTPRequired, lr_ChallengeToken = tok, lr_SetupToken = '''',
          lr_OtpauthURI = '''', lr_Secret = '''', lr_ExpiresAt = lc_ExpiresAt ch\<rparr>"
    by (auto simp: issueLoginChallenge_def peel)
  have "w_db w2 = w_db w"
    using keepsD [OF same_db.keeps_tokenhash_Generate 1] keepsD [OF same_db.keeps_LoginChallenge_New 2] by simp
  with LoginChallenge_New_Inr [OF 2] loginChallenges_Create_Inr [OF 3] r show thesis using that [of ch] by simp
qed

lemma storeSetup_Inr:
  assumes "storeSetup s u sec h w = (Inr c, w')"
  obtains c2 where "c2 \<in> set (two_factor_credentials (w_db w'))" "c_UserID c2 = u_ID u" "\<not> Credential_IsEnabled c2"
    "c_SetupTokenHash c2 = Some h" "c_SetupTokenExpiresAt c2 = c_SetupTokenExpiresAt c" "c_SecretEncrypted c2 = sec"
    "c_SetupTokenExpiresAt c \<noteq> None" "users (w_db w') = users (w_db w)"
    "foreign (u_ID u) (w_db w') = foreign (u_ID u) (w_db w)" "account_deletion_steps (w_db w') = account_deletion_steps (w_db w)"
proof -
  from assms consider (fresh) w1 w2 where
      "Credential_New (u_ID u) sec h (sc_SetupTokenTTL (svc_security s)) w1 = (Inr c, w2)"
      "credentials_Create c w2 = (Inr (), w')" "w_db w1 = w_db w"
    | (again) c0 w1 w2 where "credentials_GetByUserID (u_ID u) w = (Inr c0, w1)"
      "Credential_BeginSetup sec h (sc_SetupTokenTTL (svc_security s)) c0 w1 = (Inr c, w2)"
      "credentials_Update c w2 = (Inr (), w')"
    by (auto simp: storeSetup_def peel split: if_splits dest: credentials_GetByUserID_Inl)
  then show thesis
  proof cases
    case fresh
    have "w_db w2 = w_db w" using keepsD [OF same_db.keeps_Credential(1) fresh(1)] fresh(3) by simp
    with credentials_Create_Inr [OF fresh(2)] have ins: "insert_credential c (w_db w) = Inr ((), w_db w')" by simp
    then have "c \<in> set (two_factor_credentials (w_db w'))" "users (w_db w') = users (w_db w)"
      "account_deletion_steps (w_db w') = account_deletion_steps (w_db w)"
      by (auto simp: insert_credential_def split: if_splits dest!: sym [of _ "w_db w'"])
    with Credential_New_Inr [OF fresh(1)] foreign_insert_credential [OF ins, of "u_ID u"] show thesis
      by (auto simp: Credential_IsEnabled_def intro!: that [of c])
  next
    case again
    from credentials_GetByUserID_Inr [OF again(1)] have c0: "c_UserID c0 = u_ID u" "w_db w1 = w_db w"
      by (auto dest: sql_find_Some)
    have "w_db w2 = w_db w" using keepsD [OF same_db.keeps_Credential(2) again(2)] c0 by simp
    with credentials_Update_Inr [OF again(3)] obtain n where
      upd: "update_credential c (w_db w) = Inr (n, w_db w')" "n \<noteq> 0" by auto
    from upd obtain r :: credential where "c\<lparr>c_CreatedAt := c_CreatedAt r\<rparr> \<in> set (two_factor_credentials (w_db w'))"
      by (rule update_credential_stores)
    moreover have "account_deletion_steps (w_db w') = account_deletion_steps (w_db w)"
      using upd(1) by (auto simp: update_credential_def split: if_splits dest!: sym [of _ "w_db w'"])
    ultimately show thesis
      using Credential_BeginSetup_Inr [OF again(2)] c0 update_credential_frame(3) [OF upd(1)] foreign_update_credential [OF upd(1), of "u_ID u"]
      by (auto simp: Credential_IsEnabled_def intro!: that [of "c\<lparr>c_CreatedAt := c_CreatedAt r\<rparr>"])
  qed
qed

lemma beginTOTPSetup_Inr:
  assumes "beginTOTPSetup s u w = (Inr r, w')"
  obtains c where "c \<in> set (two_factor_credentials (w_db w'))" "c_UserID c = u_ID u" "\<not> Credential_IsEnabled c"
    "c_SetupTokenHash c = Some (tokenhash_Hash (rr_SetupToken r))" "c_SetupTokenExpiresAt c = Some (rr_ExpiresAt r)"
    "rr_UserID r = u_ID u" "users (w_db w') = users (w_db w)"
    "foreign (u_ID u) (w_db w') = foreign (u_ID u) (w_db w)" "account_deletion_steps (w_db w') = account_deletion_steps (w_db w)"
    "aead_laws (svc_cipher s) \<Longrightarrow> Cipher_Decrypt (svc_cipher s) (c_SecretEncrypted c) = Inr (bytes_of_string (rr_Secret r))"
proof -
  from assms obtain sec uri w1 enc w2 tok w3 c0 where
    1: "totp_GenerateSecret (\<lambda>i a. external (svc_otp_Generate s i a)) (sc_TOTPIssuer (svc_security s)) (u_Email u) w = (Inr (sec, uri), w1)" and
    2: "Cipher_Encrypt (svc_cipher s) (bytes_of_string sec) w1 = (Inr enc, w2)" and
    3: "tokenhash_Generate w2 = (Inr tok, w3)" and
    4: "storeSetup s u enc (tokenhash_Hash tok) w3 = (Inr c0, w')" and
    r: "r = \<lparr>rr_UserID = u_ID u, rr_SetupToken = tok, rr_OtpauthURI = uri, rr_Secret = sec,
         rr_ExpiresAt = the (c_SetupTokenExpiresAt c0)\<rparr>"
    by (auto simp: beginTOTPSetup_def peel)
  have "w_db w3 = w_db w"
    using keepsD [OF same_db.keeps_totp_GenerateSecret 1] keepsD [OF same_db.keeps_Cipher_Encrypt 2]
      keepsD [OF same_db.keeps_tokenhash_Generate 3] by simp
  with 4 obtain c where c: "c \<in> set (two_factor_credentials (w_db w'))" "c_UserID c = u_ID u" "\<not> Credential_IsEnabled c"
    "c_SetupTokenHash c = Some (tokenhash_Hash tok)" "c_SetupTokenExpiresAt c = c_SetupTokenExpiresAt c0"
    "c_SecretEncrypted c = enc" "c_SetupTokenExpiresAt c0 \<noteq> None" "users (w_db w') = users (w_db w)"
    "foreign (u_ID u) (w_db w') = foreign (u_ID u) (w_db w)" "account_deletion_steps (w_db w') = account_deletion_steps (w_db w)"
    by (metis storeSetup_Inr)
  with r aead_laws.decrypt_encrypt [OF _ 2] show thesis by (intro that [of c]) auto
qed

lemma if_peel:
  "(if b then m else n) w = (r, w') \<longleftrightarrow> b \<and> m w = (r, w') \<or> \<not> b \<and> n w = (r, w')"
  by simp

text \<open>What a first login step that succeeds leaves behind.\<close>

lemma Login_Inr:
  assumes "Login s inp w = (Inr r, w')"
  obtains (challenge) u c w1 where "sql_find (\<lambda>u. u_Email u = normalizeEmail s (li_Email inp)) (users (w_db w)) = Some u"
      "hasher_Verify s (u_PasswordHash u) (li_Password inp) = None" "\<not> pending u"
      "sql_find (\<lambda>c. c_UserID c = u_ID u) (two_factor_credentials (w_db w)) = Some c" "Credential_IsEnabled c"
      "issueLoginChallenge s u w1 = (Inr r, w')" "w_db w1 = w_db w"
    | (enrol) u st w1 where "sql_find (\<lambda>u. u_Email u = normalizeEmail s (li_Email inp)) (users (w_db w)) = Some u"
      "hasher_Verify s (u_PasswordHash u) (li_Password inp) = None" "\<not> pending u"
      "\<forall>c. sql_find (\<lambda>c. c_UserID c = u_ID u) (two_factor_credentials (w_db w)) = Some c \<longrightarrow> \<not> Credential_IsEnabled c"
      "beginTOTPSetup s u w1 = (Inr st, w')" "w_db w1 = w_db w" "lr_Status r = LoginStatusTOTPSetupRequired"
      "lr_SetupToken r = rr_SetupToken st" "lr_Secret r = rr_Secret st" "lr_ExpiresAt r = rr_ExpiresAt st"
proof -
  from assms obtain u w1 where 1: "users_GetByEmail (normalizeEmail s (li_Email inp)) w = (Inr u, w1)"
    by (auto simp: Login_def tryM_peel split: if_splits)
  from users_GetByEmail_Inr [OF 1] have u: "sql_find (\<lambda>u. u_Email u = normalizeEmail s (li_Email inp)) (users (w_db w)) = Some u"
    "w_db w1 = w_db w" by auto
  from assms 1 have v: "hasher_Verify s (u_PasswordHash u) (li_Password inp) = None" "\<not> pending u"
    by (auto simp: Login_def tryM_apply pending_def split: if_splits)
  from assms 1 v consider (c) c w2 where "credentials_GetByUserID (u_ID u) w1 = (Inr c, w2)"
      "Credential_IsEnabled c" "issueLoginChallenge s u w2 = (Inr r, w')"
    | (off) c w2 st where "credentials_GetByUserID (u_ID u) w1 = (Inr c, w2)" "\<not> Credential_IsEnabled c"
      "beginTOTPSetup s u w2 = (Inr st, w')" "r = \<lparr>lr_Status = LoginStatusTOTPSetupRequired, lr_ChallengeToken = '''',
                  lr_SetupToken = rr_SetupToken st, lr_OtpauthURI = rr_OtpauthURI st,
                  lr_Secret = rr_Secret st, lr_ExpiresAt = rr_ExpiresAt st\<rparr>"
    | (none) e w2 st where "credentials_GetByUserID (u_ID u) w1 = (Inl e, w2)" "errors_Is e Totp_ErrNotFound"
      "beginTOTPSetup s u w2 = (Inr st, w')" "r = \<lparr>lr_Status = LoginStatusTOTPSetupRequired, lr_ChallengeToken = '''',
                  lr_SetupToken = rr_SetupToken st, lr_OtpauthURI = rr_OtpauthURI st,
                  lr_Secret = rr_Secret st, lr_ExpiresAt = rr_ExpiresAt st\<rparr>"
    by (auto simp: Login_def tryM_apply [of "users_GetByEmail _"] pending_def peel if_peel Let_def)
  then show thesis
  proof cases
    case c
    from credentials_GetByUserID_Inr [OF c(1)] u v c(2,3) show thesis by (intro challenge [of u c w2]) auto
  next
    case off
    from credentials_GetByUserID_Inr [OF off(1)] u v off(2-) show thesis by (intro enrol [of u w2 st]) auto
  next
    case none
    from credentials_GetByUserID_Inl [OF none(1)] u v none(2-) show thesis by (intro enrol [of u w2 st]) auto
  qed
qed

text \<open>
  C30: The first login step. It succeeds only for a stored account that is not
  waiting for deletion, with a password the hasher accepts. An account with an
  enabled credential gets a login challenge, stored under the hash of the
  token handed out, and keeps its credential as it is: a password alone never
  resets an enrolled second factor. An account without one gets a setup
  challenge on a credential that is not enabled, whose stored secret decrypts
  to the one handed out. No row of another account changes.
\<close>

theorem Login_steps:
  assumes "aead_laws (svc_cipher s)" and "db_wf (w_db w)" and "Login s inp w = (Inr r, w')"
  shows "\<exists>u. u \<in> set (users (w_db w)) \<and> u_Email u = normalizeEmail s (li_Email inp) \<and> \<not> pending u \<and>
     hasher_Verify s (u_PasswordHash u) (li_Password inp) = None \<and>
     users (w_db w') = users (w_db w) \<and> foreign (u_ID u) (w_db w') = foreign (u_ID u) (w_db w) \<and>
     (if enabled (u_ID u) (w_db w)
      then lr_Status r = LoginStatusOTPRequired \<and> two_factor_credentials (w_db w') = two_factor_credentials (w_db w) \<and>
        (\<exists>ch. ch \<in> set (login_challenges (w_db w')) \<and> lc_UserID ch = u_ID u \<and> lc_ConsumedAt ch = None \<and>
           lc_TokenHash ch = tokenhash_Hash (lr_ChallengeToken r) \<and> lc_ExpiresAt ch = lr_ExpiresAt r)
      else lr_Status r = LoginStatusTOTPSetupRequired \<and>
        (\<exists>c. c \<in> set (two_factor_credentials (w_db w')) \<and> c_UserID c = u_ID u \<and> \<not> Credential_IsEnabled c \<and>
           c_SetupTokenHash c = Some (tokenhash_Hash (lr_SetupToken r)) \<and> c_SetupTokenExpiresAt c = Some (lr_ExpiresAt r) \<and>
           Cipher_Decrypt (svc_cipher s) (c_SecretEncrypted c) = Inr (bytes_of_string (lr_Secret r))))"
  using assms(3)
proof (cases rule: Login_Inr)
  case (challenge u c w1)
  note f = sql_find_Some [OF challenge(1)] sql_find_Some [OF challenge(4)]
  have e: "enabled (u_ID u) (w_db w)" using f challenge(5) by (auto simp: enabled_def)
  from challenge(6) obtain ch where ch: "lr_Status r = LoginStatusOTPRequired" "lc_UserID ch = u_ID u" "lc_ConsumedAt ch = None"
    "lc_TokenHash ch = tokenhash_Hash (lr_ChallengeToken r)" "lc_ExpiresAt ch = lr_ExpiresAt r"
    "insert_login_challenge ch (w_db w1) = Inr ((), w_db w')" by (rule issueLoginChallenge_Inr)
  from ch(6) challenge(7) have "ch \<in> set (login_challenges (w_db w'))" "users (w_db w') = users (w_db w)"
    "two_factor_credentials (w_db w') = two_factor_credentials (w_db w)"
    by (auto simp: insert_login_challenge_def split: if_splits dest!: sym [of _ "w_db w'"])
  with ch challenge f e foreign_insert_challenge [OF ch(6,2)] show ?thesis by (intro exI [of _ u]) auto
next
  case (enrol u st w1)
  note f = sql_find_Some [OF enrol(1)]
  have "\<not> Credential_IsEnabled c" if "c \<in> set (two_factor_credentials (w_db w))" "c_UserID c = u_ID u" for c
    using enrol(4) sql_find_unique [of col_c_user "two_factor_credentials (w_db w)" c "u_ID u"] that assms(2) by (simp add: db_wf_def)
  then have e: "\<not> enabled (u_ID u) (w_db w)" by (auto simp: enabled_def)
  from enrol(5) obtain c where "c \<in> set (two_factor_credentials (w_db w'))" "c_UserID c = u_ID u" "\<not> Credential_IsEnabled c"
    "c_SetupTokenHash c = Some (tokenhash_Hash (rr_SetupToken st))" "c_SetupTokenExpiresAt c = Some (rr_ExpiresAt st)"
    "Cipher_Decrypt (svc_cipher s) (c_SecretEncrypted c) = Inr (bytes_of_string (rr_Secret st))"
    "users (w_db w') = users (w_db w1)" "foreign (u_ID u) (w_db w') = foreign (u_ID u) (w_db w1)"
    using assms(1) by (rule_tac beginTOTPSetup_Inr) auto
  with enrol f e show ?thesis by (intro exI [of _ u]) auto
qed

lemma Login_runs:
  "\<exists>r w'. Login newTestService \<lparr>li_Email = '' A@B '', li_Password = ''pw''\<rparr> enrolled = (Inr r, w')"
  by (simp add: run_scenario run_simps run_repositories run_domain run_service run_fakes Let_def
      bytes_of_string_def string_of_bytes_def comp_def)

lemma fake_aead: "aead_laws (svc_cipher newTestService)"
  unfolding newTestService_fields by (rule gcm.aead_laws_axioms)

lemma enrolled_account:
  "map (\<lambda>u. (u_ID u, u_Email u)) (users (w_db enrolled)) = [(1000, ''a@b'')]"
  "map c_UserID (filter Credential_IsEnabled (two_factor_credentials (w_db enrolled))) = [1000]"
  by (simp_all add: run_scenario run_simps run_repositories run_domain run_service run_fakes Let_def Credential_IsEnabled_def)

lemma enrolled_enabled: "enabled 1000 (w_db enrolled)"
proof -
  from in_mapped [OF enrolled_account(2)] show ?thesis by (auto simp: enabled_def)
qed

theorem Login_steps_witness:
  "\<exists>r w'. Login newTestService \<lparr>li_Email = '' A@B '', li_Password = ''pw''\<rparr> enrolled = (Inr r, w') \<and>
     lr_Status r = LoginStatusOTPRequired \<and> (\<exists>lc \<in> set (login_challenges (w_db w')).
       lc_UserID lc = 1000 \<and> lc_TokenHash lc = tokenhash_Hash (lr_ChallengeToken r)) \<and>
     two_factor_credentials (w_db w') = two_factor_credentials (w_db enrolled)"
proof -
  obtain r w' where run: "Login newTestService \<lparr>li_Email = '' A@B '', li_Password = ''pw''\<rparr> enrolled = (Inr r, w')"
    using Login_runs by blast
  have "db_wf (w_db enrolled)" using reachable_inv [OF scenario_reachable(2)] by (rule service_invD)
  moreover have "u_ID u = 1000" if "u \<in> set (users (w_db enrolled))" for u
    using that arg_cong [OF enrolled_account(1), of set] by auto
  ultimately show ?thesis using Login_steps [OF fake_aead _ run] run enrolled_enabled by fastforce
qed

lemma run_scan:
  "e_faults w = [] \<Longrightarrow> tryM (exec_sql (select_one P tb)) (\<lambda>e. if errors_Is e Pgx_ErrNoRows then fail (Sentinel x) else f e) ret w =
     (case sql_find P (tb (w_db w)) of None \<Rightarrow> (Inl (Sentinel x), w) | Some r \<Rightarrow> (Inr r, w))"
  by (simp add: tryM_apply run_exec_sql select_one_def split: option.split)

text \<open>
  C31: A login that is refused does not tell why. With the database up, an
  unknown email, a wrong password and an account waiting for deletion all give
  \<open>ErrInvalidCredentials\<close> and change nothing.
\<close>

theorem Login_refusal_uniform:
  assumes "e_faults w = []"
    and "\<nexists>u. sql_find (\<lambda>u. u_Email u = normalizeEmail s (li_Email inp)) (users (w_db w)) = Some u \<and>
       hasher_Verify s (u_PasswordHash u) (li_Password inp) = None \<and> \<not> pending u"
  shows "Login s inp w = (Inl (Sentinel ErrInvalidCredentials), w)"
proof -
  have "users_GetByEmail (normalizeEmail s (li_Email inp)) w =
      (case sql_find (\<lambda>u. u_Email u = normalizeEmail s (li_Email inp)) (users (w_db w)) of
         None \<Rightarrow> (Inl (Sentinel User_ErrNotFound), w) | Some u \<Rightarrow> (Inr u, w))"
    unfolding users_GetByEmail_def users_scanOne_def by (rule run_scan [OF assms(1)])
  with assms(2) show ?thesis
    by (cases "sql_find (\<lambda>u. u_Email u = normalizeEmail s (li_Email inp)) (users (w_db w))")
       (auto simp: Login_def tryM_apply pending_def)
qed

theorem Login_refusal_uniform_witness:
  "Login newTestService \<lparr>li_Email = ''a@b'', li_Password = ''wrong''\<rparr> (test_world 0 test_db) =
     Login newTestService \<lparr>li_Email = ''x@y'', li_Password = ''pw''\<rparr> (test_world 0 test_db)"
proof -
  have n: "normalizeEmail newTestService ''a@b'' = ''a@b''" "normalizeEmail newTestService ''x@y'' = ''x@y''"
    by (simp_all add: normalizeEmail_def newTestService_fields strings_ToLower_def is_ascii_def ascii_lower_def
      ascii_space_def byte_of_def)
  have f: "e_faults (test_world 0 test_db) = []" by (simp add: test_world_def)
  show ?thesis
    using Login_refusal_uniform [OF f, of newTestService "\<lparr>li_Email = ''a@b'', li_Password = ''wrong''\<rparr>"]
      Login_refusal_uniform [OF f, of newTestService "\<lparr>li_Email = ''x@y'', li_Password = ''pw''\<rparr>"]
    by (simp add: n sql_find_def test_db_def test_user_def hasher_Verify_def BcryptHasher_Verify_def
        newTestService_fields fake_bcrypt_def bytes_of_string_def)
qed

section \<open>Registration\<close>

lemma insert_user_Inr:
  assumes "insert_user u d = Inr ((), d')"
  shows "users d' = users d @ [u\<lparr>u_FirstName := '''', u_LastName := '''', u_AvatarMediaID := None,
           u_DeletionStatus := DeletionStatusActive\<rparr>]"
    and "u_Email u \<notin> u_Email ` set (users d)" and "u_ID u \<notin> u_ID ` set (users d)"
proof -
  from assms have ok: "\<not> conflicts col_u_id (Some (u_ID u)) (users d)" "\<not> conflicts col_u_email (Some (u_Email u)) (users d)"
    by (simp_all add: insert_user_def split: if_splits)
  then show "u_Email u \<notin> u_Email ` set (users d)" "u_ID u \<notin> u_ID ` set (users d)"
    unfolding conflicts_Some by force+
  from assms ok show "users d' = users d @ [u\<lparr>u_FirstName := '''', u_LastName := '''', u_AvatarMediaID := None,
           u_DeletionStatus := DeletionStatusActive\<rparr>]"
    by (auto simp: insert_user_def)
qed

lemma Register_Inr:
  assumes "Register s inp w = (Inr r, w')"
  obtains u w1 d1 where "u_Email u = normalizeEmail s (ri_Email inp)"
    "insert_user u (w_db w) = Inr ((), d1)" "w_db w1 = d1" "beginTOTPSetup s u w1 = (Inr r, w')"
    "\<exists>x x' h. bc_GenerateFromPassword (svc_bcrypt s) (bytes_of_string (ri_Password inp)) (svc_cost s) x = (Inr h, x') \<and>
       u_PasswordHash u = string_of_bytes h"
proof -
  from assms obtain h w1 u w2 w3 where 1: "hasher_Hash s (ri_Password inp) w = (Inr h, w1)" and
    2: "User_New (normalizeEmail s (ri_Email inp)) h w1 = (Inr u, w2)" and
    3: "users_Create u w2 = (Inr (), w3)" and 4: "beginTOTPSetup s u w3 = (Inr r, w')"
    by (auto simp: Register_def peel)
  have "w_db w2 = w_db w" using keepsD [OF same_db.keeps_hasher_Hash 1] keepsD [OF same_db.keeps_User_New 2] by simp
  with users_Create_Inr [OF 3] have "insert_user u (w_db w) = Inr ((), w_db w3)" by simp
  moreover have "\<exists>x x' b. bc_GenerateFromPassword (svc_bcrypt s) (bytes_of_string (ri_Password inp)) (svc_cost s) x
      = (Inr b, x') \<and> h = string_of_bytes b"
    using 1 by (auto simp: hasher_Hash_def BcryptHasher_Hash_def peel external_Pair)
  ultimately show thesis using that [of u "w_db w3" w3] User_New_Inr [OF 2] 4 by simp
qed

text \<open>
  C32: Registration adds one account and touches no other. When it succeeds,
  the normalised email was not in use, the rows of all other users, in every
  table, are as before, and the new row has that email, the hash of the
  password, status active; its credential is not enabled and carries the setup
  token handed out.
\<close>

theorem Register_adds_account:
  assumes "Register s inp w = (Inr r, w')"
  shows "\<exists>u h x x' c. users (w_db w') = users (w_db w) @ [u] \<and>
     foreign (u_ID u) (w_db w') = foreign (u_ID u) (w_db w) \<and>
     account_deletion_steps (w_db w') = account_deletion_steps (w_db w) \<and>
     u_Email u = normalizeEmail s (ri_Email inp) \<and> u_Email u \<notin> u_Email ` set (users (w_db w)) \<and>
     u_ID u = rr_UserID r \<and> u_ID u \<notin> u_ID ` set (users (w_db w)) \<and> u_DeletionStatus u = DeletionStatusActive \<and>
     bc_GenerateFromPassword (svc_bcrypt s) (bytes_of_string (ri_Password inp)) (svc_cost s) x = (Inr h, x') \<and>
     u_PasswordHash u = string_of_bytes h \<and>
     c \<in> set (two_factor_credentials (w_db w')) \<and> c_UserID c = u_ID u \<and> \<not> Credential_IsEnabled c \<and>
     c_SetupTokenHash c = Some (tokenhash_Hash (rr_SetupToken r))"
  using assms
proof (rule Register_Inr)
  fix u w1 d1
  assume a: "u_Email u = normalizeEmail s (ri_Email inp)" "insert_user u (w_db w) = Inr ((), d1)" "w_db w1 = d1"
    "beginTOTPSetup s u w1 = (Inr r, w')"
    "\<exists>x x' h. bc_GenerateFromPassword (svc_bcrypt s) (bytes_of_string (ri_Password inp)) (svc_cost s) x = (Inr h, x') \<and>
       u_PasswordHash u = string_of_bytes h"
  let ?u = "u\<lparr>u_FirstName := '''', u_LastName := '''', u_AvatarMediaID := None, u_DeletionStatus := DeletionStatusActive\<rparr>"
  note ins = insert_user_Inr [OF a(2)]
  from a(4) obtain c where c: "c \<in> set (two_factor_credentials (w_db w'))" "c_UserID c = u_ID u" "\<not> Credential_IsEnabled c"
    "c_SetupTokenHash c = Some (tokenhash_Hash (rr_SetupToken r))" "rr_UserID r = u_ID u" "users (w_db w') = users (w_db w1)"
    "foreign (u_ID u) (w_db w') = foreign (u_ID u) (w_db w1)" "account_deletion_steps (w_db w') = account_deletion_steps (w_db w1)"
    by (rule beginTOTPSetup_Inr)
  have "foreign (u_ID u) d1 = foreign (u_ID u) (w_db w)" using foreign_insert_user [OF a(2) HOL.refl] .
  moreover have "account_deletion_steps d1 = account_deletion_steps (w_db w)"
    using a(2) by (auto simp: insert_user_def split: if_splits)
  moreover  from a(5) obtain x x' h where "bc_GenerateFromPassword (svc_bcrypt s) (bytes_of_string (ri_Password inp)) (svc_cost s) x = (Inr h, x')"
    "u_PasswordHash u = string_of_bytes h" by blast
  ultimately show ?thesis using a ins c
    by (intro exI [of _ ?u] exI [of _ h] exI [of _ x] exI [of _ x'] exI [of _ c]) simp
qed

lemma Register_runs:
  "\<exists>r w'. Register newTestService \<lparr>ri_Email = '' A@B '', ri_Password = ''pw''\<rparr> (test_world 0 empty_db) = (Inr r, w')"
  by (simp add: run_scenario run_simps run_repositories run_domain run_service run_fakes Let_def)

theorem Register_adds_account_witness:
  "\<exists>r w' u. Register newTestService \<lparr>ri_Email = '' A@B '', ri_Password = ''pw''\<rparr> (test_world 0 empty_db) = (Inr r, w') \<and>
     users (w_db w') = [u] \<and> u_Email u = ''a@b''"
proof -
  obtain r w' where run: "Register newTestService \<lparr>ri_Email = '' A@B '', ri_Password = ''pw''\<rparr> (test_world 0 empty_db) = (Inr r, w')"
    using Register_runs by blast
  from Register_adds_account [OF run] run show ?thesis by (auto simp: normalized empty_db_def)
qed

text \<open>
  An email that is in use is refused: with the database and the hasher
  up, registering it again answers \<open>ErrEmailTaken\<close> and leaves the database as
  it is.
\<close>

theorem Register_taken:
  assumes "e_faults w = []" and "u \<in> set (users (w_db w))" and "u_Email u = normalizeEmail s (ri_Email inp)"
    and "bc_GenerateFromPassword (svc_bcrypt s) (bytes_of_string (ri_Password inp)) (svc_cost s) (w_ext w) = (Inr h, x)"
  shows "\<exists>w'. Register s inp w = (Inl (Sentinel User_ErrEmailTaken), w') \<and> w_db w' = w_db w"
proof -
  let ?w1 = "w\<lparr>w_ext := x\<rparr>"
  have 1: "hasher_Hash s (ri_Password inp) w = (Inr (string_of_bytes h), ?w1)"
    using assms(4) by (simp add: hasher_Hash_def BcryptHasher_Hash_def bindM_apply external_def)
  obtain v w2 where 2: "User_New (normalizeEmail s (ri_Email inp)) (string_of_bytes h) ?w1 = (Inr v, w2)"
    and f: "e_faults w2 = []" using assms(1)
    by (cases "e_clock w") (auto simp: User_New_def bindM_apply time_Now_def uuid_New_def)
  have "w_db w2 = w_db w" using keepsD [OF same_db.keeps_User_New 2] by simp
  with User_New_Inr [OF 2] assms(2,3) have "insert_user v (w_db w2) = Inl (PgError uniqueViolationCode)"
    by (auto simp: insert_user_def conflicts_Some)
  with f have "users_Create v w2 = (Inl (Sentinel User_ErrEmailTaken), w2)"
    by (simp add: users_Create_def tryM_apply run_exec_sql)
  with 1 2 \<open>w_db w2 = w_db w\<close> show ?thesis by (auto simp: Register_def wrapM_apply bindM_apply)
qed

theorem Register_taken_witness:
  "\<exists>w'. Register newTestService \<lparr>ri_Email = ''a@b'', ri_Password = ''other''\<rparr> (test_world 0 test_db)
     = (Inl (Sentinel User_ErrEmailTaken), w')"
proof -
  have n: "u_Email test_user = normalizeEmail newTestService (ri_Email \<lparr>ri_Email = ''a@b'', ri_Password = ''other''\<rparr>)"
    by (simp add: normalizeEmail_def newTestService_fields strings_ToLower_def is_ascii_def ascii_lower_def
      ascii_space_def byte_of_def test_user_def)
  have f: "e_faults (test_world 0 test_db) = []" "test_user \<in> set (users (w_db (test_world 0 test_db)))"
    by (simp_all add: test_world_def test_db_def)
  have h: "bc_GenerateFromPassword (svc_bcrypt newTestService)
      (bytes_of_string (ri_Password \<lparr>ri_Email = ''a@b'', ri_Password = ''other''\<rparr>)) (svc_cost newTestService)
      (w_ext (test_world 0 test_db)) = (Inr (104 # bytes_of_string ''other''), test_ext)"
    by (simp add: newTestService_fields fake_bcrypt_def test_world_def)
  show ?thesis using Register_taken [OF f n h] by blast
qed

end
