(* ===== verification/Session_Refinement.thy ===== *)
theory Session_Refinement
  imports Login_Properties Isolation
begin

text \<open>
  The session component against its abstract specification. Abstractly the
  service keeps one session per user at most: a partial map from users to the
  hash of their refresh token. Every operation of the service, on every path
  through it, error exits and failing infrastructure included, refines one
  step of this map.
\<close>

section \<open>The abstract machine\<close>

type_synonym sessions = "uuid \<Rightarrow> string option"

fun session_spec :: "op \<Rightarrow> sessions \<Rightarrow> sessions \<Rightarrow> bool" where
  "session_spec (OpRefresh t) m m' \<longleftrightarrow>
     (\<exists>u x. m' = m(u := x) \<and> (x = None \<or> x = m u \<or> m u = Some (tokenhash_Hash t)))"
| "session_spec (OpLogout t) m m' \<longleftrightarrow> m' = m \<or> (\<exists>u. m u = Some (tokenhash_Hash t) \<and> m' = m(u := None))"
| "session_spec (OpSetupVerifyOTP t code) m m' \<longleftrightarrow> (\<exists>u x. m' = m(u := x))"
| "session_spec (OpLoginVerifyOTP t code) m m' \<longleftrightarrow> (\<exists>u x. m' = m(u := x))"
| "session_spec (OpChangePassword i inp) m m' \<longleftrightarrow> m' = m \<or> m' = m(i := None)"
| "session_spec (OpDeleteAccount i a otp) m m' \<longleftrightarrow> m' = m \<or> m' = m(i := None)"
| "session_spec (OpConfirmPasswordReset t p) m m' \<longleftrightarrow> m' = m \<or> (\<exists>u. m' = m(u := None))"
| "session_spec OpWorker m m' \<longleftrightarrow> m' = m \<or> (\<exists>u. m' = m(u := None))"
| "session_spec _ m m' \<longleftrightarrow> m' = m"

definition token_sessions :: "refresh_token list \<Rightarrow> sessions" where
  "token_sessions ts u = map_option rt_TokenHash (sql_find (\<lambda>t. rt_UserID t = u \<and> live t) ts)"

definition sessions_of :: "db \<Rightarrow> sessions" where
  "sessions_of d = token_sessions (refresh_tokens d)"

section \<open>From rows to sessions\<close>

definition others :: "uuid \<Rightarrow> refresh_token list \<Rightarrow> refresh_token list" where
  "others i ts = filter (\<lambda>t. rt_UserID t \<noteq> i) ts"

definition single_live :: "refresh_token list \<Rightarrow> bool" where
  "single_live ts \<longleftrightarrow> (\<forall>t \<in> set ts. \<forall>t' \<in> set ts. live t \<longrightarrow> live t' \<longrightarrow> rt_UserID t = rt_UserID t' \<longrightarrow> t = t')"

lemma find_others: "u \<noteq> i \<Longrightarrow> sql_find (\<lambda>t. rt_UserID t = u \<and> live t) (others i ts) = sql_find (\<lambda>t. rt_UserID t = u \<and> live t) ts"
  by (induction ts) (auto simp: others_def sql_find_def)

lemma sessions_others:
  assumes "others i ts' = others i ts"
  shows "token_sessions ts' = (token_sessions ts)(i := token_sessions ts' i)"
proof (rule ext)
  fix u
  show "token_sessions ts' u = ((token_sessions ts)(i := token_sessions ts' i)) u"
    using find_others [of u i ts] find_others [of u i ts'] assms by (auto simp: token_sessions_def)
qed

lemma session_live:
  assumes "single_live ts" and "t \<in> set ts" and "live t"
  shows "token_sessions ts (rt_UserID t) = Some (rt_TokenHash t)"
proof -
  have "sql_find (\<lambda>x. rt_UserID x = rt_UserID t \<and> live x) ts \<noteq> None"
    using assms(2,3) by (auto simp: sql_find_None)
  then obtain x where x: "sql_find (\<lambda>x. rt_UserID x = rt_UserID t \<and> live x) ts = Some x" by blast
  with sql_find_Some [OF x] assms have "x = t" unfolding single_live_def by blast
  with x show ?thesis by (simp add: token_sessions_def)
qed

lemma session_closed:
  assumes "single_live ts" and "\<forall>t \<in> set ts'. live t \<longrightarrow> t \<in> set ts"
  shows "token_sessions ts' i = None \<or> token_sessions ts' i = token_sessions ts i"
proof (cases "sql_find (\<lambda>t. rt_UserID t = i \<and> live t) ts'")
  case (Some t)
  with sql_find_Some [OF Some] assms have "t \<in> set ts" "live t" "rt_UserID t = i" by auto
  with session_live [OF assms(1), of t] have "token_sessions ts i = Some (rt_TokenHash t)" by simp
  with Some show ?thesis by (auto simp: token_sessions_def)
qed (simp add: token_sessions_def)

lemma sessions_closed:
  assumes "others i ts' = others i ts" and "single_live ts" and "\<forall>t \<in> set ts'. live t \<longrightarrow> t \<in> set ts"
  shows "token_sessions ts' = token_sessions ts \<or> token_sessions ts' = (token_sessions ts)(i := None)"
  using sessions_others [OF assms(1)] session_closed [OF assms(2,3), of i] by (metis fun_upd_triv)

section \<open>Following the code\<close>

lemma dbh_same_tokens:
  assumes "keeps (\<lambda>w w'. refresh_tokens (w_db w') = refresh_tokens (w_db w)) m"
  shows "dbh (\<lambda>d. refresh_tokens d = L) m (\<lambda>_ d. refresh_tokens d = L) (\<lambda>_ d. refresh_tokens d = L)"
    and "dbh (\<lambda>d. others i (refresh_tokens d) = F) m (\<lambda>_ d. others i (refresh_tokens d) = F) (\<lambda>_ d. others i (refresh_tokens d) = F)"
  using keepsD [OF assms] by (intro dbhI; fastforce)+

lemma others_stmts:
  "revoke_all_tokens now i d = Inr (a, d') \<Longrightarrow> others i (refresh_tokens d') = others i (refresh_tokens d)"
  "delete_user i d = Inr (n, d') \<Longrightarrow> others i (refresh_tokens d') = others i (refresh_tokens d)"
  "insert_refresh_token t d = Inr (b, d') \<Longrightarrow> rt_UserID t = i \<Longrightarrow> others i (refresh_tokens d') = others i (refresh_tokens d)"
  by (auto simp: revoke_all_tokens_def delete_user_def insert_refresh_token_def others_def Let_def
      intro!: filter_sql_update filter_sql_delete split: if_splits)

lemma others_update:
  "\<forall>r \<in> set ts. P r \<longrightarrow> rt_UserID r = i \<Longrightarrow> \<forall>r. rt_UserID (f r) = rt_UserID r \<Longrightarrow> others i (sql_update P f ts) = others i ts"
  by (induction ts) (auto simp: sql_update_def others_def)

lemma others_revoke_token:
  assumes "revoke_token now (rt_ID rt) d = Inr (a, d')" and "unique_col col_rt_id (refresh_tokens d)" and "rt \<in> set (refresh_tokens d)"
  shows "others (rt_UserID rt) (refresh_tokens d') = others (rt_UserID rt) (refresh_tokens d)"
proof -
  have "rt_UserID r = rt_UserID rt" if "r \<in> set (refresh_tokens d)" "rt_ID r = rt_ID rt" for r
    using unique_colD [OF assms(2) that(1) assms(3)] that(2) by auto
  then have "others (rt_UserID rt) (sql_update (\<lambda>t. rt_ID t = rt_ID rt \<and> rt_RevokedAt t = None) (\<lambda>t. t\<lparr>rt_RevokedAt := Some now\<rparr>)
      (refresh_tokens d)) = others (rt_UserID rt) (refresh_tokens d)"
    by (intro others_update) auto
  moreover have "d' = d\<lparr>refresh_tokens := sql_update (\<lambda>t. rt_ID t = rt_ID rt \<and> rt_RevokedAt t = None)
      (\<lambda>t. t\<lparr>rt_RevokedAt := Some now\<rparr>) (refresh_tokens d)\<rparr>"
    using assms(1) by (simp add: revoke_token_def)
  ultimately show ?thesis by simp
qed

lemma others_repo:
  "dbh (\<lambda>d. others i (refresh_tokens d) = F) (refreshTokens_RevokeAllForUser i)
     (\<lambda>_ d. others i (refresh_tokens d) = F) (\<lambda>_ d. others i (refresh_tokens d) = F)"
  "rt_UserID t = i \<Longrightarrow> dbh (\<lambda>d. others i (refresh_tokens d) = F) (refreshTokens_Create t)
     (\<lambda>_ d. others i (refresh_tokens d) = F) (\<lambda>_ d. others i (refresh_tokens d) = F)"
  "dbh (\<lambda>d. others i (refresh_tokens d) = F) (users_Delete i)
     (\<lambda>_ d. others i (refresh_tokens d) = F) (\<lambda>_ d. others i (refresh_tokens d) = F)"
  by (rule dbh_post, rule dbh_writes, (clarify, drule others_stmts, simp_all)[1], assumption)+

lemma others_issueSession:
  "dbh (\<lambda>d. others (u_ID u) (refresh_tokens d) = F) (issueSession s u)
     (\<lambda>_ d. others (u_ID u) (refresh_tokens d) = F) (\<lambda>_ d. others (u_ID u) (refresh_tokens d) = F)"
  unfolding issueSession_def
  by (rule dbh_fact others_repo dbh_New(2) dbh_env dbh_comb | assumption)+

abbreviation same_tokens_stmt :: "'a stmt \<Rightarrow> bool" where
  "same_tokens_stmt \<equiv> stmt_keeps (\<lambda>d d'. refresh_tokens d' = refresh_tokens d)"

lemma token_free_stmts:
  "same_tokens_stmt (insert_user u)" "same_tokens_stmt (update_user u)" "same_tokens_stmt (update_user_password now i h)"
  "same_tokens_stmt (insert_credential c)" "same_tokens_stmt (update_credential c)"
  "same_tokens_stmt (insert_login_challenge lc)" "same_tokens_stmt (consume_login_challenge now i)"
  "same_tokens_stmt (insert_reset_flow f)" "same_tokens_stmt (update_reset_flow f)"
  "same_tokens_stmt (claim_job now)" "same_tokens_stmt (complete_step now i n)"
  "same_tokens_stmt (retry_step now i n at dl msg)" "same_tokens_stmt (release_job now i)"
  "same_tokens_stmt (complete_job now i)"
  by (auto simp: stmt_keeps_def stmt_defs claim_job_def complete_step_def retry_step_def release_job_def complete_job_def
      Let_def split: if_splits option.splits)

lemma token_free_writes:
  "setup_writes (\<lambda>d d'. refresh_tokens d' = refresh_tokens d)" "worker_writes (\<lambda>d d'. refresh_tokens d' = refresh_tokens d)"
  by (simp_all add: setup_writes_def worker_writes_def token_free_stmts)

text \<open>The operations that leave the sessions alone.\<close>

fun session_free :: "op \<Rightarrow> bool" where
  "session_free (OpRegister inp) = True"
| "session_free (OpLogin inp) = True"
| "session_free (OpUpdateProfile i a inp) = True"
| "session_free (OpRequestPasswordReset m) = True"
| "session_free (OpVerifyPasswordResetOTP t code) = True"
| "session_free (OpCleanup k) = True"
| "session_free _ = False"

lemma session_free_tokens: "session_free oper \<Longrightarrow> refresh_tokens (w_db (run_op s cl oper w)) = refresh_tokens (w_db w)"
proof -
  note ops = same_tokens.keeps_Register same_tokens.keeps_Login same_tokens.keeps_UpdateProfile
    same_tokens.keeps_RequestPasswordReset same_tokens.keeps_VerifyPasswordResetOTP same_tokens.keeps_run_cleanup
  show "session_free oper \<Longrightarrow> ?thesis"
    by (cases oper)
       (simp_all, (rule ops [unfolded keeps_def, rule_format]; intro token_free_stmts token_free_writes)+)
qed

lemmas token_free =
  same_tokens.keeps_verifyOTP [OF token_free_stmts(5)] same_tokens.keeps_loginChallenges_Consume [OF token_free_stmts(7)]
  same_tokens.keeps_credentials_Update [OF token_free_stmts(5)] same_tokens.keeps_passwordResetFlows_Update [OF token_free_stmts(9)]
  same_tokens.keeps_users_UpdatePassword [OF token_free_stmts(3)] same_tokens.keeps_job_store(1) [OF token_free_writes(2)]
  same_tokens.keeps_run_steps [OF token_free_writes(2)] same_tokens.keeps_job_store(4) [OF token_free_writes(2)]
  same_tokens.keeps_reads same_tokens.helper_intros

text \<open>The rows of all but one user are as in \<open>L\<close>.\<close>

definition spared :: "refresh_token list \<Rightarrow> db \<Rightarrow> bool" where
  "spared L d \<longleftrightarrow> (\<exists>i. others i (refresh_tokens d) = others i L)"

lemma spared_same: "refresh_tokens d = L \<Longrightarrow> spared L d"
  by (auto simp: spared_def)

lemma spared_others: "others i (refresh_tokens d) = others i L \<Longrightarrow> spared L d"
  by (auto simp: spared_def)

text \<open>From the first row that changes, the user is fixed: \<open>dbh_fix i\<close>.\<close>

lemma dbh_fix:
  assumes "dbh (\<lambda>d. others i (refresh_tokens d) = others i L) m
     (\<lambda>_ d. others i (refresh_tokens d) = others i L) (\<lambda>_ d. others i (refresh_tokens d) = others i L)"
  shows "dbh (\<lambda>d. refresh_tokens d = L) m (\<lambda>_. spared L) (\<lambda>_. spared L)"
  using assms by (rule dbh_conseq) (auto intro: spared_others)

lemma spared_step:
  assumes "keeps (\<lambda>w w'. refresh_tokens (w_db w') = refresh_tokens (w_db w)) m"
    and "\<And>x. dbh (\<lambda>d. refresh_tokens d = L) (k x) (\<lambda>_. spared L) (\<lambda>_. spared L)"
  shows "dbh (\<lambda>d. refresh_tokens d = L) (bindM m k) (\<lambda>_. spared L) (\<lambda>_. spared L)"
    and "dbh (\<lambda>d. refresh_tokens d = L) (wrapM msg m k) (\<lambda>_. spared L) (\<lambda>_. spared L)"
    and "(\<And>e. dbh (\<lambda>d. refresh_tokens d = L) (h e) (\<lambda>_. spared L) (\<lambda>_. spared L)) \<Longrightarrow>
      dbh (\<lambda>d. refresh_tokens d = L) (tryM m h k) (\<lambda>_. spared L) (\<lambda>_. spared L)"
  by (rule dbh_bindM dbh_wrapM dbh_tryM, rule dbh_same_tokens(1) [OF assms(1)], (auto intro: assms(2) spared_same; fail)+)+

lemma spared_end:
  "dbh (\<lambda>d. refresh_tokens d = L) (fail e) (\<lambda>_. spared L) (\<lambda>_. spared L)"
  "dbh (\<lambda>d. refresh_tokens d = L) (ret x) (\<lambda>_. spared L) (\<lambda>_. spared L)"
  by (auto intro: dbh_fail dbh_ret spared_same)

lemma spared_open:
  assumes "\<And>x. keeps (\<lambda>w w'. refresh_tokens (w_db w') = refresh_tokens (w_db w)) (k x)"
  shows "dbh (\<lambda>d. refresh_tokens d = L) (bindM (issueSession s u) k) (\<lambda>_. spared L) (\<lambda>_. spared L)"
  by (rule dbh_fix [of "u_ID u"], rule dbh_bindM, rule others_issueSession, assumption, rule dbh_same_tokens(2) [OF assms])

lemma spared_LoginVerifyOTP: "dbh (\<lambda>d. refresh_tokens d = L) (LoginVerifyOTP s t code) (\<lambda>_. spared L) (\<lambda>_. spared L)"
  unfolding LoginVerifyOTP_def
  by (rule spared_open spared_step spared_end dbh_if | (intro token_free)[1])+

lemma spared_SetupVerifyOTP: "dbh (\<lambda>d. refresh_tokens d = L) (SetupVerifyOTP s t code) (\<lambda>_. spared L) (\<lambda>_. spared L)"
  unfolding SetupVerifyOTP_def
  by (rule spared_open spared_step spared_end dbh_if | (intro token_free)[1])+

lemma spared_ConfirmPasswordReset:
  "dbh (\<lambda>d. refresh_tokens d = L) (ConfirmPasswordReset s t p) (\<lambda>_. spared L) (\<lambda>_. spared L)"
proof -
  have revoke: "dbh (\<lambda>d. refresh_tokens d = L) (wrapM msg (refreshTokens_RevokeAllForUser i) (\<lambda>_. deactivateAndCleanup s m i))
     (\<lambda>_. spared L) (\<lambda>_. spared L)" for msg m i
    by (rule dbh_fix [of i], rule dbh_wrapM, rule others_repo, assumption, rule dbh_env)
  show ?thesis
    unfolding ConfirmPasswordReset_def Let_def resetRefused_def
    by (rule revoke spared_step spared_end dbh_if | (intro token_free)[1])+
qed

lemma spared_RunOnce: "dbh (\<lambda>d. refresh_tokens d = L) (DeletionWorker_RunOnce cl) (\<lambda>_. spared L) (\<lambda>_. spared L)"
proof -
  have delete: "dbh (\<lambda>d. refresh_tokens d = L) (tryM (users_Delete i) (\<lambda>e. if b e then jobs_CompleteDeletionJob j else fail e)
      (\<lambda>_. jobs_CompleteDeletionJob j)) (\<lambda>_. spared L) (\<lambda>_. spared L)" for i j b
    by (rule dbh_fix [of i], rule dbh_tryM, rule others_repo, rule dbh_if)
       (rule dbh_same_tokens(2) dbh_fail | (intro token_free)[1] | assumption)+
  show ?thesis
    unfolding DeletionWorker_RunOnce_def run_job_def
    by (rule delete spared_step spared_end dbh_option | (intro token_free)[1])+
qed

section \<open>Refresh and logout\<close>

text \<open>
  The rows of one user have changed; either this user's live token had the
  hash \<open>h\<close>, or no token has become live.
\<close>

definition rotated :: "string \<Rightarrow> refresh_token list \<Rightarrow> db \<Rightarrow> bool" where
  "rotated h L d \<longleftrightarrow> (\<exists>i. others i (refresh_tokens d) = others i L \<and>
     ((\<exists>rt \<in> set L. live rt \<and> rt_UserID rt = i \<and> rt_TokenHash rt = h) \<or> (\<forall>x \<in> set (refresh_tokens d). live x \<longrightarrow> x \<in> set L)))"

lemma rotated_same: "refresh_tokens d = L \<Longrightarrow> rotated h L d"
  by (auto simp: rotated_def)

lemma rotated_revoke_all: "revoke_all_tokens now i d = Inr (a, d') \<Longrightarrow> rotated h (refresh_tokens d) d'"
  unfolding rotated_def
  by (rule exI [of _ i]) (auto simp: others_stmts revoke_all_tokens_def set_sql_update live_def)

lemma read_token:
  "dbh (\<lambda>d. refresh_tokens d = L) (refreshTokens_GetByHash h)
     (\<lambda>rt d. refresh_tokens d = L \<and> (rt \<in> set L \<and> rt_TokenHash rt = h)) (\<lambda>_ d. refresh_tokens d = L)"
  by (rule dbh_post, rule dbh_reads) (auto dest: sql_find_Some)

lemma read_user:
  "dbh (\<lambda>d. refresh_tokens d = L) (users_GetByID i) (\<lambda>u d. refresh_tokens d = L \<and> u_ID u = i) (\<lambda>_ d. refresh_tokens d = L)"
  by (rule dbh_post, rule dbh_reads) (auto dest: sql_find_Some)

lemma revoke_presented:
  assumes "unique_col col_rt_id L" and "rt \<in> set L"
  shows "dbh (\<lambda>d. refresh_tokens d = L) (refreshTokens_Revoke (rt_ID rt))
     (\<lambda>_ d. others (rt_UserID rt) (refresh_tokens d) = others (rt_UserID rt) L) (\<lambda>_ d. refresh_tokens d = L)"
proof (rule dbh_post, rule dbh_writes)
  fix x d'
  assume "\<exists>d now. refresh_tokens d = L \<and> revoke_token now (rt_ID rt) d = Inr ((), d')"
  then show "others (rt_UserID rt) (refresh_tokens d') = others (rt_UserID rt) L"
    using others_revoke_token assms by blast
qed

lemma others_revoke_all:
  "dbh (\<lambda>d. refresh_tokens d = L) (refreshTokens_RevokeAllForUser i) (\<lambda>_ d. others i (refresh_tokens d) = others i L)
     (\<lambda>_ d. others i (refresh_tokens d) = others i L)"
  by (rule dbh_conseq, rule others_repo(1)) auto

lemma rotate_live:
  assumes "unique_col col_rt_id L" and "rt \<in> set L" and "rt_TokenHash rt = h" and "live rt"
    and "dbh (\<lambda>d. refresh_tokens d = L) m (\<lambda>_ d. others (rt_UserID rt) (refresh_tokens d) = others (rt_UserID rt) L)
       (\<lambda>_ d. others (rt_UserID rt) (refresh_tokens d) = others (rt_UserID rt) L)"
  shows "dbh (\<lambda>d. refresh_tokens d = L) m (\<lambda>_. rotated h L) (\<lambda>_. rotated h L)"
  using assms(5) by (rule dbh_post) (use assms in \<open>auto simp: rotated_def\<close>)

lemma rotated_Refresh:
  assumes "unique_col col_rt_id L"
  shows "dbh (\<lambda>d. refresh_tokens d = L) (Refresh s t) (\<lambda>_. rotated (tokenhash_Hash t) L) (\<lambda>_. rotated (tokenhash_Hash t) L)"
  unfolding Refresh_def
proof (rule dbh_tryM, rule read_token, goal_cases)
  case (1 e)
  show ?case by (auto intro: dbh_fail rotated_same)
next
  case (2 rt)
  show ?case
  proof (rule dbh_fact, rule dbh_if, goal_cases)
    case 1
    show ?case
      by (rule dbh_wrapM, rule dbh_writes(7)) (auto intro: rotated_same rotated_revoke_all dbh_fail)
  next
    case 2
    then have rt: "rt \<in> set L" "rt_TokenHash rt = tokenhash_Hash t" "live rt" by (auto simp: live_def RefreshToken_IsRevoked_def)
    have issue: "dbh (\<lambda>d. others (rt_UserID rt) (refresh_tokens d) = others (rt_UserID rt) L) (issueSession s u)
      (\<lambda>_ d. others (rt_UserID rt) (refresh_tokens d) = others (rt_UserID rt) L)
      (\<lambda>_ d. others (rt_UserID rt) (refresh_tokens d) = others (rt_UserID rt) L)" if "u_ID u = rt_UserID rt" for u
      using others_issueSession [of u "others (rt_UserID rt) L" s] that by simp
    show ?case
      by (rule rotate_live [OF assms rt])
         (rule dbh_fact read_user others_revoke_all revoke_presented [OF assms rt(1)] issue dbh_env dbh_comb
          | assumption | (simp; fail))+
  qed
qed

definition logged_out :: "string \<Rightarrow> refresh_token list \<Rightarrow> db \<Rightarrow> bool" where
  "logged_out h L d \<longleftrightarrow> refresh_tokens d = L \<or>
     (\<exists>rt \<in> set L. live rt \<and> rt_TokenHash rt = h \<and> others (rt_UserID rt) (refresh_tokens d) = others (rt_UserID rt) L)"

lemma logged_out_Logout:
  assumes "unique_col col_rt_id L"
  shows "dbh (\<lambda>d. refresh_tokens d = L) (Logout s t) (\<lambda>_. logged_out (tokenhash_Hash t) L) (\<lambda>_. logged_out (tokenhash_Hash t) L)"
  unfolding Logout_def
proof (rule dbh_tryM, rule read_token, goal_cases)
  case (1 e)
  show ?case by (auto intro: dbh_ret dbh_fail simp: logged_out_def)
next
  case (2 rt)
  show ?case
  proof (rule dbh_fact, rule dbh_if, goal_cases)
    case 1
    show ?case by (auto intro: dbh_ret simp: logged_out_def)
  next
    case 2
    then have rt: "rt \<in> set L" "rt_TokenHash rt = tokenhash_Hash t" "live rt" by (auto simp: live_def RefreshToken_IsRevoked_def)
    then have out: "others (rt_UserID rt) (refresh_tokens d) = others (rt_UserID rt) L \<Longrightarrow> logged_out (tokenhash_Hash t) L d" for d
      by (auto simp: logged_out_def)
    have "dbh (\<lambda>d. others (rt_UserID rt) (refresh_tokens d) = others (rt_UserID rt) L)
        (wrapM m (external f) (\<lambda>_. cleanupSessionDevices s i j)) (\<lambda>_. logged_out (tokenhash_Hash t) L) (\<lambda>_. logged_out (tokenhash_Hash t) L)"
      for m i j f
      by (rule dbh_wrapM, rule dbh_env, erule out, rule dbh_post, rule dbh_env) (auto intro: out)
    then show ?case
      by (rule dbh_bindM [OF revoke_presented [OF assms rt(1)], rotated]) (simp add: logged_out_def)
  qed
qed

section \<open>The refinement\<close>

lemma op_dbh: "dbh (\<lambda>d. refresh_tokens d = refresh_tokens (w_db w)) m (\<lambda>_. P) (\<lambda>_. P) \<Longrightarrow> P (w_db (snd (m w)))"
  by (cases "m w"; cases "fst (m w)") (auto dest: dbhD_Inr dbhD_Inl)

lemma foreign_others: "foreign i d' = foreign i d \<Longrightarrow> others i (refresh_tokens d') = others i (refresh_tokens d)"
  by (simp add: foreign_def others_def)

text \<open>
  C2: The service refines the abstract session machine. In every reachable
  state, whatever operation runs and however it ends, the map from users to
  the hash of their live refresh token makes a step the specification allows:
  at most one user's session changes; only the two OTP verifications and the
  refresh open one, the refresh only in place of the session it was presented;
  a logout closes the presented session and no other, a password change or a
  deletion request the caller's; registration, login, profile changes and the
  first two steps of a password reset change no session at all.
\<close>

theorem session_refinement:
  assumes "reachable s cl w"
  shows "session_spec oper (sessions_of (w_db w)) (sessions_of (w_db (run_op s cl oper w)))"
proof -
  let ?L = "refresh_tokens (w_db w)" and ?T = "refresh_tokens (w_db (run_op s cl oper w))"
  have inv: "service_inv (svc_security s) (w_db w)" using assms by (rule reachable_inv)
  then have sl: "single_live ?L" by (simp add: service_inv_def one_live_def single_live_def)
  have un: "unique_col col_rt_id ?L" using inv by (auto simp: db_wf_def dest: service_invD(1))
  have closed: "token_sessions ?T = token_sessions ?L \<or> token_sessions ?T = (token_sessions ?L)(i := None)"
    if "\<not> opens_session oper" "others i ?T = others i ?L" for i
    using sessions_closed [OF that(2) sl] closing_op [OF that(1)] by blast
  have opened: "\<exists>u x. token_sessions ?T = (token_sessions ?L)(u := x)" if "spared ?L (w_db (run_op s cl oper w))"
    using that sessions_others unfolding spared_def by blast
  show ?thesis
  proof (cases oper)
    case (OpRefresh t)
    with op_dbh [OF rotated_Refresh [OF un, of s t]] obtain i where i: "others i ?T = others i ?L"
      and r: "(\<exists>rt \<in> set ?L. live rt \<and> rt_UserID rt = i \<and> rt_TokenHash rt = tokenhash_Hash t) \<or> (\<forall>x \<in> set ?T. live x \<longrightarrow> x \<in> set ?L)"
      by (auto simp: rotated_def)
    from r have "token_sessions ?T i = None \<or> token_sessions ?T i = token_sessions ?L i \<or> token_sessions ?L i = Some (tokenhash_Hash t)"
    proof
      assume "\<exists>rt \<in> set ?L. live rt \<and> rt_UserID rt = i \<and> rt_TokenHash rt = tokenhash_Hash t"
      then obtain rt where "rt \<in> set ?L" "live rt" "rt_UserID rt = i" "rt_TokenHash rt = tokenhash_Hash t" by blast
      with session_live [OF sl, of rt] show ?thesis by simp
    qed (use session_closed [OF sl, of ?T i] in blast)
    with sessions_others [OF i] have "\<exists>u x. token_sessions ?T = (token_sessions ?L)(u := x) \<and>
        (x = None \<or> x = token_sessions ?L u \<or> token_sessions ?L u = Some (tokenhash_Hash t))" by blast
    with OpRefresh show ?thesis by (simp add: sessions_of_def)
  next
    case (OpLogout t)
    with op_dbh [OF logged_out_Logout [OF un, of s t]] consider "?T = ?L" |
      rt where "rt \<in> set ?L" "live rt" "rt_TokenHash rt = tokenhash_Hash t" "others (rt_UserID rt) ?T = others (rt_UserID rt) ?L"
      by (auto simp: logged_out_def)
    then show ?thesis
    proof cases
      case 2
      with closed [of "rt_UserID rt"] session_live [OF sl 2(1,2)] OpLogout show ?thesis by (auto simp: sessions_of_def)
    qed (use OpLogout in \<open>simp add: sessions_of_def\<close>)
  next
    case (OpSetupVerifyOTP t code)
    with opened op_dbh [OF spared_SetupVerifyOTP, of w s t code] show ?thesis by (simp add: sessions_of_def)
  next
    case (OpLoginVerifyOTP t code)
    with opened op_dbh [OF spared_LoginVerifyOTP, of w s t code] show ?thesis by (simp add: sessions_of_def)
  next
    case (OpChangePassword i inp)
    with closed [OF _ foreign_others] keeps_foreignD [OF foreign_ChangePassword, of s i inp w] show ?thesis
      by (simp add: sessions_of_def) (metis prod.collapse)
  next
    case (OpDeleteAccount i a otp)
    with closed [OF _ foreign_others] keeps_foreignD [OF foreign_DeleteAccount, of s i a otp w] show ?thesis
      by (simp add: sessions_of_def) (metis prod.collapse)
  next
    case (OpConfirmPasswordReset t p)
    with op_dbh [OF spared_ConfirmPasswordReset, of w s t p] closed show ?thesis by (auto simp: sessions_of_def spared_def)
  next
    case OpWorker
    with op_dbh [OF spared_RunOnce, of w cl] closed show ?thesis by (auto simp: sessions_of_def spared_def)
  qed (use session_free_tokens [of oper s cl w] in \<open>simp_all add: sessions_of_def\<close>)
qed

theorem session_refinement_witness:
  "\<exists>h. sessions_of (w_db enrolled) 1000 = Some h \<and> sessions_of (w_db challenged) = sessions_of (w_db enrolled)"
proof -
  from in_mapped [OF enrolled_token] obtain t where t: "t \<in> set (filter live (refresh_tokens (w_db enrolled)))" "rt_UserID t = 1000" by blast
  have "sql_find (\<lambda>t. rt_UserID t = 1000 \<and> live t) (refresh_tokens (w_db enrolled)) \<noteq> None" using t by (auto simp: sql_find_None)
  then have "\<exists>h. sessions_of (w_db enrolled) 1000 = Some h" by (auto simp: sessions_of_def token_sessions_def)
  moreover obtain inp where c: "challenged = run_op newTestService fake_clients (OpLogin inp) enrolled" by (auto simp: challenged_def)
  from session_refinement [OF scenario_reachable(2), of "OpLogin inp"] have "sessions_of (w_db challenged) = sessions_of (w_db enrolled)"
    unfolding c by simp
  ultimately show ?thesis by blast
qed

end
