(* ===== verification/Password_Properties.thy ===== *)
theory Password_Properties
  imports Login_Properties
begin

text \<open>
  What the operations on the account itself guarantee: who can change a
  password and what a change ends, the three steps of the forgotten-password
  flow, and the profile update.
\<close>

section \<open>Who changes a password\<close>

definition same_password :: "user \<Rightarrow> user \<Rightarrow> bool" where
  "same_password u u' \<longleftrightarrow> u_ID u' = u_ID u \<and> u_Email u' = u_Email u \<and> u_PasswordHash u' = u_PasswordHash u"

definition passwords_kept :: "db \<Rightarrow> db \<Rightarrow> bool" where
  "passwords_kept d d' \<longleftrightarrow> (\<forall>u \<in> set (users d). \<exists>u' \<in> set (users d'). same_password u u')"

lemma passwords_kept_same: "users d' = users d \<Longrightarrow> passwords_kept d d'"
  by (auto simp: passwords_kept_def same_password_def)

interpretation pw: db_frame passwords_kept
proof
  show "passwords_kept d d" for d by (rule passwords_kept_same) (rule HOL.refl)
  show "passwords_kept a c" if "passwords_kept a b" "passwords_kept b c" for a b c
    using that unfolding passwords_kept_def same_password_def by metis
qed

lemma pw_stmts:
  "stmt_keeps passwords_kept (insert_user u)" "stmt_keeps passwords_kept (update_user u)"
  "stmt_keeps passwords_kept (insert_refresh_token t)"
  "stmt_keeps passwords_kept (revoke_token now i)" "stmt_keeps passwords_kept (revoke_all_tokens now i)"
  "stmt_keeps passwords_kept (insert_credential c)" "stmt_keeps passwords_kept (update_credential c)"
  "stmt_keeps passwords_kept (insert_login_challenge lc)"
  "stmt_keeps passwords_kept (consume_login_challenge now i)"
  "stmt_keeps passwords_kept (insert_reset_flow f)" "stmt_keeps passwords_kept (update_reset_flow f)"
proof -
  show "stmt_keeps passwords_kept (insert_user u)"
    by (rule stmt_keepsI) (auto simp: passwords_kept_def same_password_def insert_user_def split: if_splits)
  show "stmt_keeps passwords_kept (update_user u)"
    by (rule stmt_keepsI)
       (auto simp: passwords_kept_def same_password_def update_user_def bex_sql_update; metis)
qed (rule stmt_keepsI, rule passwords_kept_same, auto simp: stmt_defs split: if_splits option.splits)+

lemma pw_writes: "session_writes passwords_kept" "setup_writes passwords_kept"
  by (simp_all add: session_writes_def setup_writes_def pw_stmts)

fun changes_password :: "op \<Rightarrow> bool" where
  "changes_password (OpChangePassword i inp) = True"
| "changes_password (OpConfirmPasswordReset t p) = True"
| "changes_password _ = False"

text \<open>A deletion request or a round of the worker changes no password of an account that stays.\<close>

definition no_other_password :: "user \<Rightarrow> db \<Rightarrow> bool" where
  "no_other_password u d \<longleftrightarrow> (\<forall>u' \<in> set (users d). u_ID u' = u_ID u \<longrightarrow> same_password u u')"

interpretation npw: db_frame "\<lambda>d d'. no_other_password u d \<longrightarrow> no_other_password u d'" for u
  by unfold_locales auto

lemma npw_stmts:
  "deletion_writes (\<lambda>d d'. no_other_password u d \<longrightarrow> no_other_password u d')"
  "worker_writes (\<lambda>d d'. no_other_password u d \<longrightarrow> no_other_password u d')"
  "stmt_keeps (\<lambda>d d'. no_other_password u d \<longrightarrow> no_other_password u d') (update_credential c)"
  "stmt_keeps (\<lambda>d d'. no_other_password u d \<longrightarrow> no_other_password u d') (revoke_all_tokens now i)"
  "stmt_keeps (\<lambda>d d'. no_other_password u d \<longrightarrow> no_other_password u d') (delete_user i)"
  by (auto simp: deletion_writes_def worker_writes_def stmt_keeps_def deletion_defs update_credential_def revoke_all_tokens_def
      delete_user_def no_other_password_def same_password_def set_sql_update set_sql_delete Let_def split: if_splits option.splits)

lemma deletes_no_password:
  assumes "deletes oper" and "no_other_password u (w_db w)"
  shows "no_other_password u (w_db (run_op s cl oper w))"
  using assms
  by (cases oper)
     (simp_all, (rule npw.keeps_DeleteAccount [unfolded keeps_def, rule_format, OF npw_stmts(3,1,4,5)] npw.keeps_RunOnce [unfolded keeps_def, rule_format, OF npw_stmts(2,5)], assumption)+)

text \<open>
  C33: A password changes through a password change or a confirmed reset only.
  After every other operation, on every path through it, each account still has
  its id, email and password hash; or it is gone, which only a deletion
  request or a round of the worker can bring about.
\<close>

theorem password_changes_only:
  assumes "db_wf (w_db w)" and "\<not> changes_password oper" and "u \<in> set (users (w_db w))"
  shows "(\<exists>u' \<in> set (users (w_db (run_op s cl oper w))).
       u_ID u' = u_ID u \<and> u_Email u' = u_Email u \<and> u_PasswordHash u' = u_PasswordHash u) \<or>
     deletes oper \<and> (\<forall>u' \<in> set (users (w_db (run_op s cl oper w))). u_ID u' \<noteq> u_ID u)"
proof (cases "deletes oper")
  case False
  note ops = pw.keeps_Register pw.keeps_Login pw.keeps_Refresh pw.keeps_Logout pw.keeps_UpdateProfile
    pw.keeps_SetupVerifyOTP pw.keeps_LoginVerifyOTP pw.keeps_RequestPasswordReset
    pw.keeps_VerifyPasswordResetOTP pw.keeps_run_cleanup
  have "passwords_kept (w_db w) (w_db (run_op s cl oper w))"
    using False assms(2)
    by (cases oper)
       (simp_all, (rule ops [unfolded keeps_def, rule_format]; intro pw_stmts pw_writes)+)
  with assms(3) show ?thesis by (auto simp: passwords_kept_def same_password_def)
next
  case True
  have "unique_col col_u_id (users (w_db w))" using assms(1) by (simp add: db_wf_def)
  from unique_colD [OF this assms(3)] have "no_other_password u (w_db w)"
    by (auto simp: no_other_password_def same_password_def)
  from deletes_no_password [OF True this, of s cl] True show ?thesis
    unfolding no_other_password_def same_password_def by blast
qed

theorem password_changes_only_witness:
  "\<exists>u \<in> set (users (w_db registered)). \<exists>v \<in> set (users (w_db enrolled)). \<exists>v' \<in> set (users (w_db leaving)).
     u_Email v' = ''a@b'' \<and> u_PasswordHash v = u_PasswordHash u \<and> u_PasswordHash v' = u_PasswordHash u"
proof -
  note wf = service_invD(1) [OF reachable_inv [OF scenario_reachable(1)]] service_invD(1) [OF reachable_inv [OF scenario_reachable(2)]]
  from in_mapped [OF registered_users] obtain u where u: "u \<in> set (users (w_db registered))" "u_Email u = ''a@b''" by blast
  from password_changes_only [OF wf(1) _ u(1), of "OpSetupVerifyOTP zero_raw ''''" newTestService fake_clients]
  obtain v where v: "v \<in> set (users (w_db enrolled))" "u_Email v = ''a@b''" "u_PasswordHash v = u_PasswordHash u"
    using u(2) by (auto simp: enrolled_def)
  have id: "u_ID v = 1000" using v(1) arg_cong [OF enrolled_account(1), of set] by auto
  from in_mapped [OF leaving_status] have "\<exists>x \<in> set (users (w_db leaving)). u_ID x = 1000" by auto
  with password_changes_only [OF wf(2) _ v(1), of "OpDeleteAccount 1000 ''jwt'' ''1''" newTestService fake_clients] id
  obtain v' where "v' \<in> set (users (w_db leaving))" "u_Email v' = ''a@b''" "u_PasswordHash v' = u_PasswordHash v"
    using v(2) by (auto simp: leaving_def)
  with u(1) v show ?thesis by metis
qed

section \<open>Changing the password\<close>

text \<open>\<open>password_set s i p w w'\<close>: user \<open>i\<close>, and nobody else, has got a hash of \<open>p\<close>.\<close>

definition password_set :: "'x service \<Rightarrow> uuid \<Rightarrow> string \<Rightarrow> db \<Rightarrow> db \<Rightarrow> bool" where
  "password_set s i p d d' \<longleftrightarrow> (\<exists>x x' h now.
     bc_GenerateFromPassword (svc_bcrypt s) (bytes_of_string p) (svc_cost s) x = (Inr h, x') \<and>
     users d' = sql_update (\<lambda>r. u_ID r = i) (\<lambda>r. r\<lparr>u_PasswordHash := string_of_bytes h, u_UpdatedAt := now\<rparr>) (users d))"

lemma hasher_Hash_Inr:
  "hasher_Hash s p w = (Inr h, w') \<Longrightarrow> \<exists>x x' b.
     bc_GenerateFromPassword (svc_bcrypt s) (bytes_of_string p) (svc_cost s) x = (Inr b, x') \<and> h = string_of_bytes b"
  by (auto simp: hasher_Hash_def BcryptHasher_Hash_def peel external_Pair)

lemma deactivateAndCleanup_Inr:
  assumes "deactivateAndCleanup s msg i w = (Inr (), w')"
  obtains prev had where "ss_DeactivateAndReturnPrevious (svc_sessions s) i (w_ext w) = (Inr (prev, had), w_ext w')"
    "w_db w' = w_db w"
proof -
  from assms obtain prev had w1 where
    1: "external (ss_DeactivateAndReturnPrevious (svc_sessions s) i) w = (Inr (prev, had), w1)" and
    2: "(if had then cleanupSessionDevices s i prev else ret ()) w1 = (Inr (), w')"
    by (auto simp: deactivateAndCleanup_def peel)
  have same: "w_ext w' = w_ext w1" "w_db w' = w_db w1"
    using 2 cleanup_frame [of s i prev w1 "Inr ()" w'] by (simp_all split: if_splits)
  from 1 obtain x where "ss_DeactivateAndReturnPrevious (svc_sessions s) i (w_ext w) = (Inr (prev, had), x)"
    "w1 = w\<lparr>w_ext := x\<rparr>" unfolding external_Pair by blast
  then show thesis using same that [of prev had] by simp
qed

lemma users_UpdatePassword_rows:
  assumes "users_UpdatePassword i h w = (Inr (), w')"
  obtains now where "users (w_db w') =
      sql_update (\<lambda>r. u_ID r = i) (\<lambda>r. r\<lparr>u_PasswordHash := h, u_UpdatedAt := now\<rparr>) (users (w_db w))"
    "password_reset_flows (w_db w') = password_reset_flows (w_db w)"
proof -
  from users_UpdatePassword_Inr [OF assms] obtain now n where
    "update_user_password now i h (w_db w) = Inr (n, w_db w')" by blast
  from this [symmetric] that [of now] show thesis by (simp add: update_user_password_def)
qed

text \<open>The end shared by the two password operations.\<close>

lemma sessions_ended:
  assumes "session_store (svc_sessions s) active"
    and 1: "refreshTokens_RevokeAllForUser i w = (Inr (), w1)" and 2: "deactivateAndCleanup s msg i w1 = (Inr (), w')"
  shows "no_live i (w_db w')" "active (w_ext w') i = None" "users (w_db w') = users (w_db w)"
    "password_reset_flows (w_db w') = password_reset_flows (w_db w)"
proof -
  from refreshTokens_RevokeAllForUser_Inr [OF 1] obtain now where
    r: "revoke_all_tokens now i (w_db w) = Inr ((), w_db w1)" by blast
  from 2 obtain prev had where
    d: "ss_DeactivateAndReturnPrevious (svc_sessions s) i (w_ext w1) = (Inr (prev, had), w_ext w')" "w_db w' = w_db w1"
    by (rule deactivateAndCleanup_Inr)
  show "no_live i (w_db w')" using revoke_all_no_live [OF r] d(2) by simp
  show "active (w_ext w') i = None" using session_store.deactivated(2) [OF assms(1) d(1)] .
  show "users (w_db w') = users (w_db w)" "password_reset_flows (w_db w') = password_reset_flows (w_db w)"
    using r [symmetric] d(2) by (auto simp: revoke_all_tokens_def)
qed

text \<open>
  C34: A password change needs the current password and the second factor, and
  ends every session. When \<open>ChangePassword\<close> succeeds, the hasher accepted the
  current password, the gate accepted the code, the user and nobody else has a
  hash of the new password, no refresh token of the user is live and the
  session store has no active session for the user.
\<close>

theorem ChangePassword_effect:
  assumes "session_store (svc_sessions s) active" and "ChangePassword s i inp w = (Inr (), w')"
  shows "\<exists>u c k t now. u \<in> set (users (w_db w)) \<and> u_ID u = i \<and>
     hasher_Verify s (u_PasswordHash u) (cp_CurrentPassword inp) = None \<and>
     c \<in> set (two_factor_credentials (w_db w)) \<and> c_UserID c = i \<and> t \<in> readings w \<and> \<not> locked_at c t \<and>
     now \<in> readings w \<and> accepted s (u_Email u) c (cp_OTP inp) k now \<and>
     password_set s i (cp_NewPassword inp) (w_db w) (w_db w') \<and> no_live i (w_db w') \<and> active (w_ext w') i = None"
proof -
  from assms(2) obtain u w1 c w2 c' w3 h w4 w5 w6 where
    1: "users_GetByID i w = (Inr u, w1)" and v: "hasher_Verify s (u_PasswordHash u) (cp_CurrentPassword inp) = None" and
    2: "credentials_GetByUserID i w1 = (Inr c, w2)" and 3: "verifyOTP s (u_Email u) c (cp_OTP inp) w2 = (Inr c', w3)" and
    4: "hasher_Hash s (cp_NewPassword inp) w3 = (Inr h, w4)" and 5: "users_UpdatePassword i h w4 = (Inr (), w5)" and
    6: "refreshTokens_RevokeAllForUser i w5 = (Inr (), w6)" and
    7: "deactivateAndCleanup s ''auth: deactivate session after password change'' i w6 = (Inr (), w')"
    by (auto simp: ChangePassword_def peel split: if_splits)
  note r = users_GetByID_Inr [OF 1] credentials_GetByUserID_Inr [OF 2]
  have "readings w2 \<subseteq> readings w" using reads_readings(4) [OF 1] reads_readings(2) [OF 2] by simp
  moreover have "unchanged w w2" using r by simp
  ultimately have p: "passed s u c (cp_OTP inp) c' w w3" by (rule_tac verifyOTP_passed [OF 3])
  then obtain k t now where g: "t \<in> readings w" "\<not> locked_at c t" "now \<in> readings w"
    "accepted s (u_Email u) c (cp_OTP inp) k now" unfolding passed_def by blast
  from hasher_Hash_Inr [OF 4] obtain x x' b where
    h: "bc_GenerateFromPassword (svc_bcrypt s) (bytes_of_string (cp_NewPassword inp)) (svc_cost s) x = (Inr b, x')"
    "h = string_of_bytes b" by blast
  from 5 obtain now' where
    "users (w_db w5) = sql_update (\<lambda>r. u_ID r = i) (\<lambda>r. r\<lparr>u_PasswordHash := h, u_UpdatedAt := now'\<rparr>) (users (w_db w4))"
    by (rule users_UpdatePassword_rows)
  moreover have "users (w_db w4) = users (w_db w)"
    using keepsD [OF same_db.keeps_hasher_Hash 4] passed_frame(3) [OF p] by simp
  ultimately have "password_set s i (cp_NewPassword inp) (w_db w) (w_db w5)" using h unfolding password_set_def by auto
  with sessions_ended [OF assms(1) 6 7] have e: "password_set s i (cp_NewPassword inp) (w_db w) (w_db w')"
    "no_live i (w_db w')" "active (w_ext w') i = None" by (simp_all add: password_set_def)
  from r have "u \<in> set (users (w_db w)) \<and> u_ID u = i" "c \<in> set (two_factor_credentials (w_db w)) \<and> c_UserID c = i"
    by (auto dest: sql_find_Some)
  with v g e show ?thesis by blast
qed

lemma ChangePassword_runs:
  "\<exists>w'. ChangePassword newTestService 1 \<lparr>cp_CurrentPassword = ''pw'', cp_NewPassword = ''new'', cp_OTP = ''55555''\<rparr>
     (test_world (150 * time_Second) test_db) = (Inr (), w')"
  by (simp add: ChangePassword_def run_simps run_repositories run_domain run_service run_fakes Let_def bytes_of_string_def)

theorem ChangePassword_effect_witness:
  "\<exists>w'. ChangePassword newTestService 1 \<lparr>cp_CurrentPassword = ''pw'', cp_NewPassword = ''new'', cp_OTP = ''55555''\<rparr>
     (test_world (150 * time_Second) test_db) = (Inr (), w') \<and> no_live 1 (w_db w') \<and> fx_active (w_ext w') 1 = None"
  using ChangePassword_runs ChangePassword_effect [OF fake_sessions] by blast

end
