(* ===== verification/Reset_Properties.thy ===== *)
theory Reset_Properties
  imports Password_Properties
begin

text \<open>
  What the forgotten-password flow guarantees: the request tells nothing about
  the account, the OTP step needs a code of the account's second factor and
  neither reads nor moves the account-level lockout, the confirmation needs a
  verified flow, ends every session and works once.
\<close>

section \<open>Requesting a reset\<close>

lemma run_GetByUserID:
  "e_faults w = [] \<Longrightarrow> credentials_GetByUserID i w = (case sql_find (\<lambda>c. c_UserID c = i) (two_factor_credentials (w_db w)) of
     None \<Rightarrow> (Inl (Sentinel Totp_ErrNotFound), w) | Some r \<Rightarrow> (Inr r, w))"
  unfolding credentials_GetByUserID_def credentials_scanOne_def by (rule run_scan)

lemma run_GetByEmail:
  "e_faults w = [] \<Longrightarrow> users_GetByEmail m w = (case sql_find (\<lambda>u. u_Email u = m) (users (w_db w)) of
     None \<Rightarrow> (Inl (Sentinel User_ErrNotFound), w) | Some r \<Rightarrow> (Inr r, w))"
  unfolding users_GetByEmail_def users_scanOne_def by (rule run_scan)

lemma run_eligibleUser:
  assumes "e_faults w = []"
  obtains oi where "eligibleUser s email w = (Inr oi, w)" "\<forall>i. oi = Some i \<longrightarrow> user_exists i (w_db w)"
proof (cases "sql_find (\<lambda>u. u_Email u = normalizeEmail s email) (users (w_db w))")
  case None
  then show thesis using that [of None] by (simp add: eligibleUser_def tryM_apply run_GetByEmail [OF assms])
next
  case (Some u)
  then have "user_exists (u_ID u) (w_db w)" by (auto simp: user_exists_iff dest: sql_find_Some)
  then show thesis
    using Some that
    by (cases "sql_find (\<lambda>c. c_UserID c = u_ID u) (two_factor_credentials (w_db w))")
       (auto simp: eligibleUser_def tryM_apply run_GetByEmail [OF assms] run_GetByUserID [OF assms])
qed

text \<open>What is left of the request once the account is looked up.\<close>

definition create_flow :: "'x service \<Rightarrow> uuid option \<Rightarrow> ('x world, PasswordResetRequestResult) comp" where
  "create_flow s oi =
     wrapM ''auth: generate password reset flow token'' tokenhash_Generate (\<lambda>rawFlowToken.
     bindM (PasswordResetFlow_New oi (tokenhash_Hash rawFlowToken)
              (sc_PasswordResetFlowTTL (svc_security s))) (\<lambda>flow.
     wrapM ''auth: store password reset flow'' (passwordResetFlows_Create flow) (\<lambda>_.
     ret \<lparr>pr_FlowToken = rawFlowToken, pr_ExpiresAt = f_ExpiresAt flow\<rparr>)))"

lemma insert_reset_flow_other_user:
  assumes "\<forall>i. f_UserID f = Some i \<longrightarrow> user_exists i d" and "\<forall>i. oi = Some i \<longrightarrow> user_exists i d"
  shows "(case insert_reset_flow f d of Inl e \<Rightarrow> Inl e | Inr (x, _) \<Rightarrow> Inr x) =
     (case insert_reset_flow (f\<lparr>f_UserID := oi\<rparr>) d of Inl e \<Rightarrow> Inl e | Inr (x, _) \<Rightarrow> Inr x)"
  using assms by (auto simp: insert_reset_flow_def split: option.splits)

lemma flow_New_user:
  obtains f w' where "\<And>ok. PasswordResetFlow_New ok h ttl w = (Inr (f\<lparr>f_UserID := ok\<rparr>), w')"
    "e_faults w' = e_faults w" "w_db w' = w_db w"
proof
  let ?f = "\<lparr>f_ID = e_uuids w (e_uuid_pos w), f_UserID = None, f_FlowTokenHash = h, f_OTPVerifiedAt = None,
     f_OTPAttempts = 0, f_ResetTokenHash = None, f_ResetTokenExpiresAt = None, f_ExpiresAt = clock_now w + ttl,
     f_ConsumedAt = None, f_CreatedAt = clock_now w\<rparr>"
  let ?w' = "snd (uuid_New (snd (time_Now w)))"
  show "PasswordResetFlow_New ok h ttl w = (Inr (?f\<lparr>f_UserID := ok\<rparr>), ?w')" for ok
    by (cases "e_clock w")
       (simp_all add: PasswordResetFlow_New_def bindM_apply time_Now_def uuid_New_def clock_now_def)
  show "e_faults ?w' = e_faults w" by (cases "e_clock w") (simp_all add: time_Now_def uuid_New_def)
  show "w_db ?w' = w_db w" unfolding time_Now_def uuid_New_def by (simp split: list.split)
qed

lemma create_flow_uniform:
  assumes "e_faults w = []" and "\<forall>i. oi = Some i \<longrightarrow> user_exists i (w_db w)" "\<forall>i. oj = Some i \<longrightarrow> user_exists i (w_db w)"
  shows "fst (create_flow s oi w) = fst (create_flow s oj w)"
proof -
  obtain raw w1 where 1: "tokenhash_Generate w = (Inr raw, w1)" "e_faults w1 = []" "w_db w1 = w_db w"
    using assms(1) by (simp add: run_Generate)
  obtain f w2 where f: "\<And>ok. PasswordResetFlow_New ok (tokenhash_Hash raw) (sc_PasswordResetFlowTTL (svc_security s)) w1
      = (Inr (f\<lparr>f_UserID := ok\<rparr>), w2)" "e_faults w2 = []" "w_db w2 = w_db w"
    by (rule flow_New_user [of "tokenhash_Hash raw" "sc_PasswordResetFlowTTL (svc_security s)" w1]) (simp only: 1(2,3))
  have "\<And>ok. passwordResetFlows_Create (f\<lparr>f_UserID := ok\<rparr>) w2 = (case insert_reset_flow (f\<lparr>f_UserID := ok\<rparr>) (w_db w) of
      Inl e \<Rightarrow> (Inl (Wrap ''postgres: create password reset flow'' e), w2) | Inr (x, d) \<Rightarrow> (Inr x, w2\<lparr>w_db := d\<rparr>))"
    using f(2,3) by (auto simp: passwordResetFlows_Create_def wrapM_apply run_exec_sql split: sum.split prod.split)
  then show ?thesis
    using insert_reset_flow_other_user [of "f\<lparr>f_UserID := oi\<rparr>" "w_db w" oj] assms(2,3)
    by (auto simp: create_flow_def wrapM_apply bindM_apply 1(1) f(1) split: sum.splits prod.splits)
qed

text \<open>
  C35: Requesting a reset does not tell whether the account exists. With the
  database up, the answer to a request (token and expiry, or the error) is the
  same whatever the email: known or unknown, with or without a second factor.
\<close>

theorem RequestPasswordReset_uniform:
  assumes "e_faults w = []"
  shows "fst (RequestPasswordReset s email1 w) = fst (RequestPasswordReset s email2 w)"
proof -
  have split: "RequestPasswordReset s email = bindM (eligibleUser s email) (create_flow s)" for email
    unfolding RequestPasswordReset_def create_flow_def [abs_def] ..
  obtain oi oj where "eligibleUser s email1 w = (Inr oi, w)" "\<forall>i. oi = Some i \<longrightarrow> user_exists i (w_db w)"
    "eligibleUser s email2 w = (Inr oj, w)" "\<forall>i. oj = Some i \<longrightarrow> user_exists i (w_db w)"
    using run_eligibleUser [OF assms] by metis
  then show ?thesis using create_flow_uniform [OF assms, of oi oj s] by (simp add: split bindM_apply)
qed

theorem RequestPasswordReset_uniform_witness:
  "fst (RequestPasswordReset newTestService ''a@b'' (test_world 0 test_db)) =
     fst (RequestPasswordReset newTestService ''nobody'' (test_world 0 test_db))"
  by (rule RequestPasswordReset_uniform) (simp add: test_world_def)

section \<open>Verifying the code\<close>

context db_frame
begin

lemma keeps_flowCodeValid: "(\<And>c. stmt_keeps D (update_credential c)) \<Longrightarrow> keepsD (flowCodeValid s f code)"
  unfolding flowCodeValid_def by (intro helper_intros)

end

lemma flowCodeValid_flows:
  "flowCodeValid s f code w = (r, w') \<Longrightarrow> password_reset_flows (w_db w') = password_reset_flows (w_db w)"
  by (erule keepsD [OF same_flows.keeps_flowCodeValid, rotated])
     (auto simp: stmt_keeps_def dest: update_credential_frame)

lemma flow_read_clock:
  "PasswordResetFlow_IsExpired f w = (Inr b, w') \<Longrightarrow>
     unchanged w w' \<and> b = (clock_now w > f_ExpiresAt f) \<and> readings w' \<subseteq> readings w"
  by (auto simp: PasswordResetFlow_IsExpired_def peel dest: time_Now_reads time_Now_readings)

lemma flowCodeValid_True:
  assumes "flowCodeValid s f code w = (Inr True, w')"
  obtains i c u k now where "f_UserID f = Some i"
    "sql_find (\<lambda>c. c_UserID c = i) (two_factor_credentials (w_db w)) = Some c" "Credential_IsEnabled c"
    "sql_find (\<lambda>u. u_ID u = i) (users (w_db w)) = Some u" "now \<in> readings w" "accepted s (u_Email u) c code k now"
proof -
  from assms obtain i c w1 u w2 ok k d w3 where i: "f_UserID f = Some i" and
    1: "credentials_GetByUserID i w = (Inr c, w1)" and e: "Credential_IsEnabled c" and
    2: "users_GetByID i w1 = (Inr u, w2)" and 3: "validateOTP s (u_Email u) c code w2 = (Inr (ok, k, d), w3)" and
    ok: "ok" "d \<or> \<not> Credential_IsCodeConsumed k c"
    by (auto simp: flowCodeValid_def peel if_peel split: if_splits)
  note r = credentials_GetByUserID_Inr [OF 1] users_GetByID_Inr [OF 2]
  from validateOTP_Inr [OF 3] ok obtain now where "now \<in> readings w2" "accepted s (u_Email u) c code k now" by auto
  moreover have "readings w2 = readings w" using reads_readings(2) [OF 1] reads_readings(4) [OF 2] by simp
  ultimately show thesis using that [of i c u now k] i r e by auto
qed

lemma update_reset_flow_stores:
  assumes "update_reset_flow f d = Inr (n, d')" and "n \<noteq> 0"
  obtains r where "r \<in> set (password_reset_flows d)" "f_ID r = f_ID f"
    "r\<lparr>f_OTPVerifiedAt := f_OTPVerifiedAt f, f_OTPAttempts := f_OTPAttempts f, f_ResetTokenHash := f_ResetTokenHash f,
       f_ResetTokenExpiresAt := f_ResetTokenExpiresAt f, f_ConsumedAt := f_ConsumedAt f\<rparr> \<in> set (password_reset_flows d')"
proof -
  have n: "n = sql_count (\<lambda>r. f_ID r = f_ID f) (password_reset_flows d)"
    and d': "password_reset_flows d' = sql_update (\<lambda>r. f_ID r = f_ID f)
       (\<lambda>r. r\<lparr>f_OTPVerifiedAt := f_OTPVerifiedAt f, f_OTPAttempts := f_OTPAttempts f, f_ResetTokenHash := f_ResetTokenHash f,
       f_ResetTokenExpiresAt := f_ResetTokenExpiresAt f, f_ConsumedAt := f_ConsumedAt f\<rparr>) (password_reset_flows d)"
    using assms(1) by (auto simp: update_reset_flow_def split: if_splits)
  from n assms(2) sql_count_0 [of "\<lambda>r. f_ID r = f_ID f" "password_reset_flows d"]
  obtain r where r: "r \<in> set (password_reset_flows d)" "f_ID r = f_ID f" by auto
  with d' that [of r] show thesis by (force simp: set_sql_update)
qed

text \<open>The conditions under which the OTP step of a flow is open.\<close>

definition flow_open :: "'x service \<Rightarrow> time \<Rightarrow> reset_flow \<Rightarrow> bool" where
  "flow_open s now f \<longleftrightarrow> now \<le> f_ExpiresAt f \<and> f_ConsumedAt f = None \<and> f_OTPVerifiedAt f = None \<and>
     f_OTPAttempts f < sc_ResetFlowMaxOTPAttempts (svc_security s)"

lemma VerifyPasswordResetOTP_Inr:
  assumes "VerifyPasswordResetOTP s tok code w = (Inr r, w')"
  obtains f w1 w2 t1 t2 n where
    "sql_find (\<lambda>f. f_FlowTokenHash f = tokenhash_Hash tok) (password_reset_flows (w_db w)) = Some f"
    "flow_open s (clock_now w) f" "flowCodeValid s f code w1 = (Inr True, w2)" "unchanged w w1" "readings w1 \<subseteq> readings w"
    "n \<noteq> 0" "update_reset_flow (f\<lparr>f_OTPVerifiedAt := Some t1, f_ResetTokenHash := Some (tokenhash_Hash (po_ResetToken r)),
       f_ResetTokenExpiresAt := Some t2\<rparr>) (w_db w2) = Inr (n, w_db w')" "po_ExpiresAt r = t2"
proof -
  from assms obtain f w1 w2 w3 raw w4 g w5 h w6 where
    1: "passwordResetFlows_GetByFlowTokenHash (tokenhash_Hash tok) w = (Inr f, w1)" and
    2: "PasswordResetFlow_IsExpired f w1 = (Inr False, w2)" "\<not> PasswordResetFlow_IsConsumed f" "\<not> PasswordResetFlow_IsOTPVerified f"
      "\<not> PasswordResetFlow_IsOTPLocked (sc_ResetFlowMaxOTPAttempts (svc_security s)) f" and
    3: "flowCodeValid s f code w2 = (Inr True, w3)" and
    4: "tokenhash_Generate w3 = (Inr raw, w4)" and
    5: "PasswordResetFlow_MarkOTPVerified f w4 = (Inr g, w5)" and
    6: "PasswordResetFlow_IssueResetToken (tokenhash_Hash raw) (sc_PasswordResetTokenTTL (svc_security s)) g w5 = (Inr h, w6)" and
    7: "passwordResetFlows_Update h w6 = (Inr (), w')" and
    r: "r = \<lparr>po_ResetToken = raw, po_ExpiresAt = the (f_ResetTokenExpiresAt h)\<rparr>"
    by (auto simp: VerifyPasswordResetOTP_def peel if_peel Let_def PasswordResetFlow_RecordOTPFailure_def)
  note x = passwordResetFlows_GetByFlowTokenHash_Inr [OF 1] flow_read_clock [OF 2(1)]
  obtain t1 t2 where h: "h = f\<lparr>f_OTPVerifiedAt := Some t1, f_ResetTokenHash := Some (tokenhash_Hash raw), f_ResetTokenExpiresAt := Some t2\<rparr>"
    using PasswordResetFlow_MarkOTPVerified_Inr [OF 5] PasswordResetFlow_IssueResetToken_Inr [OF 6] by auto
  have "w_db w6 = w_db w3"
    using keepsD [OF same_db.keeps_tokenhash_Generate 4] keepsD [OF same_db.keeps_PasswordResetFlow(3) 5]
      keepsD [OF same_db.keeps_PasswordResetFlow(4) 6] by simp
  moreover from passwordResetFlows_Update_Inr [OF 7] obtain n where "n \<noteq> 0" "update_reset_flow h (w_db w6) = Inr (n, w_db w')" by blast
  moreover have "flow_open s (clock_now w) f"
    using 2 x(2) reads_clock(5) [OF 1]
    by (simp add: flow_open_def PasswordResetFlow_IsConsumed_def PasswordResetFlow_IsOTPVerified_def PasswordResetFlow_IsOTPLocked_def)
  moreover have "readings w2 \<subseteq> readings w" using x(2) reads_readings(5) [OF 1] by simp
  ultimately show thesis using that [of f w2 w3 n t2 t1] x 3 h r by simp
qed

text \<open>
  C36: A reset token is only issued through the second factor. When
  \<open>VerifyPasswordResetOTP\<close> succeeds, the flow was stored under the token's hash,
  open (not expired, not consumed, not yet verified, below its attempt cap)
  and bound to an account with an enabled credential, for which the code was
  accepted. Afterwards the flow is verified and carries the hash of the reset
  token handed out, with its expiry.
\<close>

theorem VerifyPasswordResetOTP_gate:
  assumes "VerifyPasswordResetOTP s tok code w = (Inr r, w')"
  shows "\<exists>f i c u k now g. f \<in> set (password_reset_flows (w_db w)) \<and> f_FlowTokenHash f = tokenhash_Hash tok \<and>
     flow_open s (clock_now w) f \<and> f_UserID f = Some i \<and>
     c \<in> set (two_factor_credentials (w_db w)) \<and> c_UserID c = i \<and> Credential_IsEnabled c \<and>
     u \<in> set (users (w_db w)) \<and> u_ID u = i \<and> now \<in> readings w \<and> accepted s (u_Email u) c code k now \<and>
     g \<in> set (password_reset_flows (w_db w')) \<and> f_ID g = f_ID f \<and> f_OTPVerifiedAt g \<noteq> None \<and>
     f_ResetTokenHash g = Some (tokenhash_Hash (po_ResetToken r)) \<and> f_ResetTokenExpiresAt g = Some (po_ExpiresAt r) \<and>
     f_ConsumedAt g = None"
  using assms
proof (rule VerifyPasswordResetOTP_Inr)
  fix w1 w2 t1 t2 n and f :: reset_flow
  let ?g = "f\<lparr>f_OTPVerifiedAt := Some t1, f_ResetTokenHash := Some (tokenhash_Hash (po_ResetToken r)),
       f_ResetTokenExpiresAt := Some t2\<rparr>"
  assume a: "sql_find (\<lambda>f. f_FlowTokenHash f = tokenhash_Hash tok) (password_reset_flows (w_db w)) = Some f"
    "flow_open s (clock_now w) f" "flowCodeValid s f code w1 = (Inr True, w2)" "unchanged w w1" "readings w1 \<subseteq> readings w"
    "n \<noteq> 0" "update_reset_flow ?g (w_db w2) = Inr (n, w_db w')" "po_ExpiresAt r = t2"
  from a(3) obtain i c u k now where c: "f_UserID f = Some i"
    "sql_find (\<lambda>c. c_UserID c = i) (two_factor_credentials (w_db w1)) = Some c" "Credential_IsEnabled c"
    "sql_find (\<lambda>u. u_ID u = i) (users (w_db w1)) = Some u" "now \<in> readings w1" "accepted s (u_Email u) c code k now"
    by (rule flowCodeValid_True)
  from a(7,6) obtain q :: reset_flow where g: "f_ID q = f_ID ?g" "q\<lparr>f_OTPVerifiedAt := f_OTPVerifiedAt ?g, f_OTPAttempts := f_OTPAttempts ?g,
      f_ResetTokenHash := f_ResetTokenHash ?g, f_ResetTokenExpiresAt := f_ResetTokenExpiresAt ?g,
      f_ConsumedAt := f_ConsumedAt ?g\<rparr> \<in> set (password_reset_flows (w_db w'))"
    by (rule update_reset_flow_stores)
  let ?q = "q\<lparr>f_OTPVerifiedAt := f_OTPVerifiedAt ?g, f_OTPAttempts := f_OTPAttempts ?g,
      f_ResetTokenHash := f_ResetTokenHash ?g, f_ResetTokenExpiresAt := f_ResetTokenExpiresAt ?g,
      f_ConsumedAt := f_ConsumedAt ?g\<rparr>"
  have "u \<in> set (users (w_db w)) \<and> u_ID u = i" "c \<in> set (two_factor_credentials (w_db w)) \<and> c_UserID c = i"
    "f \<in> set (password_reset_flows (w_db w)) \<and> f_FlowTokenHash f = tokenhash_Hash tok" "now \<in> readings w"
    using c(2,4,5) a(1,4,5) by (auto dest: sql_find_Some)
  moreover have "f_ConsumedAt f = None" using a(2) by (simp add: flow_open_def)
  ultimately show ?thesis using a(2,8) c(1,3,6) g
    by (intro exI [of _ f] exI [of _ i] exI [of _ c] exI [of _ u] exI [of _ k] exI [of _ now] exI [of _ ?q]) simp
qed

definition test_flow :: reset_flow where
  "test_flow = \<lparr>f_ID = 4, f_UserID = Some 1, f_FlowTokenHash = tokenhash_Hash ''f'', f_OTPVerifiedAt = None, f_OTPAttempts = 0,
     f_ResetTokenHash = None, f_ResetTokenExpiresAt = None, f_ExpiresAt = 1000 * time_Minute, f_ConsumedAt = None,
     f_CreatedAt = 0\<rparr>"

definition flow_db :: "reset_flow \<Rightarrow> db" where
  "flow_db f = test_db\<lparr>password_reset_flows := [f]\<rparr>"

lemmas run_reset =
  VerifyPasswordResetOTP_def flowCodeValid_def ConfirmPasswordReset_def resetRefused_def test_flow_def flow_db_def
  run_simps run_repositories run_domain run_service run_fakes Let_def

lemma VerifyPasswordResetOTP_runs:
  "\<exists>r w'. VerifyPasswordResetOTP newTestService ''f'' ''55555'' (test_world (150 * time_Second) (flow_db test_flow)) = (Inr r, w')"
  by (simp add: run_reset)

theorem VerifyPasswordResetOTP_gate_witness:
  "\<exists>r w' g. VerifyPasswordResetOTP newTestService ''f'' ''55555'' (test_world (150 * time_Second) (flow_db test_flow)) = (Inr r, w') \<and>
     g \<in> set (password_reset_flows (w_db w')) \<and> f_ResetTokenHash g = Some (tokenhash_Hash (po_ResetToken r))"
  using VerifyPasswordResetOTP_runs VerifyPasswordResetOTP_gate by blast

section \<open>Guessing the code\<close>

text \<open>A refused code is counted on the flow, unless the flow had reached its cap before.\<close>

definition otp_refused :: "goerror \<Rightarrow> bool" where
  "otp_refused e \<longleftrightarrow> errors_Is e ErrOTPInvalid \<or> errors_Is e ErrOTPLocked"

lemma otp_refused_simps [simp]:
  "otp_refused (Wrap msg e) = otp_refused e" "otp_refused (Sentinel x) \<longleftrightarrow> x \<in> {ErrOTPInvalid, ErrOTPLocked}"
  by (auto simp: otp_refused_def)

lemma within_not_refused: "within S e \<Longrightarrow> ErrOTPInvalid \<notin> S \<Longrightarrow> ErrOTPLocked \<notin> S \<Longrightarrow> \<not> otp_refused e"
  by (auto simp: within_def otp_refused_def)

definition counted :: "int \<Rightarrow> reset_flow \<Rightarrow> goerror \<Rightarrow> reset_flow list \<Rightarrow> bool" where
  "counted cap f e flows \<longleftrightarrow> f_OTPAttempts f < cap \<and>
     (\<exists>g \<in> set flows. f_ID g = f_ID f \<and> f_OTPAttempts g = f_OTPAttempts f + 1) \<and>
     (errors_Is e ErrOTPLocked \<longleftrightarrow> cap \<le> f_OTPAttempts f + 1)"

lemma dbh_plain:
  assumes "dbh A m B E" and "raises S m" and "ErrOTPInvalid \<notin> S" "ErrOTPLocked \<notin> S"
  shows "dbh A m B (\<lambda>e d. E e d \<and> \<not> otp_refused e)"
  using assms(1) raisesD [OF assms(2)] within_not_refused [OF _ assms(3,4)]
  by (intro dbhI) (blast dest: dbhD_Inr dbhD_Inl)+

lemma dbh_plain_skip:
  assumes "dbh A m (\<lambda>_. A) (\<lambda>_. A)" and "raises {} m"
  shows "dbh A m (\<lambda>_. A) (\<lambda>e d. A d \<and> \<not> otp_refused e)"
  using dbh_plain [OF assms] by simp

lemmas dbh_quiet =
  dbh_plain_skip [OF dbh_env(3) raises_tokenhash_Generate]
  dbh_plain_skip [OF dbh_skip [OF same_db.keeps_PasswordResetFlow(2)] raises_domain(16)]
  dbh_plain [OF dbh_flow(2) raises_domain(17), of "{}", simplified]
  dbh_plain [OF dbh_flow(3) raises_domain(18), of "{}", simplified]
  dbh_plain [OF dbh_reads(7) raises_reads(7), simplified]
  dbh_plain [OF dbh_writes(13) raises_writes(13), simplified]

lemma dbh_flowCodeValid:
  assumes "plain_ports s"
  shows "dbh (\<lambda>d. password_reset_flows d = fl \<and> sql_find P fl = Some f) (flowCodeValid s f code)
     (\<lambda>_ d. password_reset_flows d = fl \<and> sql_find P fl = Some f) (\<lambda>e _. \<not> otp_refused e)"
  using raisesD [OF plain_ports.raises_flowCodeValid [OF assms, of "{User_ErrNotFound, Totp_ErrNotFound}"], THEN within_not_refused]
  by (intro dbhI) (auto simp: flowCodeValid_flows)

lemma counted_update:
  assumes "update_reset_flow (f\<lparr>f_OTPAttempts := f_OTPAttempts f + 1\<rparr>) d = Inr (n, d')" "0 < n"
    and "f_OTPAttempts f < cap" "errors_Is e ErrOTPLocked \<longleftrightarrow> cap \<le> f_OTPAttempts f + 1"
  shows "counted cap f e (password_reset_flows d')"
  using assms(1,2) by (rule_tac update_reset_flow_stores) (auto simp: counted_def assms(3,4) intro: rev_bexI)

lemma VerifyPasswordResetOTP_refused:
  assumes "plain_ports s"
  shows "dbh (\<lambda>d. d = d0) (VerifyPasswordResetOTP s tok code) (\<lambda>_ _. True)
     (\<lambda>e d. otp_refused e \<longrightarrow>
        (\<exists>f. sql_find (\<lambda>f. f_FlowTokenHash f = tokenhash_Hash tok) (password_reset_flows d0) = Some f \<and>
          (if f_OTPAttempts f \<ge> sc_ResetFlowMaxOTPAttempts (svc_security s) then errors_Is e ErrOTPLocked \<and> d = d0
           else counted (sc_ResetFlowMaxOTPAttempts (svc_security s)) f e (password_reset_flows d))))"
  unfolding VerifyPasswordResetOTP_def PasswordResetFlow_RecordOTPFailure_def Let_def prod.case
  by (rule dbh_quiet dbh_comb | (rule dbh_pre [OF dbh_flowCodeValid [OF assms, where fl = "password_reset_flows d0" and P = "\<lambda>f. f_FlowTokenHash f = tokenhash_Hash tok"]], simp)
      | (fastforce simp: PasswordResetFlow_IsOTPLocked_def intro: counted_update))+


text \<open>
  C37: The code of a reset flow cannot be guessed beyond the cap of the flow. An
  attempt refused because of the code found the flow; at the cap it changes
  nothing and is answered with \<open>ErrOTPLocked\<close>, below it the flow's attempt
  counter goes up by one, and the answer is \<open>ErrOTPLocked\<close> exactly when that
  reaches the cap.
\<close>

theorem VerifyPasswordResetOTP_counts:
  assumes "plain_ports s" and "VerifyPasswordResetOTP s tok code w = (Inl e, w')"
    and "errors_Is e ErrOTPInvalid \<or> errors_Is e ErrOTPLocked"
  shows "\<exists>f \<in> set (password_reset_flows (w_db w)). f_FlowTokenHash f = tokenhash_Hash tok \<and>
     (if f_OTPAttempts f \<ge> sc_ResetFlowMaxOTPAttempts (svc_security s)
      then errors_Is e ErrOTPLocked \<and> w_db w' = w_db w
      else (\<exists>g \<in> set (password_reset_flows (w_db w')). f_ID g = f_ID f \<and> f_OTPAttempts g = f_OTPAttempts f + 1) \<and>
           (errors_Is e ErrOTPLocked \<longleftrightarrow> sc_ResetFlowMaxOTPAttempts (svc_security s) \<le> f_OTPAttempts f + 1))"
  using dbhD_Inl [OF VerifyPasswordResetOTP_refused [OF assms(1)] assms(2) HOL.refl] assms(3)
  by (force simp: otp_refused_def counted_def dest: sql_find_Some)

lemma wrong_code_runs:
  "\<exists>e w'. VerifyPasswordResetOTP newTestService ''f'' ''0'' (test_world (150 * time_Second) (flow_db test_flow)) = (Inl e, w') \<and>
     errors_Is e ErrOTPInvalid"
  by (simp add: run_reset)

theorem VerifyPasswordResetOTP_counts_witness:
  "\<exists>e w' g. VerifyPasswordResetOTP newTestService ''f'' ''0'' (test_world (150 * time_Second) (flow_db test_flow)) = (Inl e, w') \<and>
     g \<in> set (password_reset_flows (w_db w')) \<and> f_OTPAttempts g = 1"
proof -
  obtain e w' where r: "VerifyPasswordResetOTP newTestService ''f'' ''0'' (test_world (150 * time_Second) (flow_db test_flow)) = (Inl e, w')"
    "errors_Is e ErrOTPInvalid" using wrong_code_runs by blast
  have f: "password_reset_flows (w_db (test_world (150 * time_Second) (flow_db test_flow))) = [test_flow]"
    by (simp add: test_world_def flow_db_def)
  from VerifyPasswordResetOTP_counts [OF test_ports.plain_ports_axioms r(1)] r(2) f
  have "\<exists>g \<in> set (password_reset_flows (w_db w')). f_OTPAttempts g = 1"
    by (auto simp: newTestService_fields newTestSecurityConfig_def test_flow_def)
  then show ?thesis using r(1) by blast
qed

text \<open>The lockout state of every account: failed attempts and the end of a running lockout.\<close>

definition lockouts :: "db \<Rightarrow> (uuid \<times> int \<times> time option) list" where
  "lockouts d = map (\<lambda>c. (c_UserID c, c_FailedAttempts c, c_LockedUntil c)) (two_factor_credentials d)"

lemma lockouts_update:
  assumes "update_credential c' d = Inr (n, d')" and "db_wf d" and "c \<in> set (two_factor_credentials d)"
    and "c_UserID c' = c_UserID c" "c_FailedAttempts c' = c_FailedAttempts c" "c_LockedUntil c' = c_LockedUntil c"
  shows "lockouts d' = lockouts d"
proof -
  have u: "unique_col col_c_user (two_factor_credentials d)" using assms(2) by (simp add: db_wf_def)
  have "r = c" if "r \<in> set (two_factor_credentials d)" "c_UserID r = c_UserID c" for r
    using unique_colD [OF u that(1) assms(3), of "c_UserID c"] that(2) by simp
  then show ?thesis
    using assms(1) [symmetric] assms(4-) by (auto simp: lockouts_def update_credential_def sql_update_def split: if_splits)
qed

lemma lockouts_other:
  "two_factor_credentials d' = two_factor_credentials d \<Longrightarrow> lockouts d' = lockouts d"
  by (simp add: lockouts_def)

definition lockouts_are :: "(uuid \<times> int \<times> time option) list \<Rightarrow> db \<Rightarrow> bool" where
  "lockouts_are L d \<longleftrightarrow> db_wf d \<and> lockouts d = L"

lemma dbh_MarkCodeUsed:
  "dbh A (Credential_MarkCodeUsed n c)
     (\<lambda>c' d. A d \<and> c_UserID c' = c_UserID c \<and> c_FailedAttempts c' = c_FailedAttempts c \<and> c_LockedUntil c' = c_LockedUntil c) (\<lambda>_. A)"
  by (rule dbh_same, intro same_db.helper_intros, (drule credential_Inr, auto)[1])

lemma lockouts_are_flow: "update_reset_flow f d = Inr (n, d') \<Longrightarrow> lockouts_are L d \<Longrightarrow> lockouts_are L d'"
  using update_reset_flow_wf [of f d n d'] by (auto simp: lockouts_are_def lockouts_def update_reset_flow_def split: if_splits)

lemma lockouts_are_update:
  "update_credential c' d = Inr (n, d') \<Longrightarrow> lockouts_are L d \<Longrightarrow> sql_find P (two_factor_credentials d) = Some c \<Longrightarrow>
     c_UserID c' = c_UserID c \<Longrightarrow> c_FailedAttempts c' = c_FailedAttempts c \<Longrightarrow> c_LockedUntil c' = c_LockedUntil c \<Longrightarrow>
     lockouts_are L d'"
  unfolding lockouts_are_def using update_credential_wf [of c' d n d'] lockouts_update [of c' d n d' c]
  by (auto dest: sql_find_Some)

lemma lockouts_flowCodeValid:
  "dbh (lockouts_are L) (flowCodeValid s f code) (\<lambda>_. lockouts_are L) (\<lambda>_. lockouts_are L)"
  unfolding flowCodeValid_def
  by (rule dbh_comb dbh_env dbh_MarkCodeUsed dbh_reads dbh_writes
      | (auto intro: lockouts_are_update; fail))+

lemma lockouts_VerifyPasswordResetOTP:
  "dbh (lockouts_are L) (VerifyPasswordResetOTP s tok code) (\<lambda>_. lockouts_are L) (\<lambda>_. lockouts_are L)"
  unfolding VerifyPasswordResetOTP_def PasswordResetFlow_RecordOTPFailure_def Let_def prod.case
  by (rule dbh_comb dbh_env dbh_flow dbh_reads dbh_writes
      | (rule dbh_pre [OF lockouts_flowCodeValid], auto; fail)
      | (auto intro: lockouts_are_flow; fail))+

text \<open>
  C38: Guessing at a reset flow cannot lock anybody out of the account. Whatever
  \<open>VerifyPasswordResetOTP\<close> returns, the failure counter and the lockout of every
  credential are what they were.
\<close>

theorem VerifyPasswordResetOTP_spares_lockout:
  assumes "db_wf (w_db w)"
  shows "map (\<lambda>c. (c_UserID c, c_FailedAttempts c, c_LockedUntil c))
       (two_factor_credentials (w_db (snd (VerifyPasswordResetOTP s tok code w)))) =
     map (\<lambda>c. (c_UserID c, c_FailedAttempts c, c_LockedUntil c)) (two_factor_credentials (w_db w))"
  using dbh_inv [OF lockouts_VerifyPasswordResetOTP [of "lockouts (w_db w)" s tok code], of w] assms
  by (simp add: lockouts_are_def lockouts_def)

lemma flow_db_wf: "db_wf (w_db (test_world t (flow_db test_flow)))"
  by (simp add: db_wf_def user_exists_def flow_db_def test_flow_def run_fakes)

theorem VerifyPasswordResetOTP_spares_lockout_witness:
  "map (\<lambda>c. (c_UserID c, c_FailedAttempts c, c_LockedUntil c)) (two_factor_credentials
     (w_db (snd (VerifyPasswordResetOTP newTestService ''f'' ''0'' (test_world 0 (flow_db test_flow)))))) = [(1, 0, None)]"
  using VerifyPasswordResetOTP_spares_lockout [OF flow_db_wf [of 0], of newTestService "''f''" "''0''"]
  by (simp add: flow_db_def test_db_def test_cred_def)

section \<open>Confirming the reset\<close>

lemma resetRefused_passed:
  assumes "resetRefused f w = (Inr False, w')"
  shows "unchanged w w' \<and> clock_now w \<le> f_ExpiresAt f \<and> f_ConsumedAt f = None \<and> f_OTPVerifiedAt f \<noteq> None \<and>
     (\<exists>i t now. f_UserID f = Some i \<and> f_ResetTokenExpiresAt f = Some t \<and> now \<in> readings w \<and> now < t)"
proof -
  from assms obtain w1 where 1: "PasswordResetFlow_IsExpired f w = (Inr False, w1)" "\<not> PasswordResetFlow_IsConsumed f"
    "PasswordResetFlow_IsOTPVerified f" and 2: "PasswordResetFlow_IsResetTokenValid f w1 = (Inr True, w')" "f_UserID f \<noteq> None"
    by (auto simp: resetRefused_def peel if_peel)
  from 2 obtain t now where "f_ResetTokenExpiresAt f = Some t" "time_Now w1 = (Inr now, w')" "now < t"
    by (auto simp: PasswordResetFlow_IsResetTokenValid_def peel split: option.splits)
  with 1 2 flow_read_clock [OF 1(1)] time_Now_readings [OF this(2)] show ?thesis
    by (auto simp: PasswordResetFlow_IsConsumed_def PasswordResetFlow_IsOTPVerified_def)
qed

lemma ConfirmPasswordReset_Inr:
  assumes "session_store (svc_sessions s) active" and "ConfirmPasswordReset s tok p w = (Inr (), w')"
  obtains f g i t now where "f \<in> set (password_reset_flows (w_db w))" "f_ResetTokenHash f = Some (tokenhash_Hash tok)"
     "f_UserID f = Some i" "f_OTPVerifiedAt f \<noteq> None" "f_ConsumedAt f = None" "clock_now w \<le> f_ExpiresAt f"
     "f_ResetTokenExpiresAt f = Some t" "now \<in> readings w" "now < t"
     "password_set s i p (w_db w) (w_db w')"
     "g \<in> set (password_reset_flows (w_db w'))" "f_ID g = f_ID f" "f_ResetTokenHash g = f_ResetTokenHash f" "f_ConsumedAt g \<noteq> None"
     "\<exists>q \<in> set (password_reset_flows (w_db w)). f_ID q = f_ID f \<and> f_UserID g = f_UserID q"
     "no_live i (w_db w')" "active (w_ext w') i = None"
proof -
  from assms(2) obtain f w1 w2 h w3 w4 f' w5 w6 w7 where
    1: "passwordResetFlows_GetByResetTokenHash (tokenhash_Hash tok) w = (Inr f, w1)" and
    2: "resetRefused f w1 = (Inr False, w2)" and 3: "hasher_Hash s p w2 = (Inr h, w3)" and
    4: "users_UpdatePassword (the (f_UserID f)) h w3 = (Inr (), w4)" and
    5: "PasswordResetFlow_Consume f w4 = (Inr f', w5)" and 6: "passwordResetFlows_Update f' w5 = (Inr (), w6)" and
    7: "refreshTokens_RevokeAllForUser (the (f_UserID f)) w6 = (Inr (), w7)" and
    8: "deactivateAndCleanup s ''auth: deactivate session after password reset'' (the (f_UserID f)) w7 = (Inr (), w')"
    by (auto simp: ConfirmPasswordReset_def peel if_peel Let_def)
  note r = passwordResetFlows_GetByResetTokenHash_Inr [OF 1] resetRefused_passed [OF 2]
  then obtain i t now where i: "f_UserID f = Some i" and t: "f_ResetTokenExpiresAt f = Some t" "now \<in> readings w" "now < t"
    using reads_readings(6) [OF 1] by auto
  from hasher_Hash_Inr [OF 3] obtain x x' b where
    h: "bc_GenerateFromPassword (svc_bcrypt s) (bytes_of_string p) (svc_cost s) x = (Inr b, x')" "h = string_of_bytes b" by blast
  from 4 i obtain upd where
    u: "users (w_db w4) = sql_update (\<lambda>r. u_ID r = i) (\<lambda>r. r\<lparr>u_PasswordHash := h, u_UpdatedAt := upd\<rparr>) (users (w_db w3))"
      "password_reset_flows (w_db w4) = password_reset_flows (w_db w3)"
    by (auto elim: users_UpdatePassword_rows)
  have same: "w_db w3 = w_db w" "w_db w5 = w_db w4"
    using keepsD [OF same_db.keeps_hasher_Hash 3] keepsD [OF same_db.keeps_PasswordResetFlow(6) 5] r by simp_all
  from PasswordResetFlow_Consume_Inr [OF 5] obtain c where f': "f' = f\<lparr>f_ConsumedAt := Some c\<rparr>" by blast
  from passwordResetFlows_Update_Inr [OF 6] obtain n where
    n: "n \<noteq> 0" "update_reset_flow f' (w_db w5) = Inr (n, w_db w6)" by blast
  then have u6: "users (w_db w6) = users (w_db w4)" using same n(2) [symmetric] by (auto simp: update_reset_flow_def split: if_splits)
  from n(2,1) obtain q :: reset_flow where q: "q \<in> set (password_reset_flows (w_db w5))" "f_ID q = f_ID f'" "q\<lparr>f_OTPVerifiedAt := f_OTPVerifiedAt f', f_OTPAttempts := f_OTPAttempts f',
      f_ResetTokenHash := f_ResetTokenHash f', f_ResetTokenExpiresAt := f_ResetTokenExpiresAt f',
      f_ConsumedAt := f_ConsumedAt f'\<rparr> \<in> set (password_reset_flows (w_db w6))" by (rule update_reset_flow_stores)
  note e = sessions_ended [OF assms(1) 7 8, unfolded i option.sel]
  have "password_set s i p (w_db w) (w_db w')"
    unfolding password_set_def using h u(1) u6 e(3) same by auto
  moreover have "f \<in> set (password_reset_flows (w_db w)) \<and> f_ResetTokenHash f = Some (tokenhash_Hash tok)"
    using r by (auto dest: sql_find_Some)
  moreover have "q \<in> set (password_reset_flows (w_db w))" using q(1) same u(2) by simp
  ultimately show thesis
    using r(2) reads_clock(6) [OF 1] i t e q(2,3) f'
    by (intro that [of f i t now "q\<lparr>f_OTPVerifiedAt := f_OTPVerifiedAt f', f_OTPAttempts := f_OTPAttempts f',
      f_ResetTokenHash := f_ResetTokenHash f', f_ResetTokenExpiresAt := f_ResetTokenExpiresAt f',
      f_ConsumedAt := f_ConsumedAt f'\<rparr>"]) auto
qed

text \<open>
  C39: A reset sets the password of the flow's account, and only once the OTP
  step was passed. When \<open>ConfirmPasswordReset\<close> succeeds, there was a flow with
  the hash of the reset token, verified, not consumed, neither it nor its
  token expired, bound to a user; this user and nobody else has got a hash of
  the new password, the flow is consumed, no refresh token of the user is live
  and the session store has no active session for the user.
\<close>

theorem ConfirmPasswordReset_effect:
  assumes "session_store (svc_sessions s) active" and "ConfirmPasswordReset s tok p w = (Inr (), w')"
  shows "\<exists>f g i t now. f \<in> set (password_reset_flows (w_db w)) \<and> f_ResetTokenHash f = Some (tokenhash_Hash tok) \<and>
     f_UserID f = Some i \<and> f_OTPVerifiedAt f \<noteq> None \<and> f_ConsumedAt f = None \<and> clock_now w \<le> f_ExpiresAt f \<and>
     f_ResetTokenExpiresAt f = Some t \<and> now \<in> readings w \<and> now < t \<and>
     password_set s i p (w_db w) (w_db w') \<and>
     g \<in> set (password_reset_flows (w_db w')) \<and> f_ID g = f_ID f \<and> f_ResetTokenHash g = f_ResetTokenHash f \<and> f_ConsumedAt g \<noteq> None \<and>
     no_live i (w_db w') \<and> active (w_ext w') i = None"
  using assms by (rule ConfirmPasswordReset_Inr) blast

definition verified_flow :: reset_flow where
  "verified_flow = test_flow\<lparr>f_OTPVerifiedAt := Some 0, f_ResetTokenHash := Some (tokenhash_Hash ''r''),
     f_ResetTokenExpiresAt := Some (10 * time_Minute)\<rparr>"

lemma ConfirmPasswordReset_runs:
  "\<exists>w'. ConfirmPasswordReset newTestService ''r'' ''new'' (test_world (150 * time_Second) (flow_db verified_flow)) = (Inr (), w')"
  by (simp add: verified_flow_def run_reset bytes_of_string_def)

theorem ConfirmPasswordReset_effect_witness:
  "\<exists>w' g. ConfirmPasswordReset newTestService ''r'' ''new'' (test_world (150 * time_Second) (flow_db verified_flow)) = (Inr (), w') \<and>
     g \<in> set (password_reset_flows (w_db w')) \<and> f_ConsumedAt g \<noteq> None"
  using ConfirmPasswordReset_runs ConfirmPasswordReset_effect [OF fake_sessions] by blast

section \<open>A reset token works once\<close>

definition token_spent :: "uuid \<Rightarrow> string \<Rightarrow> db \<Rightarrow> bool" where
  "token_spent i h d \<longleftrightarrow> db_wf d \<and> (\<exists>f \<in> set (password_reset_flows d).
     f_UserID f = Some i \<and> f_ResetTokenHash f = Some h \<and> f_ConsumedAt f \<noteq> None)"

interpretation spent: db_frame "\<lambda>d d'. token_spent i h d \<longrightarrow> token_spent i h d'" for i h
  by unfold_locales auto

lemma spent_keepsI:
  assumes "\<And>a d d'. st d = Inr (a, d') \<Longrightarrow> db_wf d \<Longrightarrow> db_wf d'"
    and "\<And>a d d'. st d = Inr (a, d') \<Longrightarrow> set (password_reset_flows d) \<subseteq> set (password_reset_flows d')"
  shows "stmt_keeps (\<lambda>d d'. token_spent i h d \<longrightarrow> token_spent i h d') st"
  using assms by (fastforce simp: stmt_keeps_def token_spent_def)

abbreviation spent_keeps :: "uuid \<Rightarrow> string \<Rightarrow> 'a stmt \<Rightarrow> bool" where
  "spent_keeps i h \<equiv> stmt_keeps (\<lambda>d d'. token_spent i h d \<longrightarrow> token_spent i h d')"

lemma spent_stmts:
  "spent_keeps i h (insert_user u)" "spent_keeps i h (update_user u)" "spent_keeps i h (update_user_password now us p)"
  "spent_keeps i h (insert_refresh_token t)" "spent_keeps i h (revoke_token now tid)" "spent_keeps i h (revoke_all_tokens now us)"
  "spent_keeps i h (insert_credential c)" "spent_keeps i h (update_credential c)"
  "spent_keeps i h (insert_login_challenge lc)" "spent_keeps i h (consume_login_challenge now tid)"
  "spent_keeps i h (insert_reset_flow f)"
  by (rule spent_keepsI, (erule stmt_wf, assumption), (auto simp: stmt_defs split: if_splits option.splits)[1])+

lemma spent_update:
  assumes "update_reset_flow f' d = Inr (n, d')" and "token_spent i h d"
    and "f \<in> set (password_reset_flows d)" "f_ConsumedAt f = None" "f_ID f' = f_ID f"
  shows "token_spent i h d'"
proof -
  have wf: "db_wf d" "unique_col col_f_id (password_reset_flows d)" using assms(2) by (simp_all add: token_spent_def db_wf_def)
  obtain q where q: "q \<in> set (password_reset_flows d)" "f_UserID q = Some i" "f_ResetTokenHash q = Some h" "f_ConsumedAt q \<noteq> None"
    using assms(2) by (auto simp: token_spent_def)
  have "f_ID q \<noteq> f_ID f'"
    using unique_colD [OF wf(2) q(1) assms(3), of "f_ID f"] assms(4,5) q(4) by auto
  then have "q \<in> set (password_reset_flows d')"
    using assms(1) [symmetric] q(1) by (auto simp: update_reset_flow_def set_sql_update image_iff split: if_splits)
  then show ?thesis using q update_reset_flow_wf [OF assms(1) wf(1)] by (auto simp: token_spent_def)
qed

text \<open>The row \<open>f\<close> is stored and not consumed.\<close>

definition unspent_row :: "reset_flow \<Rightarrow> db \<Rightarrow> bool" where
  "unspent_row f d \<longleftrightarrow> f \<in> set (password_reset_flows d) \<and> f_ConsumedAt f = None"

lemma dbh_spent:
  "keeps (\<lambda>w w'. token_spent i h (w_db w) \<longrightarrow> token_spent i h (w_db w')) m \<Longrightarrow>
     dbh (token_spent i h) m (\<lambda>_. token_spent i h) (\<lambda>_. token_spent i h)"
  by (rule dbhI) (auto dest: keepsD)

lemma spent_flowCodeValid:
  "dbh (\<lambda>d. token_spent i h d \<and> unspent_row f d) (flowCodeValid s f code)
     (\<lambda>_ d. token_spent i h d \<and> unspent_row f d) (\<lambda>_. token_spent i h)"
  using keepsD [OF spent.keeps_flowCodeValid [OF spent_stmts(8)], rule_format]
  by (intro dbhI) (auto simp: unspent_row_def flowCodeValid_flows)

lemma spent_VerifyPasswordResetOTP:
  "dbh (token_spent i h) (VerifyPasswordResetOTP s tok code) (\<lambda>_. token_spent i h) (\<lambda>_. token_spent i h)"
  unfolding VerifyPasswordResetOTP_def PasswordResetFlow_RecordOTPFailure_def Let_def prod.case
  by (rule dbh_comb dbh_env dbh_flow dbh_reads dbh_writes
      | (rule dbh_pre [OF spent_flowCodeValid], auto simp: unspent_row_def PasswordResetFlow_IsConsumed_def dest: sql_find_Some; fail)
      | (auto simp: unspent_row_def intro: spent_update; fail))+

lemma spent_UpdatePassword:
  "dbh (\<lambda>d. token_spent i h d \<and> unspent_row f d) (users_UpdatePassword j p)
     (\<lambda>_ d. token_spent i h d \<and> unspent_row f d) (\<lambda>_. token_spent i h)"
  using keepsD [OF spent.keeps_users_UpdatePassword [OF spent_stmts(3)], rule_format]
  by (intro dbhI) (auto simp: unspent_row_def elim: users_UpdatePassword_rows)

lemma dbh_resetRefused_unspent:
  "dbh A (resetRefused f) (\<lambda>b d. A d \<and> (\<not> b \<longrightarrow> f_ConsumedAt f = None)) (\<lambda>_. A)"
  unfolding resetRefused_def
  by (rule dbh_comb dbh_env | (auto simp: PasswordResetFlow_IsConsumed_def; fail))+

lemma spent_flow_update:
  "dbh (\<lambda>d. (token_spent i h d \<and> unspent_row f d) \<and> (\<exists>now. g = f\<lparr>f_ConsumedAt := Some now\<rparr>)) (passwordResetFlows_Update g)
     (\<lambda>_. token_spent i h) (\<lambda>_. token_spent i h)"
  by (rule dbh_conseq [OF dbh_writes(13) [where A = "\<lambda>d. (token_spent i h d \<and> unspent_row f d) \<and> (\<exists>now. g = f\<lparr>f_ConsumedAt := Some now\<rparr>)"]])
     (auto simp: unspent_row_def intro: spent_update)

lemma spent_ConfirmPasswordReset:
  "dbh (token_spent i h) (ConfirmPasswordReset s tok p) (\<lambda>_. token_spent i h) (\<lambda>_. token_spent i h)"
  unfolding ConfirmPasswordReset_def Let_def
  by (rule spent_flow_update dbh_resetRefused_unspent dbh_comb dbh_env dbh_flow dbh_reads
      | (rule dbh_pre [OF spent_UpdatePassword], auto simp: unspent_row_def dest: sql_find_Some; fail)
      | (rule dbh_pre, rule dbh_spent, intro spent.keeps_refreshTokens_RevokeAllForUser spent_stmts, auto; fail)
      | (auto simp: unspent_row_def intro: spent_update; fail))+

lemma spent_writes: "session_writes (\<lambda>d d'. token_spent i h d \<longrightarrow> token_spent i h d')" "setup_writes (\<lambda>d d'. token_spent i h d \<longrightarrow> token_spent i h d')"
  by (simp_all add: session_writes_def setup_writes_def spent_stmts)

lemma deletion_flows:
  "deletion_writes (\<lambda>d d'. password_reset_flows d' = password_reset_flows d)"
  "worker_writes (\<lambda>d d'. password_reset_flows d' = password_reset_flows d)"
  by (auto simp: deletion_writes_def worker_writes_def stmt_keeps_def deletion_defs Let_def split: if_splits option.splits)

lemma spent_flow_stmt:
  assumes "stmt_keeps (\<lambda>d d'. db_wf d \<longrightarrow> db_wf d') st" and "stmt_keeps (\<lambda>d d'. password_reset_flows d' = password_reset_flows d) st"
  shows "spent_keeps i h st"
  using assms by (intro spent_keepsI) (auto simp: stmt_keeps_def)

interpretation spent_fact: account_fact i "token_spent i h" for i h
proof
  show "deletion_writes (\<lambda>d d'. token_spent i h d \<longrightarrow> token_spent i h d')" "worker_writes (\<lambda>d d'. token_spent i h d \<longrightarrow> token_spent i h d')"
    using deletion_wf deletion_flows by (auto simp: deletion_writes_def worker_writes_def intro!: spent_flow_stmt)
  show "spent_keeps i h (revoke_all_tokens now j)" for now j by (rule spent_stmts)
  show "token_spent i h d'" if "delete_user j d = Inr (n, d')" "j \<noteq> i" "token_spent i h d" for j d n d'
    using that delete_user_wf [OF that(1)]
    by (auto simp: token_spent_def delete_user_def set_sql_delete Let_def split: if_splits)
qed

lemma spent_op:
  assumes "token_spent i h (w_db w)" and "user_exists i (w_db (run_op s cl oper w))"
  shows "token_spent i h (w_db (run_op s cl oper w))"
proof (cases "deletes oper")
  case False
  note frames = spent.keeps_Register spent.keeps_Login spent.keeps_Refresh spent.keeps_Logout spent.keeps_UpdateProfile
    spent.keeps_SetupVerifyOTP spent.keeps_LoginVerifyOTP spent.keeps_ChangePassword spent.keeps_RequestPasswordReset
    spent.keeps_run_cleanup
  from False show ?thesis
    by (cases oper)
       (simp_all, (rule dbh_inv [where I = "token_spent i h", OF _ assms(1)],
          (rule spent_VerifyPasswordResetOTP spent_ConfirmPasswordReset
            | rule dbh_spent, intro frames spent_stmts spent_writes))+)
next
  case True
  with assms show ?thesis
    by (cases oper) (auto intro: spent_fact.lasts_worker spent_fact.lasts_request [OF spent_stmts(8)] prod.collapse [symmetric])
qed

lemma spent_while: "while_account s cl i w w' \<Longrightarrow> token_spent i h (w_db w) \<Longrightarrow> token_spent i h (w_db w')"
  by (induction rule: while_account.induct) (auto intro: spent_op)

lemma ConfirmPasswordReset_open:
  assumes "session_store (svc_sessions s) active" and "ConfirmPasswordReset s tok p w = (Inr (), w')"
  shows "\<exists>f \<in> set (password_reset_flows (w_db w)). f_ResetTokenHash f = Some (tokenhash_Hash tok) \<and> f_ConsumedAt f = None"
  using assms by (rule ConfirmPasswordReset_Inr) force

lemma ConfirmPasswordReset_spends:
  assumes "session_store (svc_sessions s) active" and "ConfirmPasswordReset s tok p w = (Inr (), w')"
    and "service_inv (svc_security s) (w_db w)"
    and f: "f \<in> set (password_reset_flows (w_db w))" "f_ResetTokenHash f = Some (tokenhash_Hash tok)" "f_UserID f = Some i"
  shows "token_spent i (tokenhash_Hash tok) (w_db w')"
  using assms(1,2)
proof (rule ConfirmPasswordReset_Inr)
  fix f2 g
  assume a: "f2 \<in> set (password_reset_flows (w_db w))" "f_ResetTokenHash f2 = Some (tokenhash_Hash tok)"
    and g: "g \<in> set (password_reset_flows (w_db w'))" "f_ResetTokenHash g = f_ResetTokenHash f2" "f_ConsumedAt g \<noteq> None"
      "\<exists>q \<in> set (password_reset_flows (w_db w)). f_ID q = f_ID f2 \<and> f_UserID g = f_UserID q"
  have u: "unique_col f_ResetTokenHash (password_reset_flows (w_db w))" "unique_col col_f_id (password_reset_flows (w_db w))"
    using service_invD(1) [OF assms(3)] by (simp_all add: db_wf_def)
  have "f2 = f" using unique_colD [OF u(1) a(1) f(1)] a(2) f(2) by simp
  with g(4) obtain q where q: "q \<in> set (password_reset_flows (w_db w))" "f_ID q = f_ID f" "f_UserID g = f_UserID q" by blast
  then have "f_UserID g = Some i" using unique_colD [OF u(2) q(1) f(1), of "f_ID f"] f(3) by simp
  moreover have "db_wf (w_db w')"
    using run_op_inv [OF assms(3), of undefined "OpConfirmPasswordReset tok p"] assms(2) by (auto dest: service_invD)
  ultimately show ?thesis using g a(2) by (auto simp: token_spent_def)
qed

text \<open>
  C40: A reset token works once. After a successful confirmation with the reset
  token of a flow of account \<open>i\<close>, whatever the service does for whom, rounds of
  the deletion worker and deletion requests included, no confirmation with the
  same token succeeds, as long as the row of account \<open>i\<close> stays.
\<close>

theorem reset_token_single_use:
  assumes "session_store (svc_sessions s) active" and "service_inv (svc_security s) (w_db w)"
    and "ConfirmPasswordReset s tok p w = (Inr (), w1)"
    and "f \<in> set (password_reset_flows (w_db w))" "f_ResetTokenHash f = Some (tokenhash_Hash tok)" "f_UserID f = Some i"
    and "while_account s cl i w1 w2"
  shows "ConfirmPasswordReset s tok q w2 \<noteq> (Inr (), w3)"
proof
  assume "ConfirmPasswordReset s tok q w2 = (Inr (), w3)"
  from ConfirmPasswordReset_open [OF assms(1) this] obtain f where f: "f \<in> set (password_reset_flows (w_db w2))"
    "f_ResetTokenHash f = Some (tokenhash_Hash tok)" "f_ConsumedAt f = None" by blast
  from spent_while [OF assms(7) ConfirmPasswordReset_spends [OF assms(1,3,2,4-6)]]
  obtain g where g: "g \<in> set (password_reset_flows (w_db w2))"
    "f_ResetTokenHash g = Some (tokenhash_Hash tok)" "f_ConsumedAt g \<noteq> None" "db_wf (w_db w2)" by (auto simp: token_spent_def)
  then have "unique_col f_ResetTokenHash (password_reset_flows (w_db w2))" by (simp add: db_wf_def)
  from unique_colD [OF this f(1) g(1), of "tokenhash_Hash tok"] f(2,3) g(2,3) show False by simp
qed

lemma verified_inv: "service_inv newTestSecurityConfig (flow_db verified_flow)"
  by (simp add: service_inv_def inv_defs db_wf_def user_exists_def cred_wf_def flow_wf_def Credential_IsEnabled_def
      flow_db_def verified_flow_def test_flow_def run_fakes)

lemma verified_user: "f_UserID verified_flow = Some 1" "f_ResetTokenHash verified_flow = Some (tokenhash_Hash ''r'')"
  by (simp_all add: verified_flow_def test_flow_def)

lemma ConfirmPasswordReset_leaves:
  "case ConfirmPasswordReset newTestService ''r'' ''new'' (test_world (150 * time_Second) (flow_db verified_flow)) of
     (r, w1) \<Rightarrow> r = Inr () \<and> user_exists 1 (w_db w1) \<and> account_deletion_jobs (w_db w1) = []"
  by (simp add: verified_flow_def run_reset bytes_of_string_def user_exists_def)

theorem reset_token_single_use_witness:
  "\<exists>w1. ConfirmPasswordReset newTestService ''r'' ''new'' (test_world (150 * time_Second) (flow_db verified_flow)) = (Inr (), w1) \<and>
     fst (ConfirmPasswordReset newTestService ''r'' ''newer'' (run_op newTestService (\<lambda>_. None) OpWorker w1)) \<noteq> Inr ()"
proof -
  obtain w1 where r: "ConfirmPasswordReset newTestService ''r'' ''new'' (test_world (150 * time_Second) (flow_db verified_flow)) = (Inr (), w1)"
    and idle: "account_deletion_jobs (w_db w1) = []" "user_exists 1 (w_db w1)"
    using ConfirmPasswordReset_leaves by (auto split: prod.splits)
  have inv: "service_inv (svc_security newTestService) (w_db (test_world (150 * time_Second) (flow_db verified_flow)))"
    using verified_inv by (simp add: newTestService_fields test_world_def)
  have f: "verified_flow \<in> set (password_reset_flows (w_db (test_world (150 * time_Second) (flow_db verified_flow))))"
    by (simp add: test_world_def flow_db_def)
  from reset_token_single_use [OF fake_sessions inv r f verified_user(2,1) while_idle [OF idle]]
  have "ConfirmPasswordReset newTestService ''r'' ''newer'' (run_op newTestService (\<lambda>_. None) OpWorker w1) \<noteq> (Inr (), w3)" for w3 .
  with r show ?thesis by (metis prod.collapse)
qed

end
