(* ===== verification/Deletion_Properties.thy ===== *)
theory Deletion_Properties
  imports Reset_Properties
begin

text \<open>
  What account deletion guarantees: the request closes the account at once and
  records the work to do, the worker removes the account only after every
  peer service has confirmed, and a failed step is retried.
\<close>

section \<open>Requesting the deletion\<close>

lemma closing_revoke:
  assumes "refreshTokens_RevokeAllForUser i w = (Inr (), w')" and "closing i (w_db w)"
  shows "closing i (w_db w')"
  using refreshTokens_RevokeAllForUser_Inr [OF assms(1)] assms(2) by (auto dest: revoke_all_closing)

text \<open>
  C11: Asking for the deletion closes the account. When \<open>DeleteAccount\<close> succeeds
  in the wiring of the server, where the deletion store is present, the gate
  had accepted the code; the account is waiting for its deletion, has no live
  refresh token and no active session, and a deletion job with a step for each
  of the seven peer services is stored.
\<close>

theorem DeleteAccount_effect:
  assumes "session_store (svc_sessions s) active" and "service_inv (svc_security s) (w_db w)"
    and "svc_cleaner s \<noteq> None" and "DeleteAccount s i at otp w = (Inr (), w')"
  shows "(\<exists>u c k now. u \<in> set (users (w_db w)) \<and> u_ID u = i \<and> c \<in> set (two_factor_credentials (w_db w)) \<and> c_UserID c = i \<and>
       now \<in> readings w \<and> accepted s (u_Email u) c otp k now) \<and>
     (\<exists>u \<in> set (users (w_db w')). u_ID u = i \<and> pending u) \<and>
     no_live i (w_db w') \<and> active (w_ext w') i = None \<and>
     (\<exists>j \<in> set (account_deletion_jobs (w_db w')). dj_user_id j = i \<and>
        (\<forall>n \<in> set deletionServices. \<exists>st \<in> set (account_deletion_steps (w_db w')). ds_job_id st = dj_id j \<and> ds_service st = n))"
proof -
  from assms(3,4) obtain u w1 c w2 c' w3 w4 w5 where
    1: "users_GetByID i w = (Inr u, w1)" and 2: "credentials_GetByUserID i w1 = (Inr c, w2)" and
    3: "verifyOTP s (u_Email u) c otp w2 = (Inr c', w3)" and 4: "DeletionStore_RequestDeletion i w3 = (Inr (), w4)" and
    5: "refreshTokens_RevokeAllForUser i w4 = (Inr (), w5)" and
    6: "external (ss_Deactivate (svc_sessions s) i) w5 = (Inr (), w')"
    by (auto simp: DeleteAccount_def peel split: if_splits)
  note r = users_GetByID_Inr [OF 1] credentials_GetByUserID_Inr [OF 2]
  have rd: "readings w2 = readings w" using reads_readings(4) [OF 1] reads_readings(2) [OF 2] by simp
  from 3 obtain k now where g: "now \<in> readings w2" "accepted s (u_Email u) c otp k now" by (rule verifyOTP_Inr)
  have rows: "u \<in> set (users (w_db w)) \<and> u_ID u = i" "c \<in> set (two_factor_credentials (w_db w)) \<and> c_UserID c = i"
    using r by (auto dest: sql_find_Some)
  have "service_inv (svc_security s) (w_db w3)"
    using dbhD_Inr [OF gate [of s c i u otp] 3] assms(2) r rows by (simp add: user_read_def)
  with dbhD_Inr [OF request_deletion 4] closing_revoke [OF 5] have "closing i (w_db w5)" by blast
  moreover from 6 obtain x where x: "ss_Deactivate (svc_sessions s) i (w_ext w5) = (Inr (), x)" "w' = w5\<lparr>w_ext := x\<rparr>"
    unfolding external_Pair by blast
  moreover have "active (w_ext w') i = None" using session_store.deactivated(1) [OF assms(1) x(1)] x(2) by simp
  ultimately obtain v where v: "v \<in> set (users (w_db w'))" "u_ID v = i" "pending v" "active (w_ext w') i = None"
    by (auto simp: closing_def)
  have "service_inv (svc_security s) (w_db w')"
    using run_op_inv [OF assms(2), of undefined "OpDeleteAccount i at otp"] assms(4) by simp
  then have "no_live i (w_db w')" "has_job i (w_db w')" using v by (auto simp: service_inv_def pending_ok_def)
  with v g rd rows show ?thesis unfolding has_job_def by (intro conjI) blast+
qed

lemma DeleteAccount_runs:
  "\<exists>w'. DeleteAccount newTestService 1 ''at'' ''55555'' (test_world (150 * time_Second) test_db) = (Inr (), w')"
  by (simp add: DeleteAccount_def run_deletion run_simps run_repositories run_domain run_service run_fakes Let_def conflicts_def)

theorem DeleteAccount_effect_witness:
  "\<exists>w'. DeleteAccount newTestService 1 ''at'' ''55555'' (test_world (150 * time_Second) test_db) = (Inr (), w') \<and>
     (\<exists>j \<in> set (account_deletion_jobs (w_db w')). dj_user_id j = 1) \<and> no_live 1 (w_db w')"
proof -
  obtain w' where r: "DeleteAccount newTestService 1 ''at'' ''55555'' (test_world (150 * time_Second) test_db) = (Inr (), w')"
    using DeleteAccount_runs by blast
  have i: "service_inv (svc_security newTestService) (w_db (test_world (150 * time_Second) test_db))" using test_inv by simp
  have c: "svc_cleaner newTestService \<noteq> None" by (simp add: newTestService_fields)
  from DeleteAccount_effect [OF fake_sessions i c r] r show ?thesis by blast
qed

section \<open>The worker\<close>

text \<open>The rows of the job that are not completed are still to do.\<close>

definition todo_covered :: "uuid \<Rightarrow> DeletionStep list \<Rightarrow> db \<Rightarrow> bool" where
  "todo_covered j sts d \<longleftrightarrow> (\<forall>r \<in> set (account_deletion_steps d). ds_job_id r = j \<longrightarrow>
     ds_status r = status_completed \<or> (\<exists>st \<in> set sts. st_Service st = ds_service r \<and> st_Status st \<noteq> status_completed))"

lemma jobs_CompleteDeletionStep_Inr:
  "jobs_CompleteDeletionStep j n w = (Inr (), w') \<Longrightarrow> \<exists>now. complete_step now j n (w_db w) = Inr ((), w_db w')"
  by (auto simp: jobs_CompleteDeletionStep_def peel dest!: exec_sql_Inr)

lemma complete_covers:
  assumes "complete_step now j (st_Service st) d = Inr ((), d')" and "todo_covered j (st # sts) d"
  shows "todo_covered j sts d'"
proof -
  have "account_deletion_steps d' = sql_update (\<lambda>s. ds_job_id s = j \<and> ds_service s = st_Service st)
     (\<lambda>s. s\<lparr>ds_status := status_completed, ds_updated_at := now, ds_last_error := None\<rparr>) (account_deletion_steps d)"
    using assms(1) by (auto simp: complete_step_def)
  then show ?thesis
    using assms(2) unfolding todo_covered_def by (simp add: ball_sql_update) metis
qed

lemma run_steps_Some:
  assumes "run_steps cl job sts w = (Inr (Some ()), w')" and "todo_covered (job_ID job) sts (w_db w)"
  shows "todo_covered (job_ID job) [] (w_db w')"
  using assms
proof (induction sts arbitrary: w)
  case (Cons st sts)
  show ?case
  proof (cases "st_Status st = status_completed")
    case True
    with Cons.prems show ?thesis by (intro Cons.IH [of w]) (auto simp: todo_covered_def)
  next
    case False
    with Cons.prems(1) obtain f w1 w2 where
      "external (f (job_UserID job)) w = (Inr (), w1)" "jobs_CompleteDeletionStep (job_ID job) (st_Service st) w1 = (Inr (), w2)"
      and rest: "run_steps cl job sts w2 = (Inr (Some ()), w')"
      by (simp add: peel split: option.splits) blast
    then obtain now where "complete_step now (job_ID job) (st_Service st) (w_db w) = Inr ((), w_db w2)"
      by (auto dest!: jobs_CompleteDeletionStep_Inr)
    from complete_covers [OF this Cons.prems(2)] rest show ?thesis by (intro Cons.IH)
  qed
qed simp


lemma next_claim_in: "next_claim now d = Some j \<Longrightarrow> j \<in> set (account_deletion_jobs d) \<and> claimable now j"
proof -
  assume "next_claim now d = Some j"
  then have "j \<in> set (sort_key dj_next_attempt_at (filter (claimable now) (account_deletion_jobs d)))"
    by (auto simp: next_claim_def simp del: set_sort split: list.splits)
  then show ?thesis by simp
qed

lemma jobs_ClaimDeletion_Some:
  assumes "jobs_ClaimDeletion w = (Inr (Some job), w')"
  obtains now j where "next_claim now (w_db w) = Some j" "job_ID job = dj_id j" "job_UserID job = dj_user_id j"
    "claim_job now (w_db w) = Inr ((dj_id j, dj_user_id j), w_db w')"
    "select_steps (dj_id j) (w_db w') = Inr (job_Steps job, w_db w')"
  using assms unfolding jobs_ClaimDeletion_def
proof (cases rule: transaction_cases)
  case (committed now w1 w2 wc a)
  then obtain d where "claim_job now (w_db w) = Inr ((job_ID job, job_UserID job), d)"
    "select_steps (job_ID job) d = Inr (job_Steps job, d)" "w_db w2 = d"
    by (auto simp: peel select_steps_def dest!: exec_sql_Inr split: if_splits)
  then show thesis
    using that committed by (auto simp: claim_job_def split: option.splits)
qed (auto simp: peel split: if_splits)

lemma claimed_covered:
  assumes "select_steps j d = Inr (sts, d)"
  shows "todo_covered j sts d"
  using assms by (auto simp: todo_covered_def select_steps_def)

lemma worker_writes_users: "worker_writes (\<lambda>d d'. users d' = users d)"
  by (auto simp: worker_writes_def stmt_keeps_def claim_job_def complete_step_def retry_step_def release_job_def
      complete_job_def split: option.splits)

lemma worker_reads_users:
  "jobs_ClaimDeletion w = (r1, w') \<Longrightarrow> users (w_db w') = users (w_db w)"
  "run_steps cl job sts w = (r2, w') \<Longrightarrow> users (w_db w') = users (w_db w)"
  "jobs_CompleteDeletionJob i w = (r3, w') \<Longrightarrow> users (w_db w') = users (w_db w)"
  using keepsD [OF same_users.keeps_job_store(1) [OF worker_writes_users]]
    keepsD [OF same_users.keeps_run_steps [OF worker_writes_users]]
    keepsD [OF same_users.keeps_job_store(4) [OF worker_writes_users]] by blast+

interpretation same_steps: db_frame "\<lambda>d d'. account_deletion_steps d' = account_deletion_steps d"
  by unfold_locales auto

lemma finish_steps:
  "users_Delete i w = (r1, w') \<Longrightarrow> account_deletion_steps (w_db w') = account_deletion_steps (w_db w)"
  "jobs_CompleteDeletionJob i w = (r2, w') \<Longrightarrow> account_deletion_steps (w_db w') = account_deletion_steps (w_db w)"
proof -
  have del: "stmt_keeps (\<lambda>d d'. account_deletion_steps d' = account_deletion_steps d) (delete_user i)"
    by (auto simp: stmt_keeps_def delete_user_def Let_def split: if_splits)
  show "account_deletion_steps (w_db w') = account_deletion_steps (w_db w)" if "users_Delete i w = (r1, w')"
    by (rule keepsD [OF same_steps.keeps_users_Delete [OF del] that])
  have "keeps (\<lambda>w w'. account_deletion_steps (w_db w') = account_deletion_steps (w_db w)) (jobs_CompleteDeletionJob i)"
    unfolding jobs_CompleteDeletionJob_def
    by (intro same_steps.repo_intros same_steps.keeps_exec_sql) (auto simp: stmt_keeps_def complete_job_def)
  from keepsD [OF this] show "account_deletion_steps (w_db w') = account_deletion_steps (w_db w)"
    if "jobs_CompleteDeletionJob i w = (r2, w')" using that by blast
qed

text \<open>The rows of all users but \<open>i\<close> are still there.\<close>

definition others_kept :: "uuid \<Rightarrow> db \<Rightarrow> db \<Rightarrow> bool" where
  "others_kept i d d' \<longleftrightarrow> (\<forall>u \<in> set (users d). u_ID u \<noteq> i \<longrightarrow> u \<in> set (users d'))"

interpretation others: db_frame "others_kept i" for i
  by unfold_locales (auto simp: others_kept_def)

lemma others_delete: "stmt_keeps (others_kept i) (delete_user i)"
  by (auto simp: stmt_keeps_def others_kept_def delete_user_def Let_def set_sql_delete split: if_splits)

text \<open>
  C12: The worker removes an account only when every peer service has confirmed.
  A user row that is gone after a round, whatever the round returned, belonged
  to a stored deletion job, and every step of this job is completed.
\<close>

theorem worker_deletes_last:
  assumes "DeletionWorker_RunOnce cl w = (r, w')" and "u \<in> set (users (w_db w))" and "u \<notin> set (users (w_db w'))"
  shows "\<exists>j \<in> set (account_deletion_jobs (w_db w)). dj_user_id j = u_ID u \<and>
     (\<forall>st \<in> set (account_deletion_steps (w_db w')). ds_job_id st = dj_id j \<longrightarrow> ds_status st = status_completed)"
proof -
  from assms(1) obtain job w1 w2 w3 q where 1: "jobs_ClaimDeletion w = (Inr (Some job), w1)" and
    2: "run_steps cl job (job_Steps job) w1 = (Inr (Some ()), w2)" and
    3: "users_Delete (job_UserID job) w2 = (q, w3)" and
    4: "w' = w3 \<or> jobs_CompleteDeletionJob (job_ID job) w3 = (r, w')"
    using assms(2,3) worker_reads_users(1,2)
    unfolding DeletionWorker_RunOnce_def run_job_def bindM_def tryM_peel case_option_peel
    by (fastforce simp: case_option_peel split: if_splits)
  note keep = worker_reads_users(1) [OF 1] worker_reads_users(2) [OF 2] keepsD [OF others.keeps_users_Delete [OF others_delete] 3]
  have "users (w_db w') = users (w_db w3)" "account_deletion_steps (w_db w') = account_deletion_steps (w_db w2)"
    using 4 worker_reads_users(3) finish_steps(1) [OF 3] finish_steps(2) by metis+
  with keep assms(2,3) have id: "u_ID u = job_UserID job" by (auto simp: others_kept_def)
  from 1 obtain now j where j: "next_claim now (w_db w) = Some j" "job_ID job = dj_id j" "job_UserID job = dj_user_id j"
    "select_steps (dj_id j) (w_db w1) = Inr (job_Steps job, w_db w1)" by (rule jobs_ClaimDeletion_Some)
  from run_steps_Some [OF 2] claimed_covered [OF j(4)] j(2) have "todo_covered (dj_id j) [] (w_db w2)" by simp
  with \<open>account_deletion_steps (w_db w') = _\<close> next_claim_in [OF j(1)] id j(3) show ?thesis
    by (auto simp: todo_covered_def)
qed

section \<open>A job to evaluate\<close>

definition job_row :: deletion_job_row where
  "job_row = \<lparr>dj_id = 9, dj_user_id = 1, dj_status = status_pending, dj_attempt_count = 0, dj_next_attempt_at = 0,
     dj_lease_until = None, dj_last_error = None, dj_created_at = 0, dj_updated_at = 0\<rparr>"

definition step_row :: "string \<Rightarrow> string \<Rightarrow> deletion_step_row" where
  "step_row n st = \<lparr>ds_job_id = 9, ds_service = n, ds_status = st, ds_attempt_count = 0, ds_next_attempt_at = 0,
     ds_last_error = None, ds_updated_at = 0\<rparr>"

definition job_db :: db where
  "job_db = test_db\<lparr>account_deletion_jobs := [job_row],
     account_deletion_steps := [step_row ''media'' status_pending, step_row ''hive'' status_completed]\<rparr>"

definition up_clients :: "fake_ext cleanup_clients" where
  "up_clients n = (if n \<in> set deletionServices then Some (\<lambda>u x. (Inr (), x\<lparr>fx_calls := fx_calls x @ [(n, [u])]\<rparr>)) else None)"

lemma job_claimed: "next_claim (clock_now (test_world 0 job_db)) (w_db (test_world 0 job_db)) = Some job_row"
  by (simp add: next_claim_def clock_now_def test_world_def job_db_def claimable_def job_row_def)

lemma test_world_quiet: "e_faults (test_world t d) = []"
  by (simp add: test_world_def)

lemma RunOnce_runs:
  "\<exists>w'. DeletionWorker_RunOnce up_clients (test_world 0 job_db) = (Inr (), w') \<and> users (w_db w') = []"
  by (simp add: DeletionWorker_RunOnce_def jobs_ClaimDeletion_def transaction_def in_tx_def fallible_def next_fault_def
      claim_job_def next_claim_def claimable_def select_steps_def run_job_def jobs_CompleteDeletionStep_def
      jobs_CompleteDeletionJob_def complete_step_def complete_job_def up_clients_def deletionServices_def
      job_db_def job_row_def step_row_def run_simps run_repositories run_fakes Let_def)

theorem worker_deletes_last_witness:
  "\<exists>w'. DeletionWorker_RunOnce up_clients (test_world 0 job_db) = (Inr (), w') \<and>
     (\<exists>j \<in> set (account_deletion_jobs job_db). dj_user_id j = u_ID test_user)"
proof -
  obtain w' where w': "DeletionWorker_RunOnce up_clients (test_world 0 job_db) = (Inr (), w')" "users (w_db w') = []"
    using RunOnce_runs by blast
  have "test_user \<in> set (users (w_db (test_world 0 job_db)))" "test_user \<notin> set (users (w_db w'))"
    by (simp_all add: w'(2) test_world_def job_db_def test_db_def)
  from worker_deletes_last [OF w'(1) this] w'(1) show ?thesis by (auto simp: test_world_def)
qed

section \<open>Retries\<close>

text \<open>
  The delay of a retry is between two minutes and 256 minutes from the
  first failed attempt on, doubles with each attempt up to the eighth and
  stays there.
\<close>

theorem retry_delay_bounds:
  assumes "1 \<le> att"
  shows "2 * time_Minute \<le> retry_delay att \<and> retry_delay att \<le> 256 * time_Minute \<and>
     retry_delay (att + 1) = (if att < 8 then 2 * retry_delay att else retry_delay att)"
proof -
  define k where "k = nat (go_min att 8)"
  have k: "1 \<le> k" "k \<le> 8" "nat (go_min (att + 1) 8) = (if att < 8 then Suc k else k)"
    using assms by (auto simp: k_def go_min_def)
  have "(2::int) ^ 1 \<le> 2 ^ k" "(2::int) ^ k \<le> 2 ^ 8" using k(1,2) by (intro power_increasing; simp)+
  moreover have "0 < time_Minute" by (simp add: time_Minute_def time_Second_def)
  ultimately show ?thesis using k(3) by (simp add: retry_delay_def flip: k_def)
qed

theorem retry_delay_bounds_witness: "2 * time_Minute \<le> retry_delay 1 \<and> retry_delay 9 = 256 * time_Minute"
  using retry_delay_bounds [of 1] retry_delay_bounds [of 8] by (simp add: retry_delay_def go_min_def)

text \<open>
  C13: The delay of a retry is recorded on the step, but the next round does not
  wait for it. After \<open>RetryDeletionStep\<close> the step is due only after the delay,
  while its job, which was due before, can be claimed at once.
\<close>

theorem retry_does_not_wait:
  assumes "jobs_RetryDeletionStep (dj_id j) n att msg w = (Inr (), w')"
    and "j \<in> set (account_deletion_jobs (w_db w))" and "dj_next_attempt_at j \<le> t"
    and "st \<in> set (account_deletion_steps (w_db w))" and "ds_job_id st = dj_id j" and "ds_service st = n"
  shows "(\<exists>st' \<in> set (account_deletion_steps (w_db w')). ds_job_id st' = dj_id j \<and> ds_service st' = n \<and>
       ds_next_attempt_at st' = clock_now w + retry_delay att \<and> ds_attempt_count st' = att) \<and>
     (\<exists>j' \<in> set (account_deletion_jobs (w_db w')). dj_id j' = dj_id j \<and> claimable t j')"
proof -
  from assms(1) obtain now w1 w2 now' w3 where 1: "time_Now w = (Inr now, w1)"
    "exec_sql (retry_step now (dj_id j) n att (retry_delay att) msg) w1 = (Inr (), w2)"
    "time_Now w2 = (Inr now', w3)" "exec_sql (release_job now' (dj_id j)) w3 = (Inr (), w')"
    by (auto simp: jobs_RetryDeletionStep_def peel)
  have now: "now = clock_now w" using time_Now_reads [OF 1(1)] .
  have d: "retry_step now (dj_id j) n att (retry_delay att) msg (w_db w) = Inr ((), w_db w2)"
    "release_job now' (dj_id j) (w_db w2) = Inr ((), w_db w')"
    using exec_sql_Inr [OF 1(2)] exec_sql_Inr [OF 1(4)] time_Now_frame(1) [OF 1(1)] time_Now_frame(1) [OF 1(3)] by simp_all
  define d1 where "d1 = w_db w2"
  define d2 where "d2 = w_db w'"
  have "account_deletion_steps d1 = sql_update (\<lambda>s. ds_job_id s = dj_id j \<and> ds_service s = n)
      (\<lambda>s. s\<lparr>ds_status := status_pending, ds_attempt_count := att, ds_next_attempt_at := now + retry_delay att,
         ds_last_error := Some msg, ds_updated_at := now\<rparr>) (account_deletion_steps (w_db w))"
    "account_deletion_jobs d1 = account_deletion_jobs (w_db w)"
    using d(1) by (auto simp: retry_step_def simp flip: d1_def)
  moreover have "account_deletion_jobs d2 = sql_update (\<lambda>r. dj_id r = dj_id j)
      (\<lambda>r. r\<lparr>dj_status := status_pending, dj_lease_until := None, dj_updated_at := now'\<rparr>) (account_deletion_jobs d1)"
    "account_deletion_steps d2 = account_deletion_steps d1"
    using d(2) by (auto simp: release_job_def simp flip: d1_def d2_def)
  ultimately show ?thesis
    using assms(2-) unfolding d2_def [symmetric]
    by (auto simp: bex_sql_update now claimable_def intro!: bexI [of _ st] bexI [of _ j])
qed

lemma retry_runs: "\<exists>w'. jobs_RetryDeletionStep (dj_id job_row) ''media'' 1 ''down'' (test_world 0 job_db) = (Inr (), w')"
  by (simp add: jobs_RetryDeletionStep_def retry_step_def release_job_def run_simps run_fakes job_db_def)

theorem retry_does_not_wait_witness:
  "\<exists>w'. jobs_RetryDeletionStep (dj_id job_row) ''media'' 1 ''down'' (test_world 0 job_db) = (Inr (), w') \<and>
     (\<exists>st \<in> set (account_deletion_steps (w_db w')). ds_next_attempt_at st = 2 * time_Minute) \<and>
     (\<exists>j \<in> set (account_deletion_jobs (w_db w')). claimable 0 j)"
proof -
  obtain w' where r: "jobs_RetryDeletionStep (dj_id job_row) ''media'' 1 ''down'' (test_world 0 job_db) = (Inr (), w')"
    using retry_runs by blast
  have h: "job_row \<in> set (account_deletion_jobs (w_db (test_world 0 job_db)))" "dj_next_attempt_at job_row \<le> 0"
    "step_row ''media'' status_pending \<in> set (account_deletion_steps (w_db (test_world 0 job_db)))"
    "ds_job_id (step_row ''media'' status_pending) = dj_id job_row" "ds_service (step_row ''media'' status_pending) = ''media''"
    by (simp_all add: test_world_def job_db_def job_row_def step_row_def)
  from retry_does_not_wait [OF r h] r show ?thesis
    by (auto simp: clock_now_def test_world_def retry_delay_def go_min_def)
qed

end
