(* ===== verification/Transport_Properties.thy ===== *)
theory Transport_Properties
  imports Login_Properties Deletion_Properties
begin

text \<open>
  What the HTTP layer guarantees: every request gets exactly one response, a
  session travels only in the answer of the endpoints that open one, a
  malformed one-time code never reaches the service, each endpoint has a
  fixed set of errors, and the endpoints behind \<open>RequireAuth\<close> touch the rows of
  the caller only.
\<close>

section \<open>Reasoning about handlers\<close>

text \<open>Every response of the handler has the property \<open>P\<close>.\<close>

definition responds :: "(http_write list \<Rightarrow> bool) \<Rightarrow> 'x served \<Rightarrow> bool" where
  "responds P m \<longleftrightarrow> (\<forall>w. P (fst (m w)))"

lemma respondsI: "(\<And>w ws w'. m w = (ws, w') \<Longrightarrow> P ws) \<Longrightarrow> responds P m"
  unfolding responds_def by (metis prod.collapse)

lemma respondsD: "responds P m \<Longrightarrow> m w = (ws, w') \<Longrightarrow> P ws"
  by (metis responds_def fst_conv)

lemma serve_cases:
  assumes "serve m f g w = (ws, w')"
  obtains (error) e where "m w = (Inl e, w')" "ws = f e"
    | (result) x where "m w = (Inr x, w')" "ws = g x"
  using assms by (auto simp: serve_def split: prod.splits sum.splits)

lemma with_body_cases:
  assumes "with_body lib decode Validate r k w = (ws, w')"
  obtains (body) "decode lib (rq_Body r) = None" "w' = w"
      "ws = [WriteError StatusBadRequest (hl_CodeInvalidBody lib) ''request body must be valid JSON'']"
    | (fields) q where "decode lib (rq_Body r) = Some q" "Validate lib q \<noteq> []" "w' = w"
      "ws = [WriteValidationError (Validate lib q)]"
    | (accepted) q where "decode lib (rq_Body r) = Some q" "Validate lib q = []" "k q w = (ws, w')"
  using assms by (auto simp: with_body_def decodeAndValidate_def respond_def Let_def split: option.splits if_splits)

lemma responds_respond: "P ws \<Longrightarrow> responds P (respond ws)"
  by (simp add: responds_def respond_def)

lemma responds_serve:
  "raises S m \<Longrightarrow> (\<And>e. within S e \<Longrightarrow> P (f e)) \<Longrightarrow> (\<And>x. P (g x)) \<Longrightarrow> responds P (serve m f g)"
  by (rule respondsI) (auto elim!: serve_cases dest: raisesD)

lemma responds_with_body:
  "P [WriteError StatusBadRequest (hl_CodeInvalidBody lib) ''request body must be valid JSON''] \<Longrightarrow>
   (\<And>fs. P [WriteValidationError fs]) \<Longrightarrow> (\<And>q. responds P (k q)) \<Longrightarrow> responds P (with_body lib decode Validate r k)"
  by (rule respondsI) (auto elim!: with_body_cases dest: respondsD)

lemma responds_option: "responds P m \<Longrightarrow> (\<And>x. responds P (k x)) \<Longrightarrow> responds P (case v of None \<Rightarrow> m | Some x \<Rightarrow> k x)"
  by (simp split: option.split)

lemma responds_sum:
  "(\<And>e. v = Inl e \<Longrightarrow> responds P (h e)) \<Longrightarrow> (\<And>x. responds P (k x)) \<Longrightarrow> responds P (case v of Inl e \<Rightarrow> h e | Inr x \<Rightarrow> k x)"
  by (simp split: sum.split)

lemma responds_prod: "(\<And>x y. responds P (k x y)) \<Longrightarrow> responds P (case v of (x, y) \<Rightarrow> k x y)"
  by (simp split: prod.split)

lemmas responds_comb = responds_respond responds_with_body responds_option responds_sum responds_prod

lemmas handler_defs =
  HealthHandler_def ReadyHandler_def Handler_Register_def Handler_Login_def Handler_Refresh_def Handler_Logout_def
  Handler_SetupVerifyOTP_def Handler_LoginVerifyOTP_def Handler_RequestPasswordReset_def
  Handler_VerifyPasswordResetOTP_def Handler_ConfirmPasswordReset_def Handler_Me_def Handler_ChangePassword_def
  Handler_Get_def Handler_Update_def Handler_Delete_def

lemma refused_early:
  "refreshTokenFromCookie r = Inl ws \<Longrightarrow> ws = [WriteError StatusUnauthorized CodeInvalidRefreshToken ''invalid or expired refresh token'']"
  "requireUserID lib r = Inl ws \<Longrightarrow> ws = missing_auth lib"
  "requireAuth lib r = Inl ws \<Longrightarrow> ws = missing_auth lib"
  by (auto simp: refreshTokenFromCookie_def requireUserID_def requireAuth_def missing_auth_def split: option.splits if_splits sum.splits)

lemma raises_any: "raises UNIV m"
  by (simp add: raises_def within_def)

section \<open>One response\<close>

text \<open>
  A response is the calls that set headers, followed by one call that writes
  the status. \<open>net/http\<close> ignores a second status and headers that come after
  the first one.
\<close>

fun writes_status :: "http_write \<Rightarrow> bool" where
  "writes_status (SetCookie _ _ _ _ _) = False"
| "writes_status (ClearCookie _ _ _) = False"
| "writes_status _ = True"

fun success :: "http_write \<Rightarrow> bool" where
  "success (WriteJSON st _) = (st < 300)"
| "success (WriteHeader st) = (st < 300)"
| "success _ = False"

definition one_response :: "http_write list \<Rightarrow> bool" where
  "one_response ws \<longleftrightarrow> ws \<noteq> [] \<and> writes_status (last ws) \<and> list_all (\<lambda>x. \<not> writes_status x) (butlast ws) \<and>
     (butlast ws = [] \<or> success (last ws))"

lemma one_response_error [simp]: "one_response (writeServiceError e)" "one_response (profile_writeServiceError e)"
  by (simp_all add: writeServiceError_def profile_writeServiceError_def one_response_def)

lemma one_response_single [simp]: "one_response [x] \<longleftrightarrow> writes_status x"
  by (simp add: one_response_def)

lemma one_response_cookie [simp]:
  "one_response (setRefreshCookie h se @ [x]) \<longleftrightarrow> writes_status x \<and> success x"
  "one_response (clearRefreshCookie h @ [x]) \<longleftrightarrow> writes_status x \<and> success x"
  by (auto simp: one_response_def setRefreshCookie_def clearRefreshCookie_def)

text \<open>
  C18: Every handler answers exactly once: it writes one status, after the
  headers, and it sets or clears a cookie only on a success. The JWKS handler
  is not part of this code.
\<close>

theorem handle_responds_once:
  assumes "ep \<noteq> EpJWKS"
  shows "one_response (fst (handle d ep r w))"
proof -
  have "responds one_response (handle d ep r)"
    using assms
    by (cases ep) (simp_all only: handle.simps handler_defs not_True_eq_False simp_thms,
      (rule responds_comb responds_serve [OF raises_any]
       | (auto dest!: refused_early simp: missing_auth_def StatusOK_def StatusNoContent_def; fail))+)
  then show ?thesis by (auto simp: responds_def)
qed

section \<open>Where a session travels\<close>

lemma session_opened:
  assumes "session_store (svc_sessions s) active"
    and "LoginVerifyOTP s tok code w = (Inr se, w') \<or> SetupVerifyOTP s tok code w = (Inr se, w') \<or> Refresh s tok w = (Inr se, w')"
  shows "\<exists>rt. only_session active rt w' \<and> rt_UserID rt = se_UserID se \<and> rt_TokenHash rt = tokenhash_Hash (se_RefreshToken se) \<and>
     rt_ExpiresAt rt = se_RefreshTokenExpiresAt se"
proof -
  have issued: "\<exists>rt. only_session active rt w2 \<and> rt_UserID rt = se_UserID se \<and>
      rt_TokenHash rt = tokenhash_Hash (se_RefreshToken se) \<and> rt_ExpiresAt rt = se_RefreshTokenExpiresAt se"
    if "issueSession s u w1 = (Inr se, w2)" for u w1 w2
  proof -
    have "se_UserID se = u_ID u" using that by (rule issueSession_Inr)
    from session_store.issueSession_only [OF assms(1) that HOL.refl] obtain rt where
      "only_session active rt w2" "rt_UserID rt = u_ID u" "rt_TokenHash rt = tokenhash_Hash (se_RefreshToken se)"
      "rt_ExpiresAt rt = se_RefreshTokenExpiresAt se" by blast
    with \<open>se_UserID se = u_ID u\<close> show ?thesis by (intro exI [of _ rt]) simp
  qed
  from assms(2) show ?thesis
  proof (elim disjE)
    assume "LoginVerifyOTP s tok code w = (Inr se, w')"
    then obtain u w1 w2 n k where 1: "issueSession s u w1 = (Inr se, w2)"
      and 2: "consume_login_challenge n k (w_db w2) = Inr ((), w_db w')" "w_ext w' = w_ext w2" by (rule LoginVerifyOTP_Inr)
    from 2(1) [symmetric] have "refresh_tokens (w_db w') = refresh_tokens (w_db w2)" by (auto simp: consume_login_challenge_def)
    from only_session_cong [of w' w2, OF this 2(2)] issued [OF 1] show ?thesis by simp
  next
    assume "SetupVerifyOTP s tok code w = (Inr se, w')"
    then obtain u w1 w2 k c where 1: "issueSession s u w1 = (Inr se, w2)"
      and 2: "update_credential c (w_db w2) = Inr (k, w_db w')" "w_ext w' = w_ext w2" by (rule SetupVerifyOTP_Inr)
    from only_session_cong [of w' w2, OF update_credential_frame(2) [OF 2(1)] 2(2)] issued [OF 1] show ?thesis by simp
  next
    assume "Refresh s tok w = (Inr se, w')"
    then obtain u w1 where "issueSession s u w1 = (Inr se, w')" by (rule Refresh_Inr)
    then show ?thesis by (rule issued)
  qed
qed

definition gives_session :: "endpoint \<Rightarrow> bool" where
  "gives_session ep \<longleftrightarrow> ep \<in> {EpSetupVerifyOTP, EpLoginVerifyOTP, EpRefresh}"

definition no_session :: "http_write list \<Rightarrow> bool" where
  "no_session ws \<longleftrightarrow> (\<forall>x \<in> set ws. case x of SetCookie _ _ _ _ _ \<Rightarrow> False | WriteJSON _ (BodySession _) \<Rightarrow> False | _ \<Rightarrow> True)"

lemma no_session_simps [simp]:
  "no_session [WriteError st c m]" "no_session [WriteValidationError fs]" "no_session [WriteInternalError e]"
  "no_session [WriteHeader st]" "no_session [WriteJSON st b] \<longleftrightarrow> (\<nexists>se. b = BodySession se)"
  "no_session (writeServiceError e)" "no_session (profile_writeServiceError e)"
  "no_session (clearRefreshCookie h @ ws) = no_session ws"
  by (auto simp: no_session_def writeServiceError_def profile_writeServiceError_def clearRefreshCookie_def split: http_body.splits)

lemma others_no_session: "ep \<noteq> EpJWKS \<Longrightarrow> \<not> gives_session ep \<Longrightarrow> responds no_session (handle d ep r)"
  by (cases ep) (simp_all only: handle.simps handler_defs not_True_eq_False simp_thms gives_session_def insert_iff,
      (rule responds_comb responds_serve [OF raises_any]
       | (auto dest!: refused_early simp: missing_auth_def; fail))+)

text \<open>The responses without a JSON body.\<close>

definition no_json :: "http_write list \<Rightarrow> bool" where
  "no_json ws \<longleftrightarrow> (\<forall>st b. WriteJSON st b \<notin> set ws)"

lemma no_json_simps [simp]:
  "no_json [WriteError st c m]" "no_json [WriteValidationError fs]" "no_json [WriteInternalError e]"
  "no_json [WriteHeader st]" "no_json (writeServiceError e)" "no_json (clearRefreshCookie h @ ws) = no_json ws"
  by (auto simp: no_json_def writeServiceError_def clearRefreshCookie_def)

lemma logout_no_json: "responds no_json (handle d EpLogout r)"
  unfolding handle.simps Handler_Logout_def
  by (rule responds_comb responds_serve [OF raises_any] | (auto dest!: refused_early; fail))+

text \<open>The handler makes no refresh token.\<close>

definition makes_no_token :: "'x served \<Rightarrow> bool" where
  "makes_no_token m \<longleftrightarrow> (\<forall>w ws w'. m w = (ws, w') \<longrightarrow> no_new_session (w_db w) (w_db w'))"

lemma no_token_comb:
  "makes_no_token (respond ws)"
  "keeps (\<lambda>w w'. no_new_session (w_db w) (w_db w')) m \<Longrightarrow> makes_no_token (serve m f g)"
  "(\<And>q. makes_no_token (k q)) \<Longrightarrow> makes_no_token (with_body lib decode Validate r k)"
  "makes_no_token n \<Longrightarrow> (\<And>x. makes_no_token (j x)) \<Longrightarrow> makes_no_token (case v of None \<Rightarrow> n | Some x \<Rightarrow> j x)"
  "(\<And>e. makes_no_token (h e)) \<Longrightarrow> (\<And>x. makes_no_token (l x)) \<Longrightarrow> makes_no_token (case u of Inl e \<Rightarrow> h e | Inr x \<Rightarrow> l x)"
  "(\<And>x y. makes_no_token (p x y)) \<Longrightarrow> makes_no_token (case z of (x, y) \<Rightarrow> p x y)"
proof -
  show "(\<And>q. makes_no_token (k q)) \<Longrightarrow> makes_no_token (with_body lib decode Validate r k)"
    unfolding makes_no_token_def by (intro allI impI, erule with_body_cases) (auto simp: no_new.refl)
qed (auto simp: makes_no_token_def respond_def no_new.refl elim!: serve_cases dest: keepsD split: option.split sum.split prod.split)

lemma others_make_no_token:
  assumes "\<not> gives_session ep"
  shows "makes_no_token (handle d ep r)"
proof -
  have ready: "keeps (\<lambda>w w'. no_new_session (w_db w) (w_db w')) (fallible (ret ()))"
    by (rule keepsI, drule fallible_ret_frame(1)) (simp add: no_new_session_def)
  note use_cases = no_new.keeps_Register no_new.keeps_Login no_new.keeps_Logout no_new.keeps_CurrentUser no_new.keeps_UpdateProfile
    no_new.keeps_DeleteAccount no_new.keeps_ChangePassword no_new.keeps_RequestPasswordReset
    no_new.keeps_VerifyPasswordResetOTP no_new.keeps_ConfirmPasswordReset
  show ?thesis
    using assms
    by (cases ep) (simp_all only: handle.simps handler_defs gives_session_def insert_iff simp_thms,
      (rule no_token_comb ready use_cases no_new_stmts no_new_writes)+)
qed

lemma gives_session_cases:
  assumes "handle d ep r w = (ws, w')" and "gives_session ep"
  obtains (refused) "no_session ws" "no_json ws"
    | (opened) se tok code where "ws = setRefreshCookie (rd_auth d) se @ [WriteJSON StatusOK (BodySession (newSessionResponse se))]"
      "LoginVerifyOTP (hd_service (rd_auth d)) tok code w = (Inr se, w') \<or>
       SetupVerifyOTP (hd_service (rd_auth d)) tok code w = (Inr se, w') \<or> Refresh (hd_service (rd_auth d)) tok w = (Inr se, w')"
  using assms
  by (cases ep)
     (auto simp: gives_session_def handler_defs respond_def elim!: with_body_cases serve_cases split: sum.splits dest!: refused_early)

text \<open>
  C14: A refresh token leaves the service in the cookie of the three endpoints
  that open a session, and in no other place. A response that sets a cookie or
  writes a session has exactly two parts: the cookie of the refresh token,
  scoped to the auth endpoints, and a JSON body with the access token, the two
  expiry times and the user, written out here, which has no field for the
  refresh token. The session is the result of the use case; the value of the
  cookie is the raw token of the only live refresh token of the user named in
  the body, with the expiry stored for it, and its session is the active one.
  Every other response sets no cookie and has no session body. Of these, the
  ones of the endpoints that are given or make a raw refresh token have no
  JSON body at all, and the other endpoints make no live refresh token.
\<close>

theorem session_cookie:
  assumes "session_store (svc_sessions (hd_service (rd_auth d))) active" and "ep \<noteq> EpJWKS"
    and "handle d ep r w = (ws, w')"
  shows "if no_session ws
     then (if ep \<in> {EpSetupVerifyOTP, EpLoginVerifyOTP, EpRefresh, EpLogout} then no_json ws
           else no_new_session (w_db w) (w_db w'))
     else ep \<in> {EpSetupVerifyOTP, EpLoginVerifyOTP, EpRefresh} \<and> (\<exists>rt se tok code.
       (LoginVerifyOTP (hd_service (rd_auth d)) tok code w = (Inr se, w') \<or>
        SetupVerifyOTP (hd_service (rd_auth d)) tok code w = (Inr se, w') \<or>
        Refresh (hd_service (rd_auth d)) tok w = (Inr se, w')) \<and>
       ws = [SetCookie ''refreshToken'' (se_RefreshToken se) ''/api/v1/auth'' (rt_ExpiresAt rt) (hd_cookie (rd_auth d)),
         WriteJSON 200 (BodySession
           \<lparr>sr_AccessToken = se_AccessToken se, sr_AccessTokenExpiresAt = time_Unix (se_AccessTokenExpiresAt se),
            sr_RefreshTokenExpiresAt = time_Unix (rt_ExpiresAt rt),
            sr_User = \<lparr>ur_ID = rt_UserID rt, ur_Email = se_Email se, ur_CreatedAt = se_CreatedAt se\<rparr>\<rparr>)] \<and>
       rt_TokenHash rt = tokenhash_Hash (se_RefreshToken se) \<and> only_session active rt w')"
proof (cases "gives_session ep")
  case False
  have "no_session ws" using respondsD [OF others_no_session [OF assms(2) False] assms(3)] .
  moreover have "no_json ws" if "ep = EpLogout" using respondsD [OF logout_no_json] assms(3) that by blast
  ultimately show ?thesis using others_make_no_token [OF False, of d r] assms(3) False
    by (simp add: gives_session_def makes_no_token_def)
next
  case True
  from assms(3) this show ?thesis
  proof (cases rule: gives_session_cases)
    case refused
    with True show ?thesis by (auto simp: gives_session_def)
  next
    case (opened se tok code)
    from session_opened [OF assms(1) opened(2)] obtain rt where
      rt: "only_session active rt w'" "rt_UserID rt = se_UserID se" "rt_TokenHash rt = tokenhash_Hash (se_RefreshToken se)"
      "rt_ExpiresAt rt = se_RefreshTokenExpiresAt se" by blast
    have ws: "ws = [SetCookie ''refreshToken'' (se_RefreshToken se) ''/api/v1/auth'' (rt_ExpiresAt rt) (hd_cookie (rd_auth d)),
         WriteJSON 200 (BodySession
           \<lparr>sr_AccessToken = se_AccessToken se, sr_AccessTokenExpiresAt = time_Unix (se_AccessTokenExpiresAt se),
            sr_RefreshTokenExpiresAt = time_Unix (rt_ExpiresAt rt),
            sr_User = \<lparr>ur_ID = rt_UserID rt, ur_Email = se_Email se, ur_CreatedAt = se_CreatedAt se\<rparr>\<rparr>)]"
      using opened(1) rt
      by (simp add: setRefreshCookie_def refreshTokenCookieName_def refreshTokenCookiePath_def StatusOK_def newSessionResponse_def)
    then have "\<not> no_session ws" by (simp add: no_session_def)
    then show ?thesis using opened(2) ws rt(1,3) True unfolding gives_session_def
      by (simp only: if_False) (intro conjI exI [of _ rt] exI [of _ se] exI [of _ tok] exI [of _ code]; simp)
  qed
qed

section \<open>One-time codes\<close>

fun posted_otp :: "httplib \<Rightarrow> endpoint \<Rightarrow> string \<Rightarrow> string option" where
  "posted_otp lib EpSetupVerifyOTP b = map_option sv_OTP (SetupVerifyRequest_decode lib b)"
| "posted_otp lib EpLoginVerifyOTP b = map_option lv_OTP (LoginVerifyOTPRequest_decode lib b)"
| "posted_otp lib EpChangePassword b = map_option cq_OTP (ChangePasswordRequest_decode lib b)"
| "posted_otp lib EpVerifyPasswordResetOTP b = map_option pv_OTP (PasswordResetVerifyOTPRequest_decode lib b)"
| "posted_otp lib EpProfileDelete b = map_option dq_OTP (DeleteAccountRequest_decode lib b)"
| "posted_otp lib _ b = None"

definition names_otp :: "(string \<times> string) list \<Rightarrow> bool" where
  "names_otp fs \<longleftrightarrow> (''otp'', CodeOTPRequired) \<in> set fs \<or> (''otp'', CodeOTPInvalidFormat) \<in> set fs"

lemma names_otp_append [simp]: "names_otp (xs @ ys) \<longleftrightarrow> names_otp xs \<or> names_otp ys"
  by (auto simp: names_otp_def)

lemma names_otp_field:
  assumes "\<not> six_digits code"
  shows "names_otp (field_error ''otp'' (validateOTPCode code))" "names_otp (field_error ''otp'' (profile_validateOTP code))"
proof -
  have "validateOTPCode code \<noteq> []" "profile_validateOTP code \<noteq> []"
    using assms by (simp_all add: validateOTPCode_iff profile_validateOTP_iff)
  moreover have "validateOTPCode code \<in> {CodeOTPRequired, CodeOTPInvalidFormat, []}"
    by (simp add: validateOTPCode_def)
  moreover have "profile_validateOTP code \<in> {CodeOTPRequired, CodeOTPInvalidFormat, []}"
    by (simp add: profile_validateOTP_def profile_CodeOTPRequired_def profile_CodeOTPInvalidFormat_def CodeOTPRequired_def CodeOTPInvalidFormat_def)
  ultimately show "names_otp (field_error ''otp'' (validateOTPCode code))" "names_otp (field_error ''otp'' (profile_validateOTP code))"
    by (auto simp: names_otp_def field_error_def)
qed

lemma otp_validation:
  "\<not> six_digits (sv_OTP q1) \<Longrightarrow> names_otp (SetupVerifyRequest_Validate lib q1)"
  "\<not> six_digits (lv_OTP q2) \<Longrightarrow> names_otp (LoginVerifyOTPRequest_Validate lib q2)"
  "\<not> six_digits (cq_OTP q3) \<Longrightarrow> names_otp (ChangePasswordRequest_Validate lib q3)"
  "\<not> six_digits (pv_OTP q4) \<Longrightarrow> names_otp (PasswordResetVerifyOTPRequest_Validate lib q4)"
  "\<not> six_digits (dq_OTP q5) \<Longrightarrow> names_otp (DeleteAccountRequest_Validate lib q5)"
  by (simp_all add: SetupVerifyRequest_Validate_def LoginVerifyOTPRequest_Validate_def ChangePasswordRequest_Validate_def
        PasswordResetVerifyOTPRequest_Validate_def DeleteAccountRequest_Validate_def names_otp_field)

lemma with_body_otp:
  assumes "decode lib (rq_Body r) = Some q" and "names_otp (Validate lib q)"
  shows "\<exists>fs. with_body lib decode Validate r k w = ([WriteValidationError fs], w) \<and> names_otp fs"
  using assms by (auto simp: with_body_def decodeAndValidate_def respond_def Let_def names_otp_def)

text \<open>
  C16: A malformed one-time code never reaches the service. On each of the five
  endpoints that take a code, a body whose code is not six ASCII digits is
  answered with a validation error for the field (or, without an authenticated
  user, with 401), and nothing changes: no attempt is counted, no lockout set.
\<close>

theorem malformed_otp_refused:
  assumes "posted_otp (rd_lib d) ep (rq_Body r) = Some code" and "\<not> six_digits code"
  shows "(\<exists>fs. handle d ep r w = ([WriteValidationError fs], w) \<and> names_otp fs) \<or>
     rq_UserID r = None \<and> handle d ep r w = (missing_auth (rd_lib d), w)"
proof (cases ep)
  case EpSetupVerifyOTP
  with assms show ?thesis
    by (auto simp: Handler_SetupVerifyOTP_def intro!: with_body_otp otp_validation)
next
  case EpLoginVerifyOTP
  with assms show ?thesis
    by (auto simp: Handler_LoginVerifyOTP_def intro!: with_body_otp otp_validation)
next
  case EpChangePassword
  with assms show ?thesis
    by (cases "rq_UserID r") (auto simp: Handler_ChangePassword_def respond_def intro!: with_body_otp otp_validation)
next
  case EpVerifyPasswordResetOTP
  with assms show ?thesis
    by (auto simp: Handler_VerifyPasswordResetOTP_def intro!: with_body_otp otp_validation)
next
  case EpProfileDelete
  with assms show ?thesis
    by (cases "rq_UserID r")
       (auto simp: Handler_Delete_def respond_def requireAuth_def requireUserID_def missing_auth_def intro!: with_body_otp otp_validation)
qed (use assms in auto)

section \<open>The errors of each endpoint\<close>

text \<open>The pairs of status and code an endpoint can answer with, apart from validation and internal errors.\<close>

fun endpoint_errors :: "httplib \<Rightarrow> endpoint \<Rightarrow> (int \<times> string) list" where
  "endpoint_errors lib EpHealth = []"
| "endpoint_errors lib EpReady = []"
| "endpoint_errors lib EpJWKS = []"
| "endpoint_errors lib EpRegister = [(400, hl_CodeInvalidBody lib), (409, ''email_taken'')]"
| "endpoint_errors lib EpLogin = [(400, hl_CodeInvalidBody lib), (401, ''invalid_credentials'')]"
| "endpoint_errors lib EpRefresh = [(401, ''invalid_refresh_token'')]"
| "endpoint_errors lib EpLogout = [(401, ''invalid_refresh_token'')]"
| "endpoint_errors lib EpSetupVerifyOTP =
     [(400, hl_CodeInvalidBody lib), (400, ''otp_invalid''), (401, ''totp_setup_token_invalid''), (401, ''invalid_credentials''),
      (404, ''user_not_found''), (429, ''otp_locked'')]"
| "endpoint_errors lib EpLoginVerifyOTP =
     [(400, hl_CodeInvalidBody lib), (400, ''otp_invalid''), (401, ''login_challenge_invalid''),
      (404, ''user_not_found''), (429, ''otp_locked'')]"
| "endpoint_errors lib EpRequestPasswordReset = [(400, hl_CodeInvalidBody lib)]"
| "endpoint_errors lib EpVerifyPasswordResetOTP =
     [(400, hl_CodeInvalidBody lib), (400, ''otp_invalid''), (400, ''password_reset_flow_invalid''),
      (404, ''user_not_found''), (429, ''otp_locked'')]"
| "endpoint_errors lib EpConfirmPasswordReset =
     [(400, hl_CodeInvalidBody lib), (400, ''password_reset_token_invalid''), (404, ''user_not_found'')]"
| "endpoint_errors lib EpMe = [(401, hl_CodeMissingAuthorization lib), (404, ''user_not_found'')]"
| "endpoint_errors lib EpChangePassword =
     [(401, hl_CodeMissingAuthorization lib), (400, hl_CodeInvalidBody lib), (400, ''otp_invalid''),
      (401, ''current_password_invalid''), (404, ''user_not_found''), (429, ''otp_locked'')]"
| "endpoint_errors lib EpProfileGet = [(401, hl_CodeMissingAuthorization lib), (404, ''user_not_found'')]"
| "endpoint_errors lib EpProfileUpdate =
     [(401, hl_CodeMissingAuthorization lib), (400, hl_CodeInvalidBody lib), (404, ''user_not_found'')]"
| "endpoint_errors lib EpProfileDelete =
     [(401, hl_CodeMissingAuthorization lib), (400, hl_CodeInvalidBody lib), (400, ''otp_invalid''),
      (404, ''user_not_found''), (429, ''otp_locked'')]"

definition errors_among :: "(int \<times> string) list \<Rightarrow> http_write list \<Rightarrow> bool" where
  "errors_among S ws \<longleftrightarrow> (\<forall>st c msg. WriteError st c msg \<in> set ws \<longrightarrow> (st, c) \<in> set S)"

lemma errors_among_simps [simp]:
  "errors_among S [WriteError st c msg] \<longleftrightarrow> (st, c) \<in> set S" "errors_among S [WriteValidationError fs]"
  "errors_among S [WriteInternalError e]" "errors_among S [WriteHeader n]" "errors_among S [WriteJSON n b]"
  "errors_among S (setRefreshCookie h se @ ws) = errors_among S ws" "errors_among S (clearRefreshCookie h @ ws) = errors_among S ws"
  by (auto simp: errors_among_def setRefreshCookie_def clearRefreshCookie_def)

lemmas code_defs =
  StatusBadRequest_def StatusUnauthorized_def StatusNotFound_def StatusConflict_def StatusTooManyRequests_def missing_auth_def
  CodeEmailTaken_def CodeUserNotFound_def CodeInvalidCredentials_def CodeInvalidRefreshToken_def CodeOTPInvalid_def
  CodeOTPLocked_def CodeSetupTokenInvalid_def CodeChallengeInvalid_def CodeCurrentPasswordInvalid_def
  CodePasswordResetFlowInvalid_def CodePasswordResetTokenInvalid_def profile_CodeUserNotFound_def profile_CodeOTPInvalid_def
  profile_CodeOTPLocked_def

lemma errors_among_wrap:
  "errors_among T (writeServiceError (Wrap msg e)) = errors_among T (writeServiceError e)"
  "errors_among T (profile_writeServiceError (Wrap msg e)) = errors_among T (profile_writeServiceError e)"
  by (simp_all add: writeServiceError_def profile_writeServiceError_def)

lemma errors_among_service:
  assumes "within S e"
  shows "(\<And>x. x \<in> S \<Longrightarrow> errors_among T (writeServiceError (Sentinel x))) \<Longrightarrow> errors_among T (writeServiceError e)"
    and "(\<And>x. x \<in> S \<Longrightarrow> errors_among T (profile_writeServiceError (Sentinel x))) \<Longrightarrow> errors_among T (profile_writeServiceError e)"
  using assms
proof (induction e)
  case (PgError c)
  { case 1 show ?case by (simp add: writeServiceError_def) next case 2 show ?case by (simp add: profile_writeServiceError_def) }
next
  case (Opaque msg)
  { case 1 show ?case by (simp add: writeServiceError_def) next case 2 show ?case by (simp add: profile_writeServiceError_def) }
qed (auto simp: errors_among_wrap)

context plain_ports
begin

lemmas use_case_raises =
  Register_raises Login_raises Refresh_raises Logout_raises CurrentUser_raises UpdateProfile_raises DeleteAccount_raises
  SetupVerifyOTP_raises LoginVerifyOTP_raises ChangePassword_raises RequestPasswordReset_raises
  VerifyPasswordResetOTP_raises ConfirmPasswordReset_raises

lemma answers_among:
  assumes "hd_service (rd_auth d) = s" and "rd_profile d = s" and "ep \<noteq> EpJWKS"
  shows "responds (errors_among (endpoint_errors (rd_lib d) ep)) (handle d ep r)"
  using assms(3)
  by (cases ep) (simp_all only: handle.simps handler_defs not_True_eq_False simp_thms assms(1,2),
      (rule responds_comb responds_serve [OF use_case_raises(1)] responds_serve [OF use_case_raises(2)]
        responds_serve [OF use_case_raises(3)] responds_serve [OF use_case_raises(4)] responds_serve [OF use_case_raises(5)]
        responds_serve [OF use_case_raises(6)] responds_serve [OF use_case_raises(7)] responds_serve [OF use_case_raises(8)]
        responds_serve [OF use_case_raises(9)] responds_serve [OF use_case_raises(10)] responds_serve [OF use_case_raises(11)]
        responds_serve [OF use_case_raises(12)] responds_serve [OF use_case_raises(13)] responds_serve [OF raises_any]
       | (erule errors_among_service; auto simp: writeServiceError_def profile_writeServiceError_def code_defs; fail)
       | (auto dest!: refused_early simp: code_defs; fail))+)

end

text \<open>
  C17: Each endpoint has a fixed set of error answers. With ports that return no
  sentinel errors of this code (\<open>plain_ports\<close>), every status and code an endpoint
  answers with is in its list; in particular the login reports every failure
  of its own as 401 \<open>invalid_credentials\<close>, the password-reset request reports none
  that depends on the account, and a locked second factor is 429, never 401.
\<close>

theorem endpoint_answers:
  assumes "plain_ports (hd_service (rd_auth d))" and "rd_profile d = hd_service (rd_auth d)" and "ep \<noteq> EpJWKS"
    and "WriteError st code msg \<in> set (fst (handle d ep r w))"
  shows "(st, code) \<in> set (endpoint_errors (rd_lib d) ep)"
proof -
  have "errors_among (endpoint_errors (rd_lib d) ep) (fst (handle d ep r w))"
    using plain_ports.answers_among [OF assms(1) HOL.refl assms(2,3), of r] by (simp add: responds_def)
  with assms(4) show ?thesis unfolding errors_among_def by blast
qed

section \<open>The caller's rows only\<close>

definition caller_endpoint :: "endpoint \<Rightarrow> bool" where
  "caller_endpoint ep \<longleftrightarrow> ep \<in> {EpMe, EpChangePassword, EpProfileGet, EpProfileUpdate, EpProfileDelete}"

lemma caller_routes: "ro \<in> set NewRouter \<Longrightarrow> caller_endpoint (ro_Endpoint ro) = ro_RequireAuth ro"
  by (auto simp: NewRouter_def caller_endpoint_def open_route_def protected_route_def)

lemma serve_foreign: "keeps_foreign i m \<Longrightarrow> foreign i (w_db (snd (serve m f g w))) = foreign i (w_db w)"
  by (cases "m w"; cases "fst (m w)") (auto simp: serve_def dest: keeps_foreignD)

lemma with_body_foreign:
  "(\<And>q. foreign i (w_db (snd (k q w))) = foreign i (w_db w)) \<Longrightarrow>
     foreign i (w_db (snd (with_body lib decode Validate r k w))) = foreign i (w_db w)"
  by (cases "with_body lib decode Validate r k w") (auto elim!: with_body_cases, metis snd_conv)

lemma handle_foreign:
  assumes "caller_endpoint ep" and "rq_UserID r = Some i"
  shows "foreign i (w_db (snd (handle d ep r w))) = foreign i (w_db w)"
  using assms
  by (auto simp: caller_endpoint_def handler_defs requireAuth_def requireUserID_def
      intro!: serve_foreign with_body_foreign foreign_CurrentUser foreign_ChangePassword foreign_UpdateProfile foreign_DeleteAccount)

text \<open>
  C15: The endpoints that work on an account by its id are behind \<open>RequireAuth\<close>
  and touch the account of the caller only. When the middleware refuses the
  request, its answer is the response and no row changes. When it lets user
  \<open>i\<close> in, then whatever the request contains and whatever the handler answers,
  the rows of every other user are as they were: accounts, refresh tokens,
  credentials, login challenges, reset flows and deletion jobs.
\<close>

theorem caller_only:
  assumes "ro \<in> set NewRouter" and "caller_endpoint (ro_Endpoint ro)"
  shows "case rd_RequireAuth d r (w_ext w) of
       (Inl ws, x) \<Rightarrow> serve_route d ro r w = (ws, w\<lparr>w_ext := x\<rparr>)
     | (Inr i, x) \<Rightarrow> foreign i (w_db (snd (serve_route d ro r w))) = foreign i (w_db w)"
proof -
  have "ro_RequireAuth ro" using caller_routes [OF assms(1)] assms(2) by simp
  then show ?thesis
    using handle_foreign [OF assms(2), of "r\<lparr>rq_UserID := Some _\<rparr>" _ d "w\<lparr>w_ext := _\<rparr>"]
    by (auto simp: serve_route_def split: prod.split sum.split)
qed

section \<open>Requests to evaluate\<close>

text \<open>A small instance of the library parameters, and the router over the test service.\<close>

definition test_json :: "string \<Rightarrow> json option" where
  "test_json b =
     (if b = ''short'' then Some (JObj [(''challengeToken'', JStr ''c''), (''otp'', JStr ''12345'')])
      else if b = ''name'' then Some (JObj [(''firstName'', JStr ''A''), (''lastName'', JStr ''B'')])
      else None)"

definition test_lib :: httplib where
  "test_lib = \<lparr>hl_unicode = ascii_unicode, hl_IsDigit = (\<lambda>_. False), hl_ParseAddress = (\<lambda>a. CHR ''@'' \<in> set a),
     hl_uuid_Parse = (\<lambda>_. None), hl_json = test_json, hl_foldName = id,
     hl_CodeInvalidBody = ''invalid_body'', hl_CodeMissingAuthorization = ''missing_authorization''\<rparr>"

definition test_deps :: "fake_ext router_deps" where
  "test_deps = \<lparr>rd_lib = test_lib,
     rd_auth = \<lparr>hd_service = newTestService, hd_cookie = \<lparr>co_Domain = [], co_Secure = True, co_SameSiteLax = True\<rparr>\<rparr>,
     rd_profile = newTestService, rd_jwks = [], rd_RequireAuth = (\<lambda>r x. (Inr 1, x))\<rparr>"

definition test_request :: "string \<Rightarrow> http_request" where
  "test_request b = \<lparr>rq_Body = b, rq_Cookie = (\<lambda>n. if n = ''refreshToken'' then Some ''abc'' else None),
     rq_Authorization = ''Bearer t'', rq_UserID = None\<rparr>"

lemmas test_http = test_deps_def test_lib_def test_request_def test_json_def

lemma refresh_answers:
  "\<exists>ws w'. handle test_deps EpRefresh (test_request []) (test_world 0 abc_db) = (ws, w') \<and> \<not> no_session ws"
proof -
  obtain se w' where "Refresh newTestService ''abc'' (test_world 0 abc_db) = (Inr se, w')" using Refresh_runs by blast
  then show ?thesis
    by (simp add: test_http Handler_Refresh_def refreshTokenFromCookie_def refreshTokenCookieName_def serve_def no_session_def setRefreshCookie_def)
qed

theorem handle_responds_once_witness:
  "one_response (fst (handle test_deps EpRefresh (test_request []) (test_world 0 abc_db)))"
  by (rule handle_responds_once) simp

theorem session_cookie_witness:
  "\<exists>ws w' rt (se :: Session). handle test_deps EpRefresh (test_request []) (test_world 0 abc_db) = (ws, w') \<and> only_session fx_active rt w' \<and>
     ws ! 0 = SetCookie ''refreshToken'' (se_RefreshToken se) ''/api/v1/auth'' (rt_ExpiresAt rt) (hd_cookie (rd_auth test_deps)) \<and>
     rt_TokenHash rt = tokenhash_Hash (se_RefreshToken se) \<and> length ws = 2"
proof -
  obtain ws w' where r: "handle test_deps EpRefresh (test_request []) (test_world 0 abc_db) = (ws, w')" "\<not> no_session ws"
    using refresh_answers by blast
  have "session_store (svc_sessions (hd_service (rd_auth test_deps))) fx_active" using fake_sessions by (simp add: test_deps_def)
  have "EpRefresh \<noteq> EpJWKS" by simp
  from session_cookie [OF \<open>session_store _ _\<close> this r(1)] r(2)
  have "\<exists>rt (se :: Session) b. only_session fx_active rt w' \<and> rt_TokenHash rt = tokenhash_Hash (se_RefreshToken se) \<and>
      ws = [SetCookie ''refreshToken'' (se_RefreshToken se) ''/api/v1/auth'' (rt_ExpiresAt rt) (hd_cookie (rd_auth test_deps)), b]"
    by (simp only: if_False) blast
  then obtain rt and se :: Session and b where "only_session fx_active rt w'" "rt_TokenHash rt = tokenhash_Hash (se_RefreshToken se)"
    "ws = [SetCookie ''refreshToken'' (se_RefreshToken se) ''/api/v1/auth'' (rt_ExpiresAt rt) (hd_cookie (rd_auth test_deps)), b]"
    by blast
  with r(1) show ?thesis by (intro exI [of _ ws] exI [of _ w'] exI [of _ rt] exI [of _ se]) simp
qed

theorem malformed_otp_refused_witness:
  "\<exists>fs. handle test_deps EpLoginVerifyOTP (test_request ''short'') (test_world 0 test_db) = ([WriteValidationError fs], test_world 0 test_db) \<and>
     names_otp fs"
proof -
  have "posted_otp (rd_lib test_deps) EpLoginVerifyOTP (rq_Body (test_request ''short'')) = Some ''12345''"
    by (simp add: test_http LoginVerifyOTPRequest_decode_def json_Decode_def json_field_def str_field_def)
  moreover have "\<not> six_digits ''12345''" by (simp add: six_digits_def)
  moreover have "handle test_deps EpLoginVerifyOTP (test_request ''short'') (test_world 0 test_db) \<noteq>
      (missing_auth (rd_lib test_deps), test_world 0 test_db)"
    by (simp add: test_http Handler_LoginVerifyOTP_def with_body_def decodeAndValidate_def LoginVerifyOTPRequest_decode_def
        json_Decode_def json_field_def str_field_def LoginVerifyOTPRequest_Validate_def field_error_def validateOTPCode_def
        otpLength_def CodeOTPInvalidFormat_def respond_def missing_auth_def)
  ultimately show ?thesis using malformed_otp_refused [of test_deps EpLoginVerifyOTP "test_request ''short''"] by blast
qed

lemma refresh_refused:
  "fst (handle test_deps EpRefresh (test_request []) (test_world 0 empty_db)) =
     [WriteError 401 ''invalid_refresh_token'' ''invalid or expired refresh token'']"
  by (simp add: test_http Handler_Refresh_def refreshTokenFromCookie_def refreshTokenCookieName_def serve_def Refresh_def
      run_simps run_repositories run_fakes writeServiceError_def code_defs empty_db_def)

theorem endpoint_answers_witness:
  "fst (handle test_deps EpRefresh (test_request []) (test_world 0 empty_db)) =
     [WriteError 401 ''invalid_refresh_token'' ''invalid or expired refresh token''] \<and>
   (401, ''invalid_refresh_token'') \<in> set (endpoint_errors (rd_lib test_deps) EpRefresh)"
proof (rule conjI, rule refresh_refused, rule endpoint_answers)
  show "plain_ports (hd_service (rd_auth test_deps))" using test_ports.plain_ports_axioms by (simp add: test_deps_def)
  show "WriteError 401 ''invalid_refresh_token'' ''invalid or expired refresh token'' \<in>
     set (fst (handle test_deps EpRefresh (test_request []) (test_world 0 empty_db)))" unfolding refresh_refused by simp
qed (simp_all add: test_deps_def)

theorem caller_only_witness:
  "foreign 1 (w_db (snd (serve_route test_deps (protected_route ''PUT'' ''/api/v1/profile/'' EpProfileUpdate)
     (test_request ''name'') (test_world 0 test_db)))) = foreign 1 test_db"
  using caller_only [of "protected_route ''PUT'' ''/api/v1/profile/'' EpProfileUpdate" test_deps "test_request ''name''" "test_world 0 test_db"]
  by (simp add: NewRouter_def caller_endpoint_def protected_route_def open_route_def test_deps_def test_world_def)

end
