(* ===== verification/Deletion_Drain.thy ===== *)
theory Deletion_Drain
  imports Deletion_Properties
begin

text \<open>
  The deletion worker makes progress: with the database up and the cleanup
  clients answering, a round completes the job it claims, and as many rounds as
  there are open jobs leave none open.
\<close>

section \<open>Runs without faults\<close>

text \<open>Nothing fails from here on, and the clock only shows readings that were to come.\<close>

definition calm :: "'x world \<Rightarrow> 'x world \<Rightarrow> bool" where
  "calm w w' \<longleftrightarrow> e_faults w' = [] \<and> readings w' \<subseteq> readings w"

lemma calm_trans: "calm w w1 \<Longrightarrow> calm w1 w2 \<Longrightarrow> calm w w2"
  by (auto simp: calm_def)

lemma calm_quiet: "calm w w' \<Longrightarrow> e_faults w' = []"
  by (simp add: calm_def)

lemma calm_upd [simp]: "calm w (w'\<lparr>w_db := d\<rparr>) \<longleftrightarrow> calm w w'" "calm (w\<lparr>w_ext := x\<rparr>) w' \<longleftrightarrow> calm w w'"
  by (simp_all add: calm_def readings_def)

lemma calm_time_Now: "e_faults w = [] \<Longrightarrow> \<exists>w'. time_Now w = (Inr (clock_now w), w') \<and> calm w w' \<and> w_db w' = w_db w"
  by (cases "e_clock w") (auto simp: time_Now_def clock_now_def calm_def readings_def)

lemma calm_timed_sql:
  assumes "e_faults w = []" and "\<And>now d. \<exists>d'. st now d = Inr ((), d')"
  shows "\<exists>w'. bindM time_Now (\<lambda>now. exec_sql (st now)) w = (Inr (), w') \<and> calm w w' \<and>
     st (clock_now w) (w_db w) = Inr ((), w_db w')"
proof -
  from calm_time_Now [OF assms(1)] obtain w1 where 1: "time_Now w = (Inr (clock_now w), w1)" "calm w w1" "w_db w1 = w_db w" by blast
  from assms(2) obtain d' where d': "st (clock_now w) (w_db w) = Inr ((), d')" by blast
  then have "exec_sql (st (clock_now w)) w1 = (Inr (), w1\<lparr>w_db := d'\<rparr>)"
    using 1 calm_quiet [OF 1(2)] by (simp add: run_exec_sql)
  with 1 d' show ?thesis by (simp add: bindM_apply)
qed

lemma calm_jobs:
  assumes "e_faults w = []"
  shows "\<exists>w'. jobs_CompleteDeletionStep j n w = (Inr (), w') \<and> calm w w' \<and>
       complete_step (clock_now w) j n (w_db w) = Inr ((), w_db w')"
    and "\<exists>w'. jobs_CompleteDeletionJob j w = (Inr (), w') \<and> calm w w' \<and>
       complete_job (clock_now w) j (w_db w) = Inr ((), w_db w')"
  unfolding jobs_CompleteDeletionStep_def jobs_CompleteDeletionJob_def
  by (rule calm_timed_sql [OF assms], simp add: complete_step_def complete_job_def)+

text \<open>A cleanup client that is there and never fails.\<close>

definition answers :: "'x cleanup_clients \<Rightarrow> string \<Rightarrow> bool" where
  "answers cl n \<longleftrightarrow> (\<exists>f. cl n = Some f \<and> (\<forall>u x. \<exists>x'. f u x = (Inr (), x')))"

text \<open>The services the steps of a database name, which no operation of the worker changes.\<close>

definition step_services :: "db \<Rightarrow> (uuid \<times> string) set" where
  "step_services d = (\<lambda>s. (ds_job_id s, ds_service s)) ` set (account_deletion_steps d)"

lemma complete_step_keeps:
  assumes "complete_step now j n d = Inr ((), d')"
  shows "account_deletion_jobs d' = account_deletion_jobs d" "users d' = users d" "step_services d' = step_services d"
proof -
  from assms have d': "d' = d\<lparr>account_deletion_steps := account_deletion_steps d'\<rparr>" and
    s: "map (\<lambda>s. (ds_job_id s, ds_service s)) (account_deletion_steps d') = map (\<lambda>s. (ds_job_id s, ds_service s)) (account_deletion_steps d)"
    by (auto simp: complete_step_def sql_update_def)
  show "account_deletion_jobs d' = account_deletion_jobs d" "users d' = users d" by (subst d', simp)+
  show "step_services d' = step_services d" using arg_cong [OF s, of set] by (simp add: step_services_def)
qed

lemma calm_run_steps:
  assumes "e_faults w = []" and "\<forall>st \<in> set sts. answers cl (st_Service st)"
  shows "\<exists>w'. run_steps cl job sts w = (Inr (Some ()), w') \<and> calm w w' \<and> users (w_db w') = users (w_db w) \<and>
     account_deletion_jobs (w_db w') = account_deletion_jobs (w_db w) \<and> step_services (w_db w') = step_services (w_db w)"
  using assms
proof (induction sts arbitrary: w)
  case Nil
  then show ?case by (simp add: calm_def)
next
  case (Cons st sts)
  show ?case
  proof (cases "st_Status st = status_completed")
    case True
    with Cons show ?thesis by simp
  next
    case False
    from Cons.prems(2) obtain f where f: "cl (st_Service st) = Some f" "\<And>u x. \<exists>x'. f u x = (Inr (), x')"
      by (auto simp: answers_def)
    from f(2) obtain x where x: "f (job_UserID job) (w_ext w) = (Inr (), x)" by blast
    let ?w = "w\<lparr>w_ext := x\<rparr>"
    have "e_faults ?w = []" using Cons.prems(1) by simp
    from calm_jobs(1) [OF this] obtain w2 where
      w2: "jobs_CompleteDeletionStep (job_ID job) (st_Service st) ?w = (Inr (), w2)" "calm w w2"
        "complete_step (clock_now ?w) (job_ID job) (st_Service st) (w_db w) = Inr ((), w_db w2)" by auto
    from Cons.IH [OF calm_quiet [OF w2(2)]] Cons.prems(2) obtain w3 where
      "run_steps cl job sts w2 = (Inr (Some ()), w3)" "calm w2 w3" "users (w_db w3) = users (w_db w2)"
      "account_deletion_jobs (w_db w3) = account_deletion_jobs (w_db w2)" "step_services (w_db w3) = step_services (w_db w2)" by auto
    with False f(1) x w2(1) complete_step_keeps [OF w2(3)] calm_trans [OF w2(2)] show ?thesis
      by (simp add: external_def tryM_apply bindM_apply)
  qed
qed

lemma calm_Claim:
  assumes "e_faults w = []" and "next_claim (clock_now w) (w_db w) = Some j"
  shows "\<exists>w' job f. jobs_ClaimDeletion w = (Inr (Some job), w') \<and> calm w w' \<and> job_ID job = dj_id j \<and>
     job_UserID job = dj_user_id j \<and> st_Service ` set (job_Steps job) = {n. (dj_id j, n) \<in> step_services (w_db w)} \<and>
     users (w_db w') = users (w_db w) \<and> step_services (w_db w') = step_services (w_db w) \<and>
     account_deletion_jobs (w_db w') = sql_update (\<lambda>r. dj_id r = dj_id j) f (account_deletion_jobs (w_db w)) \<and>
     (\<forall>r. dj_id (f r) = dj_id r)"
proof -
  from calm_time_Now [OF assms(1)] obtain w1 where 1: "time_Now w = (Inr (clock_now w), w1)" "calm w w1" "w_db w1 = w_db w" by blast
  define f where "f = (\<lambda>r :: deletion_job_row. r\<lparr>dj_status := status_processing, dj_attempt_count := dj_attempt_count r + 1,
     dj_lease_until := Some (clock_now w + 2 * time_Minute), dj_updated_at := clock_now w\<rparr>)"
  define d where "d = (w_db w)\<lparr>account_deletion_jobs := sql_update (\<lambda>r. dj_id r = dj_id j) f (account_deletion_jobs (w_db w))\<rparr>"
  have d: "claim_job (clock_now w) (w_db w) = Inr ((dj_id j, dj_user_id j), d)" using assms(2) by (simp add: claim_job_def d_def f_def)
  let ?sts = "map (\<lambda>s. \<lparr>st_Service = ds_service s, st_Status = ds_status s, st_AttemptCount = ds_attempt_count s\<rparr>)
           (sort_key ds_service (filter (\<lambda>s. ds_job_id s = dj_id j) (account_deletion_steps d)))"
  let ?job = "\<lparr>job_ID = dj_id j, job_UserID = dj_user_id j, job_Steps = ?sts\<rparr>"
  have "jobs_ClaimDeletion w = (Inr (Some ?job), w1\<lparr>w_db := d\<rparr>)"
    using assms(1) 1(1,3) calm_quiet [OF 1(2)] d
    by (simp add: jobs_ClaimDeletion_def transaction_def in_tx_def fallible_def next_fault_def tryM_apply bindM_apply
        run_exec_sql select_steps_def)
  moreover have "st_Service ` set ?sts = {n. (dj_id j, n) \<in> step_services (w_db w)}"
    by (force simp: d_def step_services_def image_iff)
  ultimately show ?thesis using 1(2)
    by (intro exI [of _ "w1\<lparr>w_db := d\<rparr>"] exI [of _ ?job] exI [of _ f]) (simp add: d_def f_def step_services_def)
qed

lemma calm_users_Delete:
  assumes "e_faults w = []"
  obtains (deleted) w' where "users_Delete i w = (Inr (), w')" "calm w w'" "set (users (w_db w')) = {u \<in> set (users (w_db w)). u_ID u \<noteq> i}" "account_deletion_jobs (w_db w') = account_deletion_jobs (w_db w)"
      "step_services (w_db w') = step_services (w_db w)"
    | (missing) "users_Delete i w = (Inl (Sentinel User_ErrNotFound), w)" "\<forall>u \<in> set (users (w_db w)). u_ID u \<noteq> i"
proof (cases "sql_count (\<lambda>r. u_ID r = i) (users (w_db w)) = 0")
  case True
  then show thesis using missing assms
    by (auto simp: users_Delete_def wrapM_apply run_exec_sql delete_user_def Let_def sql_count_0)
next
  case False
  then obtain n d where d: "delete_user i (w_db w) = Inr (n, d)" "n \<noteq> 0" "users d = sql_delete (\<lambda>r. u_ID r = i) (users (w_db w))"
     "account_deletion_jobs d = account_deletion_jobs (w_db w)" "account_deletion_steps d = account_deletion_steps (w_db w)"
    by (simp add: delete_user_def Let_def)
  then have "users_Delete i w = (Inr (), w\<lparr>w_db := d\<rparr>)" using assms by (simp add: users_Delete_def wrapM_apply run_exec_sql)
  then show thesis
    by (rule deleted) (use d(3-) assms in \<open>auto simp: set_sql_delete calm_def readings_def step_services_def\<close>)
qed

section \<open>A round\<close>

text \<open>
  A deletion that can proceed does: with the database up and every peer service
  of the job answering, one round of the worker on a claimable job ends
  without error, no row of the user is left, the job is completed and the other
  jobs are as before.
\<close>

lemma round_completes:
  assumes "e_faults w = []" and "next_claim (clock_now w) (w_db w) = Some j"
    and "\<forall>n. (dj_id j, n) \<in> step_services (w_db w) \<longrightarrow> answers cl n"
  shows "\<exists>w' h. DeletionWorker_RunOnce cl w = (Inr (), w') \<and> calm w w' \<and> step_services (w_db w') = step_services (w_db w) \<and>
     set (users (w_db w')) = {u \<in> set (users (w_db w)). u_ID u \<noteq> dj_user_id j} \<and>
     account_deletion_jobs (w_db w') = sql_update (\<lambda>r. dj_id r = dj_id j) h (account_deletion_jobs (w_db w)) \<and>
     (\<forall>r. dj_status (h r) = status_completed)"
proof -
  from calm_Claim [OF assms(1,2)] obtain w1 job f where c: "jobs_ClaimDeletion w = (Inr (Some job), w1)" "calm w w1"
    "job_ID job = dj_id j" "job_UserID job = dj_user_id j" "users (w_db w1) = users (w_db w)" "step_services (w_db w1) = step_services (w_db w)"
    and sts: "st_Service ` set (job_Steps job) = {n. (dj_id j, n) \<in> step_services (w_db w)}"
    and f: "account_deletion_jobs (w_db w1) = sql_update (\<lambda>r. dj_id r = dj_id j) f (account_deletion_jobs (w_db w))" "\<And>r. dj_id (f r) = dj_id r"
    by blast
  have "\<forall>st \<in> set (job_Steps job). answers cl (st_Service st)" using assms(3) sts by auto
  with calm_run_steps [OF calm_quiet [OF c(2)]] obtain w2 where s: "run_steps cl job (job_Steps job) w1 = (Inr (Some ()), w2)" "calm w1 w2"
    "users (w_db w2) = users (w_db w1)" "account_deletion_jobs (w_db w2) = account_deletion_jobs (w_db w1)"
    "step_services (w_db w2) = step_services (w_db w1)" by blast
  have w2: "calm w2 w2" using s(2) by (simp add: calm_def)
  have "\<exists>w3. run_job cl job w1 = jobs_CompleteDeletionJob (dj_id j) w3 \<and> calm w2 w3 \<and>
     set (users (w_db w3)) = {u \<in> set (users (w_db w2)). u_ID u \<noteq> dj_user_id j} \<and>
     account_deletion_jobs (w_db w3) = account_deletion_jobs (w_db w2) \<and> step_services (w_db w3) = step_services (w_db w2)"
    using s(1) w2 by (rule_tac calm_users_Delete [OF calm_quiet [OF s(2)], of "dj_user_id j"])
      (fastforce simp: run_job_def bindM_apply tryM_apply c(3,4))+
  then obtain w3 where w3: "run_job cl job w1 = jobs_CompleteDeletionJob (dj_id j) w3" "calm w2 w3"
     "set (users (w_db w3)) = {u \<in> set (users (w_db w2)). u_ID u \<noteq> dj_user_id j}"
     "account_deletion_jobs (w_db w3) = account_deletion_jobs (w_db w2)" "step_services (w_db w3) = step_services (w_db w2)" by blast
  from calm_jobs(2) [OF calm_quiet [OF w3(2)]] obtain w' where w': "jobs_CompleteDeletionJob (dj_id j) w3 = (Inr (), w')" "calm w3 w'"
    "complete_job (clock_now w3) (dj_id j) (w_db w3) = Inr ((), w_db w')" by blast
  let ?g = "\<lambda>r :: deletion_job_row. r\<lparr>dj_status := status_completed, dj_lease_until := None, dj_last_error := None, dj_updated_at := clock_now w3\<rparr>"
  have "account_deletion_jobs (w_db w') = sql_update (\<lambda>r. dj_id r = dj_id j) ?g (account_deletion_jobs (w_db w3))"
    "users (w_db w') = users (w_db w3)" "step_services (w_db w') = step_services (w_db w3)"
    using w'(3) [symmetric] by (simp_all add: complete_job_def step_services_def)
  moreover have "sql_update (\<lambda>r. dj_id r = dj_id j) ?g (account_deletion_jobs (w_db w3)) =
     sql_update (\<lambda>r. dj_id r = dj_id j) (?g \<circ> f) (account_deletion_jobs (w_db w))"
    using f(2) unfolding w3(4) s(4) f(1) by (simp add: sql_update_def)
  moreover have "DeletionWorker_RunOnce cl w = (Inr (), w')"
    using c(1) w3(1) w'(1) by (simp add: DeletionWorker_RunOnce_def bindM_apply)
  moreover have "calm w w'" using calm_trans c(2) s(2) w3(2) w'(2) by metis
  ultimately show ?thesis using w3(3,5) s(3,5) c(5,6) by (intro exI [of _ w'] exI [of _ "?g \<circ> f"]) simp
qed

lemma round_idle:
  assumes "e_faults w = []" and "next_claim (clock_now w) (w_db w) = None"
  shows "\<exists>w'. DeletionWorker_RunOnce cl w = (Inr (), w') \<and> calm w w' \<and> w_db w' = w_db w"
proof -
  from calm_time_Now [OF assms(1)] obtain w1 where 1: "time_Now w = (Inr (clock_now w), w1)" "calm w w1" "w_db w1 = w_db w" by blast
  have "claim_job (clock_now w) (w_db w) = Inl (Sentinel Pgx_ErrNoRows)" using assms(2) by (simp add: claim_job_def)
  with assms(1) 1 calm_quiet [OF 1(2)] show ?thesis
    by (simp add: DeletionWorker_RunOnce_def jobs_ClaimDeletion_def transaction_def in_tx_def fallible_def next_fault_def
        tryM_apply bindM_apply run_exec_sql)
qed

section \<open>Rounds until the queue is empty\<close>

definition is_open :: "deletion_job_row \<Rightarrow> bool" where
  "is_open j \<longleftrightarrow> dj_status j \<noteq> status_completed"

definition open_jobs :: "db \<Rightarrow> deletion_job_row list" where
  "open_jobs d = filter is_open (account_deletion_jobs d)"

text \<open>Every open job can be claimed from \<open>t\<close> on, and the clock shows nothing before \<open>t\<close>.\<close>

definition due_from :: "time \<Rightarrow> 'x world \<Rightarrow> bool" where
  "due_from t w \<longleftrightarrow> (\<forall>s \<in> readings w. t \<le> s) \<and> (\<forall>j \<in> set (open_jobs (w_db w)). claimable t j)"

lemma claimable_later: "claimable t j \<Longrightarrow> t \<le> s \<Longrightarrow> claimable s j"
  by (auto simp: claimable_def split: option.splits)

lemma claimable_open: "claimable t j \<Longrightarrow> is_open j"
  by (simp add: claimable_def is_open_def)

lemma due_claims:
  assumes "due_from t w"
  shows "filter (claimable (clock_now w)) (account_deletion_jobs (w_db w)) = open_jobs (w_db w)"
proof -
  have "t \<le> clock_now w" using assms clock_now_reading unfolding due_from_def by blast
  then show ?thesis using assms claimable_later claimable_open
    by (auto simp: due_from_def open_jobs_def intro!: filter_cong)
qed

lemma next_claim_due:
  assumes "due_from t w"
  shows "open_jobs (w_db w) = [] \<Longrightarrow> next_claim (clock_now w) (w_db w) = None"
    and "open_jobs (w_db w) \<noteq> [] \<Longrightarrow> \<exists>j \<in> set (open_jobs (w_db w)). next_claim (clock_now w) (w_db w) = Some j"
proof -
  show "open_jobs (w_db w) = [] \<Longrightarrow> next_claim (clock_now w) (w_db w) = None"
    by (simp add: next_claim_def due_claims [OF assms])
  assume "open_jobs (w_db w) \<noteq> []"
  then obtain j js where j: "sort_key dj_next_attempt_at (open_jobs (w_db w)) = j # js"
    by (metis list.exhaust set_empty2 set_sort)
  then have "j \<in> set (open_jobs (w_db w))" by (metis list.set_intros(1) set_sort)
  with j show "\<exists>j \<in> set (open_jobs (w_db w)). next_claim (clock_now w) (w_db w) = Some j"
    by (simp add: next_claim_def due_claims [OF assms])
qed

text \<open>Completing one job removes it, and only jobs with its id, from the open ones.\<close>

lemma open_after:
  assumes "\<And>r. \<not> is_open (h r)"
  shows "filter is_open (sql_update (\<lambda>r. dj_id r = k) h js) = filter (\<lambda>r. dj_id r \<noteq> k) (filter is_open js)"
  using assms by (induction js) (auto simp: sql_update_def)

lemma round_shrinks:
  assumes "e_faults w = []" and "due_from t w" and "\<forall>(j, n) \<in> step_services (w_db w). answers cl n" and "open_jobs (w_db w) \<noteq> []"
  shows "\<exists>w' j. DeletionWorker_RunOnce cl w = (Inr (), w') \<and> calm w w' \<and> step_services (w_db w') = step_services (w_db w) \<and>
     j \<in> set (open_jobs (w_db w)) \<and> set (users (w_db w')) = {u \<in> set (users (w_db w)). u_ID u \<noteq> dj_user_id j} \<and>
     open_jobs (w_db w') = filter (\<lambda>r. dj_id r \<noteq> dj_id j) (open_jobs (w_db w))"
proof -
  from next_claim_due(2) [OF assms(2,4)] obtain j where j: "j \<in> set (open_jobs (w_db w))" "next_claim (clock_now w) (w_db w) = Some j" by blast
  from round_completes [OF assms(1) j(2), of cl] assms(3) obtain w' h where
    w': "DeletionWorker_RunOnce cl w = (Inr (), w')" "calm w w'" "step_services (w_db w') = step_services (w_db w)"
      "set (users (w_db w')) = {u \<in> set (users (w_db w)). u_ID u \<noteq> dj_user_id j}"
      "account_deletion_jobs (w_db w') = sql_update (\<lambda>r. dj_id r = dj_id j) h (account_deletion_jobs (w_db w))"
      "\<And>r. dj_status (h r) = status_completed" by blast
  from w'(6) have "open_jobs (w_db w') = filter (\<lambda>r. dj_id r \<noteq> dj_id j) (open_jobs (w_db w))"
    unfolding open_jobs_def w'(5) by (intro open_after) (simp add: is_open_def)
  with w'(1-4) j(1) show ?thesis by blast
qed

lemma due_from_calm: "due_from t w \<Longrightarrow> calm w w' \<Longrightarrow> set (open_jobs (w_db w')) \<subseteq> set (open_jobs (w_db w)) \<Longrightarrow> due_from t w'"
  by (auto simp: due_from_def calm_def)

lemma Run_drains:
  assumes "e_faults w = []" and "due_from t w" and "\<forall>(j, n) \<in> step_services (w_db w). answers cl n"
    and "\<forall>j \<in> set (open_jobs (w_db w)). \<forall>k \<in> set (open_jobs (w_db w)). dj_id j = dj_id k \<longrightarrow> dj_user_id j = dj_user_id k"
    and "length (open_jobs (w_db w)) \<le> ticks"
  shows "\<exists>w'. DeletionWorker_Run cl ticks w = (Inr (), w') \<and> open_jobs (w_db w') = [] \<and>
     set (users (w_db w')) = {u \<in> set (users (w_db w)). \<forall>j \<in> set (open_jobs (w_db w)). u_ID u \<noteq> dj_user_id j}"
  using assms
proof (induction ticks arbitrary: w)
  case (Suc ticks)
  show ?case
  proof (cases "open_jobs (w_db w) = []")
    case True
    with round_idle [OF Suc.prems(1) next_claim_due(1) [OF Suc.prems(2)], of cl] obtain w1 where
      w1: "DeletionWorker_RunOnce cl w = (Inr (), w1)" "calm w w1" "w_db w1 = w_db w" by blast
    have run: "DeletionWorker_Run cl (Suc ticks) w = DeletionWorker_Run cl ticks w1" using w1(1) by (simp add: attempt_def)
    have "due_from t w1" by (rule due_from_calm [OF Suc.prems(2) w1(2)]) (simp add: w1(3))
    from Suc.IH [OF calm_quiet [OF w1(2)] this] Suc.prems(3) True show ?thesis unfolding run w1(3) by fastforce
  next
    case False
    from round_shrinks [OF Suc.prems(1-3) False] obtain w1 j where
      w1: "DeletionWorker_RunOnce cl w = (Inr (), w1)" "calm w w1" "step_services (w_db w1) = step_services (w_db w)"
        "j \<in> set (open_jobs (w_db w))" "set (users (w_db w1)) = {u \<in> set (users (w_db w)). u_ID u \<noteq> dj_user_id j}"
      and o: "open_jobs (w_db w1) = filter (\<lambda>r. dj_id r \<noteq> dj_id j) (open_jobs (w_db w))" by blast
    have "length (open_jobs (w_db w1)) < length (open_jobs (w_db w))" unfolding o using w1(4) by (simp add: length_filter_less)
    with Suc.prems(5) have "length (open_jobs (w_db w1)) \<le> ticks" by simp
    moreover have "due_from t w1" by (rule due_from_calm [OF Suc.prems(2) w1(2)]) (simp add: o)
    moreover have "\<forall>i \<in> set (open_jobs (w_db w1)). \<forall>k \<in> set (open_jobs (w_db w1)). dj_id i = dj_id k \<longrightarrow> dj_user_id i = dj_user_id k"
      using Suc.prems(4) by (simp add: o)
    moreover have "\<forall>(i, n) \<in> step_services (w_db w1). answers cl n" using Suc.prems(3) w1(3) by simp
    ultimately obtain w' where w': "DeletionWorker_Run cl ticks w1 = (Inr (), w')" "open_jobs (w_db w') = []"
      "set (users (w_db w')) = {u \<in> set (users (w_db w1)). \<forall>j \<in> set (open_jobs (w_db w1)). u_ID u \<noteq> dj_user_id j}"
      using Suc.IH [OF calm_quiet [OF w1(2)]] by blast
    have "(\<forall>k \<in> set (open_jobs (w_db w)). x \<noteq> dj_user_id k) \<longleftrightarrow>
        x \<noteq> dj_user_id j \<and> (\<forall>k \<in> set (open_jobs (w_db w1)). x \<noteq> dj_user_id k)" for x
      using w1(4) Suc.prems(4) unfolding o set_filter by blast
    then have "set (users (w_db w')) = {u \<in> set (users (w_db w)). \<forall>j \<in> set (open_jobs (w_db w)). u_ID u \<noteq> dj_user_id j}"
      unfolding w'(3) w1(5) by simp
    with w1(1) w'(1,2) show ?thesis by (simp add: attempt_def)
  qed
qed simp

end
