(* ===== verification/Go_Fmt.thy ===== *)
theory Go_Fmt
  imports Go_Strings
begin

text \<open>
  Printing of the standard library and of \<open>google/uuid\<close> that ends up in URLs and
  messages: \<open>%d\<close>, the canonical form of a UUID, \<open>url.QueryEscape\<close> and
  \<open>url.Values.Encode\<close> for one key.
\<close>

section \<open>Decimal numbers\<close>

fun decimal_nat :: "nat \<Rightarrow> string" where
  "decimal_nat n = (if n < 10 then [char_of (48 + n)] else decimal_nat (n div 10) @ [char_of (48 + n mod 10)])"

declare decimal_nat.simps [simp del]

definition fmt_d :: "int \<Rightarrow> string" where
  "fmt_d i = (if i < 0 then CHR ''-'' # decimal_nat (nat (- i)) else decimal_nat (nat i))"

section \<open>UUIDs\<close>

definition uuid_bytes :: "uuid \<Rightarrow> byte list" where
  "uuid_bytes u = map (\<lambda>i. ucast (drop_bit (8 * i) u)) (rev [0..<16])"

definition uuid_String :: "uuid \<Rightarrow> string" where
  "uuid_String u =
     (let h = hex_EncodeToString (uuid_bytes u) in
      take 8 h @ ''-'' @ take 4 (drop 8 h) @ ''-'' @ take 4 (drop 12 h) @ ''-'' @ take 4 (drop 16 h) @ ''-'' @ drop 20 h)"

lemma length_uuid_bytes [simp]: "length (uuid_bytes u) = 16"
  by (simp add: uuid_bytes_def)

lemma uuid_bytes_inj:
  assumes "uuid_bytes u = uuid_bytes v"
  shows "u = v"
proof (rule bit_word_eqI)
  fix n
  assume n: "n < LENGTH(128)"
  then have i: "n div 8 < 16" by simp
  have "(ucast (drop_bit (8 * (n div 8)) u) :: byte) = ucast (drop_bit (8 * (n div 8)) v)"
    using assms i by (auto simp: uuid_bytes_def simp del: upt_Suc)
  then have "bit (ucast (drop_bit (8 * (n div 8)) u) :: byte) (n mod 8) = bit (ucast (drop_bit (8 * (n div 8)) v) :: byte) (n mod 8)"
    by simp
  then show "bit u n = bit v n" using n by (simp add: bit_simps)
qed

lemma uuid_String_inj:
  assumes "uuid_String u = uuid_String v"
  shows "u = v"
proof -
  let ?h = "hex_EncodeToString (uuid_bytes u)" and ?k = "hex_EncodeToString (uuid_bytes v)"
  have len: "length ?h = 32" "length ?k = 32" by (simp_all add: length_hex_EncodeToString)
  have cut: "h = take 8 h @ take 4 (drop 8 h) @ take 4 (drop 12 h) @ take 4 (drop 16 h) @ drop 20 h" for h :: string
    using append_take_drop_id [of 8 h] append_take_drop_id [of 4 "drop 8 h"] append_take_drop_id [of 4 "drop 12 h"]
      append_take_drop_id [of 4 "drop 16 h"] by (simp del: append_take_drop_id)
  from assms len have "take 8 ?h = take 8 ?k" "take 4 (drop 8 ?h) = take 4 (drop 8 ?k)" "take 4 (drop 12 ?h) = take 4 (drop 12 ?k)"
    "take 4 (drop 16 ?h) = take 4 (drop 16 ?k)" "drop 20 ?h = drop 20 ?k"
    by (auto simp: uuid_String_def Let_def)
  then have "?h = ?k" by (subst cut [of ?h], subst cut [of ?k]) simp
  then show ?thesis by (intro uuid_bytes_inj hex_EncodeToString_inj)
qed

lemma uuid_String_chars: "set (uuid_String u) \<subseteq> set hex_digits \<union> {CHR ''-''}"
  using hex_EncodeToString_alphabet [of "uuid_bytes u"]
  by (auto simp: uuid_String_def Let_def dest!: in_set_takeD in_set_dropD)

section \<open>Query strings\<close>

definition unreserved :: "char \<Rightarrow> bool" where
  "unreserved c \<longleftrightarrow> (let b = byte_of c in
     48 \<le> b \<and> b \<le> 57 \<or> 65 \<le> b \<and> b \<le> 90 \<or> 97 \<le> b \<and> b \<le> 122) \<or> c \<in> set ''-_.~''"

definition upper_hex :: string where
  "upper_hex = ''0123456789ABCDEF''"

definition url_QueryEscape :: "string \<Rightarrow> string" where
  "url_QueryEscape s = concat (map (\<lambda>c.
     if unreserved c then [c] else if c = CHR '' '' then ''+''
     else [CHR ''%'', upper_hex ! (byte_of c div 16), upper_hex ! (byte_of c mod 16)]) s)"

fun join_amp :: "string list \<Rightarrow> string" where
  "join_amp [] = []"
| "join_amp [s] = s"
| "join_amp (s # t # r) = s @ CHR ''&'' # join_amp (t # r)"

definition url_Values_Encode :: "string \<Rightarrow> string list \<Rightarrow> string" where
  "url_Values_Encode key vs = join_amp (map (\<lambda>v. url_QueryEscape key @ CHR ''='' # url_QueryEscape v) vs)"

lemma url_QueryEscape_id: "list_all unreserved s \<Longrightarrow> url_QueryEscape s = s"
  by (induction s) (auto simp: url_QueryEscape_def)

lemma uuid_String_unreserved: "url_QueryEscape (uuid_String u) = uuid_String u"
proof (rule url_QueryEscape_id)
  have "list_all unreserved (hex_digits @ ''-'')"
    by (simp add: hex_digits_def unreserved_def byte_of_def)
  then show "list_all unreserved (uuid_String u)" using uuid_String_chars [of u] by (auto simp: list_all_iff)
qed

text \<open>How the receiver takes a query string apart.\<close>

fun split_amp :: "string \<Rightarrow> string list" where
  "split_amp [] = [[]]"
| "split_amp (c # s) = (if c = CHR ''&'' then [] # split_amp s else (case split_amp s of [] \<Rightarrow> [[c]] | x # xs \<Rightarrow> (c # x) # xs))"

lemma split_amp_prefix: "CHR ''&'' \<notin> set s \<Longrightarrow> split_amp (s @ CHR ''&'' # r) = s # split_amp r"
  by (induction s) auto

lemma split_amp_plain: "CHR ''&'' \<notin> set s \<Longrightarrow> split_amp s = [s]"
  by (induction s) auto

lemma split_join_amp: "vs \<noteq> [] \<Longrightarrow> \<forall>v \<in> set vs. CHR ''&'' \<notin> set v \<Longrightarrow> split_amp (join_amp vs) = vs"
  by (induction vs rule: join_amp.induct) (auto simp: split_amp_plain split_amp_prefix)

end
