(* ===== verification/Clients.thy ===== *)
theory Clients
  imports Router Go_Fmt
begin

text \<open>
  The HTTP clients of the peer services: \<open>platform/mediaclient\<close>,
  \<open>platform/apiaryclient\<close> and \<open>platform/deletionclient\<close>. What happens on the wire is a
  parameter: \<open>cl_Do\<close> sends a request and returns a response or an error,
  \<open>cl_NewRequest\<close> is the error \<open>http.NewRequestWithContext\<close> reports for a URL that
  does not parse. Timeouts are among the errors of \<open>cl_Do\<close>.
\<close>

section \<open>Requests on the wire\<close>

record http_call =
  hc_Method :: string
  hc_URL :: string
  hc_Authorization :: string

record http_response =
  hr_StatusCode :: int
  hr_Body :: string

record 'x http_client =
  cl_NewRequest :: "string \<Rightarrow> string \<Rightarrow> goerror option"
  cl_Do :: "http_call \<Rightarrow> ('x, http_response) ext_call"

definition bearer :: "string \<Rightarrow> string" where
  "bearer token = ''Bearer '' @ token"

section \<open>deletionclient\<close>

record deletion_client =
  dc_baseURL :: string
  dc_token :: string

definition deletionclient_New :: "string \<Rightarrow> string \<Rightarrow> deletion_client" where
  "deletionclient_New baseURL token = \<lparr>dc_baseURL = strings_TrimRight baseURL (CHR ''/''), dc_token = token\<rparr>"

definition DeleteUserData :: "'x http_client \<Rightarrow> deletion_client \<Rightarrow> uuid \<Rightarrow> ('x, unit) ext_call" where
  "DeleteUserData net c userID =
     (let url = dc_baseURL c @ ''/internal/api/v1/users/'' @ uuid_String userID in
      case cl_NewRequest net ''DELETE'' url of
        Some e \<Rightarrow> fail e
      | None \<Rightarrow>
          bindM (cl_Do net \<lparr>hc_Method = ''DELETE'', hc_URL = url, hc_Authorization = bearer (dc_token c)\<rparr>) (\<lambda>resp.
          if 200 \<le> hr_StatusCode resp \<and> hr_StatusCode resp < 300 then ret ()
          else fail (Opaque (''cleanup returned status '' @ fmt_d (hr_StatusCode resp)))))"

definition DeleteSessionData :: "'x http_client \<Rightarrow> deletion_client \<Rightarrow> uuid \<Rightarrow> uuid \<Rightarrow> ('x, unit) ext_call" where
  "DeleteSessionData net c userID sessionID =
     (let url = dc_baseURL c @ ''/internal/api/v1/users/'' @ uuid_String userID @ ''/sessions/'' @ uuid_String sessionID in
      case cl_NewRequest net ''DELETE'' url of
        Some e \<Rightarrow> fail e
      | None \<Rightarrow>
          bindM (cl_Do net \<lparr>hc_Method = ''DELETE'', hc_URL = url, hc_Authorization = bearer (dc_token c)\<rparr>) (\<lambda>resp.
          if 200 \<le> hr_StatusCode resp \<and> hr_StatusCode resp < 300 then ret ()
          else fail (Opaque (''session cleanup returned status '' @ fmt_d (hr_StatusCode resp)))))"

section \<open>apiaryclient\<close>

definition apiaryclient_DeleteAllMine :: "'x http_client \<Rightarrow> string \<Rightarrow> string \<Rightarrow> ('x, unit) ext_call" where
  "apiaryclient_DeleteAllMine net baseURL accessToken =
     (let u = baseURL @ ''/api/v1/apiaries'' in
      case cl_NewRequest net ''DELETE'' u of
        Some e \<Rightarrow> fail (Wrap ''apiaryclient: build request'' e)
      | None \<Rightarrow>
          wrapM ''apiaryclient: call apiary-service''
            (cl_Do net \<lparr>hc_Method = ''DELETE'', hc_URL = u, hc_Authorization = bearer accessToken\<rparr>) (\<lambda>resp.
          if hr_StatusCode resp \<in> {StatusNoContent, StatusOK} then ret ()
          else fail (Opaque (''apiaryclient: unexpected status '' @ fmt_d (hr_StatusCode resp) @ '' from apiary-service''))))"

section \<open>mediaclient\<close>

definition idsQuery :: "uuid list \<Rightarrow> string" where
  "idsQuery ids = url_Values_Encode ''ids'' (map uuid_String ids)"

text \<open>
  The items of a \<open>mediaListResponse\<close>: for each the id, which is the nil id when
  the member is missing or null. Anything that does not fit the type is an
  error of the decoder.
\<close>

fun media_id :: "httplib \<Rightarrow> (string \<times> json) list \<Rightarrow> uuid \<Rightarrow> uuid option" where
  "media_id lib [] i = Some i"
| "media_id lib ((key, v) # ms) i =
     (case json_field lib [''id''] key of
        None \<Rightarrow> media_id lib ms i
      | Some _ \<Rightarrow>
          (case v of
             JStr s \<Rightarrow> (case hl_uuid_Parse lib s of None \<Rightarrow> None | Some u \<Rightarrow> media_id lib ms u)
           | JNull \<Rightarrow> media_id lib ms i
           | _ \<Rightarrow> None))"

fun media_elements :: "httplib \<Rightarrow> json list \<Rightarrow> uuid list option" where
  "media_elements lib [] = Some []"
| "media_elements lib (v # vs) =
     (case (case v of JObj ms \<Rightarrow> media_id lib ms uuid_Nil | JNull \<Rightarrow> Some uuid_Nil | _ \<Rightarrow> None) of
        None \<Rightarrow> None
      | Some i \<Rightarrow> map_option (\<lambda>r. i # r) (media_elements lib vs))"

fun media_members :: "httplib \<Rightarrow> (string \<times> json) list \<Rightarrow> uuid list \<Rightarrow> uuid list option" where
  "media_members lib [] items = Some items"
| "media_members lib ((key, v) # ms) items =
     (case json_field lib [''items''] key of
        None \<Rightarrow> media_members lib ms items
      | Some _ \<Rightarrow>
          (case v of
             JArr vs \<Rightarrow> (case media_elements lib vs of None \<Rightarrow> None | Some is \<Rightarrow> media_members lib ms is)
           | JNull \<Rightarrow> media_members lib ms []
           | _ \<Rightarrow> None))"

definition mediaListResponse_decode :: "httplib \<Rightarrow> string \<Rightarrow> uuid list option" where
  "mediaListResponse_decode lib body = (case hl_json lib body of
       Some (JObj ms) \<Rightarrow> media_members lib ms []
     | Some JNull \<Rightarrow> Some []
     | _ \<Rightarrow> None)"

definition mediaclient_VerifyOwnership :: "httplib \<Rightarrow> 'x http_client \<Rightarrow> string \<Rightarrow> string \<Rightarrow> uuid list \<Rightarrow> ('x, unit) ext_call" where
  "mediaclient_VerifyOwnership lib net baseURL accessToken ids =
     (let u = baseURL @ ''/api/v1/media?'' @ idsQuery ids in
      case cl_NewRequest net ''GET'' u of
        Some e \<Rightarrow> fail (Wrap ''mediaclient: build request'' e)
      | None \<Rightarrow>
          wrapM ''mediaclient: call media-service''
            (cl_Do net \<lparr>hc_Method = ''GET'', hc_URL = u, hc_Authorization = bearer accessToken\<rparr>) (\<lambda>resp.
          if hr_StatusCode resp \<noteq> StatusOK
          then fail (Opaque (''mediaclient: unexpected status '' @ fmt_d (hr_StatusCode resp) @ '' from media-service''))
          else case mediaListResponse_decode lib (hr_Body resp) of
            None \<Rightarrow> fail (Wrap ''mediaclient: decode response'' (Opaque ''json''))
          | Some items \<Rightarrow> if length items \<noteq> length ids then fail (Sentinel ErrAvatarNotFound) else ret ()))"

definition mediaclient_DeleteByIDs :: "'x http_client \<Rightarrow> string \<Rightarrow> string \<Rightarrow> uuid list \<Rightarrow> ('x, unit) ext_call" where
  "mediaclient_DeleteByIDs net baseURL accessToken ids =
     (if length ids = 0 then ret ()
      else
      let u = baseURL @ ''/api/v1/media?'' @ idsQuery ids in
      case cl_NewRequest net ''DELETE'' u of
        Some e \<Rightarrow> fail (Wrap ''mediaclient: build request'' e)
      | None \<Rightarrow>
          wrapM ''mediaclient: call media-service''
            (cl_Do net \<lparr>hc_Method = ''DELETE'', hc_URL = u, hc_Authorization = bearer accessToken\<rparr>) (\<lambda>resp.
          if hr_StatusCode resp \<in> {StatusNoContent, StatusOK} then ret ()
          else fail (Opaque (''mediaclient: unexpected status '' @ fmt_d (hr_StatusCode resp) @ '' from media-service''))))"

definition mediaclient_DeleteAllByUser :: "'x http_client \<Rightarrow> string \<Rightarrow> string \<Rightarrow> ('x, unit) ext_call" where
  "mediaclient_DeleteAllByUser net baseURL accessToken =
     (let u = baseURL @ ''/api/v1/media/mine'' in
      case cl_NewRequest net ''DELETE'' u of
        Some e \<Rightarrow> fail (Wrap ''mediaclient: build request'' e)
      | None \<Rightarrow>
          wrapM ''mediaclient: call media-service''
            (cl_Do net \<lparr>hc_Method = ''DELETE'', hc_URL = u, hc_Authorization = bearer accessToken\<rparr>) (\<lambda>resp.
          if hr_StatusCode resp \<in> {StatusNoContent, StatusOK} then ret ()
          else fail (Opaque (''mediaclient: unexpected status '' @ fmt_d (hr_StatusCode resp) @ '' from media-service''))))"

definition mediaclient_New :: "httplib \<Rightarrow> 'x http_client \<Rightarrow> string \<Rightarrow> 'x media_client" where
  "mediaclient_New lib net baseURL =
     \<lparr>mc_VerifyOwnership = mediaclient_VerifyOwnership lib net baseURL,
      mc_DeleteByIDs = mediaclient_DeleteByIDs net baseURL,
      mc_DeleteAllByUser = mediaclient_DeleteAllByUser net baseURL\<rparr>"

section \<open>What the clients ask for\<close>

text \<open>The ids in a query can be read back: each is one value of \<open>ids\<close>, in order.\<close>

lemma idsQuery_values:
  assumes "ids \<noteq> []"
  shows "split_amp (idsQuery ids) = map (\<lambda>i. ''ids='' @ uuid_String i) ids"
proof -
  have "url_QueryEscape ''ids'' = ''ids''"
    by (simp add: url_QueryEscape_id unreserved_def byte_of_def)
  moreover have "CHR ''&'' \<notin> set (uuid_String i)" for i
    using uuid_String_chars [of i] by (auto simp: hex_digits_def)
  ultimately show ?thesis
    using assms unfolding idsQuery_def url_Values_Encode_def
    by (subst split_join_amp) (auto simp: uuid_String_unreserved)
qed

lemma idsQuery_inj:
  assumes "idsQuery xs = idsQuery ys" and "xs \<noteq> []" and "ys \<noteq> []"
  shows "xs = ys"
proof -
  have "map (\<lambda>i. ''ids='' @ uuid_String i) xs = map (\<lambda>i. ''ids='' @ uuid_String i) ys"
    using assms idsQuery_values [of xs] idsQuery_values [of ys] by simp
  moreover have "inj_on (\<lambda>i. ''ids='' @ uuid_String i) (set xs \<union> set ys)"
    by (rule inj_onI) (auto dest: uuid_String_inj)
  ultimately show ?thesis by (rule map_inj_on)
qed

section \<open>The errors of the clients\<close>

text \<open>The transport reports no sentinel error of this program.\<close>

locale plain_net =
  fixes net :: "'x http_client"
  assumes NewRequest_plain: "cl_NewRequest net m u = Some e \<Longrightarrow> within {} e"
    and Do_plain: "ext_raises {} (cl_Do net call)"
begin

lemma Do_raises: "raises S (cl_Do net call)"
  using Do_plain [of call] by (auto simp: raises_def ext_raises_def intro: within_mono)

lemma NewRequest_within: "cl_NewRequest net m u = Some e \<Longrightarrow> within S e"
  using NewRequest_plain within_mono by blast

lemma raises_request:
  "raises S k \<Longrightarrow> raises S (case cl_NewRequest net m u of None \<Rightarrow> k | Some e \<Rightarrow> fail e)"
  "raises S k \<Longrightarrow> raises S (case cl_NewRequest net m u of None \<Rightarrow> k | Some e \<Rightarrow> fail (Wrap msg e))"
  by (simp_all add: raises_fail NewRequest_within split: option.split)

lemma client_raises:
  "raises {} (DeleteUserData net c i)"
  "raises {} (DeleteSessionData net c i sid)"
  "raises {} (apiaryclient_DeleteAllMine net b tok)"
  "raises {ErrAvatarNotFound} (mediaclient_VerifyOwnership lib net b tok ids)"
  "raises {} (mediaclient_DeleteByIDs net b tok ids)"
  "raises {} (mediaclient_DeleteAllByUser net b tok)"
  unfolding DeleteUserData_def DeleteSessionData_def apiaryclient_DeleteAllMine_def mediaclient_VerifyOwnership_def
    mediaclient_DeleteByIDs_def mediaclient_DeleteAllByUser_def Let_def
  by (rule raises_request Do_raises raises_comb | (simp; fail))+

end

end
