(* ===== verification/Key_Material.thy ===== *)
theory Key_Material
  imports Ports Go_Fmt
begin

text \<open>
  The keys of the server as they travel in the environment: standard base64
  (\<open>base64.StdEncoding\<close>), \<open>ParsePrivateKey\<close> of \<open>platform/jwtauth\<close>, and the line
  \<open>cmd/keygen\<close> prints. Ed25519 keys are byte lists; key generation is a parameter.
\<close>

section \<open>base64.StdEncoding\<close>

definition b64_std_alphabet :: string where
  "b64_std_alphabet = ''ABCDEFGHIJKLMNOPQRSTUVWXYZabcdefghijklmnopqrstuvwxyz0123456789+/''"

definition std_char :: "nat \<Rightarrow> char" where
  "std_char n = b64_std_alphabet ! n"

definition std_value :: "char \<Rightarrow> nat option" where
  "std_value c =
     (let b = byte_of c in
      if 65 \<le> b \<and> b \<le> 90 then Some (b - 65)
      else if 97 \<le> b \<and> b \<le> 122 then Some (b - 71)
      else if 48 \<le> b \<and> b \<le> 57 then Some (b + 4)
      else if b = 43 then Some 62
      else if b = 47 then Some 63
      else None)"

fun base64_Std_Encode :: "byte list \<Rightarrow> string" where
  "base64_Std_Encode [] = []"
| "base64_Std_Encode [a] =
     [std_char (unat a div 4), std_char (unat a mod 4 * 16), CHR ''='', CHR ''='']"
| "base64_Std_Encode [a, b] =
     [std_char (unat a div 4), std_char (unat a mod 4 * 16 + unat b div 16),
      std_char (unat b mod 16 * 4), CHR ''='']"
| "base64_Std_Encode (a # b # c # r) =
     [std_char (unat a div 4), std_char (unat a mod 4 * 16 + unat b div 16),
      std_char (unat b mod 16 * 4 + unat c div 64), std_char (unat c mod 64)]
     @ base64_Std_Encode r"

text \<open>
  Decoding works on groups of four characters. Padding is only accepted at the
  end of the last one, and the bits that do not fill a byte are dropped, as
  the encoding is not strict. Carriage returns and line feeds are skipped.
\<close>

definition quantum :: "nat \<Rightarrow> nat \<Rightarrow> nat \<Rightarrow> nat \<Rightarrow> byte list" where
  "quantum w x y z = [of_nat (w * 4 + x div 16), of_nat (x mod 16 * 16 + y div 4), of_nat (y mod 4 * 64 + z)]"

fun std_decode :: "string \<Rightarrow> byte list option" where
  "std_decode [] = Some []"
| "std_decode (p # q # r # t # rest) =
     (case (std_value p, std_value q, std_value r, std_value t) of
        (Some w, Some x, Some y, Some z) \<Rightarrow> map_option (\<lambda>bs. quantum w x y z @ bs) (std_decode rest)
      | (Some w, Some x, Some y, None) \<Rightarrow>
          if t = CHR ''='' \<and> rest = [] then Some (take 2 (quantum w x y 0)) else None
      | (Some w, Some x, None, _) \<Rightarrow>
          if r = CHR ''='' \<and> t = CHR ''='' \<and> rest = [] then Some (take 1 (quantum w x 0 0)) else None
      | _ \<Rightarrow> None)"
| "std_decode _ = None"

definition base64_Std_DecodeString :: "string \<Rightarrow> byte list option" where
  "base64_Std_DecodeString s = std_decode (filter (\<lambda>c. byte_of c \<noteq> 10 \<and> byte_of c \<noteq> 13) s)"

lemma std_values: "map std_value b64_std_alphabet = map Some [0..<64]"
  by (simp add: b64_std_alphabet_def std_value_def byte_of_def upt_rec)

lemma std_value_char:
  assumes "n < 64"
  shows "std_value (std_char n) = Some n"
proof -
  have "length b64_std_alphabet = 64" by (simp add: b64_std_alphabet_def)
  with assms have "std_value (std_char n) = map std_value b64_std_alphabet ! n" by (simp add: std_char_def)
  also have "\<dots> = Some n" unfolding std_values using assms by simp
  finally show ?thesis .
qed

lemma std_char_plain: "n < 64 \<Longrightarrow> byte_of (std_char n) \<noteq> 10 \<and> byte_of (std_char n) \<noteq> 13"
  using std_value_char [of n] by (auto simp: std_value_def Let_def)

lemma std_value_pad: "std_value (CHR ''='') = None"
  by (simp add: std_value_def byte_of_def)

lemma quantum_bytes:
  fixes a b c :: byte
  shows "quantum (unat a div 4) (unat a mod 4 * 16 + unat b div 16) (unat b mod 16 * 4 + unat c div 64) (unat c mod 64) = [a, b, c]"
proof -
  have lt: "unat b div 16 < 16" "unat c div 64 < 4" using byte_quotients by blast+
  have "unat a div 4 * 4 + (unat a mod 4 * 16 + unat b div 16) div 16 = unat a"
    using lt(1) by (simp add: div_mult_mod_eq)
  moreover have "(unat a mod 4 * 16 + unat b div 16) mod 16 * 16 + (unat b mod 16 * 4 + unat c div 64) div 4 = unat b"
    using lt by (simp add: div_mult_mod_eq)
  moreover have "(unat b mod 16 * 4 + unat c div 64) mod 4 * 64 + unat c mod 64 = unat c"
    using lt(2) by (simp add: div_mult_mod_eq)
  ultimately show ?thesis by (simp add: quantum_def)
qed

lemma base64_Std_Encode_plain: "c \<in> set (base64_Std_Encode bs) \<Longrightarrow> byte_of c \<noteq> 10 \<and> byte_of c \<noteq> 13"
  by (induction bs rule: base64_Std_Encode.induct) (auto simp: std_char_plain byte_sextets byte_of_def [where c = "CHR ''=''"])

lemma std_decode_Encode: "std_decode (base64_Std_Encode bs) = Some bs"
proof (induction bs rule: base64_Std_Encode.induct)
  case (2 a)
  show ?case using quantum_bytes [of a 0 0] by (simp add: std_value_char std_value_pad byte_sextets)
next
  case (3 a b)
  show ?case using quantum_bytes [of a b 0] by (simp add: std_value_char std_value_pad byte_sextets)
next
  case (4 a b c r)
  then show ?case using quantum_bytes [of a b c] by (simp add: std_value_char byte_sextets)
qed simp

lemma base64_Std_roundtrip: "base64_Std_DecodeString (base64_Std_Encode bs) = Some bs"
proof -
  have "filter (\<lambda>c. byte_of c \<noteq> 10 \<and> byte_of c \<noteq> 13) (base64_Std_Encode bs) = base64_Std_Encode bs"
    by (rule filter_True) (auto dest: base64_Std_Encode_plain)
  then show ?thesis by (simp add: base64_Std_DecodeString_def std_decode_Encode)
qed

section \<open>The signing key\<close>

definition ed25519_PrivateKeySize :: nat where
  "ed25519_PrivateKeySize = 64"

text \<open>The public half is stored behind the 32 bytes of the seed.\<close>

definition ed25519_Public :: "byte list \<Rightarrow> byte list" where
  "ed25519_Public priv = drop 32 priv"

definition ParsePrivateKey :: "string \<Rightarrow> goerror + byte list" where
  "ParsePrivateKey encoded = (case base64_Std_DecodeString encoded of
       None \<Rightarrow> Inl (Wrap ''jwtauth: decode private key'' (Opaque ''illegal base64 data''))
     | Some raw \<Rightarrow>
         if length raw \<noteq> ed25519_PrivateKeySize then Inl (Opaque (''jwtauth: private key must be '' @ fmt_d (int ed25519_PrivateKeySize) @ '' bytes, got '' @ fmt_d (int (length raw))))
         else Inr raw)"

definition keygen_output :: "byte list \<Rightarrow> byte list \<Rightarrow> string list" where
  "keygen_output pub priv =
     [''JWT_PRIVATE_KEY='' @ base64_Std_Encode priv, ''# kid: '' @ jwtauth_KeyID pub]"

text \<open>
  C22: The key \<open>cmd/keygen\<close> prints is the key the server reads. For a key pair in
  the form of \<open>ed25519.GenerateKey\<close>, the value of the printed variable parses to the
  same private key, and the key id printed is the one the server derives for
  the \<open>kid\<close> header; and only values that stand for 64 bytes are accepted.
\<close>

theorem keygen_roundtrip:
  assumes "length priv = 64" and "pub = drop 32 priv"
  shows "\<exists>v. keygen_output pub priv = [''JWT_PRIVATE_KEY='' @ v, ''# kid: '' @ jwtauth_KeyID (ed25519_Public priv)] \<and>
     ParsePrivateKey v = Inr priv \<and> (\<forall>s k. ParsePrivateKey s = Inr k \<longrightarrow> length k = 64)"
  using assms
  by (auto simp: keygen_output_def ParsePrivateKey_def base64_Std_roundtrip ed25519_PrivateKeySize_def ed25519_Public_def
      split: option.splits if_splits)

theorem keygen_roundtrip_witness:
  "\<exists>v. keygen_output (replicate 32 7) (replicate 32 1 @ replicate 32 7) =
       [''JWT_PRIVATE_KEY='' @ v, ''# kid: '' @ jwtauth_KeyID (ed25519_Public (replicate 32 1 @ replicate 32 7))] \<and>
     ParsePrivateKey v = Inr (replicate 32 1 @ replicate 32 7)"
  using keygen_roundtrip [of "replicate 32 1 @ replicate 32 7" "replicate 32 7"] by auto

end
