(* ===== verification/Config.thy ===== *)
theory Config
  imports Go_Strings
begin

text \<open>
  \<open>internal/config/config.go\<close>: the environment as a partial map from names to
  values, the four readers with their fallbacks, and \<open>Load\<close>. The parsers of the
  standard library are written out (\<open>strconv.Atoi\<close>, \<open>strconv.ParseBool\<close>,
  \<open>time.ParseDuration\<close>); the one floating-point product of \<open>ParseDuration\<close>, for the
  digits after a decimal point, is the parameter \<open>frac\<close>.
\<close>

section \<open>Numbers and truth values\<close>

definition is_digit :: "char \<Rightarrow> bool" where
  "is_digit c \<longleftrightarrow> 48 \<le> byte_of c \<and> byte_of c \<le> 57"

definition digits_value :: "string \<Rightarrow> nat" where
  "digits_value s = foldl (\<lambda>x c. x * 10 + (byte_of c - 48)) 0 s"

definition strconv_Atoi :: "string \<Rightarrow> int option" where
  "strconv_Atoi s =
     (let neg = (s \<noteq> [] \<and> hd s = CHR ''-'');
          t = (if s \<noteq> [] \<and> hd s \<in> {CHR ''-'', CHR ''+''} then tl s else s);
          v = (if neg then - int (digits_value t) else int (digits_value t))
      in if t = [] \<or> \<not> list_all is_digit t \<or> v < - (2 ^ 63) \<or> 2 ^ 63 \<le> v then None else Some v)"

definition strconv_ParseBool :: "string \<Rightarrow> bool option" where
  "strconv_ParseBool s =
     (if s \<in> {''1'', ''t'', ''T'', ''true'', ''TRUE'', ''True''} then Some True
      else if s \<in> {''0'', ''f'', ''F'', ''false'', ''FALSE'', ''False''} then Some False
      else None)"

section \<open>Durations\<close>

text \<open>
  \<open>leadingInt\<close> and \<open>leadingFraction\<close> read the digits at the front. The first one
  fails when the value exceeds \<open>2 ^ 63\<close>; the second one drops the digits that would
  exceed it. Both return what is left; the fraction comes with the number of
  digits that count.
\<close>

fun leadingInt :: "nat \<Rightarrow> string \<Rightarrow> (nat \<times> string) option" where
  "leadingInt x [] = Some (x, [])"
| "leadingInt x (c # s) =
     (if \<not> is_digit c then Some (x, c # s)
      else if 2 ^ 63 div 10 < x then None
      else (let y = x * 10 + (byte_of c - 48) in if 2 ^ 63 < y then None else leadingInt y s))"

fun leadingFraction :: "nat \<Rightarrow> nat \<Rightarrow> bool \<Rightarrow> string \<Rightarrow> nat \<times> nat \<times> string" where
  "leadingFraction x k full [] = (x, k, [])"
| "leadingFraction x k full (c # s) =
     (if \<not> is_digit c then (x, k, c # s)
      else if full \<or> (2 ^ 63 - 1) div 10 < x then leadingFraction x k True s
      else (let y = x * 10 + (byte_of c - 48) in
            if 2 ^ 63 < y then leadingFraction x k True s else leadingFraction y (k + 1) False s))"

lemma leadingInt_shorter: "leadingInt x s = Some (v, r) \<Longrightarrow> length r \<le> length s"
  by (induction x s rule: leadingInt.induct) (auto simp: Let_def split: if_splits)

lemma leadingFraction_shorter: "leadingFraction x k b s = (v, n, r) \<Longrightarrow> length r \<le> length s"
  by (induction s arbitrary: x k b) (fastforce simp: Let_def split: if_splits)+

definition unitMap :: "string \<Rightarrow> nat option" where
  "unitMap u =
     (if u = ''ns'' then Some 1
      else if u \<in> {''us'', [CHR 0xC2, CHR 0xB5, CHR ''s''], [CHR 0xCE, CHR 0xBC, CHR ''s'']} then Some 1000
      else if u = ''ms'' then Some 1000000
      else if u = ''s'' then Some 1000000000
      else if u = ''m'' then Some 60000000000
      else if u = ''h'' then Some 3600000000000
      else None)"

definition not_unit :: "char \<Rightarrow> bool" where
  "not_unit c \<longleftrightarrow> c = CHR ''.'' \<or> is_digit c"

text \<open>The number at the front: its integer part, the digits after the point with their count, and the rest.\<close>

definition duration_number :: "string \<Rightarrow> (nat \<times> nat \<times> nat \<times> string) option" where
  "duration_number s = (case leadingInt 0 s of
       None \<Rightarrow> None
     | Some (v, t) \<Rightarrow>
         let pre = (length t \<noteq> length s) in
         if t \<noteq> [] \<and> hd t = CHR ''.'' then
           (case leadingFraction 0 0 False (tl t) of
              (f, k, r) \<Rightarrow> if \<not> pre \<and> length r = length (tl t) then None else Some (v, f, k, r))
         else if \<not> pre then None else Some (v, 0, 0, t))"

lemma duration_number_shorter: "duration_number s = Some (v, f, k, r) \<Longrightarrow> length r \<le> length s"
  by (auto simp: duration_number_def Let_def split: option.splits if_splits prod.splits
      dest!: leadingInt_shorter leadingFraction_shorter)

text \<open>The loop over the pairs of number and unit, with the sum so far.\<close>

function (sequential) duration_loop :: "(nat \<Rightarrow> nat \<Rightarrow> nat \<Rightarrow> nat) \<Rightarrow> nat \<Rightarrow> string \<Rightarrow> nat option" where
  "duration_loop frac d [] = Some d"
| "duration_loop frac d (c # s) =
     (if \<not> not_unit c then None
      else case duration_number (c # s) of
        None \<Rightarrow> None
      | Some (v, f, k, r) \<Rightarrow>
          let u = takeWhile (\<lambda>x. \<not> not_unit x) r; r' = dropWhile (\<lambda>x. \<not> not_unit x) r in
          if u = [] then None
          else case unitMap u of
            None \<Rightarrow> None
          | Some unit \<Rightarrow>
              if 2 ^ 63 div unit < v then None
              else let w = v * unit + (if 0 < f then frac f unit k else 0) in
                   if 2 ^ 63 < w \<or> 2 ^ 63 < d + w then None else duration_loop frac (d + w) r')"
  by pat_completeness auto
termination
proof (relation "measure (\<lambda>(frac, d, s). length s)", goal_cases)
  case (2 frac d c s a v b f e k r u r' unit w)
  then have "length r' < length r"
    by (cases r) (auto simp: length_dropWhile_le less_Suc_eq_le split: if_splits)
  also have "\<dots> \<le> length (c # s)" using 2 by (auto dest: duration_number_shorter)
  finally show ?case by simp
qed simp

definition time_ParseDuration :: "(nat \<Rightarrow> nat \<Rightarrow> nat \<Rightarrow> nat) \<Rightarrow> string \<Rightarrow> duration option" where
  "time_ParseDuration frac s =
     (let neg = (s \<noteq> [] \<and> hd s = CHR ''-'');
          t = (if s \<noteq> [] \<and> hd s \<in> {CHR ''-'', CHR ''+''} then tl s else s)
      in if t = ''0'' then Some 0
         else if t = [] then None
         else case duration_loop frac 0 t of
           None \<Rightarrow> None
         | Some d \<Rightarrow> if neg then Some (- int d) else if 2 ^ 63 - 1 < d then None else Some (int d))"

definition time_Hour :: duration where
  "time_Hour = 60 * time_Minute"

section \<open>Reading the environment\<close>

type_synonym environ = "string \<Rightarrow> string option"

definition getEnv :: "environ \<Rightarrow> string \<Rightarrow> string \<Rightarrow> string" where
  "getEnv env key fallback = (case env key of Some v \<Rightarrow> if v \<noteq> [] then v else fallback | None \<Rightarrow> fallback)"

definition getDuration :: "(nat \<Rightarrow> nat \<Rightarrow> nat \<Rightarrow> nat) \<Rightarrow> environ \<Rightarrow> string \<Rightarrow> duration \<Rightarrow> duration" where
  "getDuration frac env key fallback = (case env key of
       None \<Rightarrow> fallback
     | Some v \<Rightarrow> if v = [] then fallback else case time_ParseDuration frac v of None \<Rightarrow> fallback | Some d \<Rightarrow> d)"

definition getInt :: "environ \<Rightarrow> string \<Rightarrow> int \<Rightarrow> int" where
  "getInt env key fallback = (case env key of
       None \<Rightarrow> fallback
     | Some v \<Rightarrow> if v = [] then fallback else case strconv_Atoi v of None \<Rightarrow> fallback | Some n \<Rightarrow> n)"

definition getBool :: "environ \<Rightarrow> string \<Rightarrow> bool \<Rightarrow> bool" where
  "getBool env key fallback = (case env key of
       None \<Rightarrow> fallback
     | Some v \<Rightarrow> if v = [] then fallback else case strconv_ParseBool v of None \<Rightarrow> fallback | Some b \<Rightarrow> b)"

record config =
  cf_Env :: string
  cf_HTTPPort :: string
  cf_HTTPReadTimeout :: duration
  cf_HTTPWriteTimeout :: duration
  cf_HTTPIdleTimeout :: duration
  cf_HTTPShutdownTimeout :: duration
  cf_DatabaseURL :: string
  cf_DatabaseConnectTimeout :: duration
  cf_RedisAddr :: string
  cf_RedisConnectTimeout :: duration
  cf_LogLevel :: string
  cf_JWTPrivateKey :: string
  cf_AccessTokenTTL :: duration
  cf_RefreshTokenTTL :: duration
  cf_CookieDomain :: string
  cf_CookieSecure :: bool
  cf_MediaServiceURL :: string
  cf_ApiaryServiceURL :: string
  cf_HiveServiceURL :: string
  cf_InspectionServiceURL :: string
  cf_HarvestServiceURL :: string
  cf_NotificationServiceURL :: string
  cf_SubscriptionServiceURL :: string
  cf_InternalServiceToken :: string
  cf_DeletionWorkerInterval :: duration
  cf_TOTPEncryptionKey :: string
  cf_TOTPIssuer :: string
  cf_TOTPSetupTokenTTL :: duration
  cf_LoginChallengeTTL :: duration
  cf_PasswordResetFlowTTL :: duration
  cf_PasswordResetTokenTTL :: duration
  cf_TOTPMaxFailedAttempts :: int
  cf_TOTPLockoutDuration :: duration
  cf_PasswordResetFlowMaxOTPAttempts :: int

definition read_config :: "(nat \<Rightarrow> nat \<Rightarrow> nat \<Rightarrow> nat) \<Rightarrow> environ \<Rightarrow> config" where
  "read_config frac env =
     (let appEnv = getEnv env ''APP_ENV'' ''development''; dur = getDuration frac env in
      \<lparr>cf_Env = appEnv,
       cf_HTTPPort = getEnv env ''HTTP_PORT'' ''8080'',
       cf_HTTPReadTimeout = dur ''HTTP_READ_TIMEOUT'' (5 * time_Second),
       cf_HTTPWriteTimeout = dur ''HTTP_WRITE_TIMEOUT'' (10 * time_Second),
       cf_HTTPIdleTimeout = dur ''HTTP_IDLE_TIMEOUT'' (60 * time_Second),
       cf_HTTPShutdownTimeout = dur ''HTTP_SHUTDOWN_TIMEOUT'' (15 * time_Second),
       cf_DatabaseURL = getEnv env ''DATABASE_URL'' [],
       cf_DatabaseConnectTimeout = dur ''DATABASE_CONNECT_TIMEOUT'' (5 * time_Second),
       cf_RedisAddr = getEnv env ''REDIS_ADDR'' [],
       cf_RedisConnectTimeout = dur ''REDIS_CONNECT_TIMEOUT'' (5 * time_Second),
       cf_LogLevel = getEnv env ''LOG_LEVEL'' ''info'',
       cf_JWTPrivateKey = getEnv env ''JWT_PRIVATE_KEY'' [],
       cf_AccessTokenTTL = dur ''ACCESS_TOKEN_TTL'' (15 * time_Minute),
       cf_RefreshTokenTTL = dur ''REFRESH_TOKEN_TTL'' (720 * time_Hour),
       cf_CookieDomain = getEnv env ''COOKIE_DOMAIN'' [],
       cf_CookieSecure = getBool env ''COOKIE_SECURE'' (appEnv \<noteq> ''development''),
       cf_MediaServiceURL = getEnv env ''MEDIA_SERVICE_URL'' [],
       cf_ApiaryServiceURL = getEnv env ''APIARY_SERVICE_URL'' [],
       cf_HiveServiceURL = getEnv env ''HIVE_SERVICE_URL'' [],
       cf_InspectionServiceURL = getEnv env ''INSPECTION_SERVICE_URL'' [],
       cf_HarvestServiceURL = getEnv env ''HARVEST_SERVICE_URL'' [],
       cf_NotificationServiceURL = getEnv env ''NOTIFICATION_SERVICE_URL'' [],
       cf_SubscriptionServiceURL = getEnv env ''SUBSCRIPTION_SERVICE_URL'' [],
       cf_InternalServiceToken = getEnv env ''INTERNAL_SERVICE_TOKEN'' [],
       cf_DeletionWorkerInterval = dur ''DELETION_WORKER_INTERVAL'' (5 * time_Second),
       cf_TOTPEncryptionKey = getEnv env ''TOTP_ENCRYPTION_KEY'' [],
       cf_TOTPIssuer = getEnv env ''TOTP_ISSUER'' ''BeeBase'',
       cf_TOTPSetupTokenTTL = dur ''TOTP_SETUP_TOKEN_TTL'' (15 * time_Minute),
       cf_LoginChallengeTTL = dur ''LOGIN_CHALLENGE_TTL'' (5 * time_Minute),
       cf_PasswordResetFlowTTL = dur ''PASSWORD_RESET_FLOW_TTL'' (10 * time_Minute),
       cf_PasswordResetTokenTTL = dur ''PASSWORD_RESET_TOKEN_TTL'' (10 * time_Minute),
       cf_TOTPMaxFailedAttempts = getInt env ''TOTP_MAX_FAILED_ATTEMPTS'' 5,
       cf_TOTPLockoutDuration = dur ''TOTP_LOCKOUT_DURATION'' (15 * time_Minute),
       cf_PasswordResetFlowMaxOTPAttempts = getInt env ''PASSWORD_RESET_FLOW_MAX_OTP_ATTEMPTS'' 5\<rparr>)"

text \<open>The map literal whose values must be set; Go visits its entries in an order of its own, the parameter \<open>ord\<close>.\<close>

definition required_map :: "config \<Rightarrow> (string \<times> string) list" where
  "required_map c =
     [(''HIVE_SERVICE_URL'', cf_HiveServiceURL c), (''INSPECTION_SERVICE_URL'', cf_InspectionServiceURL c),
      (''HARVEST_SERVICE_URL'', cf_HarvestServiceURL c), (''NOTIFICATION_SERVICE_URL'', cf_NotificationServiceURL c),
      (''SUBSCRIPTION_SERVICE_URL'', cf_SubscriptionServiceURL c), (''INTERNAL_SERVICE_TOKEN'', cf_InternalServiceToken c)]"

definition required_error :: "string \<Rightarrow> goerror" where
  "required_error name = Opaque (''config: '' @ name @ '' is required'')"

fun first_missing :: "(string \<times> string) list \<Rightarrow> string option" where
  "first_missing [] = None"
| "first_missing ((name, value) # r) = (if value = [] then Some name else first_missing r)"

definition Load ::
  "((string \<times> string) list \<Rightarrow> (string \<times> string) list) \<Rightarrow> (nat \<Rightarrow> nat \<Rightarrow> nat \<Rightarrow> nat) \<Rightarrow> environ \<Rightarrow> goerror + config" where
  "Load ord frac env =
     (let cfg = read_config frac env in
      if cf_DatabaseURL cfg = [] then Inl (required_error ''DATABASE_URL'')
      else if cf_RedisAddr cfg = [] then Inl (required_error ''REDIS_ADDR'')
      else if cf_JWTPrivateKey cfg = [] then Inl (required_error ''JWT_PRIVATE_KEY'')
      else if cf_MediaServiceURL cfg = [] then Inl (required_error ''MEDIA_SERVICE_URL'')
      else if cf_ApiaryServiceURL cfg = [] then Inl (required_error ''APIARY_SERVICE_URL'')
      else case first_missing (ord (required_map cfg)) of
        Some name \<Rightarrow> Inl (required_error name)
      | None \<Rightarrow> if cf_TOTPEncryptionKey cfg = [] then Inl (required_error ''TOTP_ENCRYPTION_KEY'') else Inr cfg)"

section \<open>What a loaded configuration has\<close>

definition required_vars :: "string list" where
  "required_vars =
     [''DATABASE_URL'', ''REDIS_ADDR'', ''JWT_PRIVATE_KEY'', ''MEDIA_SERVICE_URL'', ''APIARY_SERVICE_URL'', ''HIVE_SERVICE_URL'',
      ''INSPECTION_SERVICE_URL'', ''HARVEST_SERVICE_URL'', ''NOTIFICATION_SERVICE_URL'', ''SUBSCRIPTION_SERVICE_URL'',
      ''INTERNAL_SERVICE_TOKEN'', ''TOTP_ENCRYPTION_KEY'']"

definition is_set :: "environ \<Rightarrow> string \<Rightarrow> bool" where
  "is_set env n \<longleftrightarrow> (\<exists>v. env n = Some v \<and> v \<noteq> [])"

lemma getEnv_empty: "getEnv env n [] = [] \<longleftrightarrow> \<not> is_set env n"
  by (auto simp: getEnv_def is_set_def split: option.splits)

lemma first_missing_Some: "first_missing ms = Some n \<Longrightarrow> (n, []) \<in> set ms"
  by (induction ms rule: first_missing.induct) (auto split: if_splits)

lemma first_missing_None: "first_missing ms = None \<longleftrightarrow> (\<forall>(n, v) \<in> set ms. v \<noteq> [])"
  by (induction ms rule: first_missing.induct) auto

lemma required_map_env:
  "set (required_map (read_config frac env)) =
     (\<lambda>n. (n, getEnv env n [])) ` {''HIVE_SERVICE_URL'', ''INSPECTION_SERVICE_URL'', ''HARVEST_SERVICE_URL'',
        ''NOTIFICATION_SERVICE_URL'', ''SUBSCRIPTION_SERVICE_URL'', ''INTERNAL_SERVICE_TOKEN''}"
  by (simp add: required_map_def read_config_def Let_def)

text \<open>
  \<open>Load\<close> returns a configuration exactly when the twelve required
  variables are set and not empty, in whatever order the map is visited; the
  error names one that is not. Malformed optional values never stop it: they
  fall back to the defaults.
\<close>

lemma Load_iff:
  assumes "\<forall>ms. set (ord ms) = set ms"
  shows "if list_all (is_set env) required_vars then Load ord frac env = Inr (read_config frac env)
     else \<exists>n \<in> set required_vars. \<not> is_set env n \<and> Load ord frac env = Inl (required_error n)"
proof -
  have m: "set (ord (required_map (read_config frac env))) = set (required_map (read_config frac env))" using assms by blast
  have none: "first_missing (ord (required_map (read_config frac env))) = None \<longleftrightarrow>
     list_all (is_set env) [''HIVE_SERVICE_URL'', ''INSPECTION_SERVICE_URL'', ''HARVEST_SERVICE_URL'',
        ''NOTIFICATION_SERVICE_URL'', ''SUBSCRIPTION_SERVICE_URL'', ''INTERNAL_SERVICE_TOKEN'']"
    unfolding first_missing_None m required_map_env by (simp add: getEnv_empty)
  have some: "n \<in> set required_vars \<and> \<not> is_set env n"
    if "first_missing (ord (required_map (read_config frac env))) = Some n" for n
    using first_missing_Some [OF that] unfolding m required_map_env
    by (auto simp: required_vars_def getEnv_empty [symmetric])
  have f: "cf_DatabaseURL (read_config frac env) = getEnv env ''DATABASE_URL'' []"
    "cf_RedisAddr (read_config frac env) = getEnv env ''REDIS_ADDR'' []"
    "cf_JWTPrivateKey (read_config frac env) = getEnv env ''JWT_PRIVATE_KEY'' []"
    "cf_MediaServiceURL (read_config frac env) = getEnv env ''MEDIA_SERVICE_URL'' []"
    "cf_ApiaryServiceURL (read_config frac env) = getEnv env ''APIARY_SERVICE_URL'' []"
    "cf_TOTPEncryptionKey (read_config frac env) = getEnv env ''TOTP_ENCRYPTION_KEY'' []"
    by (simp_all add: read_config_def Let_def)
  show ?thesis
  proof (cases "first_missing (ord (required_map (read_config frac env)))")
    case None
    with none show ?thesis by (simp add: Load_def Let_def f getEnv_empty required_vars_def)
  next
    case (Some n)
    with none some [OF Some] show ?thesis by (auto simp: Load_def Let_def f getEnv_empty required_vars_def)
  qed
qed

definition test_env :: environ where
  "test_env n = (if n \<in> set required_vars then Some ''x'' else if n = ''ACCESS_TOKEN_TTL'' then Some ''1h30m'' else None)"

lemma Load_example:
  "Load rev (\<lambda>_ _ _. 0) test_env = Inr (read_config (\<lambda>_ _ _. 0) test_env) \<and>
   cf_AccessTokenTTL (read_config (\<lambda>_ _ _. 0) test_env) = 90 * time_Minute"
proof
  have "list_all (is_set test_env) required_vars" by (simp add: required_vars_def is_set_def test_env_def)
  then show "Load rev (\<lambda>_ _ _. 0) test_env = Inr (read_config (\<lambda>_ _ _. 0) test_env)"
    using Load_iff [of rev test_env "\<lambda>_ _ _. 0"] by simp
  show "cf_AccessTokenTTL (read_config (\<lambda>_ _ _. 0) test_env) = 90 * time_Minute"
    by (simp add: read_config_def Let_def getDuration_def test_env_def required_vars_def time_ParseDuration_def
        duration_number_def not_unit_def is_digit_def byte_of_def unitMap_def time_Minute_def time_Second_def)
qed

end
