(* ===== verification/Wiring.thy ===== *)
theory Wiring
  imports Transport_Properties Deletion_Drain Clients Key_Material Config
begin

text \<open>
  \<open>cmd/server/main.go\<close>: how the loaded configuration becomes the running server.
  \<open>wire\<close> is the part of \<open>run\<close> between the connections and the HTTP server: it parses
  the keys, builds the service with its clients, the worker's map of cleanup
  clients and the router. What the libraries contribute is one record of
  parameters. Connecting, listening and shutting down are not modelled.
\<close>

section \<open>run\<close>

record 'x libraries =
  lb_http :: httplib
  lb_bcrypt :: "'x bcrypt"
  lb_SignedString :: "byte list \<Rightarrow> string \<Rightarrow> access_claims \<Rightarrow> goerror + string"
  lb_sessions :: "'x session_activator"
  lb_hotp :: hotp_validator
  lb_otp_Generate :: "string \<Rightarrow> string \<Rightarrow> ('x, string \<times> string) ext_call"
  lb_net :: "'x http_client"
  lb_RequireAuth :: "byte list \<Rightarrow> http_request \<Rightarrow> 'x \<Rightarrow> (http_write list + uuid) \<times> 'x"
  lb_jwks :: "byte list \<Rightarrow> string \<Rightarrow> goerror + http_write list"

record 'x app =
  ap_router :: "'x router_deps"
  ap_cleanup :: "'x cleanup_clients"
  ap_interval :: duration

definition NewIssuer :: "'x libraries \<Rightarrow> byte list \<Rightarrow> string \<Rightarrow> duration \<Rightarrow> jwt_issuer" where
  "NewIssuer lb priv kid ttl = \<lparr>ji_kid = kid, ji_ttl = ttl, ji_SignedString = lb_SignedString lb priv\<rparr>"

definition security_of :: "config \<Rightarrow> SecurityConfig" where
  "security_of cfg =
     \<lparr>sc_RefreshTTL = cf_RefreshTokenTTL cfg, sc_SetupTokenTTL = cf_TOTPSetupTokenTTL cfg,
      sc_LoginChallengeTTL = cf_LoginChallengeTTL cfg, sc_PasswordResetFlowTTL = cf_PasswordResetFlowTTL cfg,
      sc_PasswordResetTokenTTL = cf_PasswordResetTokenTTL cfg, sc_OTPMaxAttempts = cf_TOTPMaxFailedAttempts cfg,
      sc_OTPLockoutDuration = cf_TOTPLockoutDuration cfg,
      sc_ResetFlowMaxOTPAttempts = cf_PasswordResetFlowMaxOTPAttempts cfg, sc_TOTPIssuer = cf_TOTPIssuer cfg\<rparr>"

definition notificationCleanup :: "config \<Rightarrow> deletion_client" where
  "notificationCleanup cfg = deletionclient_New (cf_NotificationServiceURL cfg) (cf_InternalServiceToken cfg)"

definition cleanup_of :: "'x libraries \<Rightarrow> config \<Rightarrow> 'x cleanup_clients" where
  "cleanup_of lb cfg name = map_option (DeleteUserData (lb_net lb)) (map_of
     [(''apiary'', deletionclient_New (cf_ApiaryServiceURL cfg) (cf_InternalServiceToken cfg)),
      (''hive'', deletionclient_New (cf_HiveServiceURL cfg) (cf_InternalServiceToken cfg)),
      (''inspection'', deletionclient_New (cf_InspectionServiceURL cfg) (cf_InternalServiceToken cfg)),
      (''harvest'', deletionclient_New (cf_HarvestServiceURL cfg) (cf_InternalServiceToken cfg)),
      (''media'', deletionclient_New (cf_MediaServiceURL cfg) (cf_InternalServiceToken cfg)),
      (''notification'', notificationCleanup cfg),
      (''subscription'', deletionclient_New (cf_SubscriptionServiceURL cfg) (cf_InternalServiceToken cfg))] name)"

text \<open>The service of \<open>appauth.NewService\<close>; \<open>sessionCleanupRequester\<close> has both methods, so that \<open>svc_cleaner\<close> is set.\<close>

definition service_of :: "'x libraries \<Rightarrow> config \<Rightarrow> byte list \<Rightarrow> aead \<Rightarrow> 'x service" where
  "service_of lb cfg priv totpCipher =
     \<lparr>svc_unicode = hl_unicode (lb_http lb), svc_bcrypt = lb_bcrypt lb, svc_cost = NewBcryptHasher (lb_bcrypt lb) 0,
      svc_issuer = NewIssuer lb priv (jwtauth_KeyID (ed25519_Public priv)) (cf_AccessTokenTTL cfg), svc_generation_issuer = True,
      svc_sessions = lb_sessions lb, svc_media = mediaclient_New (lb_http lb) (lb_net lb) (cf_MediaServiceURL cfg),
      svc_apiaries_DeleteAllMine = apiaryclient_DeleteAllMine (lb_net lb) (cf_ApiaryServiceURL cfg),
      svc_cipher = totpCipher, svc_hotp = lb_hotp lb, svc_otp_Generate = lb_otp_Generate lb, svc_security = security_of cfg,
      svc_cleaner = Some (Some (DeleteSessionData (lb_net lb) (notificationCleanup cfg)))\<rparr>"

definition wire :: "'x libraries \<Rightarrow> config \<Rightarrow> goerror + 'x app" where
  "wire lb cfg = (case ParsePrivateKey (cf_JWTPrivateKey cfg) of
       Inl e \<Rightarrow> Inl (Wrap ''load JWT private key'' e)
     | Inr privateKey \<Rightarrow>
         let publicKey = ed25519_Public privateKey; kid = jwtauth_KeyID publicKey in
         (case lb_jwks lb publicKey kid of
            Inl e \<Rightarrow> Inl (Wrap ''build JWKS handler'' e)
          | Inr jwksHandler \<Rightarrow>
              (case base64_Std_DecodeString (cf_TOTPEncryptionKey cfg) of
                 None \<Rightarrow> Inl (Wrap ''decode TOTP_ENCRYPTION_KEY'' (Opaque ''illegal base64 data''))
               | Some totpKey \<Rightarrow>
                   (case totpsecret_NewCipher totpKey of
                      Inl e \<Rightarrow> Inl (Wrap ''build totp cipher'' e)
                    | Inr totpCipher \<Rightarrow>
                        let authService = service_of lb cfg privateKey totpCipher in
                        Inr \<lparr>ap_router = \<lparr>rd_lib = lb_http lb,
                               rd_auth = \<lparr>hd_service = authService,
                                 hd_cookie = \<lparr>co_Domain = cf_CookieDomain cfg, co_Secure = cf_CookieSecure cfg, co_SameSiteLax = True\<rparr>\<rparr>,
                               rd_profile = authService, rd_jwks = jwksHandler, rd_RequireAuth = lb_RequireAuth lb publicKey\<rparr>,
                             ap_cleanup = cleanup_of lb cfg,
                             ap_interval = worker_interval (cf_DeletionWorkerInterval cfg)\<rparr>))))"

lemma wireD:
  assumes "wire lb cfg = Inr app"
  obtains priv key where "length priv = 64" "length key = 32"
    "hd_service (rd_auth (ap_router app)) = service_of lb cfg priv (aes_gcm key)"
    "rd_profile (ap_router app) = hd_service (rd_auth (ap_router app))" "rd_lib (ap_router app) = lb_http lb"
    "ap_cleanup app = cleanup_of lb cfg"
  using assms
  by (auto simp: wire_def ParsePrivateKey_def ed25519_PrivateKeySize_def totpsecret_NewCipher_def totpsecret_KeySize_def Let_def
      split: sum.splits option.splits if_splits)

section \<open>Errors of the wired service\<close>

text \<open>
  The ports of the wired service are as \<open>plain_ports\<close> asks, so that everything
  proved there holds of the running server.
\<close>

text \<open>The libraries report no sentinel error of this program.\<close>

locale plain_libraries = plain_net "lb_net lb" for lb :: "'x libraries" +
  assumes sessions_raise:
      "ext_raises {} (ss_ActivateAndReturnPrevious (lb_sessions lb) u sid ttl)"
      "ext_raises {} (ss_Deactivate (lb_sessions lb) u)" "ext_raises {} (ss_DeactivateIfCurrent (lb_sessions lb) u sid)"
      "ext_raises {} (ss_DeactivateAndReturnPrevious (lb_sessions lb) u)"
    and bcrypt_raises: "ext_raises {} (bc_GenerateFromPassword (lb_bcrypt lb) p cost)"
    and otp_raises: "ext_raises {} (lb_otp_Generate lb iss acc)"
    and sign_raises: "lb_SignedString lb priv kid claims = Inl e \<Longrightarrow> within {} e"
begin

lemma ext_raises_iff: "ext_raises S f = raises S f"
  by (simp add: ext_raises_def raises_def)

end

sublocale plain_libraries \<subseteq> wired: plain_ports "service_of lb cfg priv (aes_gcm key)" for cfg priv key
proof (unfold_locales, goal_cases)
  case (8 ct e)
  then show ?case
    by (auto simp: service_of_def Cipher_Decrypt_def aes_gcm_def gcm_Open_def Let_def split: if_splits)
qed (use sessions_raise bcrypt_raises otp_raises sign_raises client_raises in
    \<open>auto simp: service_of_def NewIssuer_def mediaclient_New_def ext_raises_iff\<close>)

context plain_libraries
begin

lemma wired_answers:
  assumes "wire lb cfg = Inr app" and "ep \<noteq> EpJWKS"
    and "WriteError st code msg \<in> set (fst (handle (ap_router app) ep r w))"
  shows "(st, code) \<in> set (endpoint_errors (lb_http lb) ep)"
  using assms(1)
proof (rule wireD)
  fix priv key
  assume a: "hd_service (rd_auth (ap_router app)) = service_of lb cfg priv (aes_gcm key)"
    "rd_profile (ap_router app) = hd_service (rd_auth (ap_router app))" "rd_lib (ap_router app) = lb_http lb"
  have "responds (errors_among (endpoint_errors (rd_lib (ap_router app)) ep)) (handle (ap_router app) ep r)"
    by (rule wired.answers_among [OF a(1)]) (use a assms(2) in simp_all)
  then have "errors_among (endpoint_errors (lb_http lb) ep) (fst (handle (ap_router app) ep r w))"
    by (simp add: responds_def a(3))
  with assms(3) show ?thesis unfolding errors_among_def by blast
qed

end

section \<open>Account deletion in the wired server\<close>

text \<open>
  The peer services answer the cleanup requests of the worker with a 2xx status:
  for each of the seven configured base URLs and every user, the URL the client
  builds parses, and the DELETE request with the service token gets such an
  answer. Nothing is asked of any other URL or request.
\<close>

definition cleanup_bases :: "config \<Rightarrow> string list" where
  "cleanup_bases cfg = [cf_ApiaryServiceURL cfg, cf_HiveServiceURL cfg, cf_InspectionServiceURL cfg, cf_HarvestServiceURL cfg,
     cf_MediaServiceURL cfg, cf_NotificationServiceURL cfg, cf_SubscriptionServiceURL cfg]"

definition cleanup_url :: "string \<Rightarrow> uuid \<Rightarrow> string" where
  "cleanup_url base u = strings_TrimRight base (CHR ''/'') @ ''/internal/api/v1/users/'' @ uuid_String u"

definition peers_up :: "'x http_client \<Rightarrow> config \<Rightarrow> bool" where
  "peers_up net cfg \<longleftrightarrow> (\<forall>base \<in> set (cleanup_bases cfg). \<forall>u. cl_NewRequest net ''DELETE'' (cleanup_url base u) = None \<and>
     (\<forall>x. \<exists>resp x'. cl_Do net \<lparr>hc_Method = ''DELETE'', hc_URL = cleanup_url base u,
          hc_Authorization = bearer (cf_InternalServiceToken cfg)\<rparr> x = (Inr resp, x') \<and>
        200 \<le> hr_StatusCode resp \<and> hr_StatusCode resp < 300))"

lemma DeleteUserData_up:
  assumes "peers_up net cfg" and "base \<in> set (cleanup_bases cfg)"
  shows "\<exists>x'. DeleteUserData net (deletionclient_New base (cf_InternalServiceToken cfg)) u x = (Inr (), x')"
proof -
  from assms obtain resp x' where
    r: "cl_Do net \<lparr>hc_Method = ''DELETE'', hc_URL = cleanup_url base u, hc_Authorization = bearer (cf_InternalServiceToken cfg)\<rparr> x = (Inr resp, x')"
    "200 \<le> hr_StatusCode resp \<and> hr_StatusCode resp < 300"
    unfolding peers_up_def by blast
  have "cl_NewRequest net ''DELETE'' (cleanup_url base u) = None" using assms by (simp add: peers_up_def)
  with r show ?thesis by (simp add: DeleteUserData_def deletionclient_New_def cleanup_url_def bindM_apply)
qed

lemma cleanup_covers: "n \<in> set deletionServices \<longleftrightarrow> cleanup_of lb cfg n \<noteq> None"
  by (auto simp: deletionServices_def cleanup_of_def)

lemma cleanup_client:
  assumes "cleanup_of lb cfg n = Some f"
  obtains base where "base \<in> set (cleanup_bases cfg)"
    "f = DeleteUserData (lb_net lb) (deletionclient_New base (cf_InternalServiceToken cfg))"
  using assms by (auto simp: cleanup_of_def cleanup_bases_def notificationCleanup_def split: if_splits)

lemma cleanup_answers:
  assumes "peers_up (lb_net lb) cfg" and "n \<in> set deletionServices"
  shows "answers (cleanup_of lb cfg) n"
proof -
  from assms(2) obtain f where f: "cleanup_of lb cfg n = Some f" using cleanup_covers by blast
  from this obtain base where "base \<in> set (cleanup_bases cfg)"
    "f = DeleteUserData (lb_net lb) (deletionclient_New base (cf_InternalServiceToken cfg))" by (rule cleanup_client)
  with f DeleteUserData_up [OF assms(1)] show ?thesis by (auto simp: answers_def)
qed

text \<open>
  C19: A requested deletion completes in the running server. The map of cleanup
  clients that \<open>main.go\<close> hands to the worker has a client for every service a
  deletion job has a step for; so, with the database up and the peer services
  answering with 2xx, one round of the worker on a claimable job ends without
  error, removes the account and completes the job.
\<close>

theorem wired_deletion_completes:
  assumes "wire lb cfg = Inr app" and "peers_up (lb_net lb) cfg" and "e_faults w = []"
    and "next_claim (clock_now w) (w_db w) = Some j"
    and "\<forall>st \<in> set (account_deletion_steps (w_db w)). ds_job_id st = dj_id j \<longrightarrow> ds_service st \<in> set deletionServices"
  shows "\<exists>w'. DeletionWorker_RunOnce (ap_cleanup app) w = (Inr (), w') \<and>
     (\<forall>u \<in> set (users (w_db w')). u_ID u \<noteq> dj_user_id j) \<and>
     (\<forall>r \<in> set (account_deletion_jobs (w_db w')). dj_id r = dj_id j \<longrightarrow> dj_status r = status_completed)"
proof -
  have cl: "ap_cleanup app = cleanup_of lb cfg" using assms(1) by (rule wireD)
  have "n \<in> set deletionServices" if "(dj_id j, n) \<in> step_services (w_db w)" for n
  proof -
    from that obtain st where "st \<in> set (account_deletion_steps (w_db w))" "ds_job_id st = dj_id j" "ds_service st = n"
      unfolding step_services_def by auto
    with assms(5) show ?thesis by blast
  qed
  then have "\<forall>n. (dj_id j, n) \<in> step_services (w_db w) \<longrightarrow> answers (ap_cleanup app) n"
    unfolding cl using cleanup_answers [OF assms(2)] by blast
  from round_completes [OF assms(3,4) this] obtain w' h where "DeletionWorker_RunOnce (ap_cleanup app) w = (Inr (), w')"
    "set (users (w_db w')) = {u \<in> set (users (w_db w)). u_ID u \<noteq> dj_user_id j}"
    "account_deletion_jobs (w_db w') = sql_update (\<lambda>r. dj_id r = dj_id j) h (account_deletion_jobs (w_db w))"
    "\<forall>r. dj_status (h r) = status_completed" by blast
  then show ?thesis by (intro exI [of _ w']) (simp add: ball_sql_update)
qed

text \<open>
  C20: The deletion worker of the running server empties its queue. With the
  database up, the peer services answering with 2xx and every open job due, the
  loop ends its rounds without error, and as many rounds as there are open
  jobs leave none open and remove exactly the accounts they belong to.
\<close>

theorem wired_worker_drains:
  assumes "wire lb cfg = Inr app" and "peers_up (lb_net lb) cfg" and "e_faults w = []" and "db_wf (w_db w)" and "due_from t w"
    and "\<forall>st \<in> set (account_deletion_steps (w_db w)). ds_service st \<in> set deletionServices"
    and "length (open_jobs (w_db w)) \<le> ticks"
  shows "\<exists>w'. DeletionWorker_Run (ap_cleanup app) ticks w = (Inr (), w') \<and> open_jobs (w_db w') = [] \<and>
     set (users (w_db w')) = {u \<in> set (users (w_db w)). \<forall>j \<in> set (open_jobs (w_db w)). u_ID u \<noteq> dj_user_id j}"
proof (rule Run_drains [OF assms(3,5) _ _ assms(7)])
  have "ap_cleanup app = cleanup_of lb cfg" using assms(1) by (rule wireD)
  then show "\<forall>(j, n) \<in> step_services (w_db w). answers (ap_cleanup app) n"
    using assms(6) cleanup_answers [OF assms(2)] by (auto simp: step_services_def)
  have u: "unique_col col_dj_id (account_deletion_jobs (w_db w))" using assms(4) by (simp add: db_wf_def)
  show "\<forall>j \<in> set (open_jobs (w_db w)). \<forall>k \<in> set (open_jobs (w_db w)). dj_id j = dj_id k \<longrightarrow> dj_user_id j = dj_user_id k"
  proof (intro ballI impI)
    fix j k
    assume "j \<in> set (open_jobs (w_db w))" "k \<in> set (open_jobs (w_db w))" "dj_id j = dj_id k"
    then have "j = k" by (intro unique_colD [OF u, of j k "dj_id k"]) (simp_all add: open_jobs_def)
    then show "dj_user_id j = dj_user_id k" by simp
  qed
qed

section \<open>A server to evaluate\<close>

definition test_net :: "fake_ext http_client" where
  "test_net = \<lparr>cl_NewRequest = (\<lambda>m u. if take 7 u = ''http://'' then None else Some (Opaque ''unsupported URL'')),
     cl_Do = (\<lambda>c x. (Inr \<lparr>hr_StatusCode = 204, hr_Body = []\<rparr>, x\<lparr>fx_calls := fx_calls x @ [(hc_URL c, [])]\<rparr>))\<rparr>"

definition test_libraries :: "fake_ext libraries" where
  "test_libraries = \<lparr>lb_http = test_lib, lb_bcrypt = fake_bcrypt, lb_SignedString = (\<lambda>priv. ji_SignedString fake_issuer),
     lb_sessions = fakeSessionStore, lb_hotp = fake_hotp, lb_otp_Generate = (\<lambda>issuer account x. (Inr (''SECRET'', ''otpauth''), x)),
     lb_net = test_net, lb_RequireAuth = (\<lambda>pub r x. (Inr 1, x)), lb_jwks = (\<lambda>pub kid. Inr [WriteHeader 200])\<rparr>"

interpretation test_libs: plain_libraries test_libraries
  by unfold_locales
     (auto simp: ext_raises_def test_libraries_def test_net_def fake_bcrypt_def fakeSessionStore_def fake_issuer_def
      fake_ActivateAndReturnPrevious_def fake_Deactivate_def fake_DeactivateIfCurrent_def
      fake_DeactivateAndReturnPrevious_def split: option.splits if_splits)

definition test_config :: config where
  "test_config = (read_config (\<lambda>_ _ _. 0) test_env)
     \<lparr>cf_JWTPrivateKey := base64_Std_Encode (replicate 64 1), cf_TOTPEncryptionKey := base64_Std_Encode (replicate 32 2),
      cf_ApiaryServiceURL := ''http://apiary/'', cf_HiveServiceURL := ''http://hive'', cf_InspectionServiceURL := ''http://inspection'',
      cf_HarvestServiceURL := ''http://harvest'', cf_MediaServiceURL := ''http://media'', cf_NotificationServiceURL := ''http://notification'',
      cf_SubscriptionServiceURL := ''http://subscription/''\<rparr>"

lemma test_wired: "\<exists>app. wire test_libraries test_config = Inr app"
  by (simp add: wire_def test_config_def ParsePrivateKey_def base64_Std_roundtrip ed25519_PrivateKeySize_def
      totpsecret_NewCipher_def totpsecret_KeySize_def test_libraries_def Let_def)

lemma test_peers_up: "peers_up (lb_net test_libraries) test_config"
  by (simp add: peers_up_def cleanup_bases_def cleanup_url_def test_libraries_def test_net_def test_config_def strings_TrimRight_def)

theorem wired_deletion_completes_witness:
  "\<exists>app w'. wire test_libraries test_config = Inr app \<and>
     DeletionWorker_RunOnce (ap_cleanup app) (test_world 0 job_db) = (Inr (), w') \<and> (\<forall>u \<in> set (users (w_db w')). u_ID u \<noteq> 1)"
proof -
  obtain app where app: "wire test_libraries test_config = Inr app" using test_wired by blast
  have up: "peers_up (lb_net test_libraries) test_config" by (rule test_peers_up)
  have "\<forall>st \<in> set (account_deletion_steps (w_db (test_world 0 job_db))). ds_job_id st = dj_id job_row \<longrightarrow> ds_service st \<in> set deletionServices"
    by (simp add: test_world_def job_db_def step_row_def deletionServices_def)
  from wired_deletion_completes [OF app up test_world_quiet job_claimed this] app show ?thesis by (auto simp: job_row_def)
qed

theorem wired_worker_drains_witness:
  "\<exists>app w'. wire test_libraries test_config = Inr app \<and> open_jobs job_db \<noteq> [] \<and> users job_db \<noteq> [] \<and>
     DeletionWorker_Run (ap_cleanup app) 1 (test_world 0 job_db) = (Inr (), w') \<and> open_jobs (w_db w') = [] \<and> users (w_db w') = []"
proof -
  obtain app where app: "wire test_libraries test_config = Inr app" using test_wired by blast
  have up: "peers_up (lb_net test_libraries) test_config" by (rule test_peers_up)
  have db: "w_db (test_world 0 job_db) = job_db" by (simp add: test_world_def)
  have o: "open_jobs job_db = [job_row]" by (simp add: open_jobs_def job_db_def job_row_def is_open_def)
  have u: "users job_db = [test_user]" "u_ID test_user = 1" by (simp_all add: job_db_def test_db_def test_user_def)
  have "due_from 0 (test_world 0 job_db)" unfolding due_from_def db o
    by (simp add: readings_def test_world_def claimable_def job_row_def)
  moreover have "db_wf (w_db (test_world 0 job_db))" unfolding db
    by (simp add: job_db_def job_row_def step_row_def db_wf_def user_exists_def run_fakes)
  moreover have "\<forall>st \<in> set (account_deletion_steps (w_db (test_world 0 job_db))). ds_service st \<in> set deletionServices"
    unfolding db by (simp add: job_db_def step_row_def deletionServices_def)
  ultimately obtain w' where "DeletionWorker_Run (ap_cleanup app) 1 (test_world 0 job_db) = (Inr (), w')" "open_jobs (w_db w') = []"
    "set (users (w_db w')) = {u \<in> set (users job_db). \<forall>j \<in> set [job_row]. u_ID u \<noteq> dj_user_id j}"
    using wired_worker_drains [OF app up test_world_quiet, of 0 job_db 0 1] unfolding db o by auto
  moreover from this(3) have "users (w_db w') = []" using u by (auto simp: job_row_def simp flip: set_empty)
  ultimately show ?thesis using app o u(1) by (intro exI [of _ app] exI [of _ w']) simp
qed

end
