(* ===== verification/Startup.thy ===== *)
theory Startup
  imports Wiring
begin

text \<open>
  The commands around the server. \<open>postgres_New\<close> and \<open>ClearAllData\<close> are
  \<open>internal/platform/postgres\<close>; \<open>server_start\<close> and \<open>server_end\<close> are what
  \<open>cmd/server/main.go\<close> does before and after the server runs, around \<open>wire\<close>;
  \<open>dbclear_run\<close> is \<open>cmd/dbclear/main.go\<close>. The connection pool of \<open>pgx\<close>, the Redis
  client and \<open>net/url\<close> are parameters.
\<close>

section \<open>platform/postgres\<close>

text \<open>
  The context of a call: no deadline (\<open>context.Background\<close>), or the timeout of
  \<open>context.WithTimeout\<close>, which is over at once when it is not positive. That a
  positive timeout runs out during a call is one of the failures of that call.
\<close>

type_synonym deadline = "duration option"

definition ctx_over :: "deadline \<Rightarrow> bool" where
  "ctx_over ctx \<longleftrightarrow> (case ctx of None \<Rightarrow> False | Some timeout \<Rightarrow> timeout \<le> 0)"

text \<open>
  \<open>newPool\<close> is the error \<open>pgxpool.New\<close> reports for a DSN, which it parses without
  connecting; the ping connects, and may fail.
\<close>

definition postgres_New :: "(string \<Rightarrow> goerror option) \<Rightarrow> deadline \<Rightarrow> string \<Rightarrow> ('x world, unit) comp" where
  "postgres_New newPool ctx dsn = (case newPool dsn of
       Some e \<Rightarrow> fail (Wrap ''postgres: create pool'' e)
     | None \<Rightarrow> wrapM ''postgres: ping''
         (if ctx_over ctx then fail (Opaque ''context deadline exceeded'') else fallible (ret ())) ret)"

text \<open>The rows of \<open>pg_tables\<close> the query selects; the type \<open>name\<close> of a table name is ordered by its bytes.\<close>

definition list_tables :: "(string \<times> string) list \<Rightarrow> string list" where
  "list_tables catalog = sort (map snd (filter (\<lambda>(schemaname, tablename).
     schemaname = ''public'' \<and> tablename \<noteq> ''schema_migrations'') catalog))"

fun scan_tables :: "string list \<Rightarrow> ('x world, string list) comp" where
  "scan_tables [] = ret []"
| "scan_tables (name # rows) =
     wrapM ''scan table name'' (fallible (ret name)) (\<lambda>name.
     bindM (scan_tables rows) (\<lambda>tables. ret (name # tables)))"

text \<open>TRUNCATE with CASCADE: the named tables, and the tables that refer to one of them.\<close>

definition foreign_keys :: "(string \<times> string) list" where
  "foreign_keys =
     [(''refresh_tokens'', ''users''), (''two_factor_credentials'', ''users''), (''login_challenges'', ''users''),
      (''password_reset_flows'', ''users''), (''account_deletion_steps'', ''account_deletion_jobs'')]"

definition truncated :: "string list \<Rightarrow> string \<Rightarrow> 'r list \<Rightarrow> 'r list" where
  "truncated names table rows =
     (if table \<in> set names \<or> list_ex (\<lambda>(child, parent). child = table \<and> parent \<in> set names) foreign_keys
      then [] else rows)"

definition truncate_tables :: "string list \<Rightarrow> unit stmt" where
  "truncate_tables names d = Inr ((),
     \<lparr>users = truncated names ''users'' (users d),
      refresh_tokens = truncated names ''refresh_tokens'' (refresh_tokens d),
      two_factor_credentials = truncated names ''two_factor_credentials'' (two_factor_credentials d),
      login_challenges = truncated names ''login_challenges'' (login_challenges d),
      password_reset_flows = truncated names ''password_reset_flows'' (password_reset_flows d),
      account_deletion_jobs = truncated names ''account_deletion_jobs'' (account_deletion_jobs d),
      account_deletion_steps = truncated names ''account_deletion_steps'' (account_deletion_steps d)\<rparr>)"

definition ClearAllData :: "(string \<times> string) list \<Rightarrow> ('x world, string list) comp" where
  "ClearAllData catalog =
     wrapM ''list tables'' (fallible (ret (list_tables catalog))) (\<lambda>rows.
     bindM (scan_tables rows) (\<lambda>tables.
     wrapM ''list tables'' (fallible (ret ())) (\<lambda>_.
     if tables = [] then ret []
     else wrapM ''truncate tables'' (exec_sql (truncate_tables tables)) (\<lambda>_. ret tables))))"

section \<open>cmd/dbclear\<close>

record dbclear_lib =
  dl_unicode :: unicode
  dl_newPool :: "string \<Rightarrow> goerror option"
  dl_without_user :: "string \<Rightarrow> string option"

fun strings_Join :: "string list \<Rightarrow> string \<Rightarrow> string" where
  "strings_Join [] sep = []"
| "strings_Join [s] sep = s"
| "strings_Join (s # t # r) sep = s @ sep @ strings_Join (t # r) sep"

text \<open>\<open>bufio.Reader.ReadString\<close> up to the first newline, with what there is when the input ends before.\<close>

definition read_line :: "string \<Rightarrow> string" where
  "read_line inp = takeWhile (\<lambda>c. c \<noteq> CHR 0x0A) inp @ take 1 (dropWhile (\<lambda>c. c \<noteq> CHR 0x0A) inp)"

definition redact :: "dbclear_lib \<Rightarrow> string \<Rightarrow> string" where
  "redact lib dsn = (case dl_without_user lib dsn of None \<Rightarrow> ''<database>'' | Some s \<Rightarrow> s)"

definition confirm :: "dbclear_lib \<Rightarrow> string \<Rightarrow> string \<Rightarrow> string list \<times> bool" where
  "confirm lib stdin dsn =
     ([''This will permanently delete ALL data in '' @ redact lib dsn, ''Type 'yes' to continue: ''],
      strings_TrimSpace (dl_unicode lib) (read_line stdin) = ''yes'')"

text \<open>\<open>run\<close>: what it prints, and whether it ends with an error. \<open>env\<close> is the environment after the \<open>.env\<close> file.\<close>

definition dbclear_run ::
  "dbclear_lib \<Rightarrow> (string \<times> string) list \<Rightarrow> bool \<Rightarrow> environ \<Rightarrow> string \<Rightarrow> ('x world, string list) comp" where
  "dbclear_run lib catalog yes env stdin =
     (let dsn = getEnv env ''DATABASE_URL'' []; (prompt, confirmed) = confirm lib stdin dsn in
      if dsn = [] then fail (Opaque ''DATABASE_URL is required'')
      else if \<not> yes \<and> \<not> confirmed then ret (prompt @ [''aborted''])
      else
        let out = (if yes then [] else prompt) in
        wrapM ''connect to database'' (postgres_New (dl_newPool lib) None dsn) (\<lambda>_.
        wrapM ''clear data'' (ClearAllData catalog) (\<lambda>cleared.
        if cleared = [] then ret (out @ [''no application tables found; nothing to clear''])
        else ret (out @ [''cleared '' @ fmt_d (int (length cleared)) @ '' table(s): '' @ strings_Join cleared '', '']))))"

section \<open>cmd/server\<close>

text \<open>\<open>cn_redis\<close> is \<open>sessionstore.NewRedisClient\<close> under a context with the given timeout, on an address.\<close>

record 'x connections =
  cn_newPool :: "string \<Rightarrow> goerror option"
  cn_redis :: "duration \<Rightarrow> string \<Rightarrow> ('x, unit) ext_call"

definition server_start ::
  "'x libraries \<Rightarrow> 'x connections \<Rightarrow> ((string \<times> string) list \<Rightarrow> (string \<times> string) list) \<Rightarrow> (nat \<Rightarrow> nat \<Rightarrow> nat \<Rightarrow> nat) \<Rightarrow>
     environ \<Rightarrow> ('x world, 'x app) comp" where
  "server_start lb cn ord frac env = (case Load ord frac env of
       Inl e \<Rightarrow> fail (Wrap ''load config'' e)
     | Inr cfg \<Rightarrow>
         wrapM ''connect to database'' (postgres_New (cn_newPool cn) (Some (cf_DatabaseConnectTimeout cfg)) (cf_DatabaseURL cfg)) (\<lambda>_.
         wrapM ''connect to redis'' (external (cn_redis cn (cf_RedisConnectTimeout cfg) (cf_RedisAddr cfg))) (\<lambda>_.
         case wire lb cfg of Inl e \<Rightarrow> fail e | Inr app \<Rightarrow> ret app)))"

text \<open>How the server stops: \<open>srv.Run\<close> returns, or a signal arrives and \<open>srv.Shutdown\<close> returns.\<close>

datatype server_event = ServerReturned "goerror option" | ShutdownSignal "goerror option"

fun server_end :: "server_event \<Rightarrow> goerror + unit" where
  "server_end (ServerReturned (Some e)) = Inl (Wrap ''run server'' e)"
| "server_end (ServerReturned None) = Inr ()"
| "server_end (ShutdownSignal (Some e)) = Inl (Wrap ''graceful shutdown'' e)"
| "server_end (ShutdownSignal None) = Inr ()"


section \<open>What the commands do\<close>

text \<open>The tables of the migrations, with the bookkeeping table of the migration tool and a table of the server itself.\<close>

definition app_tables :: "string list" where
  "app_tables = [''users'', ''refresh_tokens'', ''two_factor_credentials'', ''login_challenges'', ''password_reset_flows'',
     ''account_deletion_jobs'', ''account_deletion_steps'']"

definition migrated_catalog :: "(string \<times> string) list" where
  "migrated_catalog = (''pg_catalog'', ''pg_class'') # (''public'', ''schema_migrations'') # map (Pair ''public'') app_tables"

lemma set_list_tables: "set (list_tables c) = {t. (''public'', t) \<in> set c \<and> t \<noteq> ''schema_migrations''}"
  by (force simp: list_tables_def)

lemma truncate_all: "set app_tables \<subseteq> set names \<Longrightarrow> truncate_tables names d = Inr ((), empty_db)"
  by (simp add: truncate_tables_def truncated_def app_tables_def empty_db_def)

lemma scan_tables_reads:
  "scan_tables rows w = (r, w') \<Longrightarrow> w_db w' = w_db w \<and> (\<forall>ts. r = Inr ts \<longrightarrow> ts = rows)"
proof (induction rows arbitrary: w r)
  case (Cons name rows)
  from Cons.prems consider e where "r = Inl e" "w_db w' = w_db w" | w1 where
      "fallible (ret name) w = (Inr name, w1)" "bindM (scan_tables rows) (\<lambda>ts. ret (name # ts)) w1 = (r, w')"
    by (auto simp: wrapM_apply fallible_def ret_def split: prod.splits sum.splits option.splits)
  then show ?case
  proof cases
    case 2
    with Cons.IH fallible_ret_frame(1) [OF 2(1)] show ?thesis
      by (auto simp: bindM_apply ret_def split: prod.splits sum.splits)
  qed simp
qed (simp add: ret_def)

text \<open>Clearing removes every row of the named tables, or nothing when it fails.\<close>

lemma ClearAllData_fails:
  assumes "ClearAllData c w = (Inl e, w')"
  shows "w_db w' = w_db w"
proof -
  from assms consider e' where "fallible (ret (list_tables c)) w = (Inl e', w')"
    | rows w1 where "fallible (ret (list_tables c)) w = (Inr rows, w1)" "scan_tables rows w1 = (Inl e, w')"
    | rows w1 ts w2 e' where "fallible (ret (list_tables c)) w = (Inr rows, w1)" "scan_tables rows w1 = (Inr ts, w2)"
        "fallible (ret ()) w2 = (Inl e', w')"
    | rows w1 ts w2 w3 e' where "fallible (ret (list_tables c)) w = (Inr rows, w1)" "scan_tables rows w1 = (Inr ts, w2)"
        "fallible (ret ()) w2 = (Inr (), w3)" "exec_sql (truncate_tables ts) w3 = (Inl e', w')"
    unfolding ClearAllData_def wrapM_peel_Inl bindM_peel_Inl by (auto simp: wrapM_peel_Inl split: if_splits)
  then show ?thesis
  proof cases
    case 1 then show ?thesis by (rule fallible_ret_frame)
  next
    case 2 with fallible_ret_frame(1) [OF 2(1)] scan_tables_reads [OF 2(2)] show ?thesis by simp
  next
    case 3 with fallible_ret_frame(1) [OF 3(1)] scan_tables_reads [OF 3(2)] fallible_ret_frame(1) [OF 3(3)] show ?thesis by simp
  next
    case 4 with fallible_ret_frame(1) [OF 4(1)] scan_tables_reads [OF 4(2)] fallible_ret_frame(1) [OF 4(3)] exec_sql_Inl [OF 4(4)]
    show ?thesis by simp
  qed
qed

lemma ClearAllData_clears:
  assumes "ClearAllData c w = (Inr tables, w')"
  shows "tables = list_tables c" and "set app_tables \<subseteq> set tables \<Longrightarrow> w_db w' = empty_db"
    and "tables = [] \<Longrightarrow> w_db w' = w_db w"
proof -
  from assms obtain rows w1 w2 w3 where 1: "fallible (ret (list_tables c)) w = (Inr rows, w1)"
    "scan_tables rows w1 = (Inr tables, w2)" "fallible (ret ()) w2 = (Inr (), w3)"
    and 2: "if tables = [] then w' = w3 else exec_sql (truncate_tables tables) w3 = (Inr (), w')"
    by (auto simp: ClearAllData_def peel split: if_splits)
  have "rows = list_tables c" using 1(1) by (auto simp: fallible_def ret_def split: prod.splits option.splits)
  then show "tables = list_tables c" using scan_tables_reads [OF 1(2)] by simp
  show "w_db w' = empty_db" if "set app_tables \<subseteq> set tables"
  proof -
    have "tables \<noteq> []" using that by (auto simp: app_tables_def)
    with 2 exec_sql_Inr [of "truncate_tables tables" w3 "()" w'] truncate_all [OF that] show ?thesis by simp
  qed
  show "w_db w' = w_db w" if "tables = []"
    using that 2 fallible_ret_frame(1) [OF 1(1)] fallible_ret_frame(1) [OF 1(3)] scan_tables_reads [OF 1(2)] by simp
qed

lemma postgres_New_reads: "postgres_New newPool ctx dsn w = (r, w') \<Longrightarrow> w_db w' = w_db w"
  by (cases "newPool dsn"; cases r; cases "ctx_over ctx")
    (auto simp: postgres_New_def peel wrapM_peel_Inl dest: fallible_ret_frame(1))

text \<open>
  \<open>dbclear\<close> touches nothing without the flag or the answer \<open>yes\<close>, nothing when it ends
  with an error, and otherwise leaves the database in the state the service
  starts from.
\<close>

theorem dbclear_effect:
  assumes "dbclear_run lib c yes env stdin w = (r, w')"
  shows "case r of
      Inl e \<Rightarrow> w_db w' = w_db w
    | Inr out \<Rightarrow>
        if yes \<or> snd (confirm lib stdin (getEnv env ''DATABASE_URL'' []))
        then set app_tables \<subseteq> set (list_tables c) \<longrightarrow> w_db w' = empty_db
        else w' = w \<and> last out = ''aborted''"
proof (cases r)
  case (Inl e)
  with assms have "w_db w' = w_db w"
    by (auto simp: dbclear_run_def Let_def wrapM_peel_Inl peel split: prod.splits if_splits
        dest!: postgres_New_reads ClearAllData_fails)
  with Inl show ?thesis by simp
next
  case (Inr out)
  show ?thesis
  proof (cases "yes \<or> snd (confirm lib stdin (getEnv env ''DATABASE_URL'' []))")
    case True
    with assms Inr obtain w1 tables w2 where "ClearAllData c w1 = (Inr tables, w2)" "w' = w2"
      by (auto simp: dbclear_run_def Let_def peel split: prod.splits if_splits)
    with True Inr ClearAllData_clears(1,2) [of c w1 tables w2] show ?thesis by simp
  next
    case False
    with assms Inr show ?thesis by (auto simp: dbclear_run_def Let_def peel ret_def fail_def split: prod.splits if_splits)
  qed
qed

section \<open>When the server starts\<close>

text \<open>The value of a variable, decoded, has the length of its key.\<close>

definition key_set :: "environ \<Rightarrow> string \<Rightarrow> nat \<Rightarrow> bool" where
  "key_set env name n \<longleftrightarrow> (\<exists>k. base64_Std_DecodeString (getEnv env name []) = Some k \<and> length k = n)"

text \<open>The JWKS handler of \<open>beebase-common\<close> can be built for the public key.\<close>

definition jwks_builds :: "'x libraries \<Rightarrow> environ \<Rightarrow> bool" where
  "jwks_builds lb env \<longleftrightarrow> (\<exists>k h. base64_Std_DecodeString (getEnv env ''JWT_PRIVATE_KEY'' []) = Some k \<and>
     lb_jwks lb (ed25519_Public k) (jwtauth_KeyID (ed25519_Public k)) = Inr h)"

lemma wire_iff:
  "(\<exists>app. wire lb (read_config frac env) = Inr app) \<longleftrightarrow>
     key_set env ''JWT_PRIVATE_KEY'' 64 \<and> jwks_builds lb env \<and> key_set env ''TOTP_ENCRYPTION_KEY'' 32"
proof -
  have f: "cf_JWTPrivateKey (read_config frac env) = getEnv env ''JWT_PRIVATE_KEY'' []"
    "cf_TOTPEncryptionKey (read_config frac env) = getEnv env ''TOTP_ENCRYPTION_KEY'' []"
    by (simp_all add: read_config_def Let_def)
  show ?thesis
    by (auto simp: wire_def f ParsePrivateKey_def ed25519_PrivateKeySize_def totpsecret_NewCipher_def totpsecret_KeySize_def
        key_set_def jwks_builds_def Let_def split: sum.splits option.splits)
qed

lemma postgres_New_connects:
  "(\<exists>w'. postgres_New newPool ctx dsn w = (Inr (), w')) \<longleftrightarrow> newPool dsn = None \<and> \<not> ctx_over ctx \<and> fst (next_fault w) = None"
  by (cases "next_fault w")
     (auto simp: postgres_New_def wrapM_apply fallible_def ret_def fail_def split: option.splits)

lemma postgres_New_ext: "postgres_New newPool ctx dsn w = (r, w') \<Longrightarrow> w_ext w' = w_ext w"
  by (cases "newPool dsn"; cases r; cases "ctx_over ctx")
    (auto simp: postgres_New_def peel wrapM_peel_Inl dest: fallible_ret_frame(2))

text \<open>The two connections the server opens: what each needs, and that neither touches the tables.\<close>

definition connects :: "'x connections \<Rightarrow> config \<Rightarrow> 'x world \<Rightarrow> bool" where
  "connects cn cfg w \<longleftrightarrow>
     cn_newPool cn (cf_DatabaseURL cfg) = None \<and> 0 < cf_DatabaseConnectTimeout cfg \<and> fst (next_fault w) = None \<and>
     fst (cn_redis cn (cf_RedisConnectTimeout cfg) (cf_RedisAddr cfg) (w_ext w)) = Inr ()"

lemma server_start_connected:
  assumes "Load ord frac env = Inr cfg" and "server_start lb cn ord frac env w = (r, w')"
  shows "w_db w' = w_db w \<and> (if connects cn cfg w then r = wire lb cfg else \<exists>e. r = Inl e)"
proof -
  obtain p w1 where p: "postgres_New (cn_newPool cn) (Some (cf_DatabaseConnectTimeout cfg)) (cf_DatabaseURL cfg) w = (p, w1)" by fastforce
  note same = postgres_New_reads [OF p] postgres_New_ext [OF p]
  have up: "p = Inr () \<longleftrightarrow> cn_newPool cn (cf_DatabaseURL cfg) = None \<and> 0 < cf_DatabaseConnectTimeout cfg \<and> fst (next_fault w) = None"
    using postgres_New_connects [of "cn_newPool cn" "Some (cf_DatabaseConnectTimeout cfg)" "cf_DatabaseURL cfg" w] p
    by (simp add: ctx_over_def not_le)
  show ?thesis
  proof (cases p)
    case (Inl e)
    with up assms p same show ?thesis by (auto simp: server_start_def wrapM_apply connects_def)
  next
    case (Inr u)
    obtain q x where q: "cn_redis cn (cf_RedisConnectTimeout cfg) (cf_RedisAddr cfg) (w_ext w) = (q, x)" by fastforce
    have "connects cn cfg w \<longleftrightarrow> q = Inr ()" using Inr up q by (simp add: connects_def)
    with assms p same Inr q show ?thesis
      by (cases q; cases "wire lb cfg") (auto simp: server_start_def wrapM_apply external_def ret_def fail_def)
  qed
qed

text \<open>
  C21: When the server starts. \<open>run\<close> reaches the point where it serves requests
  exactly when the twelve required variables are set, \<open>pgxpool.New\<close> accepts the
  DSN, the database timeout is positive and the ping succeeds, the Redis client
  connects to its address within its timeout, the two keys decode to 64 and 32
  bytes, and the JWKS handler can be built for the public key; it then runs with
  the configuration read from the environment. In every other case it ends
  with an error. It never touches the tables. The order in which Go runs
  through the map of required variables is any order of its entries.
\<close>

theorem server_starts:
  assumes "\<forall>ms. set (ord ms) = set ms"
  shows "\<exists>r w'. server_start lb cn ord frac env w = (r, w') \<and> w_db w' = w_db w \<and>
     (if list_all (is_set env) required_vars \<and> connects cn (read_config frac env) w \<and>
        key_set env ''JWT_PRIVATE_KEY'' 64 \<and> jwks_builds lb env \<and> key_set env ''TOTP_ENCRYPTION_KEY'' 32
      then \<exists>app. r = Inr app \<and> wire lb (read_config frac env) = Inr app
      else \<exists>e. r = Inl e)"
proof (cases "list_all (is_set env) required_vars")
  case True
  with Load_iff [OF assms(1), of env frac] have l: "Load ord frac env = Inr (read_config frac env)" by simp
  obtain r w' where r: "server_start lb cn ord frac env w = (r, w')" by fastforce
  from server_start_connected [OF l r] wire_iff [of lb frac env] True r show ?thesis
    by (cases "wire lb (read_config frac env)") (auto split: if_splits)
next
  case False
  with Load_iff [OF assms(1), of env frac] obtain n where "Load ord frac env = Inl (required_error n)" by auto
  with False show ?thesis by (simp add: server_start_def fail_def)
qed

definition key_env :: environ where
  "key_env n = (if n = ''JWT_PRIVATE_KEY'' then Some (base64_Std_Encode (replicate 64 1))
     else if n = ''TOTP_ENCRYPTION_KEY'' then Some (base64_Std_Encode (replicate 32 2)) else test_env n)"

text \<open>A database driver that knows one DSN, and a Redis client that needs a positive timeout.\<close>

definition test_connections :: "fake_ext connections" where
  "test_connections = \<lparr>cn_newPool = (\<lambda>dsn. if dsn = ''x'' then None else Some (Opaque ''cannot parse'')),
     cn_redis = (\<lambda>timeout addr x. if 0 < timeout then (Inr (), x) else (Inl (Opaque ''context deadline exceeded''), x))\<rparr>"

lemma key_env_keys: "key_set key_env ''JWT_PRIVATE_KEY'' 64" "key_set key_env ''TOTP_ENCRYPTION_KEY'' 32"
  "jwks_builds test_libraries key_env"
proof -
  have "base64_Std_Encode k \<noteq> []" if "k \<noteq> []" for k
    using that base64_Std_roundtrip [of k] base64_Std_roundtrip [of "[]"] by (cases "base64_Std_Encode k") auto
  then show "key_set key_env ''JWT_PRIVATE_KEY'' 64" "key_set key_env ''TOTP_ENCRYPTION_KEY'' 32" "jwks_builds test_libraries key_env"
    by (simp_all add: key_set_def jwks_builds_def test_libraries_def getEnv_def key_env_def base64_Std_roundtrip)
qed

definition hasty_env :: environ where
  "hasty_env = key_env(''DATABASE_CONNECT_TIMEOUT'' \<mapsto> ''0s'')"

lemma key_env_connects:
  "connects test_connections (read_config (\<lambda>_ _ _. 0) key_env) (test_world 0 test_db)"
  "\<not> connects test_connections (read_config (\<lambda>_ _ _. 0) hasty_env) (test_world 0 test_db)"
  by (simp_all add: connects_def test_connections_def read_config_def Let_def getDuration_def getEnv_def hasty_env_def key_env_def test_env_def
      required_vars_def test_world_def next_fault_def time_ParseDuration_def duration_number_def not_unit_def is_digit_def byte_of_def
      unitMap_def time_Second_def)

theorem server_starts_witness:
  "(\<exists>app w'. server_start test_libraries test_connections rev (\<lambda>_ _ _. 0) key_env (test_world 0 test_db) = (Inr app, w')) \<and>
   (\<exists>e w'. server_start test_libraries test_connections rev (\<lambda>_ _ _. 0) hasty_env (test_world 0 test_db) = (Inl e, w')) \<and>
   (\<exists>e w'. server_start test_libraries test_connections rev (\<lambda>_ _ _. 0) test_env (test_world 0 test_db) = (Inl e, w'))"
proof (intro conjI)
  have "\<forall>ms. set (rev ms) = set (ms :: (string \<times> string) list)" by simp
  note start = server_starts [OF this, where frac = "\<lambda>_ _ _. 0" and lb = test_libraries and cn = test_connections and w = "test_world 0 test_db"]
  have "list_all (is_set key_env) required_vars" using key_env_keys
    by (auto simp: required_vars_def is_set_def key_env_def test_env_def key_set_def getEnv_def base64_Std_DecodeString_def split: if_splits)
  with start [where env = key_env] key_env_keys key_env_connects(1)
  show "\<exists>app w'. server_start test_libraries test_connections rev (\<lambda>_ _ _. 0) key_env (test_world 0 test_db) = (Inr app, w')" by auto
  from start [where env = hasty_env] key_env_connects(2)
  show "\<exists>e w'. server_start test_libraries test_connections rev (\<lambda>_ _ _. 0) hasty_env (test_world 0 test_db) = (Inl e, w')" by auto
  have "\<not> key_set test_env ''JWT_PRIVATE_KEY'' 64"
    by (simp add: key_set_def getEnv_def test_env_def required_vars_def base64_Std_DecodeString_def)
  with start [where env = test_env]
  show "\<exists>e w'. server_start test_libraries test_connections rev (\<lambda>_ _ _. 0) test_env (test_world 0 test_db) = (Inl e, w')" by auto
qed

end
