(* ===== verification/Spec2Isabelle.thy ===== *)
theory Spec2Isabelle
  imports Scenario Session_Refinement Startup
begin

text \<open>
  A verification of the BeeBase auth service (\<open>src/\<close>, Go): accounts with a
  password and a mandatory TOTP second factor, sessions as rotating refresh tokens
  with one active session per account, a forgotten-password flow, profile data, and
  the deletion of an account together with its data in seven peer services.

  \<^bold>\<open>How the program is put together.\<close> \<open>cmd/server\<close> loads the configuration, connects to
  PostgreSQL and Redis, builds the application service with its adapters, starts
  the deletion worker and serves HTTP. A request goes through the route table
  (\<open>transport/http/router.go\<close>) to a handler, which decodes and validates the body,
  calls one use case of \<open>internal/application/auth\<close> and writes the answer. A use case
  works on entities of \<open>internal/domain\<close>, which the repositories of
  \<open>internal/repository/postgres\<close> load and store, and calls the session store, the
  media and apiary services and the platform adapters (\<open>internal/platform\<close>).

  \<^bold>\<open>How it is modelled.\<close> A Go function with effects is a computation: it takes the world
  and returns an error or a value with the new world (\<open>Go_Effects\<close>). The world holds the
  tables of the migrations, the state of everything outside the process as a value of
  an arbitrary type, the cleanup goroutines that were started, and an environment: the
  clock readings to come, the random bytes, the identifiers, and for each
  infrastructure call whether it fails. A theorem about an arbitrary world thus holds for
  every clock, also one that jumps, and for every pattern of failures. Errors
  are values with their wrapping, so that \<open>errors.Is\<close> can be followed (\<open>Prelude\<close>).

  \<^bold>\<open>Theories and sources.\<close>
  \<^item> Vocabulary: \<open>Prelude\<close>, \<open>Go_Effects\<close>, \<open>Go_Strings\<close>, \<open>Go_Fmt\<close> (what the code uses of Go's
    \<open>strings\<close>, \<open>hex\<close>, \<open>base64\<close>, \<open>fmt\<close>, \<open>net/url\<close>).
  \<^item> \<open>internal/domain\<close>: \<open>Domain_User\<close>, \<open>Domain_Token\<close>, \<open>Domain_LoginChallenge\<close>, \<open>Domain_Totp\<close>,
    \<open>Domain_PasswordReset\<close>; each entity is a record, each method a function on it.
  \<^item> \<open>migrations/\<close> and \<open>internal/repository/postgres\<close>: \<open>World\<close> (tables, constraints \<open>db_wf\<close>,
    statements, transactions), \<open>Repositories\<close>, \<open>Deletion_Store\<close>; \<open>Repository_Facts\<close> says what
    each method does and \<open>Db_Logic\<close> is a Hoare logic for computations over the tables.
  \<^item> \<open>internal/platform\<close>: \<open>Tokenhash\<close> with SHA-256 (\<open>Sha256_Eval\<close> evaluates it), \<open>Totp\<close>,
    \<open>Totpsecret\<close> and \<open>Aes_Gcm\<close>, \<open>Key_Material\<close> (\<open>jwtauth\<close>, \<open>cmd/keygen\<close>), \<open>Clients\<close>
    (\<open>mediaclient\<close>, \<open>apiaryclient\<close>, \<open>deletionclient\<close>); \<open>password\<close> and the rest of \<open>jwtauth\<close> are in \<open>Ports\<close>,
    \<open>postgres\<close> in \<open>Startup\<close>.
  \<^item> \<open>internal/application/auth\<close>: \<open>Ports\<close> (\<open>dto.go\<close>, \<open>ports.go\<close>, the \<open>Service\<close> value), \<open>Service\<close>
    (\<open>service.go\<close>), \<open>Service_Totp\<close> (\<open>service_totp.go\<close>), \<open>Service_PasswordReset\<close>
    (\<open>service_password_reset.go\<close>), \<open>Deletion_Worker\<close> (\<open>deletion_worker.go\<close>).
  \<^item> \<open>internal/transport/http\<close>: \<open>Requests\<close> (both \<open>requests.go\<close>), \<open>Handlers\<close> (handlers and
    responses of \<open>auth\<close> and \<open>profile\<close>), \<open>Router\<close> (\<open>router.go\<close>, \<open>health\<close>).
  \<^item> \<open>internal/config\<close>: \<open>Config\<close>. \<open>cmd/server\<close>: \<open>Wiring\<close> and \<open>Startup\<close>. \<open>cmd/dbclear\<close>: \<open>Startup\<close>.

  \<^bold>\<open>The service as a state machine.\<close> \<open>System\<close> defines \<open>reachable\<close>: from an empty database,
  any sequence of requests, rounds of the worker and cleanup goroutines, between which
  the environment and the outside may change in any way. \<open>Invariants\<close> states the
  invariant \<open>service_inv\<close>, \<open>Service_Invariants\<close> proves that every use case keeps it on every
  path, error exits included. This theory draws the conclusions for reachable
  states. What holds of one account for good is stated along \<open>while_account\<close>: any operations
  of anybody, deletion requests and rounds of the worker among them, as long as the row
  of that account stays in the table; with the account its tokens, challenges and flows
  are deleted. \<open>Session_Refinement\<close> shows that each operation refines a step of an
  abstract machine with at most one session per user.

  \<^bold>\<open>What the groups of lemmas show.\<close>
  \<^item> \<open>Service_Frames\<close> (which statements a use case can reach), \<open>Service_Runs\<close> (what a finished
    run went through), \<open>Service_Errors\<close> (which sentinel errors it can return) and \<open>Isolation\<close>
    (which rows it leaves alone) carry the proofs below.
  \<^item> \<open>Session_Properties\<close>: issuing, rotation, reuse detection, logout. \<open>Otp_Properties\<close> and
    \<open>Otp_Replay\<close>: the OTP gate, single use of challenges and codes, the lockout.
    \<open>Login_Properties\<close> and \<open>Password_Properties\<close>: registration, the first login step, who can
    change a password. \<open>Reset_Properties\<close>: the three steps of the forgotten-password flow.
  \<^item> \<open>Deletion_Properties\<close>: the request closes the account at once, the account row goes
    last. \<open>Deletion_Drain\<close>: the worker makes progress and empties its queue.
  \<^item> \<open>Transport_Properties\<close>: one response per request, the session cookie, validation, the
    errors of each endpoint, the rows of other accounts. \<open>Wiring\<close> carries this over to the
    server built by \<open>cmd/server\<close>; \<open>Startup\<close> says when that server starts.
  \<^item> \<open>Fakes\<close> and \<open>Scenario\<close> follow the test doubles of \<open>service_test.go\<close>: the service on which
    the theorems are evaluated.

  \<^bold>\<open>Interfaces.\<close> The locale \<open>frame\<close>, extended to \<open>world_frame\<close> and \<open>db_frame\<close>, is the contract
  between statements and use cases: a relation on databases that the reachable statements
  keep is kept by the use case; each property interprets it with its own relation.
  \<open>account_fact\<close> is the contract of a fact about one account that the deletion of others
  leaves alone; it is interpreted for settled tokens and challenges, for used codes and for
  spent reset tokens.
  \<open>session_store\<close> is the contract of the Redis store, \<open>aead_laws\<close> that of \<open>cipher.AEAD\<close> and is
  interpreted for AES-256-GCM, \<open>plain_ports\<close> says that adapters raise no sentinel of
  the service and is derived for the wired service from \<open>plain_libraries\<close>, \<open>plain_net\<close>
  says the same of the HTTP transport.

  \<^bold>\<open>Parameters.\<close> Code outside the repository is an argument of the definitions that
  use it: bcrypt, the HOTP check and key generation of the OTP library, the JWT signer,
  the Redis session store, the HTTP transport, the JSON parser, \<open>net/mail\<close>,
  \<open>uuid.Parse\<close>, \<open>url.Parse\<close>, the Unicode tables beyond ASCII, \<open>RequireAuth\<close>, the JWKS handler,
  the pool of \<open>pgx\<close>, the order in which Go visits a map, and the floating-point product in
  \<open>time.ParseDuration\<close>.

  \<^bold>\<open>Bounds and loops.\<close> TOTP counters are 64-bit words; instants, durations and \<open>int\<close> counters are
  unbounded integers, which the caps of the code keep small. All functions are total.
  The endless loop of \<open>DeletionWorker.Run\<close> takes the number of ticks as fuel;
  \<open>wired_worker_drains\<close> shows that as many ticks as there are open jobs are enough.

  \<^bold>\<open>Not modelled.\<close> A request and a round of the worker run to their end before the next
  one starts; interleavings inside a request, and with them lost updates between two
  SQL statements, are outside. A statement that fails has had no effect: a commit whose
  answer is lost is outside. Instants are stored unrounded, where \<open>TIMESTAMPTZ\<close> keeps
  microseconds, and jobs due at the same instant are claimed in the order of insertion,
  which SQL leaves open. Log output, the middleware and the path matching of
  \<open>chi\<close>, the time a call takes (a timeout that runs out is one of the errors a call may
  return; one that is over from the start is modelled in \<open>Startup\<close>), listening and the
  mechanics of the graceful shutdown are left to the libraries.
\<close>

section \<open>Invariants of every reachable state\<close>

text \<open>
  C5: In every state the service can reach from an empty database, whatever the
  clock, the random source, the failing infrastructure and the outside world
  do, the tables satisfy the constraints of the schema, every credential and
  every reset flow is well-formed (setup challenge and enabling exclude each
  other, failure counters are below their caps, a consumed flow was verified).
\<close>

theorem reachable_well_formed:
  assumes "reachable s cl w"
  shows "db_wf (w_db w) \<and> rows_wf (svc_security s) (w_db w)"
  using reachable_inv [OF assms] by (simp add: service_inv_def)

theorem reachable_well_formed_witness:
  "map u_Email (users (w_db registered)) = [''a@b''] \<and> db_wf (w_db registered)"
  using reachable_well_formed [OF scenario_reachable(1)] registered_users by simp

text \<open>
  C1: One session per account: in every reachable state a user has at most one
  refresh token that is not revoked.
\<close>

theorem reachable_one_session:
  assumes "reachable s cl w"
    and "t \<in> set (refresh_tokens (w_db w))" and "t' \<in> set (refresh_tokens (w_db w))"
    and "live t" and "live t'" and "rt_UserID t = rt_UserID t'"
  shows "t = t'"
  using reachable_inv [OF assms(1)] assms(2-) by (auto simp: service_inv_def one_live_def)

theorem reachable_one_session_witness:
  "\<exists>t \<in> set (refresh_tokens (w_db enrolled)). live t \<and>
     (\<forall>t' \<in> set (refresh_tokens (w_db enrolled)). live t' \<longrightarrow> rt_UserID t' = 1000 \<longrightarrow> t' = t)"
proof -
  from in_mapped [OF enrolled_token] obtain t where "t \<in> set (filter live (refresh_tokens (w_db enrolled)))" "rt_UserID t = 1000"
    by blast
  then have t: "t \<in> set (refresh_tokens (w_db enrolled))" "live t" "rt_UserID t = 1000" by auto
  have "t' = t" if "t' \<in> set (refresh_tokens (w_db enrolled))" "live t'" "rt_UserID t' = 1000" for t'
    by (rule reachable_one_session [OF scenario_reachable(2) that(1) t(1) that(2) t(2)]) (simp only: that t)
  with t show ?thesis by blast
qed

text \<open>
  C3: An account that asked for deletion is closed: in every reachable state a
  user with status \<open>deletion_pending\<close> has no live refresh token, and a deletion
  job with a step for each of the seven cleanup services.
\<close>

theorem reachable_pending_closed:
  assumes "reachable s cl w" and "u \<in> set (users (w_db w))" and "u_DeletionStatus u = DeletionStatusPending"
  shows "no_live (u_ID u) (w_db w) \<and> has_job (u_ID u) (w_db w)"
  using reachable_inv [OF assms(1)] assms(2-) by (auto simp: service_inv_def pending_ok_def pending_def)

theorem reachable_pending_closed_witness: "no_live 1000 (w_db leaving) \<and> has_job 1000 (w_db leaving)"
proof -
  from in_mapped [OF leaving_status] obtain u where "u \<in> set (filter pending (users (w_db leaving)))" "u_ID u = 1000"
    by blast
  then show ?thesis using reachable_pending_closed [OF scenario_reachable(4), of u] by (simp add: pending_def)
qed

text \<open>
  C4: No session without a second factor: in every reachable state a login
  challenge, and a password-reset flow that is bound to an account, belongs to
  an account whose TOTP credential is enabled.
\<close>

theorem reachable_second_factor:
  assumes "reachable s cl w"
  shows "(\<forall>c \<in> set (login_challenges (w_db w)). enabled (lc_UserID c) (w_db w)) \<and>
    (\<forall>f \<in> set (password_reset_flows (w_db w)). \<forall>i. f_UserID f = Some i \<longrightarrow> enabled i (w_db w))"
  using reachable_inv [OF assms] by (simp add: service_inv_def second_factor_def)

theorem reachable_second_factor_witness:
  "map lc_UserID (login_challenges (w_db challenged)) = [1000] \<and> enabled 1000 (w_db challenged)"
proof -
  from in_mapped [OF challenged_challenge] obtain c where "c \<in> set (login_challenges (w_db challenged))" "lc_UserID c = 1000"
    by blast
  then show ?thesis using reachable_second_factor [OF scenario_reachable(3)] challenged_challenge by auto
qed

end
